(* ===== verification/Prelude.thy ===== *)
theory Prelude
  imports Main "HOL-Library.Sorting_Algorithms" "HOL-Library.List_Lexorder"
begin

text \<open>
  The prelude of the development: the values of the source language that every component uses
  (strings, arrays, nullable values, the stable array sort), the record of what the code takes
  from its host (collation and Unicode case mapping), and the generic lemmas and rule collections
  the component proofs share.

  A JavaScript string is the list of its UTF-16 code units (type \<open>jsstring\<close>); \<open>js\<close> turns an
  ASCII literal into one. \<open>null\<close> and \<open>undefined\<close> are \<open>None\<close>. Array indices are \<open>int\<close>: a search
  that fails is \<open>-1\<close> and a read out of range is \<open>None\<close> (\<open>undefined\<close>), as in the source.
\<close>

section \<open>Rule collections\<close>

named_theorems js_simps \<open>evaluation rules of the string and array library\<close>
named_theorems pane_simps \<open>what the pane operations do to each field of a pane\<close>
named_theorems store_simps \<open>what the widget updates do to each field of a widget\<close>

section \<open>Strings\<close>

type_synonym code_unit = nat
type_synonym jsstring = "code_unit list"

definition js :: "string \<Rightarrow> jsstring" where
  "js s = map of_char s"

lemma js_Nil [simp]: "js [] = []"
  by (simp add: js_def)

lemma js_Cons [simp]: "js (c # cs) = of_char c # js cs"
  by (simp add: js_def)

text \<open>Code units named by the source's string and character-class literals.\<close>

abbreviation slash :: code_unit where "slash \<equiv> 47"
abbreviation backslash :: code_unit where "backslash \<equiv> 92"
abbreviation dot :: code_unit where "dot \<equiv> 46"
abbreviation colon :: code_unit where "colon \<equiv> 58"
abbreviation asterisk :: code_unit where "asterisk \<equiv> 42"
abbreviation question :: code_unit where "question \<equiv> 63"
abbreviation lbracket :: code_unit where "lbracket \<equiv> 91"
abbreviation rbracket :: code_unit where "rbracket \<equiv> 93"

text \<open>
  The code units of ECMA-262 \<open>WhiteSpace\<close> and \<open>LineTerminator\<close>: what \<open>trim()\<close> strips and what
  the class \<open>\s\<close> of a regular expression matches.
\<close>

definition js_line_terminator :: "code_unit \<Rightarrow> bool" where
  "js_line_terminator c \<longleftrightarrow> c = 10 \<or> c = 13 \<or> c = 8232 \<or> c = 8233"

definition js_space :: "code_unit \<Rightarrow> bool" where
  "js_space c \<longleftrightarrow> js_line_terminator c \<or> c = 9 \<or> c = 11 \<or> c = 12 \<or> c = 32 \<or> c = 160 \<or> c = 5760
     \<or> (8192 \<le> c \<and> c \<le> 8202) \<or> c = 8239 \<or> c = 8287 \<or> c = 12288 \<or> c = 65279"

definition js_digit :: "code_unit \<Rightarrow> bool" where
  "js_digit c \<longleftrightarrow> 48 \<le> c \<and> c \<le> 57"

definition js_ascii_letter :: "code_unit \<Rightarrow> bool" where
  "js_ascii_letter c \<longleftrightarrow> (65 \<le> c \<and> c \<le> 90) \<or> (97 \<le> c \<and> c \<le> 122)"

definition js_dropWhileEnd :: "('a \<Rightarrow> bool) \<Rightarrow> 'a list \<Rightarrow> 'a list" where
  "js_dropWhileEnd P xs = rev (dropWhile P (rev xs))"

definition js_trim :: "jsstring \<Rightarrow> jsstring" where
  "js_trim s = js_dropWhileEnd js_space (dropWhile js_space s)"

fun js_startsWith :: "'a list \<Rightarrow> 'a list \<Rightarrow> bool" where
  "js_startsWith s [] = True"
| "js_startsWith [] (p # ps) = False"
| "js_startsWith (c # s) (p # ps) = (c = p \<and> js_startsWith s ps)"

definition js_endsWith :: "'a list \<Rightarrow> 'a list \<Rightarrow> bool" where
  "js_endsWith s p = js_startsWith (rev s) (rev p)"

fun js_includes :: "'a list \<Rightarrow> 'a list \<Rightarrow> bool" where
  "js_includes [] p = (p = [])"
| "js_includes (c # s) p = (js_startsWith (c # s) p \<or> js_includes s p)"

text \<open>\<open>s.split(c)\<close> for a one-unit separator, and \<open>parts.join(c)\<close>.\<close>

fun js_split :: "'a \<Rightarrow> 'a list \<Rightarrow> 'a list list" where
  "js_split c [] = [[]]"
| "js_split c (x # xs) =
     (if x = c then [] # js_split c xs
      else (case js_split c xs of [] \<Rightarrow> [[x]] | p # ps \<Rightarrow> (x # p) # ps))"

fun js_join :: "'a \<Rightarrow> 'a list list \<Rightarrow> 'a list" where
  "js_join c [] = []"
| "js_join c [p] = p"
| "js_join c (p # q # ps) = p @ c # js_join c (q # ps)"

text \<open>Decimal printing of a non-negative integer, \<open>String(n)\<close>, and \<open>padStart\<close>.\<close>

fun js_of_nat :: "nat \<Rightarrow> jsstring" where
  "js_of_nat n = (if n < 10 then [48 + n] else js_of_nat (n div 10) @ [48 + n mod 10])"

declare js_of_nat.simps [simp del]

definition js_padStart :: "jsstring \<Rightarrow> nat \<Rightarrow> code_unit \<Rightarrow> jsstring" where
  "js_padStart s w c = replicate (w - length s) c @ s"

text \<open>\<open>Number.parseInt(s, 10)\<close> on a string of decimal digits.\<close>

definition js_parse_nat :: "jsstring \<Rightarrow> nat" where
  "js_parse_nat s = foldl (\<lambda>n c. 10 * n + (c - 48)) 0 s"

section \<open>Arrays and nullable values\<close>

definition js_truthy :: "'a list option \<Rightarrow> bool" where
  "js_truthy v = (case v of None \<Rightarrow> False | Some s \<Rightarrow> s \<noteq> [])"

text \<open>\<open>a ?? b\<close>, with a nullable and with a plain right operand.\<close>

definition js_nullish :: "'a option \<Rightarrow> 'a option \<Rightarrow> 'a option" where
  "js_nullish a b = (case a of None \<Rightarrow> b | Some x \<Rightarrow> Some x)"

definition js_default :: "'a option \<Rightarrow> 'a \<Rightarrow> 'a" where
  "js_default a b = (case a of None \<Rightarrow> b | Some x \<Rightarrow> x)"

fun js_findIndex :: "('a \<Rightarrow> bool) \<Rightarrow> 'a list \<Rightarrow> int" where
  "js_findIndex P [] = -1"
| "js_findIndex P (x # xs) =
     (if P x then 0 else (let i = js_findIndex P xs in if i = -1 then -1 else i + 1))"

definition js_nth :: "'a list \<Rightarrow> int \<Rightarrow> 'a option" where
  "js_nth xs i = (if 0 \<le> i \<and> i < int (length xs) then Some (xs ! nat i) else None)"

definition js_lastIndexOf :: "'a \<Rightarrow> 'a list \<Rightarrow> int" where
  "js_lastIndexOf c xs =
     (let i = js_findIndex (\<lambda>x. x = c) (rev xs) in if i = -1 then -1 else int (length xs) - 1 - i)"

text \<open>\<open>xs.slice(a, b)\<close> for non-negative bounds.\<close>

definition js_slice :: "int \<Rightarrow> int \<Rightarrow> 'a list \<Rightarrow> 'a list" where
  "js_slice a b xs = drop (nat a) (take (nat b) xs)"

text \<open>\<open>Array.from(new Set(xs))\<close>: the first occurrence of each element, in order.\<close>

definition js_unique :: "'a list \<Rightarrow> 'a list" where
  "js_unique xs = rev (remdups (rev xs))"

text \<open>
  \<open>xs.sort(cmp)\<close>. ECMA-262 fixes its result for every consistent comparator: the stable sorted
  permutation, which locale \<open>js_comparator\<close> shows to be unique.
\<close>

fun js_insort :: "('a \<Rightarrow> 'a \<Rightarrow> int) \<Rightarrow> 'a \<Rightarrow> 'a list \<Rightarrow> 'a list" where
  "js_insort cmp x [] = [x]"
| "js_insort cmp x (y # ys) = (if cmp x y \<le> 0 then x # y # ys else y # js_insort cmp x ys)"

fun js_sort :: "('a \<Rightarrow> 'a \<Rightarrow> int) \<Rightarrow> 'a list \<Rightarrow> 'a list" where
  "js_sort cmp [] = []"
| "js_sort cmp (x # xs) = js_insort cmp x (js_sort cmp xs)"

section \<open>The host\<close>

text \<open>
  What the code takes from its host and no file of the repository defines: the collation behind
  \<open>localeCompare\<close> (a comparator: ECMA-402 requires a consistent one) and the Unicode case tables
  behind \<open>toLowerCase\<close>, \<open>toUpperCase\<close> and their locale-aware variants.
\<close>

record host =
  collator :: "jsstring comparator"
  toLowerCase :: "jsstring \<Rightarrow> jsstring"
  toUpperCase :: "jsstring \<Rightarrow> jsstring"
  toLocaleLowerCase :: "jsstring \<Rightarrow> jsstring"
  toLocaleUpperCase :: "jsstring \<Rightarrow> jsstring"

definition localeCompare :: "host \<Rightarrow> jsstring \<Rightarrow> jsstring \<Rightarrow> int" where
  "localeCompare h a b =
     (case compare (collator h) a b of Less \<Rightarrow> -1 | Equiv \<Rightarrow> 0 | Greater \<Rightarrow> 1)"

text \<open>\<open>Canonicalize\<close> of a case-insensitive, non-Unicode regular expression (ECMA-262 22.2.2.7.3).\<close>

definition js_canonicalize :: "host \<Rightarrow> code_unit \<Rightarrow> code_unit" where
  "js_canonicalize h c =
     (case toUpperCase h [c] of
        [u] \<Rightarrow> if 128 \<le> c \<and> u < 128 then c else u
      | _ \<Rightarrow> c)"

text \<open>A concrete host: code-unit order and ASCII case mapping.\<close>

definition ascii_lower :: "code_unit \<Rightarrow> code_unit" where
  "ascii_lower c = (if 65 \<le> c \<and> c \<le> 90 then c + 32 else c)"

definition ascii_upper :: "code_unit \<Rightarrow> code_unit" where
  "ascii_upper c = (if 97 \<le> c \<and> c \<le> 122 then c - 32 else c)"

definition ascii_host :: host where
  "ascii_host =
     \<lparr>collator = default,
      toLowerCase = map ascii_lower, toUpperCase = map ascii_upper,
      toLocaleLowerCase = map ascii_lower, toLocaleUpperCase = map ascii_upper\<rparr>"


section \<open>Generic lemmas\<close>

lemmas js_string_defs [js_simps] =
  js_trim_def js_dropWhileEnd_def js_space_def js_line_terminator_def js_digit_def
  js_ascii_letter_def js_endsWith_def

lemmas js_array_defs [js_simps] =
  js_nth_def js_slice_def js_unique_def js_lastIndexOf_def

subsection \<open>Nullable values and array reads\<close>

lemma js_truthy_simps [simp]:
  "js_truthy None = False"
  "js_truthy (Some s) = (s \<noteq> [])"
  by (simp_all add: js_truthy_def)

lemma js_nullish_simps [simp]:
  "js_nullish None b = b"
  "js_nullish (Some x) b = Some x"
  by (simp_all add: js_nullish_def)

lemma js_nullish_eq_None [simp]: "js_nullish a b = None \<longleftrightarrow> a = None \<and> b = None"
  by (cases a) simp_all

lemma js_default_simps [simp]:
  "js_default None b = b"
  "js_default (Some x) b = x"
  by (simp_all add: js_default_def)

lemma js_findIndex_ge: "-1 \<le> js_findIndex P xs"
  by (induction xs) (auto simp: Let_def)

lemma js_findIndex_eq_minus1 [simp]: "js_findIndex P xs = -1 \<longleftrightarrow> (\<forall>x\<in>set xs. \<not> P x)"
proof (induction xs)
  case (Cons x xs)
  then show ?case using js_findIndex_ge [of P xs] by (auto simp: Let_def)
qed simp

lemma js_findIndex_cases:
  obtains (absent) "js_findIndex P xs = -1" "\<forall>x\<in>set xs. \<not> P x"
  | (found) i where "js_findIndex P xs = int i" "i < length xs" "P (xs ! i)" "\<forall>j<i. \<not> P (xs ! j)"
proof (induction xs arbitrary: thesis)
  case Nil
  then show ?case by simp
next
  case (Cons x xs)
  show ?case
  proof (cases "P x")
    case True
    then show ?thesis using Cons.prems(2) [of 0] by simp
  next
    case False
    show ?thesis
    proof (rule Cons.IH)
      assume "js_findIndex P xs = -1" and "\<forall>x\<in>set xs. \<not> P x"
      with False Cons.prems(1) show ?thesis by simp
    next
      fix i assume i: "js_findIndex P xs = int i" "i < length xs" "P (xs ! i)" "\<forall>j<i. \<not> P (xs ! j)"
      have "\<forall>j<Suc i. \<not> P ((x # xs) ! j)"
        using i(4) False by (auto simp: nth_Cons split: nat.split)
      moreover have "js_findIndex P (x # xs) = int (Suc i)"
        using False i(1) by (simp del: js_findIndex_eq_minus1)
      ultimately show ?thesis using Cons.prems(2) [of "Suc i"] i by simp
    qed
  qed
qed

lemma js_findIndex_eq_nth:
  assumes "distinct xs" and "i < length xs"
  shows "js_findIndex (\<lambda>x. x = xs ! i) xs = int i"
proof (rule js_findIndex_cases [of "\<lambda>x. x = xs ! i" xs])
  fix k assume k: "js_findIndex (\<lambda>x. x = xs ! i) xs = int k" "k < length xs" "xs ! k = xs ! i"
  with assms have "k = i" by (simp add: nth_eq_iff_index_eq)
  with k(1) show ?thesis by simp
qed (use assms in auto)

lemma js_findIndex_less: "js_findIndex P xs < int (length xs)"
proof (rule js_findIndex_cases [of P xs])
  assume "js_findIndex P xs = -1"
  then show ?thesis by linarith
qed simp

lemma js_findIndex_map: "js_findIndex P (map f xs) = js_findIndex (\<lambda>x. P (f x)) xs"
  by (induction xs) auto

lemma js_findIndex_append:
  "\<forall>x\<in>set xs. \<not> P x \<Longrightarrow>
     js_findIndex P (xs @ ys)
       = (if js_findIndex P ys = -1 then -1 else int (length xs) + js_findIndex P ys)"
proof (induction xs)
  case (Cons x xs)
  then have "js_findIndex P (xs @ ys)
      = (if js_findIndex P ys = -1 then -1 else int (length xs) + js_findIndex P ys)"
    by simp
  with Cons.prems js_findIndex_ge [of P ys] show ?case
    by (auto simp: Let_def simp del: js_findIndex_eq_minus1)
qed simp

lemma js_nth_int [simp]: "i < length xs \<Longrightarrow> js_nth xs (int i) = Some (xs ! i)"
  by (simp add: js_nth_def)

lemma js_nth_zero: "js_nth xs 0 = (case xs of [] \<Rightarrow> None | x # _ \<Rightarrow> Some x)"
  by (cases xs) (simp_all add: js_nth_def)

lemma js_nth_Some_in_set: "js_nth xs i = Some x \<Longrightarrow> x \<in> set xs"
  by (auto simp: js_nth_def split: if_splits)

lemma js_nth_in_range: "0 \<le> i \<Longrightarrow> i < int (length xs) \<Longrightarrow> \<exists>x. js_nth xs i = Some x \<and> x \<in> set xs"
  by (auto simp: js_nth_def)

lemma set_js_unique [simp]: "set (js_unique xs) = set xs"
  by (simp add: js_unique_def)

lemma distinct_js_unique [simp]: "distinct (js_unique xs)"
  by (simp add: js_unique_def)

lemma js_unique_Nil_iff [simp]: "js_unique xs = [] \<longleftrightarrow> xs = []"
  by (simp add: js_unique_def)

lemma set_js_slice: "set (js_slice a b xs) \<subseteq> set xs"
  by (auto simp: js_slice_def dest: in_set_dropD in_set_takeD)

lemma js_slice_split:
  assumes "a \<le> b"
  shows "xs = take (nat a) xs @ js_slice a b xs @ drop (nat b) xs"
proof -
  have "take (nat a) xs = take (nat a) (take (nat b) xs)"
    using assms by (simp add: min_absorb1 nat_mono)
  then have "take (nat a) xs @ js_slice a b xs = take (nat b) xs"
    by (simp add: js_slice_def del: take_take)
  then have "(take (nat a) xs @ js_slice a b xs) @ drop (nat b) xs = xs" by simp
  then show ?thesis by simp
qed

lemma nth_in_js_slice:
  assumes "0 \<le> a" and "a \<le> int k" and "int k < b" and "k < length xs"
  shows "xs ! k \<in> set (js_slice a b xs)"
proof -
  have len: "k - nat a < length (js_slice a b xs)" using assms by (auto simp: js_slice_def)
  have "nat a \<le> k" "k < nat b" using assms by auto
  then have "js_slice a b xs ! (k - nat a) = xs ! k" using assms(4) by (simp add: js_slice_def nth_drop)
  with len show ?thesis by (metis nth_mem)
qed

lemma map_js_slice: "map f (js_slice a b xs) = js_slice a b (map f xs)"
  by (simp add: js_slice_def drop_map take_map)

subsection \<open>String lemmas\<close>

lemma js_of_nat_digits: "c \<in> set (js_of_nat n) \<Longrightarrow> js_digit c"
proof (induction n rule: js_of_nat.induct)
  case (1 n)
  show ?case
  proof (cases "n < 10")
    case True
    with "1.prems" show ?thesis by (simp add: js_of_nat.simps [of n] js_digit_def)
  next
    case False
    with 1 show ?thesis by (auto simp: js_of_nat.simps [of n] js_digit_def)
  qed
qed

lemma js_parse_of_nat [simp]: "js_parse_nat (js_of_nat n) = n"
proof (induction n rule: js_of_nat.induct)
  case (1 n)
  show ?case
  proof (cases "n < 10")
    case True
    then show ?thesis by (simp add: js_of_nat.simps [of n] js_parse_nat_def)
  next
    case False
    with 1 have "js_parse_nat (js_of_nat (n div 10)) = n div 10" by blast
    with False show ?thesis by (simp add: js_of_nat.simps [of n] js_parse_nat_def)
  qed
qed

lemma js_of_nat_inject [simp]: "js_of_nat m = js_of_nat n \<longleftrightarrow> m = n"
  by (metis js_parse_of_nat)

lemma js_of_nat_not_Nil [simp]: "js_of_nat n \<noteq> []"
  by (simp add: js_of_nat.simps [of n])

lemma js_dropWhileEnd_Nil [simp]: "js_dropWhileEnd P [] = []"
  by (simp add: js_dropWhileEnd_def)

lemma js_dropWhileEnd_snoc:
  "js_dropWhileEnd P (xs @ [x]) = (if P x then js_dropWhileEnd P xs else xs @ [x])"
  by (simp add: js_dropWhileEnd_def)

lemma js_dropWhileEnd_idem [simp]: "js_dropWhileEnd P (js_dropWhileEnd P xs) = js_dropWhileEnd P xs"
  by (simp add: js_dropWhileEnd_def dropWhile_idem)

lemma set_js_dropWhileEnd: "set (js_dropWhileEnd P xs) \<subseteq> set xs"
  by (auto simp: js_dropWhileEnd_def dest: set_dropWhileD)

lemma js_dropWhileEnd_eq_Nil: "js_dropWhileEnd P xs = [] \<longleftrightarrow> (\<forall>x\<in>set xs. P x)"
  by (simp add: js_dropWhileEnd_def)

lemma js_dropWhileEnd_last: "js_dropWhileEnd P xs \<noteq> [] \<Longrightarrow> \<not> P (last (js_dropWhileEnd P xs))"
  by (simp add: js_dropWhileEnd_def last_rev hd_dropWhile)

lemma js_dropWhileEnd_id: "xs = [] \<or> \<not> P (last xs) \<Longrightarrow> js_dropWhileEnd P xs = xs"
  by (cases xs rule: rev_cases) (auto simp: js_dropWhileEnd_snoc)

lemma hd_js_dropWhileEnd: "js_dropWhileEnd P xs \<noteq> [] \<Longrightarrow> hd (js_dropWhileEnd P xs) = hd xs"
proof (induction xs rule: rev_induct)
  case (snoc x xs)
  then show ?case
    by (cases "P x") (auto simp: js_dropWhileEnd_snoc hd_append)
qed simp

lemma js_trim_idem [simp]: "js_trim (js_trim s) = js_trim s"
proof (cases "js_trim s")
  case (Cons c t)
  have "hd (js_trim s) = hd (dropWhile js_space s)"
    using Cons hd_js_dropWhileEnd [of js_space "dropWhile js_space s"] by (simp add: js_trim_def)
  moreover have "dropWhile js_space s \<noteq> []"
    using Cons by (metis js_trim_def js_dropWhileEnd_Nil list.distinct(1))
  ultimately have "\<not> js_space c"
    using hd_dropWhile [of js_space s] Cons by simp
  then have "dropWhile js_space (js_trim s) = js_trim s"
    using Cons by simp
  then show ?thesis by (simp add: js_trim_def)
qed (simp add: js_trim_def)

lemma set_js_trim: "set (js_trim s) \<subseteq> set s"
  using set_js_dropWhileEnd [of js_space "dropWhile js_space s"]
  by (auto simp: js_trim_def dest: set_dropWhileD)

lemma js_trim_id:
  assumes "\<forall>c\<in>set s. \<not> js_space c"
  shows "js_trim s = s"
proof -
  have "dropWhile js_space s = s"
    using assms by (cases s) auto
  then show ?thesis
    using assms by (cases s rule: rev_cases) (simp_all add: js_trim_def js_dropWhileEnd_snoc)
qed

lemma js_startsWith_iff: "js_startsWith s p \<longleftrightarrow> (\<exists>t. s = p @ t)"
  by (induction s p rule: js_startsWith.induct) auto

lemma js_startsWith_append [simp]: "js_startsWith (p @ t) p"
  by (simp add: js_startsWith_iff)

lemma js_endsWith_iff: "js_endsWith s p \<longleftrightarrow> (\<exists>t. s = t @ p)"
proof
  assume "js_endsWith s p"
  then obtain t where "rev s = rev p @ t"
    by (auto simp: js_endsWith_def js_startsWith_iff)
  then have "rev (rev s) = rev (rev p @ t)" by simp
  then show "\<exists>t. s = t @ p" by auto
qed (auto simp: js_endsWith_def)

lemma js_includes_Nil [simp]: "js_includes s []"
  by (cases s) simp_all

lemma js_includes_iff: "js_includes s p \<longleftrightarrow> (\<exists>u v. s = u @ p @ v)"
proof (induction s)
  case (Cons c s)
  show ?case
  proof
    assume "js_includes (c # s) p"
    then consider v where "c # s = p @ v" | u v where "s = u @ p @ v"
      using Cons.IH by (auto simp: js_startsWith_iff)
    then show "\<exists>u v. c # s = u @ p @ v"
    proof cases
      case 1
      then show ?thesis by (metis append_Nil)
    next
      case 2
      then show ?thesis by (metis append_Cons)
    qed
  next
    assume "\<exists>u v. c # s = u @ p @ v"
    then obtain u v where uv: "c # s = u @ p @ v" by blast
    then show "js_includes (c # s) p"
    proof (cases u)
      case Nil
      with uv have "js_startsWith (c # s) p" by (simp add: js_startsWith_iff)
      then show ?thesis by simp
    next
      case (Cons d u')
      with uv Cons.IH show ?thesis by auto
    qed
  qed
qed auto

lemma js_split_not_Nil [simp]: "js_split c xs \<noteq> []"
  by (induction xs) (auto split: list.splits)

lemma js_join_split [simp]: "js_join c (js_split c xs) = xs"
proof (induction xs)
  case (Cons x xs)
  obtain p ps where "js_split c xs = p # ps"
    by (cases "js_split c xs") auto
  with Cons.IH show ?case by (cases ps) auto
qed simp

lemma js_split_no_sep: "p \<in> set (js_split c xs) \<Longrightarrow> c \<notin> set p"
  by (induction xs arbitrary: p) (auto split: if_splits list.splits)

lemma js_split_single: "c \<notin> set p \<Longrightarrow> js_split c p = [p]"
  by (induction p) auto

lemma js_split_append_sep: "js_split c (p @ c # xs) = js_split c p @ js_split c xs"
proof (induction p)
  case (Cons x p)
  then show ?case by (cases "js_split c p") auto
qed simp

lemma js_split_join:
  "ps \<noteq> [] \<Longrightarrow> \<forall>p\<in>set ps. c \<notin> set p \<Longrightarrow> js_split c (js_join c ps) = ps"
  by (induction c ps rule: js_join.induct) (auto simp: js_split_single js_split_append_sep)

lemma js_join_append:
  "ps \<noteq> [] \<Longrightarrow> qs \<noteq> [] \<Longrightarrow> js_join c (ps @ qs) = js_join c ps @ c # js_join c qs"
proof (induction c ps rule: js_join.induct)
  case (2 c p)
  then show ?case by (cases qs) auto
qed auto

lemma js_lastIndexOf_append:
  assumes "c \<notin> set t"
  shows "js_lastIndexOf c (s @ c # t) = int (length s)"
proof -
  have "js_findIndex (\<lambda>x. x = c) (rev t @ c # rev s) = int (length t)"
    using js_findIndex_append [of "rev t" "\<lambda>x. x = c" "c # rev s"] assms by auto
  then show ?thesis by (simp add: js_lastIndexOf_def del: js_findIndex_eq_minus1)
qed

lemma js_lastIndexOf_absent: "c \<notin> set s \<Longrightarrow> js_lastIndexOf c s = -1"
  by (auto simp: js_lastIndexOf_def Let_def)

subsection \<open>The stable sort of a consistent comparator\<close>

lemma mset_js_insort [simp]: "mset (js_insort cmp x ys) = add_mset x (mset ys)"
  by (induction ys) auto

lemma mset_js_sort [simp]: "mset (js_sort cmp xs) = mset xs"
  by (induction xs) auto

lemma set_js_insort [simp]: "set (js_insort cmp x ys) = insert x (set ys)"
  by (induction ys) auto

lemma set_js_sort [simp]: "set (js_sort cmp xs) = set xs"
  by (induction xs) auto

lemma length_js_sort [simp]: "length (js_sort cmp xs) = length xs"
  by (metis mset_js_sort size_mset)

lemma js_sort_Nil_iff [simp]: "js_sort cmp xs = [] \<longleftrightarrow> xs = []"
  by (metis length_js_sort length_0_conv)

lemma distinct_map_js_sort: "distinct (map f (js_sort cmp xs)) \<longleftrightarrow> distinct (map f xs)"
  by (metis mset_js_sort mset_map distinct_count_atmost_1 set_mset_mset)

locale js_comparator =
  fixes cmp :: "'a \<Rightarrow> 'a \<Rightarrow> int"
  assumes antisym: "sgn (cmp a b) = - sgn (cmp b a)"
    and trans: "cmp a b \<le> 0 \<Longrightarrow> cmp b c \<le> 0 \<Longrightarrow> cmp a c \<le> 0"
begin

lemma refl: "cmp a a = 0"
  using antisym [of a a] by (simp add: sgn_if split: if_splits)

lemma total: "cmp a b \<le> 0 \<or> cmp b a \<le> 0"
  using antisym [of a b] by (auto simp: sgn_if split: if_splits)

lemma zero_sym: "cmp a b = 0 \<longleftrightarrow> cmp b a = 0"
  using antisym [of a b] by (auto simp: sgn_if split: if_splits)

lemma neg_iff: "cmp a b < 0 \<longleftrightarrow> 0 < cmp b a"
  using antisym [of a b] by (auto simp: sgn_if split: if_splits)

lemma zero_iff: "cmp a b = 0 \<longleftrightarrow> cmp a b \<le> 0 \<and> cmp b a \<le> 0"
  using antisym [of a b] by (auto simp: sgn_if split: if_splits)

lemma sorted_insort:
  "sorted_wrt (\<lambda>a b. cmp a b \<le> 0) ys \<Longrightarrow> sorted_wrt (\<lambda>a b. cmp a b \<le> 0) (js_insort cmp x ys)"
proof (induction ys)
  case (Cons y ys)
  then show ?case
    using total [of x y] by (auto intro: trans)
qed simp

lemma sorted_sort: "sorted_wrt (\<lambda>a b. cmp a b \<le> 0) (js_sort cmp xs)"
  by (induction xs) (auto intro: sorted_insort)

lemma stable_insort:
  "sorted_wrt (\<lambda>a b. cmp a b \<le> 0) ys \<Longrightarrow>
     filter (\<lambda>y. cmp z y = 0) (js_insort cmp x ys) = filter (\<lambda>y. cmp z y = 0) (x # ys)"
proof (induction ys)
  case (Cons y ys)
  show ?case
  proof (cases "cmp x y \<le> 0")
    case False
    have "\<not> (cmp z x = 0 \<and> cmp z y = 0)"
    proof
      assume "cmp z x = 0 \<and> cmp z y = 0"
      then have "cmp x z \<le> 0" "cmp z y \<le> 0" using zero_sym [of z x] by simp_all
      then show False using False trans by blast
    qed
    with False Cons show ?thesis by auto
  qed simp
qed simp

lemma stable_sort: "filter (\<lambda>y. cmp z y = 0) (js_sort cmp xs) = filter (\<lambda>y. cmp z y = 0) xs"
  by (induction xs) (simp_all add: stable_insort sorted_sort)

definition to_comp :: "'a \<Rightarrow> 'a \<Rightarrow> comp" where
  "to_comp a b = (if cmp a b < 0 then Less else if cmp a b = 0 then Equiv else Greater)"

lemma to_comp_iff:
  "to_comp a b = Less \<longleftrightarrow> cmp a b < 0"
  "to_comp a b = Equiv \<longleftrightarrow> cmp a b = 0"
  "to_comp a b = Greater \<longleftrightarrow> 0 < cmp a b"
  by (auto simp: to_comp_def)

lemma comparator_to_comp: "comparator to_comp"
proof
  fix a b c
  show "to_comp a a = Equiv" by (simp add: to_comp_iff refl)
  show "to_comp a c = Equiv" if "to_comp a b = Equiv" "to_comp b c = Equiv"
    using that unfolding to_comp_iff zero_iff by (meson trans)
  show "to_comp a c = Less" if "to_comp a b = Less" "to_comp b c = Less"
  proof -
    have "cmp a c \<le> 0" using that trans [of a b c] by (simp add: to_comp_iff)
    moreover have "\<not> cmp c a \<le> 0"
      using that trans [of c a b] neg_iff [of b c] by (auto simp: to_comp_iff)
    ultimately show ?thesis using neg_iff [of a c] by (simp add: to_comp_iff)
  qed
  show "to_comp b a = Greater \<longleftrightarrow> to_comp a b = Less"
    by (simp add: to_comp_iff neg_iff)
qed

lemma library_sorted:
  "sorted_wrt (\<lambda>a b. cmp a b \<le> 0) ys \<Longrightarrow> Sorting_Algorithms.sorted (Abs_comparator to_comp) ys"
  by (induction ys rule: induct_list012)
     (auto simp: Abs_comparator_inverse comparator_to_comp to_comp_iff)

text \<open>The result is the one stable sorted permutation: it is the library's stable sort.\<close>

lemma sort_refines_library: "js_sort cmp xs = Sorting_Algorithms.sort (Abs_comparator to_comp) xs"
proof -
  let ?C = "Abs_comparator to_comp"
  have C: "compare ?C = to_comp"
    by (simp add: Abs_comparator_inverse comparator_to_comp)
  show ?thesis
    by (rule Sorting_Algorithms.sort_eqI [symmetric])
       (auto simp: C to_comp_iff stable_sort intro: library_sorted sorted_sort)
qed

lemma sort_unique:
  assumes "mset ys = mset xs" and "sorted_wrt (\<lambda>a b. cmp a b \<le> 0) ys"
    and "\<And>z. filter (\<lambda>y. cmp z y = 0) ys = filter (\<lambda>y. cmp z y = 0) xs"
  shows "ys = js_sort cmp xs"
proof -
  have "Sorting_Algorithms.sort (Abs_comparator to_comp) xs = ys"
    using assms
    by (intro Sorting_Algorithms.sort_eqI)
       (simp_all add: Abs_comparator_inverse comparator_to_comp to_comp_iff library_sorted)
  then show ?thesis by (simp add: sort_refines_library)
qed

end

subsection \<open>Building comparators\<close>

lemma js_comparator_localeCompare: "js_comparator (\<lambda>a b. localeCompare h (f a) (f b))"
proof
  fix a b c
  let ?c = "compare (collator h)"
  have "?c (f b) (f a) = Greater \<longleftrightarrow> ?c (f a) (f b) = Less"
    and "?c (f a) (f b) = Greater \<longleftrightarrow> ?c (f b) (f a) = Less"
    by (rule compare.greater_iff_sym_less)+
  then show "sgn (localeCompare h (f a) (f b)) = - sgn (localeCompare h (f b) (f a))"
    by (cases "?c (f a) (f b)"; cases "?c (f b) (f a)") (simp_all add: localeCompare_def)
  have le: "localeCompare h x y \<le> 0 \<longleftrightarrow> ?c x y \<noteq> Greater" for x y
    by (cases "?c x y") (simp_all add: localeCompare_def)
  show "localeCompare h (f a) (f b) \<le> 0 \<Longrightarrow> localeCompare h (f b) (f c) \<le> 0 \<Longrightarrow>
      localeCompare h (f a) (f c) \<le> 0"
    unfolding le by (rule compare.trans_not_greater)
qed

lemma js_comparator_diff: "js_comparator (\<lambda>a b. f a - f b :: int)"
  by unfold_locales (auto simp: sgn_if)

lemma js_comparator_swap:
  assumes "js_comparator cmp"
  shows "js_comparator (\<lambda>a b. cmp b a)"
  using js_comparator.antisym [OF assms] js_comparator.trans [OF assms] by unfold_locales blast+

lemma js_comparator_neg:
  assumes "js_comparator cmp"
  shows "js_comparator (\<lambda>a b. cmp a b * -1)"
proof
  fix a b c
  show "sgn (cmp a b * -1) = - sgn (cmp b a * -1)"
    using js_comparator.antisym [OF assms, of a b] by (simp add: sgn_if split: if_splits)
  have neg: "cmp x y * -1 \<le> 0 \<longleftrightarrow> cmp y x \<le> 0" for x y
    using js_comparator.neg_iff [OF assms, of x y] by linarith
  show "cmp a b * -1 \<le> 0 \<Longrightarrow> cmp b c * -1 \<le> 0 \<Longrightarrow> cmp a c * -1 \<le> 0"
    unfolding neg using js_comparator.trans [OF assms] by blast
qed

lemma js_comparator_lex:
  assumes 1: "js_comparator c1" and 2: "js_comparator c2"
  shows "js_comparator (\<lambda>a b. if c1 a b = 0 then c2 a b else c1 a b)"
proof
  fix a b c
  note zero = js_comparator.zero_iff [OF 1] and neg = js_comparator.neg_iff [OF 1]
    and tr1 = js_comparator.trans [OF 1] and tr2 = js_comparator.trans [OF 2]
  show "sgn (if c1 a b = 0 then c2 a b else c1 a b) = - sgn (if c1 b a = 0 then c2 b a else c1 b a)"
    using js_comparator.antisym [OF 1, of a b] js_comparator.antisym [OF 2, of a b]
      js_comparator.zero_sym [OF 1, of a b] by auto
  assume ab: "(if c1 a b = 0 then c2 a b else c1 a b) \<le> 0"
    and bc: "(if c1 b c = 0 then c2 b c else c1 b c) \<le> 0"
  then have le: "c1 a b \<le> 0" "c1 b c \<le> 0" by (auto split: if_splits)
  then have ac: "c1 a c \<le> 0" by (rule tr1)
  show "(if c1 a c = 0 then c2 a c else c1 a c) \<le> 0"
  proof (cases "c1 a c = 0")
    case True
    then have "c1 c a \<le> 0" using zero [of a c] by simp
    then have "c1 b a \<le> 0" "c1 c b \<le> 0" using le tr1 by blast+
    then have "c1 a b = 0" "c1 b c = 0" using le zero by blast+
    then show ?thesis using ab bc True tr2 by auto
  qed (use ac in simp)
qed

end
