(* ===== verification/Commander_Types.thy ===== *)
theory Commander_Types
  imports Prelude
begin

text \<open>
  The data of the dual-pane file manager, \<^verbatim>\<open>features/commander/model/types.ts\<close> and
  \<^verbatim>\<open>commander-defaults.ts\<close>: string-literal unions are datatypes, object types are records, a
  discriminated union is a datatype over the records of its alternatives. A field that may be
  \<open>null\<close> or absent is an \<open>option\<close>. Field names that HOL or another record already uses carry the
  prefix of their record.
\<close>

section \<open>Enumerations\<close>

datatype CommanderPaneId = LeftPane | RightPane
datatype CommanderViewMode = ViewCommander | ViewSplit | ViewTerminal
datatype CommanderSortMode = SortName | SortExt | SortSize | SortModified
datatype CommanderSortDirection = Asc | Desc
datatype CommanderRowKind = File | Folder | Symlink

datatype CommanderPendingOperationKind =
  KCopy | KMove | KDelete | KMkdir | KRename | KSelect | KUnselect | KFilter | KSearch

datatype CommanderRenameMode = RenameSingle | RenameBatch
datatype CommanderCloneMode = CloneSingle | CloneBatch
datatype CommanderRenamePreviewStatus = StatusOk | StatusDuplicate | StatusConflict | StatusInvalid
datatype CommanderFileDialogMode = DialogView | DialogEdit | DialogBlocked
datatype CommanderFilePreviewKind = PreviewText | PreviewHex

section \<open>Entries and panes\<close>

record CommanderFooterHint =
  hint_key :: jsstring
  hint_label :: jsstring

record CommanderRenamePreviewItem =
  item_entryId :: jsstring
  item_currentName :: jsstring
  item_nextName :: jsstring
  item_status :: CommanderRenamePreviewStatus
  item_conflict :: bool

record CommanderDirectoryEntry =
  entry_id :: jsstring
  entry_name :: jsstring
  entry_ext :: jsstring
  entry_kind :: CommanderRowKind
  entry_sizeLabel :: jsstring
  entry_sizeBytes :: "int option"
  entry_modified :: jsstring
  entry_hidden :: bool
  entry_gitStatus :: "jsstring option"
  entry_executable :: "bool option"
  entry_symlinkTarget :: "jsstring option"

record CommanderPaneRuntimeState =
  pane_id :: CommanderPaneId
  path :: jsstring
  filterQuery :: jsstring
  directoryEntries :: "CommanderDirectoryEntry list"
  entries :: "CommanderDirectoryEntry list"
  cursorEntryId :: "jsstring option"
  selectionAnchorEntryId :: "jsstring option"
  selectedIds :: "jsstring list"
  historyBack :: "jsstring list"
  historyForward :: "jsstring list"
  isLoading :: bool
  errorMessage :: "jsstring option"

record CommanderPanePersistedState =
  persisted_path :: jsstring
  persisted_filterQuery :: jsstring
  persisted_directoryEntries :: "CommanderDirectoryEntry list option"
  persisted_entries :: "CommanderDirectoryEntry list option"
  persisted_cursorEntryId :: "jsstring option"
  persisted_selectionAnchorEntryId :: "jsstring option"
  persisted_selectedIds :: "jsstring list"
  persisted_historyBack :: "jsstring list"
  persisted_historyForward :: "jsstring list"

section \<open>Pending operations\<close>

text \<open>
  The fields every pending operation has are the record \<open>CommanderPendingOperation\<close>; the fields
  of one kind only are its \<open>detail\<close>, whose constructor is the discriminating \<open>kind\<close> (and, for a
  copy, \<open>transferMode\<close>).
\<close>

record CommanderCloneDetail =
  clone_inputValue :: jsstring
  clone_targetPaneId :: CommanderPaneId
  clone_targetPath :: jsstring
  clone_mode :: CommanderCloneMode
  clone_conflictEntryNames :: "jsstring list"
  clone_duplicateTargetNames :: "jsstring list"
  clone_renamePreview :: "CommanderRenamePreviewItem list"

datatype CommanderTransferKind = TransferCopy | TransferMove

record CommanderTransferDetail =
  transfer_kind :: CommanderTransferKind
  transfer_targetPaneId :: CommanderPaneId
  transfer_targetPath :: jsstring
  transfer_conflictEntryNames :: "jsstring list"

record CommanderRenameDetail =
  rename_inputValue :: jsstring
  rename_conflictEntryNames :: "jsstring list"
  rename_duplicateTargetNames :: "jsstring list"
  rename_mode :: CommanderRenameMode
  rename_preview :: "CommanderRenamePreviewItem list"

datatype CommanderMaskKind = MaskSelect | MaskUnselect | MaskFilter

record CommanderMaskDetail =
  mask_kind :: CommanderMaskKind
  mask_inputValue :: jsstring
  mask_matchCount :: int
  mask_matchPreview :: "jsstring list"

record CommanderSearchDetail =
  search_inputValue :: jsstring
  search_matchCount :: int
  search_matchPreview :: "jsstring list"
  search_matchIndex :: int

datatype CommanderPendingDetail =
    CloneDetail CommanderCloneDetail
  | TransferDetail CommanderTransferDetail
  | DeleteDetail
  | MkdirDetail jsstring
  | RenameDetail CommanderRenameDetail
  | MaskDetail CommanderMaskDetail
  | SearchDetail CommanderSearchDetail

record CommanderPendingOperation =
  sourcePaneId :: CommanderPaneId
  sourcePath :: jsstring
  entryIds :: "jsstring list"
  entryNames :: "jsstring list"
  detail :: CommanderPendingDetail

section \<open>Dialogs and widgets\<close>

record CommanderFileDialogState =
  dialog_paneId :: CommanderPaneId
  dialog_path :: jsstring
  dialog_entryId :: jsstring
  dialog_entryName :: jsstring
  dialog_mode :: CommanderFileDialogMode
  dialog_content :: jsstring
  dialog_draftValue :: jsstring
  dialog_previewKind :: "CommanderFilePreviewKind option"
  dialog_previewBytes :: "int option"
  dialog_sizeBytes :: "int option"
  dialog_truncated :: "bool option"
  dialog_blockedReason :: "jsstring option"
  dialog_blockedTitle :: "jsstring option"
  dialog_blockedHint :: "jsstring option"

text \<open>The fields \<open>dataSource: 'backend'\<close> and \<open>mode: 'commander'\<close> have one value each and carry no state.\<close>

record CommanderWidgetRuntimeState =
  widgetId :: jsstring
  viewMode :: CommanderViewMode
  activePane :: CommanderPaneId
  showHidden :: bool
  sortMode :: CommanderSortMode
  sortDirection :: CommanderSortDirection
  dirsFirst :: bool
  footerHints :: "CommanderFooterHint list"
  pendingOperation :: "CommanderPendingOperation option"
  fileDialog :: "CommanderFileDialogState option"
  leftPane :: CommanderPaneRuntimeState
  rightPane :: CommanderPaneRuntimeState

record CommanderWidgetPersistedState =
  persisted_activePane :: CommanderPaneId
  persisted_viewMode :: CommanderViewMode
  persisted_showHidden :: bool
  persisted_sortMode :: CommanderSortMode
  persisted_sortDirection :: CommanderSortDirection
  persisted_dirsFirst :: bool
  persisted_leftPane :: CommanderPanePersistedState
  persisted_rightPane :: CommanderPanePersistedState

text \<open>The projection settings of a widget, the \<open>options\<close> argument of the pane builders.\<close>

record CommanderProjectionOptions =
  opt_showHidden :: bool
  opt_sortMode :: CommanderSortMode
  opt_sortDirection :: CommanderSortDirection
  opt_dirsFirst :: bool

record CommanderDirectorySnapshot =
  snapshot_path :: jsstring
  snapshot_entries :: "CommanderDirectoryEntry list"

record CommanderFileSnapshot =
  file_entryId :: jsstring
  file_entryName :: jsstring
  file_path :: jsstring
  file_content :: jsstring
  file_previewAvailable :: bool
  file_previewKind :: CommanderFilePreviewKind
  file_previewBytes :: "int option"
  file_sizeBytes :: "int option"
  file_truncated :: "bool option"

section \<open>Defaults\<close>

definition defaultCommanderViewMode :: CommanderViewMode where
  "defaultCommanderViewMode = ViewCommander"

definition defaultCommanderActivePane :: CommanderPaneId where
  "defaultCommanderActivePane = LeftPane"

definition defaultCommanderShowHidden :: bool where
  "defaultCommanderShowHidden = True"

definition defaultCommanderSortMode :: CommanderSortMode where
  "defaultCommanderSortMode = SortName"

definition defaultCommanderSortDirection :: CommanderSortDirection where
  "defaultCommanderSortDirection = Asc"

definition defaultCommanderDirsFirst :: bool where
  "defaultCommanderDirsFirst = True"

definition footer_hint :: "string \<Rightarrow> string \<Rightarrow> CommanderFooterHint" where
  "footer_hint k l = \<lparr>hint_key = js k, hint_label = js l\<rparr>"

definition defaultCommanderFooterHints :: "CommanderFooterHint list" where
  "defaultCommanderFooterHints =
     [footer_hint ''F2'' ''Rename'', footer_hint ''F3'' ''View'', footer_hint ''F4'' ''Edit'',
      footer_hint ''F5'' ''Copy'', footer_hint ''F6'' ''Move'', footer_hint ''F7'' ''Mkdir'',
      footer_hint ''F8'' ''Delete'', footer_hint ''CTRL+L'' ''Path'', footer_hint ''CTRL+S'' ''Search'',
      footer_hint ''CTRL+F'' ''Filter'', footer_hint ''CTRL+BS'' ''Clear filter'']"

lemmas commander_defaults =
  defaultCommanderViewMode_def defaultCommanderActivePane_def defaultCommanderShowHidden_def
  defaultCommanderSortMode_def defaultCommanderSortDirection_def defaultCommanderDirsFirst_def

section \<open>Access to the pending operation\<close>

text \<open>The \<open>kind\<close> tag of a pending operation, and the fields several kinds share.\<close>

fun detail_kind :: "CommanderPendingDetail \<Rightarrow> CommanderPendingOperationKind" where
  "detail_kind (CloneDetail _) = KCopy"
| "detail_kind (TransferDetail d) = (case transfer_kind d of TransferCopy \<Rightarrow> KCopy | TransferMove \<Rightarrow> KMove)"
| "detail_kind DeleteDetail = KDelete"
| "detail_kind (MkdirDetail _) = KMkdir"
| "detail_kind (RenameDetail _) = KRename"
| "detail_kind (MaskDetail d) =
     (case mask_kind d of MaskSelect \<Rightarrow> KSelect | MaskUnselect \<Rightarrow> KUnselect | MaskFilter \<Rightarrow> KFilter)"
| "detail_kind (SearchDetail _) = KSearch"

definition pending_kind :: "CommanderPendingOperation \<Rightarrow> CommanderPendingOperationKind" where
  "pending_kind p = detail_kind (detail p)"

definition other_pane :: "CommanderPaneId \<Rightarrow> CommanderPaneId" where
  "other_pane p = (case p of LeftPane \<Rightarrow> RightPane | RightPane \<Rightarrow> LeftPane)"

lemma other_pane_simps [simp]:
  "other_pane LeftPane = RightPane" "other_pane RightPane = LeftPane"
  "other_pane (other_pane p) = p" "other_pane p \<noteq> p"
  by (cases p; simp add: other_pane_def)+

end
