(* ===== verification/Runtime_Paths.thy ===== *)
theory Runtime_Paths
  imports Prelude
begin

text \<open>
  The runtime client of \<^verbatim>\<open>frontend/src/shared/api/runtime.ts\<close>: the path algebra that every file
  view uses (joining, parents, display, user input), the bootstrap of the runtime context, and the
  normalisation of the window-title and locale settings. Fetching itself is a parameter: the
  definitions take the reply of the backend.
\<close>

section \<open>Definitions\<close>

record RuntimeContext =
  authToken :: jsstring
  baseUrl :: jsstring
  colorTerm :: jsstring
  defaultShell :: jsstring
  homeDir :: jsstring
  repoRoot :: jsstring
  term_name :: jsstring

definition normalizePathSeparators :: "jsstring \<Rightarrow> jsstring" where
  "normalizePathSeparators p = map (\<lambda>c. if c = backslash then slash else c) p"

text \<open>The expressions \<^verbatim>\<open>/^[A-Za-z]:/\<close> and \<^verbatim>\<open>/^[A-Za-z]:\/$/\<close>.\<close>

fun has_drive_prefix :: "jsstring \<Rightarrow> bool" where
  "has_drive_prefix (c # d # _) = (js_ascii_letter c \<and> d = colon)"
| "has_drive_prefix _ = False"

definition is_drive_root :: "jsstring \<Rightarrow> bool" where
  "is_drive_root p = (has_drive_prefix p \<and> drop 2 p = [slash])"

definition trimTrailingSeparators :: "jsstring \<Rightarrow> jsstring" where
  "trimTrailingSeparators path =
     (let normalizedPath = normalizePathSeparators path in
      if is_drive_root normalizedPath \<or> normalizedPath = [slash] then normalizedPath
      else js_dropWhileEnd (\<lambda>c. c = slash) normalizedPath)"

definition isAbsolutePath :: "jsstring \<Rightarrow> bool" where
  "isAbsolutePath path =
     (js_startsWith path [slash]
      \<or> (has_drive_prefix path \<and> (case drop 2 path of c # _ \<Rightarrow> c = backslash \<or> c = slash | [] \<Rightarrow> False))
      \<or> js_startsWith path [backslash, backslash])"

text \<open>The reducer over path segments: \<open>..\<close> pops, anything else is pushed.\<close>

definition push_segment :: "jsstring list \<Rightarrow> jsstring \<Rightarrow> jsstring list" where
  "push_segment segments segment =
     (if segment = [dot, dot]
      then (if segments \<noteq> [] \<and> last segments \<noteq> [dot, dot] then butlast segments else segments)
      else segments @ [segment])"

definition normalizeJoinedPath :: "jsstring \<Rightarrow> jsstring \<Rightarrow> jsstring" where
  "normalizeJoinedPath basePath nextPath =
     (let normalizedBasePath = trimTrailingSeparators basePath;
          normalizedNextPath = normalizePathSeparators nextPath;
          hasLeadingSlash = js_startsWith normalizedBasePath [slash];
          pathSegments = foldl push_segment []
            (filter (\<lambda>segment. segment \<noteq> [] \<and> segment \<noteq> [dot])
              (js_split slash (normalizedBasePath @ [slash] @ normalizedNextPath)));
          joinedPath = js_join slash pathSegments
      in if has_drive_prefix normalizedBasePath then
           (let drivePrefix = take 2 normalizedBasePath;
                withoutDrivePrefix =
                  (if js_startsWith joinedPath drivePrefix then
                     (case drop 2 joinedPath of c # t \<Rightarrow> if c = slash then t else c # t | [] \<Rightarrow> [])
                   else joinedPath)
            in if withoutDrivePrefix \<noteq> [] then drivePrefix @ [slash] @ withoutDrivePrefix
               else drivePrefix @ [slash])
         else if hasLeadingSlash then
           (if joinedPath \<noteq> [] then slash # joinedPath else [slash])
         else joinedPath)"

definition joinRuntimePath :: "jsstring \<Rightarrow> jsstring \<Rightarrow> jsstring" where
  "joinRuntimePath path name = normalizeJoinedPath path name"

definition getRuntimePathParent :: "jsstring \<Rightarrow> jsstring option" where
  "getRuntimePathParent path =
     (let normalizedPath = trimTrailingSeparators path in
      if normalizedPath = [] \<or> normalizedPath = [slash] \<or> is_drive_root normalizedPath then None
      else (let lastSlashIndex = js_lastIndexOf slash normalizedPath in
            if lastSlashIndex = -1 then None
            else if lastSlashIndex = 0 then Some [slash]
            else Some (js_slice 0 lastSlashIndex normalizedPath)))"

definition formatRuntimePathForDisplay :: "jsstring \<Rightarrow> jsstring \<Rightarrow> jsstring" where
  "formatRuntimePathForDisplay path homeDirectory =
     (let normalizedPath = trimTrailingSeparators path;
          normalizedHomeDir = trimTrailingSeparators homeDirectory
      in if normalizedPath = [] \<or> normalizedHomeDir = [] then normalizedPath
         else if normalizedPath = normalizedHomeDir then js ''~''
         else if js_startsWith normalizedPath (normalizedHomeDir @ [slash])
         then js ''~'' @ drop (length normalizedHomeDir) normalizedPath
         else normalizedPath)"

definition resolveRuntimePathInput :: "jsstring \<Rightarrow> jsstring \<Rightarrow> jsstring \<Rightarrow> jsstring" where
  "resolveRuntimePathInput inputValue homeDirectory currentPath =
     (let trimmedInputValue = js_trim inputValue in
      if trimmedInputValue = [] then currentPath
      else
        (let normalizedInputValue = normalizePathSeparators trimmedInputValue in
         if normalizedInputValue = js ''~'' \<and> homeDirectory \<noteq> []
         then trimTrailingSeparators homeDirectory
         else if js_startsWith normalizedInputValue (js ''~/'') \<and> homeDirectory \<noteq> []
         then normalizeJoinedPath homeDirectory (drop 2 normalizedInputValue)
         else if isAbsolutePath normalizedInputValue
         then trimTrailingSeparators normalizedInputValue
         else normalizeJoinedPath currentPath normalizedInputValue))"

subsection \<open>Transport and bootstrap\<close>

datatype runtime_error =
    TauriTransportIncomplete
  | TransportUnresolved
  | BootstrapStatus int
  | BootstrapWithoutRepoRoot
  | RuntimeRequestFailed jsstring

record RuntimeTransport =
  transport_authToken :: jsstring
  transport_baseUrl :: jsstring

record BootstrapPayload =
  bp_color_term :: "jsstring option"
  bp_default_shell :: "jsstring option"
  bp_home_dir :: "jsstring option"
  bp_repo_root :: "jsstring option"
  bp_term :: "jsstring option"

text \<open>An HTTP reply: the status, and the decoded body of a successful one.\<close>

datatype 'a http_reply = HttpOk 'a | HttpFailed int

definition transport_of :: "jsstring option \<Rightarrow> jsstring option \<Rightarrow> RuntimeTransport option" where
  "transport_of base auth =
     (if js_truthy (map_option js_trim base) \<and> js_truthy (map_option js_trim auth)
      then Some \<lparr>transport_authToken = js_trim (the auth), transport_baseUrl = js_trim (the base)\<rparr>
      else None)"

definition readRuntimeTransportFromEnv ::
    "jsstring option \<Rightarrow> jsstring option \<Rightarrow> RuntimeTransport option" where
  "readRuntimeTransportFromEnv env_base env_token = transport_of env_base env_token"

text \<open>
  The reply of the shell's \<open>runtime_info\<close> command, \<open>None\<close> outside the desktop shell.
\<close>

definition readRuntimeTransportFromTauri ::
    "(jsstring option \<times> jsstring option) option \<Rightarrow> runtime_error + RuntimeTransport option" where
  "readRuntimeTransportFromTauri runtime_info =
     (case runtime_info of
        None \<Rightarrow> Inr None
      | Some (base_url, auth_token) \<Rightarrow>
          (case transport_of base_url auth_token of
             None \<Rightarrow> Inl TauriTransportIncomplete
           | Some transport \<Rightarrow> Inr (Some transport)))"

definition resolveRuntimeTransport ::
    "jsstring option \<Rightarrow> jsstring option \<Rightarrow> (jsstring option \<times> jsstring option) option \<Rightarrow>
     runtime_error + RuntimeTransport" where
  "resolveRuntimeTransport env_base env_token runtime_info =
     (case readRuntimeTransportFromEnv env_base env_token of
        Some transport \<Rightarrow> Inr transport
      | None \<Rightarrow>
          (case readRuntimeTransportFromTauri runtime_info of
             Inl e \<Rightarrow> Inl e
           | Inr (Some transport) \<Rightarrow> Inr transport
           | Inr None \<Rightarrow> Inl TransportUnresolved))"

definition loadRuntimeContext ::
    "runtime_error + RuntimeTransport \<Rightarrow> BootstrapPayload http_reply \<Rightarrow> runtime_error + RuntimeContext" where
  "loadRuntimeContext transport_result response =
     (case transport_result of
        Inl e \<Rightarrow> Inl e
      | Inr transport \<Rightarrow>
          (case response of
             HttpFailed status \<Rightarrow> Inl (BootstrapStatus status)
           | HttpOk payload \<Rightarrow>
               (let root = map_option js_trim (bp_repo_root payload) in
                if \<not> js_truthy root then Inl BootstrapWithoutRepoRoot
                else Inr \<lparr>authToken = transport_authToken transport,
                          baseUrl = transport_baseUrl transport,
                          colorTerm = js_default (map_option js_trim (bp_color_term payload)) [],
                          defaultShell = js_default (map_option js_trim (bp_default_shell payload)) [],
                          homeDir = trimTrailingSeparators
                            (js_default (map_option js_trim (bp_home_dir payload)) []),
                          repoRoot = trimTrailingSeparators (the root),
                          term_name = js_default (map_option js_trim (bp_term payload)) []\<rparr>)))"

subsection \<open>Window title and locale settings\<close>

datatype WindowTitleMode = TitleAuto | TitleCustom

record WindowTitleSettings =
  auto_title :: jsstring
  custom_title :: jsstring
  title_mode :: WindowTitleMode

record WindowTitleSettingsPayload =
  wp_auto_title :: "jsstring option"
  wp_settings :: "(jsstring option \<times> jsstring option) option"

definition normalizeWindowTitleMode :: "jsstring option \<Rightarrow> WindowTitleMode" where
  "normalizeWindowTitleMode mode = (if mode = Some (js ''custom'') then TitleCustom else TitleAuto)"

definition normalizeWindowTitleSettings :: "WindowTitleSettingsPayload \<Rightarrow> WindowTitleSettings" where
  "normalizeWindowTitleSettings payload =
     \<lparr>auto_title = js_default (map_option js_trim (wp_auto_title payload)) [],
      custom_title = js_default (map_option js_trim (Option.bind (wp_settings payload) fst)) [],
      title_mode = normalizeWindowTitleMode (Option.bind (wp_settings payload) snd)\<rparr>"

datatype AppLocale = LocaleEn | LocaleRu | LocaleZhCN | LocaleEs

record LocaleSettings =
  locale_setting :: AppLocale
  supported_locales :: "AppLocale list"

definition defaultSupportedLocales :: "AppLocale list" where
  "defaultSupportedLocales = [LocaleRu, LocaleEn, LocaleZhCN, LocaleEs]"

text \<open>The argument is \<open>None\<close> when the value is not a string.\<close>

definition normalizeAppLocale :: "host \<Rightarrow> jsstring option \<Rightarrow> AppLocale" where
  "normalizeAppLocale h loc =
     (case loc of
        None \<Rightarrow> LocaleRu
      | Some s \<Rightarrow>
          (let n = toLowerCase h (js_trim s) in
           if n = js ''en'' then LocaleEn
           else if n = js ''ru'' then LocaleRu
           else if n = js ''zh'' \<or> n = js ''zh-cn'' \<or> n = js ''cn'' then LocaleZhCN
           else if n = js ''es'' then LocaleEs
           else LocaleRu))"

definition normalizeLocaleSettings ::
    "host \<Rightarrow> jsstring option \<Rightarrow> jsstring option list option \<Rightarrow> LocaleSettings" where
  "normalizeLocaleSettings h settings_locale payload_supported =
     (let supportedLocales = (case payload_supported of
            Some xs \<Rightarrow> map (normalizeAppLocale h) xs | None \<Rightarrow> defaultSupportedLocales);
          uniqueSupportedLocales = map snd (filter
            (\<lambda>(i, l). js_findIndex (\<lambda>x. x = l) supportedLocales = int i)
            (zip [0..<length supportedLocales] supportedLocales))
      in \<lparr>locale_setting = normalizeAppLocale h settings_locale,
          supported_locales =
            (if uniqueSupportedLocales \<noteq> [] then uniqueSupportedLocales else defaultSupportedLocales)\<rparr>)"

subsection \<open>Canonical paths\<close>

text \<open>A name that is one segment of a path, and an absolute path made of such names.\<close>

definition path_segment :: "jsstring \<Rightarrow> bool" where
  "path_segment s \<longleftrightarrow>
     s \<noteq> [] \<and> s \<noteq> [dot] \<and> s \<noteq> [dot, dot] \<and> slash \<notin> set s \<and> backslash \<notin> set s"

definition canonical_path :: "jsstring \<Rightarrow> bool" where
  "canonical_path p \<longleftrightarrow> p = [slash] \<or>
     (p \<noteq> [] \<and> hd p = slash \<and> list_all path_segment (js_split slash (tl p)))"


section \<open>Lemmas\<close>

lemma canonical_path_iff:
  "canonical_path p \<longleftrightarrow> (\<exists>segs. list_all path_segment segs \<and> p = slash # js_join slash segs)"
proof
  assume "canonical_path p"
  then consider "p = [slash]" | "p \<noteq> []" "hd p = slash" "list_all path_segment (js_split slash (tl p))"
    by (auto simp: canonical_path_def)
  then show "\<exists>segs. list_all path_segment segs \<and> p = slash # js_join slash segs"
  proof cases
    case 1
    then show ?thesis by (intro exI [of _ "[]"]) simp
  next
    case 2
    then show ?thesis by (intro exI [of _ "js_split slash (tl p)"]) (cases p; simp)
  qed
next
  assume "\<exists>segs. list_all path_segment segs \<and> p = slash # js_join slash segs"
  then obtain segs where segs: "list_all path_segment segs" "p = slash # js_join slash segs" by blast
  show "canonical_path p"
  proof (cases "segs = []")
    case False
    then have "js_split slash (js_join slash segs) = segs"
      using segs by (intro js_split_join) (auto simp: list_all_iff path_segment_def)
    with segs show ?thesis by (simp add: canonical_path_def)
  qed (use segs in \<open>simp add: canonical_path_def\<close>)
qed

lemma normalizePathSeparators_id: "backslash \<notin> set p \<Longrightarrow> normalizePathSeparators p = p"
  by (auto simp: normalizePathSeparators_def intro: map_idI)

lemma backslash_notin_normalizePathSeparators [simp]: "backslash \<notin> set (normalizePathSeparators p)"
  by (auto simp: normalizePathSeparators_def)

lemma normalizePathSeparators_idem [simp]:
  "normalizePathSeparators (normalizePathSeparators p) = normalizePathSeparators p"
  by (simp add: normalizePathSeparators_id)

lemma backslash_notin_join:
  "\<forall>s\<in>set segs. backslash \<notin> set s \<Longrightarrow> backslash \<notin> set (js_join slash segs)"
  by (induction "slash::nat" segs rule: js_join.induct) auto

lemma js_join_eq_Nil: "\<forall>s\<in>set segs. s \<noteq> [] \<Longrightarrow> js_join slash segs = [] \<longleftrightarrow> segs = []"
  by (induction "slash::nat" segs rule: js_join.induct) auto

lemma last_js_join:
  "segs \<noteq> [] \<Longrightarrow> \<forall>s\<in>set segs. s \<noteq> [] \<and> slash \<notin> set s \<Longrightarrow> last (js_join slash segs) \<noteq> slash"
proof (induction "slash::nat" segs rule: js_join.induct)
  case (2 p)
  then show ?case by (metis js_join.simps(2) last_in_set list.set_intros(1))
next
  case (3 p q ps)
  then have "last (js_join slash (q # ps)) \<noteq> slash" "js_join slash (q # ps) \<noteq> []"
    using js_join_eq_Nil [of "q # ps"] by auto
  then show ?case by simp
qed simp

lemma list_all_path_segmentD:
  assumes "list_all path_segment segs" and "s \<in> set segs"
  shows "s \<noteq> []" "s \<noteq> [dot]" "s \<noteq> [dot, dot]" "slash \<notin> set s" "backslash \<notin> set s"
  using assms by (auto simp: list_all_iff path_segment_def)

lemma segs_no_backslash:
  "list_all path_segment segs \<Longrightarrow> backslash \<notin> set (slash # js_join slash segs)"
  using backslash_notin_join [of segs] by (auto dest: list_all_path_segmentD)

lemma trim_canonical:
  assumes "list_all path_segment segs"
  shows "trimTrailingSeparators (slash # js_join slash segs) = slash # js_join slash segs"
proof (cases "segs = []")
  case True
  then show ?thesis by (simp add: trimTrailingSeparators_def normalizePathSeparators_def)
next
  case False
  have "last (slash # js_join slash segs) \<noteq> slash"
    using False assms last_js_join [of segs] js_join_eq_Nil [of segs]
    by (auto dest: list_all_path_segmentD)
  then have "js_dropWhileEnd (\<lambda>c. c = slash) (slash # js_join slash segs) = slash # js_join slash segs"
    by (intro js_dropWhileEnd_id) simp
  then show ?thesis
    using normalizePathSeparators_id [OF segs_no_backslash [OF assms]]
    by (simp add: trimTrailingSeparators_def Let_def)
qed

lemma filter_split_canonical:
  assumes "list_all path_segment segs"
  shows "filter (\<lambda>s. s \<noteq> [] \<and> s \<noteq> [dot]) (js_split slash (js_join slash segs)) = segs"
proof (cases "segs = []")
  case False
  then have "js_split slash (js_join slash segs) = segs"
    using assms by (intro js_split_join) (auto dest: list_all_path_segmentD)
  then show ?thesis
    using assms by (auto dest: list_all_path_segmentD intro: filter_True)
qed simp

lemma foldl_push_segment_id:
  "list_all path_segment segs \<Longrightarrow> foldl push_segment acc segs = acc @ segs"
  by (induction segs arbitrary: acc) (auto simp: push_segment_def path_segment_def)

lemma list_all_foldl_push_segment:
  assumes "list_all path_segment acc"
    and "\<forall>s\<in>set ss. s \<noteq> [] \<and> s \<noteq> [dot] \<and> slash \<notin> set s \<and> backslash \<notin> set s"
  shows "list_all path_segment (foldl push_segment acc ss)"
  using assms
proof (induction ss arbitrary: acc)
  case (Cons s ss)
  have "list_all path_segment (push_segment acc s)"
    using Cons.prems
    by (auto simp: push_segment_def path_segment_def list_all_iff dest: in_set_butlastD)
  with Cons show ?case by simp
qed simp

lemma no_drive_prefix_slash [simp]: "\<not> has_drive_prefix (slash # t)"
  by (cases t) (auto simp: js_ascii_letter_def)

text \<open>Joining onto a canonical directory folds the new segments over the old ones.\<close>

lemma normalizeJoinedPath_canonical:
  assumes "list_all path_segment segs"
  shows "normalizeJoinedPath (slash # js_join slash segs) next_path =
     slash # js_join slash
       (foldl push_segment segs
         (filter (\<lambda>s. s \<noteq> [] \<and> s \<noteq> [dot]) (js_split slash (normalizePathSeparators next_path))))"
proof -
  have "js_split slash ((slash # js_join slash segs) @ [slash] @ normalizePathSeparators next_path)
      = [] # js_split slash (js_join slash segs) @ js_split slash (normalizePathSeparators next_path)"
    by (simp add: js_split_append_sep)
  then show ?thesis
    using filter_split_canonical [OF assms] foldl_push_segment_id [OF assms, of "[]"]
    by (simp add: normalizeJoinedPath_def trim_canonical [OF assms] Let_def)
qed

lemma js_slice_prefix: "js_slice 0 (int (length p)) (p @ t) = p"
  by (simp add: js_slice_def)

lemma join_last_slash: "js_join slash (segs @ [n]) = (if segs = [] then n else js_join slash segs @ slash # n)"
  by (simp add: js_join_append)

lemma getRuntimePathParent_canonical:
  assumes "list_all path_segment segs" and "path_segment n"
  shows "getRuntimePathParent (slash # js_join slash (segs @ [n])) = Some (slash # js_join slash segs)"
proof -
  let ?p = "slash # js_join slash (segs @ [n])"
  have all: "list_all path_segment (segs @ [n])" using assms by simp
  have trim: "trimTrailingSeparators ?p = ?p" by (rule trim_canonical [OF all])
  have n: "n \<noteq> []" "slash \<notin> set n" using assms(2) by (auto simp: path_segment_def)
  have not_root: "?p \<noteq> [slash]" using n by (simp add: join_last_slash)
  show ?thesis
  proof (cases "segs = []")
    case True
    have "js_lastIndexOf slash ([] @ slash # n) = int (length ([] :: nat list))"
      by (rule js_lastIndexOf_append [OF n(2)])
    with True n trim show ?thesis
      by (simp add: getRuntimePathParent_def is_drive_root_def Let_def)
  next
    case False
    have "js_lastIndexOf slash ((slash # js_join slash segs) @ slash # n)
        = int (length (slash # js_join slash segs))"
      by (rule js_lastIndexOf_append [OF n(2)])
    with False n trim js_slice_prefix [of "slash # js_join slash segs" "slash # n"] show ?thesis
      by (simp add: getRuntimePathParent_def is_drive_root_def Let_def join_last_slash)
  qed
qed

lemma set_js_split_subset: "p \<in> set (js_split c xs) \<Longrightarrow> set p \<subseteq> set xs"
proof (induction xs arbitrary: p)
  case (Cons x xs)
  then show ?case by (fastforce split: if_splits list.splits)
qed simp

lemma js_trim_suffix:
  assumes "js_trim (a @ b) = a @ b" and "b \<noteq> []" and "hd b = slash"
  shows "js_trim (126 # b) = 126 # b"
proof -
  have "\<not> js_space (last (a @ b))"
    using assms js_dropWhileEnd_last [of js_space "dropWhile js_space (a @ b)"]
    by (simp add: js_trim_def)
  then have "\<not> js_space (last (126 # b))" using assms(2) by simp
  then show ?thesis
    by (simp add: js_trim_def js_space_def js_line_terminator_def js_dropWhileEnd_id)
qed

lemma canonical_suffix:
  assumes ps: "list_all path_segment ps" and hs: "list_all path_segment hs"
    and eq: "slash # js_join slash ps = (slash # js_join slash hs) @ slash # t"
  shows "\<exists>ts. hs \<noteq> [] \<and> list_all path_segment ts \<and> t = js_join slash ts \<and> ps = hs @ ts"
proof -
  have "ps \<noteq> []" using eq by (cases ps) auto
  then have split_ps: "js_split slash (js_join slash ps) = ps"
    using ps by (intro js_split_join) (auto dest: list_all_path_segmentD)
  have split: "ps = js_split slash (js_join slash hs) @ js_split slash t"
    using eq split_ps js_split_append_sep [of slash "js_join slash hs" t] by simp
  have "hs \<noteq> []"
  proof
    assume "hs = []"
    with split have "[] \<in> set ps" by simp
    with ps show False by (auto dest: list_all_path_segmentD)
  qed
  moreover have "js_split slash (js_join slash hs) = hs"
    using hs \<open>hs \<noteq> []\<close> by (intro js_split_join) (auto dest: list_all_path_segmentD)
  ultimately show ?thesis
    using split ps by (intro exI [of _ "js_split slash t"]) auto
qed

lemma joinRuntimePath_segment:
  assumes "list_all path_segment segs" and "path_segment n"
  shows "joinRuntimePath (slash # js_join slash segs) n = slash # js_join slash (segs @ [n])"
proof -
  have "normalizePathSeparators n = n" and "js_split slash n = [n]"
    using assms(2) by (auto simp: path_segment_def normalizePathSeparators_id js_split_single)
  then show ?thesis
    using normalizeJoinedPath_canonical [OF assms(1), of n] assms(2)
    by (simp add: joinRuntimePath_def push_segment_def path_segment_def)
qed

lemma parent_of_child:
  assumes "canonical_path d" and "path_segment n"
  shows "getRuntimePathParent (joinRuntimePath d n) = Some d"
proof -
  obtain segs where segs: "list_all path_segment segs" "d = slash # js_join slash segs"
    using assms(1) by (auto simp: canonical_path_iff)
  then show ?thesis
    using getRuntimePathParent_canonical [OF segs(1) assms(2)] joinRuntimePath_segment [OF segs(1) assms(2)] by simp
qed

text \<open>Directories on a drive: the drive, and a canonical path after it.\<close>

definition drive_path :: "jsstring \<Rightarrow> bool" where
  "drive_path p \<longleftrightarrow> has_drive_prefix p \<and> canonical_path (drop 2 p)"

lemma drive_path_cases:
  assumes "drive_path d"
  obtains c segs where "js_ascii_letter c" "list_all path_segment segs" "d = c # colon # slash # js_join slash segs"
proof -
  obtain c t where t: "js_ascii_letter c" "d = c # colon # t"
    using assms by (cases d rule: has_drive_prefix.cases) (auto simp: drive_path_def)
  then show thesis using assms that by (auto simp: drive_path_def canonical_path_iff)
qed

lemma drive_segment: "js_ascii_letter c \<Longrightarrow> path_segment [c, colon]"
  by (auto simp: path_segment_def js_ascii_letter_def)

lemma drive_join: "segs \<noteq> [] \<Longrightarrow> js_join slash ([c, colon] # segs) = c # colon # slash # js_join slash segs"
  by (cases segs) simp_all

lemma drive_root_iff:
  "list_all path_segment segs \<Longrightarrow> js_ascii_letter c \<Longrightarrow> is_drive_root (c # colon # slash # js_join slash segs) \<longleftrightarrow> segs = []"
  using js_join_eq_Nil [of segs] by (auto simp: is_drive_root_def dest: list_all_path_segmentD)

lemma trim_drive:
  assumes "js_ascii_letter c" "list_all path_segment segs"
  shows "trimTrailingSeparators (c # colon # slash # js_join slash segs) = c # colon # slash # js_join slash segs"
proof (cases "segs = []")
  case True
  have "c \<noteq> backslash" using assms(1) by (auto simp: js_ascii_letter_def)
  then show ?thesis using assms(1) True
    by (simp add: trimTrailingSeparators_def normalizePathSeparators_def is_drive_root_def)
next
  case False
  have "backslash \<notin> set (c # colon # slash # js_join slash segs)"
    using assms segs_no_backslash [OF assms(2)] by (auto simp: js_ascii_letter_def)
  moreover have "js_dropWhileEnd (\<lambda>c. c = slash) (c # colon # slash # js_join slash segs) = c # colon # slash # js_join slash segs"
    using False assms(2) last_js_join [of segs] js_join_eq_Nil [of segs]
    by (intro js_dropWhileEnd_id) (auto dest: list_all_path_segmentD)
  ultimately show ?thesis
    using normalizePathSeparators_id by (simp add: trimTrailingSeparators_def Let_def)
qed

lemma joinRuntimePath_drive:
  assumes "js_ascii_letter c" "list_all path_segment segs" "path_segment n"
  shows "joinRuntimePath (c # colon # slash # js_join slash segs) n = c # colon # slash # js_join slash (segs @ [n])"
proof -
  have n: "normalizePathSeparators n = n" "js_split slash n = [n]" "n \<noteq> []" "n \<noteq> [dot]"
    using assms(3) by (auto simp: path_segment_def normalizePathSeparators_id js_split_single)
  have c: "c \<noteq> slash" using assms(1) by (auto simp: js_ascii_letter_def)
  have "js_split slash ((c # colon # slash # js_join slash segs) @ [slash] @ n) = [c, colon] # js_split slash (js_join slash segs) @ [n]"
    using n(2) js_split_append_sep [of slash "[c, colon]" "js_join slash segs @ slash # n"]
      js_split_append_sep [of slash "js_join slash segs" n] js_split_single [of slash "[c, colon]"] c by simp
  then have "filter (\<lambda>s. s \<noteq> [] \<and> s \<noteq> [dot]) (js_split slash ((c # colon # slash # js_join slash segs) @ [slash] @ n))
      = [c, colon] # segs @ [n]"
    using filter_split_canonical [OF assms(2)] n by simp
  moreover have "foldl push_segment [] ([c, colon] # segs @ [n]) = [c, colon] # segs @ [n]"
    using foldl_push_segment_id [of "[c, colon] # segs @ [n]" "[]"] assms drive_segment [OF assms(1)] by simp
  moreover have "js_join slash ([c, colon] # segs @ [n]) = c # colon # slash # js_join slash (segs @ [n])"
    by (rule drive_join) simp
  moreover have "js_join slash (segs @ [n]) \<noteq> []" using n(3) by (simp add: join_last_slash)
  ultimately show ?thesis
    using assms(1) trim_drive [OF assms(1,2)] n(1)
    by (simp add: joinRuntimePath_def normalizeJoinedPath_def Let_def js_startsWith_iff)
qed

lemma getRuntimePathParent_drive:
  assumes "js_ascii_letter c" "list_all path_segment segs" "path_segment n"
  shows "getRuntimePathParent (c # colon # slash # js_join slash (segs @ [n])) =
    Some (if segs = [] then [c, colon] else c # colon # slash # js_join slash segs)"
proof -
  let ?p = "c # colon # slash # js_join slash (segs @ [n])"
  let ?d = "if segs = [] then [c, colon] else c # colon # slash # js_join slash segs"
  have all: "list_all path_segment (segs @ [n])" using assms by simp
  have n: "slash \<notin> set n" using assms(3) by (auto simp: path_segment_def)
  have p: "?p = ?d @ slash # n" by (simp add: join_last_slash)
  have "js_lastIndexOf slash ?p = int (length ?d)" unfolding p by (rule js_lastIndexOf_append [OF n])
  moreover have "js_slice 0 (int (length ?d)) ?p = ?d" unfolding p by (rule js_slice_prefix)
  moreover have "\<not> is_drive_root ?p" using drive_root_iff [OF all assms(1)] by simp
  ultimately show ?thesis
    using trim_drive [OF assms(1) all] unfolding getRuntimePathParent_def Let_def by auto
qed

lemma parent_of_drive_child:
  assumes "drive_path d" and "path_segment n"
  shows "getRuntimePathParent (joinRuntimePath d n) = Some (if is_drive_root d then take 2 d else d)"
proof -
  obtain c segs where d: "js_ascii_letter c" "list_all path_segment segs" "d = c # colon # slash # js_join slash segs"
    using assms(1) by (rule drive_path_cases)
  show ?thesis
    unfolding d(3) joinRuntimePath_drive [OF d(1,2) assms(2)] getRuntimePathParent_drive [OF d(1,2) assms(2)]
      drive_root_iff [OF d(2,1)] by simp
qed

section \<open>Properties of the path algebra\<close>

text \<open>C1: joining anything onto a canonical absolute directory gives a canonical absolute path. The
  result has no empty, \<open>.\<close> or \<open>..\<close> segment and no backslash, so no input leaves the root.\<close>

theorem joinRuntimePath_canonical:
  assumes "canonical_path d"
  shows "canonical_path (joinRuntimePath d name)"
proof -
  obtain segs where segs: "list_all path_segment segs" "d = slash # js_join slash segs"
    using assms by (auto simp: canonical_path_iff)
  let ?ss = "filter (\<lambda>s. s \<noteq> [] \<and> s \<noteq> [dot]) (js_split slash (normalizePathSeparators name))"
  have "\<forall>s\<in>set ?ss. s \<noteq> [] \<and> s \<noteq> [dot] \<and> slash \<notin> set s \<and> backslash \<notin> set s"
  proof
    fix s assume s: "s \<in> set ?ss"
    then have "slash \<notin> set s" by (auto dest: js_split_no_sep)
    moreover have "backslash \<notin> set s"
      using s set_js_split_subset [of s slash "normalizePathSeparators name"]
        backslash_notin_normalizePathSeparators [of name] by auto
    ultimately show "s \<noteq> [] \<and> s \<noteq> [dot] \<and> slash \<notin> set s \<and> backslash \<notin> set s"
      using s by simp
  qed
  then have "list_all path_segment (foldl push_segment segs ?ss)"
    by (rule list_all_foldl_push_segment [OF segs(1)])
  then show ?thesis
    unfolding canonical_path_iff joinRuntimePath_def
    using normalizeJoinedPath_canonical [OF segs(1), of name] segs(2) by blast
qed

theorem joinRuntimePath_canonical_witness:
  "canonical_path (js ''/srv/app'') \<and> canonical_path (joinRuntimePath (js ''/srv/app'') (js ''../../../etc''))"
proof -
  have h: "canonical_path (js ''/srv/app'')" by (simp add: canonical_path_def path_segment_def)
  show ?thesis using h joinRuntimePath_canonical [OF h] by blast
qed

text \<open>C2: entering a child and going to the parent returns to the directory: for every canonical
  directory, from the root or on a drive, and every one-segment name, the parent of the joined path is
  the directory. The one exception is the root of a drive: the parent of \<open>C:/x\<close> is \<open>C:\<close>, without the slash.\<close>

theorem parent_of_joinRuntimePath:
  assumes "canonical_path d \<or> drive_path d" and "path_segment n"
  shows "getRuntimePathParent (joinRuntimePath d n) = Some (if is_drive_root d then take 2 d else d)"
proof -
  have "\<not> is_drive_root d" if "canonical_path d" using that by (auto simp: canonical_path_iff is_drive_root_def)
  then show ?thesis using assms parent_of_child parent_of_drive_child by auto
qed

theorem parent_of_joinRuntimePath_witness:
  "getRuntimePathParent (joinRuntimePath (js ''/srv'') (js ''app.log'')) = Some (js ''/srv'')
   \<and> getRuntimePathParent (joinRuntimePath (js ''C:/a'') (js ''x'')) = Some (js ''C:/a'')"
proof -
  have "canonical_path (js ''/srv'')" "path_segment (js ''app.log'')" "drive_path (js ''C:/a'')" "path_segment (js ''x'')"
    by (simp_all add: canonical_path_def path_segment_def drive_path_def js_ascii_letter_def)
  then show ?thesis
    using parent_of_joinRuntimePath [of "js ''/srv''" "js ''app.log''"] parent_of_joinRuntimePath [of "js ''C:/a''" "js ''x''"]
    by (simp add: is_drive_root_def js_ascii_letter_def)
qed

text \<open>C3: what the path bar shows can be typed back: resolving the displayed form of a canonical path
  gives the path again, whether it was abbreviated with \<open>~\<close> or not, for every canonical home
  directory and any current directory. The path must not end in white space, since input is trimmed.\<close>

theorem resolve_formatted_path:
  assumes "canonical_path p" and "canonical_path home" and "js_trim p = p"
  shows "resolveRuntimePathInput (formatRuntimePathForDisplay p home) home cwd = p"
proof -
  obtain ps where ps: "list_all path_segment ps" "p = slash # js_join slash ps"
    using assms(1) by (auto simp: canonical_path_iff)
  obtain hs where hs: "list_all path_segment hs" "home = slash # js_join slash hs"
    using assms(2) by (auto simp: canonical_path_iff)
  have trim: "trimTrailingSeparators p = p" "trimTrailingSeparators home = home"
    using ps hs by (auto intro: trim_canonical)
  have norm: "normalizePathSeparators p = p"
    using segs_no_backslash [OF ps(1)] ps(2) by (simp add: normalizePathSeparators_id)
  consider (home) "p = home" | (inside) t where "p \<noteq> home" "p = home @ slash # t"
    | (other) "p \<noteq> home" "\<not> js_startsWith p (home @ [slash])"
    by (auto simp: js_startsWith_iff)
  then show ?thesis
  proof cases
    case home
    then have "formatRuntimePathForDisplay p home = js ''~''"
      using trim ps(2) by (auto simp: formatRuntimePathForDisplay_def)
    then show ?thesis
      using trim home hs(2)
      by (simp add: resolveRuntimePathInput_def js_trim_def js_dropWhileEnd_def js_space_def
          js_line_terminator_def normalizePathSeparators_def)
  next
    case other
    then have "formatRuntimePathForDisplay p home = p"
      using trim ps(2) by (simp add: formatRuntimePathForDisplay_def Let_def)
    moreover have "isAbsolutePath p" using ps(2) by (simp add: isAbsolutePath_def)
    ultimately show ?thesis
      using trim norm ps(2) assms(3) by (simp add: resolveRuntimePathInput_def)
  next
    case inside
    have fmt: "formatRuntimePathForDisplay p home = 126 # slash # t"
      using trim inside hs(2) by (simp add: formatRuntimePathForDisplay_def Let_def js_startsWith_iff)
    have no_bs: "backslash \<notin> set t"
    proof -
      have "set t \<subseteq> set p" using inside(2) by auto
      then show ?thesis using segs_no_backslash [OF ps(1)] ps(2) by blast
    qed
    then have norm_t: "normalizePathSeparators (126 # slash # t) = 126 # slash # t"
      by (simp add: normalizePathSeparators_id)
    have trim_t: "js_trim (126 # slash # t) = 126 # slash # t"
      using js_trim_suffix [of home "slash # t"] assms(3) inside(2) ps(2) by simp
    obtain ts where ts: "hs \<noteq> []" "list_all path_segment ts" "t = js_join slash ts" "ps = hs @ ts"
      using canonical_suffix [OF ps(1) hs(1), of t] ps(2) hs(2) inside by auto
    have "resolveRuntimePathInput (formatRuntimePathForDisplay p home) home cwd
        = normalizeJoinedPath home t"
      using fmt trim_t norm_t hs(2) by (simp add: resolveRuntimePathInput_def)
    also have "\<dots> = slash # js_join slash (hs @ ts)"
      using normalizeJoinedPath_canonical [OF hs(1), of t] hs(2) no_bs ts
        filter_split_canonical [OF ts(2)] foldl_push_segment_id [OF ts(2), of hs]
      by (simp add: normalizePathSeparators_id)
    finally show ?thesis using ts(4) ps(2) by simp
  qed
qed

theorem resolve_formatted_path_witness:
  "resolveRuntimePathInput (formatRuntimePathForDisplay (js ''/home/ann/src'') (js ''/home/ann''))
     (js ''/home/ann'') (js ''/tmp'') = js ''/home/ann/src''"
proof -
  have "canonical_path (js ''/home/ann/src'')" "canonical_path (js ''/home/ann'')"
    "js_trim (js ''/home/ann/src'') = js ''/home/ann/src''"
    by (simp_all add: canonical_path_def path_segment_def js_simps)
  then show ?thesis by (rule resolve_formatted_path)
qed

section \<open>Departures\<close>

text \<open>The parent of an entry of a drive root is the name of the drive, which no listing has as its directory.\<close>

lemma drive_root_lost: "getRuntimePathParent (joinRuntimePath (js ''C:/'') (js ''x'')) = Some (js ''C:'')"
  by (simp add: js_simps joinRuntimePath_def normalizeJoinedPath_def getRuntimePathParent_def trimTrailingSeparators_def
      normalizePathSeparators_def is_drive_root_def js_ascii_letter_def push_segment_def Let_def)

end
