(* ===== verification/Commander_Client.thy ===== *)
theory Commander_Client
  imports Commander_Types Runtime_Paths
begin

text \<open>
  The file-system client, \<^verbatim>\<open>features/commander/api/client.ts\<close>: the requests it sends (as values), the
  mapping of replies to entries and snapshots, and the errors it raises. The backend is a parameter:
  the definitions take its reply. Sizes are the backend's non-negative byte counts; a division by a
  power of two is exact, so \<open>toFixed(1)\<close> is the nearest number of tenths, halves upwards.
\<close>

section \<open>Requests, replies and errors\<close>

datatype fs_request =
    FsList jsstring "jsstring option"
  | FsRead jsstring "nat option"
  | FsReadFile jsstring
  | FsWriteFile jsstring jsstring
  | FsOpen jsstring
  | FsMkdir jsstring
  | FsCopy "jsstring list" jsstring bool
  | FsCopyEntries "(jsstring \<times> jsstring) list" bool
  | FsMove "jsstring list" jsstring bool
  | FsDelete "jsstring list"
  | FsRename "(jsstring \<times> jsstring) list" bool

text \<open>An error envelope carries an optional code and an optional message; a body that does not parse is no envelope.\<close>

datatype 'a fs_reply =
    FsOk 'a
  | FsStatus int "(jsstring option \<times> jsstring option) option"
  | FsFailed jsstring

datatype commander_error =
    CommanderAPIError int jsstring jsstring
  | PlainError jsstring
  | NonError

definition js_of_int :: "int \<Rightarrow> jsstring" where
  "js_of_int i = (if i < 0 then js ''-'' @ js_of_nat (nat (- i)) else js_of_nat (nat i))"

definition fetchRuntimeJSON :: "'a fs_reply \<Rightarrow> commander_error + 'a" where
  "fetchRuntimeJSON reply =
     (case reply of
        FsOk payload \<Rightarrow> Inr payload
      | FsStatus status envelope \<Rightarrow>
          Inl (CommanderAPIError status
            (js_default (Option.bind envelope fst) (js ''commander_request_failed''))
            (js_default (Option.bind envelope snd)
              (js ''Commander request failed ('' @ js_of_int status @ js '')'')))
      | FsFailed message \<Rightarrow> Inl (PlainError message))"

section \<open>Entries\<close>

datatype fs_node_type = NodeDirectory | NodeFile

record FSNode =
  node_modified_time :: "int option"
  node_name :: jsstring
  node_size :: "nat option"
  node_type :: fs_node_type

record FSListPayload =
  list_directories :: "FSNode list option"
  list_files :: "FSNode list option"
  list_path :: jsstring

definition toCommanderEntryId :: "jsstring \<Rightarrow> jsstring \<Rightarrow> jsstring" where
  "toCommanderEntryId pth name = pth @ js ''::'' @ name"

definition getParentPath :: "jsstring \<Rightarrow> jsstring" where
  "getParentPath pth =
     (let lastSlashIndex = js_lastIndexOf slash pth in
      if lastSlashIndex \<le> 0 then [slash] else js_slice 0 lastSlashIndex pth)"

text \<open>\<^verbatim>\<open>(n / d).toFixed(1)\<close> for a power of two \<open>d\<close>: the tenths, and their decimal form.\<close>

definition tenths :: "nat \<Rightarrow> nat \<Rightarrow> nat" where
  "tenths n d = (20 * n + d) div (2 * d)"

definition to_fixed_1 :: "nat \<Rightarrow> nat \<Rightarrow> jsstring" where
  "to_fixed_1 n d = js_of_nat (tenths n d div 10) @ [dot] @ js_of_nat (tenths n d mod 10)"

definition formatBytes :: "nat \<Rightarrow> jsstring" where
  "formatBytes sz =
     (if sz < 1024 then js_of_nat sz @ js '' B''
      else if sz < 1024 * 1024 then to_fixed_1 sz 1024 @ js '' KB''
      else if sz < 1024 * 1024 * 1024 then to_fixed_1 sz (1024 * 1024) @ js '' MB''
      else to_fixed_1 sz (1024 * 1024 * 1024) @ js '' GB'')"

text \<open>
  The UTC calendar of \<open>Date\<close> (ECMA-262 21.4.1): \<open>day_from_year\<close> is its \<open>DayFromYear\<close>, the year of a day
  is the last one that starts on or before it, and months are found by their first day in the year.
\<close>

definition day_from_year :: "int \<Rightarrow> int" where
  "day_from_year y = 365 * (y - 1970) + (y - 1969) div 4 - (y - 1901) div 100 + (y - 1601) div 400"

definition leap_year :: "int \<Rightarrow> bool" where
  "leap_year y \<longleftrightarrow> day_from_year (y + 1) - day_from_year y = 366"

lemma div_succ:
  fixes a k :: int
  assumes "0 < k"
  shows "(a + 1) div k = a div k + (if k dvd a + 1 then 1 else 0)"
proof (cases "k dvd a + 1")
  case True
  then obtain q where q: "a + 1 = k * q" by blast
  then have "a = k * (q - 1) + (k - 1)" by (simp add: algebra_simps)
  then have "a div k = q - 1" using assms by (intro int_div_pos_eq [where r = "k - 1"]) auto
  with q True assms show ?thesis by simp
next
  case False
  have mod: "0 \<le> (a + 1) mod k" "(a + 1) mod k < k" using assms by simp_all
  moreover have "(a + 1) mod k \<noteq> 0" using False by (simp add: dvd_eq_mod_eq_0)
  moreover have "a + 1 = k * ((a + 1) div k) + (a + 1) mod k" by simp
  ultimately have "a div k = (a + 1) div k"
    by (intro int_div_pos_eq [where r = "(a + 1) mod k - 1"]) linarith+
  with False show ?thesis by simp
qed

lemma day_from_year_step: "365 \<le> day_from_year (y + 1) - day_from_year y" "day_from_year (y + 1) - day_from_year y \<le> 366"
proof -
  have "day_from_year (y + 1) - day_from_year y
      = 365 + ((y - 1969 + 1) div 4 - (y - 1969) div 4) - ((y - 1901 + 1) div 100 - (y - 1901) div 100)
        + ((y - 1601 + 1) div 400 - (y - 1601) div 400)"
    by (simp add: day_from_year_def algebra_simps)
  also have "\<dots> = 365 + (if 4 dvd y - 1968 then 1 else 0) - (if 100 dvd y - 1900 then 1 else 0)
      + (if 400 dvd y - 1600 then 1 else 0)"
    using div_succ [of 4 "y - 1969"] div_succ [of 100 "y - 1901"] div_succ [of 400 "y - 1601"] by simp
  finally have step: "day_from_year (y + 1) - day_from_year y
      = 365 + (if 4 dvd y - 1968 then 1 else 0) - (if 100 dvd y - 1900 then 1 else 0)
      + (if 400 dvd y - 1600 then 1 else 0)" .
  have "100 dvd y - 1900 \<Longrightarrow> 4 dvd y - 1968" "400 dvd y - 1600 \<Longrightarrow> 100 dvd y - 1900" by presburger+
  then show "365 \<le> day_from_year (y + 1) - day_from_year y" "day_from_year (y + 1) - day_from_year y \<le> 366"
    unfolding step by auto
qed

function year_search :: "int \<Rightarrow> int \<Rightarrow> int" where
  "year_search day y = (if day_from_year (y + 1) \<le> day then year_search day (y + 1) else y)"
  by pat_completeness auto
termination
proof (relation "measure (\<lambda>(day, y). nat (day - day_from_year y))")
  fix day y :: int
  assume "day_from_year (y + 1) \<le> day"
  then show "((day, y + 1), (day, y)) \<in> measure (\<lambda>(day, y). nat (day - day_from_year y))"
    using day_from_year_step(1) [of y] by simp
qed simp

declare year_search.simps [simp del]

definition year_from_day :: "int \<Rightarrow> int" where
  "year_from_day day = year_search day (1970 + (if 0 \<le> day then day div 366 else day div 365))"

definition month_starts :: "bool \<Rightarrow> int list" where
  "month_starts leap = map (\<lambda>d. if leap \<and> 59 \<le> d then d + 1 else d)
     [0, 31, 59, 90, 120, 151, 181, 212, 243, 273, 304, 334]"

text \<open>Month (1 to 12) and day of the month of a day within a year.\<close>

definition month_and_date :: "bool \<Rightarrow> int \<Rightarrow> nat \<times> nat" where
  "month_and_date leap day =
     (let started = filter (\<lambda>d. d \<le> day) (month_starts leap)
      in (length started, nat (day - last started) + 1))"

definition two_digits :: "nat \<Rightarrow> jsstring" where
  "two_digits n = js_padStart (js_of_nat n) 2 48"

text \<open>The UTC date and minute of a time in seconds, printed as \<^verbatim>\<open>YYYY-MM-DD hh:mm\<close>.\<close>

definition utc_minute :: "int \<Rightarrow> jsstring" where
  "utc_minute t =
     (let day = t div 86400; seconds = nat (t mod 86400); y = year_from_day day;
          (month, date) = month_and_date (leap_year y) (day - day_from_year y);
          hours = seconds div 3600; minutes = seconds div 60 mod 60
      in js_of_int y @ js ''-'' @ two_digits month @ js ''-'' @ two_digits date @ js '' '' @
         two_digits hours @ js '':'' @ two_digits minutes)"

definition formatModifiedTime :: "int option \<Rightarrow> jsstring" where
  "formatModifiedTime timestamp =
     (case timestamp of
        None \<Rightarrow> []
      | Some t \<Rightarrow>
          if t = 0 then []
          else if 8640000000000 < \<bar>t\<bar> then []
          else utc_minute t)"

definition getEntryExtension :: "host \<Rightarrow> jsstring \<Rightarrow> CommanderRowKind \<Rightarrow> jsstring" where
  "getEntryExtension h name kind =
     (if kind \<noteq> File then []
      else
        (let dotIndex = js_lastIndexOf dot name in
         if dotIndex \<le> 0 \<or> dotIndex = int (length name) - 1 then []
         else toLowerCase h (drop (nat (dotIndex + 1)) name)))"

definition mapFSNode :: "host \<Rightarrow> jsstring \<Rightarrow> FSNode \<Rightarrow> CommanderDirectoryEntry" where
  "mapFSNode h pth node =
     (let kind = (if node_type node = NodeDirectory then Folder else File);
          sz = js_default (node_size node) 0
      in \<lparr>entry_id = toCommanderEntryId pth (node_name node),
          entry_name = node_name node,
          entry_ext = getEntryExtension h (node_name node) kind,
          entry_kind = kind,
          entry_sizeLabel = (if kind = File then formatBytes sz else []),
          entry_sizeBytes = (if kind = File then Some (int sz) else None),
          entry_modified = formatModifiedTime (node_modified_time node),
          entry_hidden = js_startsWith (node_name node) [dot],
          entry_gitStatus = None, entry_executable = None, entry_symlinkTarget = None\<rparr>)"

section \<open>Operations\<close>

definition list_request :: "jsstring \<Rightarrow> jsstring option \<Rightarrow> fs_request" where
  "list_request pth query =
     FsList pth (if js_truthy (map_option js_trim query) then map_option js_trim query else None)"

definition listCommanderDirectory ::
    "host \<Rightarrow> FSListPayload fs_reply \<Rightarrow> commander_error + CommanderDirectorySnapshot" where
  "listCommanderDirectory h reply =
     map_sum id (\<lambda>payload.
       \<lparr>snapshot_path = list_path payload,
        snapshot_entries = map (mapFSNode h (list_path payload))
          (js_default (list_directories payload) [] @ js_default (list_files payload) [])\<rparr>)
     (fetchRuntimeJSON reply)"

text \<open>\<^verbatim>\<open>path.split('/').pop()\<close> and \<^verbatim>\<open>path.slice(0, path.lastIndexOf('/')) || '/'\<close> (a slice to \<open>-1\<close> drops the last unit).\<close>

definition last_segment :: "jsstring \<Rightarrow> jsstring" where
  "last_segment pth = last (js_split slash pth)"

definition directory_of :: "jsstring \<Rightarrow> jsstring" where
  "directory_of pth =
     (let i = js_lastIndexOf slash pth;
          d = (if i = -1 then butlast pth else js_slice 0 i pth)
      in if d = [] then [slash] else d)"

record FSReadPayload =
  read_path :: jsstring
  read_preview :: jsstring
  read_preview_available :: bool
  read_preview_bytes :: "int option"
  read_preview_kind :: "jsstring option"
  read_size_bytes :: "int option"
  read_truncated :: bool

definition readCommanderFilePreview :: "FSReadPayload fs_reply \<Rightarrow> commander_error + CommanderFileSnapshot" where
  "readCommanderFilePreview reply =
     map_sum id (\<lambda>payload.
       (let content = (if read_preview_available payload then read_preview payload else [])
        in \<lparr>file_entryId = toCommanderEntryId (directory_of (read_path payload)) (last_segment (read_path payload)),
            file_entryName = last_segment (read_path payload),
            file_path = directory_of (read_path payload),
            file_content = (if read_truncated payload
              then content @ [10, 10] @ js ''[Preview truncated.]'' else content),
            file_previewAvailable = read_preview_available payload,
            file_previewKind = (if read_preview_kind payload = Some (js ''hex'') then PreviewHex else PreviewText),
            file_previewBytes = read_preview_bytes payload,
            file_sizeBytes = read_size_bytes payload,
            file_truncated = Some (read_truncated payload)\<rparr>))
     (fetchRuntimeJSON reply)"

record FSFilePayload =
  fsfile_content :: jsstring
  fsfile_path :: jsstring

definition file_snapshot :: "FSFilePayload \<Rightarrow> CommanderFileSnapshot" where
  "file_snapshot payload =
     \<lparr>file_entryId = toCommanderEntryId (directory_of (fsfile_path payload)) (last_segment (fsfile_path payload)),
      file_entryName = last_segment (fsfile_path payload),
      file_path = directory_of (fsfile_path payload),
      file_content = fsfile_content payload,
      file_previewAvailable = True, file_previewKind = PreviewText,
      file_previewBytes = None, file_sizeBytes = None, file_truncated = None\<rparr>"

definition readCommanderFile :: "FSFilePayload fs_reply \<Rightarrow> commander_error + CommanderFileSnapshot" where
  "readCommanderFile reply = map_sum id file_snapshot (fetchRuntimeJSON reply)"

definition writeCommanderFile :: "FSFilePayload fs_reply \<Rightarrow> commander_error + CommanderFileSnapshot" where
  "writeCommanderFile reply = map_sum id file_snapshot (fetchRuntimeJSON reply)"

record MkdirResult =
  mkdir_entryId :: jsstring
  mkdir_entryName :: jsstring
  mkdir_parentPath :: jsstring
  mkdir_path :: jsstring

definition mkdirCommanderDirectory :: "jsstring fs_reply \<Rightarrow> commander_error + MkdirResult" where
  "mkdirCommanderDirectory reply =
     map_sum id (\<lambda>p.
       \<lparr>mkdir_entryId = toCommanderEntryId (getParentPath p) (last_segment p),
        mkdir_entryName = last_segment p, mkdir_parentPath = getParentPath p, mkdir_path = p\<rparr>)
     (fetchRuntimeJSON reply)"

definition copyCommanderEntries :: "jsstring list \<Rightarrow> jsstring \<Rightarrow> bool \<Rightarrow> fs_request" where
  "copyCommanderEntries sourcePaths targetPath overwrite = FsCopy sourcePaths targetPath overwrite"

definition copyCommanderEntriesToPaths :: "(jsstring \<times> jsstring) list \<Rightarrow> bool \<Rightarrow> fs_request" where
  "copyCommanderEntriesToPaths copies overwrite = FsCopyEntries copies overwrite"

definition moveCommanderEntries :: "jsstring list \<Rightarrow> jsstring \<Rightarrow> bool \<Rightarrow> fs_request" where
  "moveCommanderEntries sourcePaths targetPath overwrite = FsMove sourcePaths targetPath overwrite"

definition deleteCommanderEntries :: "jsstring list \<Rightarrow> fs_request" where
  "deleteCommanderEntries paths = FsDelete paths"

definition renameCommanderEntries :: "(jsstring \<times> jsstring) list \<Rightarrow> bool \<Rightarrow> fs_request" where
  "renameCommanderEntries renames overwrite = FsRename renames overwrite"

definition toCommanderEntryPath :: "jsstring \<Rightarrow> jsstring \<Rightarrow> jsstring" where
  "toCommanderEntryPath directoryPath entryName = joinRuntimePath directoryPath entryName"

end
