(* ===== verification/Commander_Mask.thy ===== *)
theory Commander_Mask
  imports Commander_Types
begin

text \<open>
  The wildcard masks of \<^verbatim>\<open>features/commander/model/store-selection.ts\<close>: splitting a mask into
  patterns, compiling a pattern to a regular expression (as text, with every metacharacter
  escaped), and testing a name against it. The regular expressions are given their ECMA-262
  meaning on the fragment the compiler produces: \<open>.\<close>, \<open>.*\<close>, an escaped metacharacter, or a plain
  code unit, anchored at both ends and case-insensitive.
\<close>

section \<open>Splitting a mask\<close>

definition mask_punct :: "code_unit \<Rightarrow> bool" where
  "mask_punct c \<longleftrightarrow> c = 59 \<or> c = 44"

text \<open>\<^verbatim>\<open>mask.split(/[;,]+|\s+/)\<close>, with the pending part accumulated in reverse.\<close>

function split_mask :: "jsstring \<Rightarrow> jsstring \<Rightarrow> jsstring list" where
  "split_mask acc [] = [rev acc]"
| "split_mask acc (c # cs) =
     (if mask_punct c then rev acc # split_mask [] (dropWhile mask_punct cs)
      else if js_space c then rev acc # split_mask [] (dropWhile js_space cs)
      else split_mask (c # acc) cs)"
  by pat_completeness auto
termination
  by (relation "measure (\<lambda>(acc, s). length s)") (auto simp: le_imp_less_Suc length_dropWhile_le)

definition splitCommanderMaskPatterns :: "jsstring \<Rightarrow> jsstring list" where
  "splitCommanderMaskPatterns msk = filter (\<lambda>part. part \<noteq> []) (map js_trim (split_mask [] msk))"

section \<open>Compiling a pattern\<close>

definition regexp_special :: "code_unit \<Rightarrow> bool" where
  "regexp_special c \<longleftrightarrow> c \<in> set (js ''.*+?^${}()|[]'') \<or> c = backslash"

definition escapeCommanderMaskRegExp :: "jsstring \<Rightarrow> jsstring" where
  "escapeCommanderMaskRegExp value =
     concat (map (\<lambda>c. if regexp_special c then [backslash, c] else [c]) value)"

text \<open>The source of the expression between \<open>^\<close> and \<open>$\<close>; the flag is always \<open>i\<close>.\<close>

definition commanderMaskPatternToRegExp :: "jsstring \<Rightarrow> jsstring option" where
  "commanderMaskPatternToRegExp pattern =
     (let normalizedPattern = js_trim pattern in
      if normalizedPattern = [] then None
      else Some (concat (map
        (\<lambda>char. if char = asterisk then [dot, asterisk]
                else if char = question then [dot]
                else escapeCommanderMaskRegExp [char]) normalizedPattern)))"

section \<open>Testing a name\<close>

datatype regexp_atom = AnyStar | AnyOne | Lit code_unit

text \<open>
  The atoms of an expression source. A metacharacter that is neither escaped nor one of the two
  forms of \<open>.\<close> is outside the fragment: \<open>None\<close>.
\<close>

fun regexp_atoms :: "jsstring \<Rightarrow> regexp_atom list option" where
  "regexp_atoms [] = Some []"
| "regexp_atoms (c # cs) =
     (if c = dot then
        (case cs of
           d # ds \<Rightarrow> if d = asterisk then map_option ((#) AnyStar) (regexp_atoms ds)
                     else map_option ((#) AnyOne) (regexp_atoms cs)
         | [] \<Rightarrow> Some [AnyOne])
      else if c = backslash then
        (case cs of d # ds \<Rightarrow> map_option ((#) (Lit d)) (regexp_atoms ds) | [] \<Rightarrow> None)
      else if regexp_special c then None
      else map_option ((#) (Lit c)) (regexp_atoms cs))"

fun atoms_match :: "host \<Rightarrow> regexp_atom list \<Rightarrow> jsstring \<Rightarrow> bool" where
  "atoms_match h [] s = (s = [])"
| "atoms_match h (AnyStar # as) [] = atoms_match h as []"
| "atoms_match h (AnyStar # as) (c # cs) =
     (atoms_match h as (c # cs) \<or> (\<not> js_line_terminator c \<and> atoms_match h (AnyStar # as) cs))"
| "atoms_match h (AnyOne # as) [] = False"
| "atoms_match h (AnyOne # as) (c # cs) = (\<not> js_line_terminator c \<and> atoms_match h as cs)"
| "atoms_match h (Lit l # as) [] = False"
| "atoms_match h (Lit l # as) (c # cs) =
     (js_canonicalize h l = js_canonicalize h c \<and> atoms_match h as cs)"

definition regexp_test :: "host \<Rightarrow> jsstring \<Rightarrow> jsstring \<Rightarrow> bool" where
  "regexp_test h expression s =
     (case regexp_atoms expression of Some as \<Rightarrow> atoms_match h as s | None \<Rightarrow> False)"

definition getCommanderMatchedEntries ::
    "host \<Rightarrow> CommanderDirectoryEntry list \<Rightarrow> jsstring \<Rightarrow> bool \<Rightarrow> CommanderDirectoryEntry list" where
  "getCommanderMatchedEntries h es msk emptyMeansAll =
     (let expressions = List.map_filter commanderMaskPatternToRegExp (splitCommanderMaskPatterns msk) in
      if expressions = [] then (if emptyMeansAll then es else [])
      else filter (\<lambda>entry. list_ex (\<lambda>expression. regexp_test h expression (entry_name entry)) expressions) es)"

definition filterEntriesByMask ::
    "host \<Rightarrow> CommanderDirectoryEntry list \<Rightarrow> jsstring \<Rightarrow> bool \<Rightarrow> CommanderDirectoryEntry list" where
  "filterEntriesByMask h es msk emptyMeansAll = getCommanderMatchedEntries h es msk emptyMeansAll"

section \<open>The wildcard language\<close>

text \<open>
  What a mask means to its user: \<open>*\<close> stands for any run of characters, \<open>?\<close> for one character, and
  every other character for itself up to case. No wildcard spans a line terminator.
\<close>

inductive wildcard :: "host \<Rightarrow> jsstring \<Rightarrow> jsstring \<Rightarrow> bool" for h where
  wild_end: "wildcard h [] []"
| wild_skip: "wildcard h p s \<Longrightarrow> wildcard h (asterisk # p) s"
| wild_more: "wildcard h (asterisk # p) s \<Longrightarrow> \<not> js_line_terminator c \<Longrightarrow>
    wildcard h (asterisk # p) (c # s)"
| wild_one: "wildcard h p s \<Longrightarrow> \<not> js_line_terminator c \<Longrightarrow> wildcard h (question # p) (c # s)"
| wild_char: "wildcard h p s \<Longrightarrow> l \<noteq> asterisk \<Longrightarrow> l \<noteq> question \<Longrightarrow>
    js_canonicalize h l = js_canonicalize h c \<Longrightarrow> wildcard h (l # p) (c # s)"

inductive_cases wildcard_NilE: "wildcard h [] s"

definition pattern_atom :: "code_unit \<Rightarrow> regexp_atom" where
  "pattern_atom c = (if c = asterisk then AnyStar else if c = question then AnyOne else Lit c)"

text \<open>The words of a mask, with the current word in reverse.\<close>

definition mask_separator :: "code_unit \<Rightarrow> bool" where
  "mask_separator c \<longleftrightarrow> mask_punct c \<or> js_space c"

fun mask_words :: "jsstring \<Rightarrow> jsstring \<Rightarrow> jsstring list" where
  "mask_words acc [] = (if acc = [] then [] else [rev acc])"
| "mask_words acc (c # cs) =
     (if mask_separator c then (if acc = [] then [] else [rev acc]) @ mask_words [] cs
      else mask_words (c # acc) cs)"

section \<open>Lemmas\<close>

lemma mask_punct_not_space: "mask_punct c \<Longrightarrow> \<not> js_space c"
  by (auto simp: mask_punct_def js_space_def js_line_terminator_def)

lemma mask_words_dropWhile:
  "mask_words [] (dropWhile mask_punct cs) = mask_words [] cs"
  "mask_words [] (dropWhile js_space cs) = mask_words [] cs"
  by (induction cs) (auto simp: mask_separator_def)

lemma split_mask_parts:
  "\<forall>c\<in>set acc. \<not> mask_separator c \<Longrightarrow> p \<in> set (split_mask acc s) \<Longrightarrow> c \<in> set p \<Longrightarrow> \<not> mask_separator c"
  by (induction acc s arbitrary: p rule: split_mask.induct)
     (auto simp: mask_separator_def split: if_splits)

lemma split_mask_no_separator:
  "p \<in> set (split_mask [] s) \<Longrightarrow> c \<in> set p \<Longrightarrow> \<not> mask_separator c"
  by (rule split_mask_parts [of "[]"]) auto

lemma map_trim_split_mask: "map js_trim (split_mask [] s) = split_mask [] s"
  by (intro map_idI js_trim_id) (use split_mask_no_separator in \<open>auto simp: mask_separator_def\<close>)

lemma patterns_not_special:
  assumes "p \<in> set (splitCommanderMaskPatterns msk)"
  shows "p \<noteq> []" "js_trim p = p"
  using assms by (auto simp: splitCommanderMaskPatterns_def)

lemma regexp_atoms_literal:
  "c \<noteq> asterisk \<Longrightarrow> c \<noteq> question \<Longrightarrow>
     regexp_atoms (escapeCommanderMaskRegExp [c] @ e) = map_option ((#) (Lit c)) (regexp_atoms e)"
  by (auto simp: escapeCommanderMaskRegExp_def regexp_special_def)

text \<open>A compiled pattern never starts with a bare \<open>*\<close>, so the atom before it stays what it is.\<close>

definition pattern_source :: "jsstring \<Rightarrow> jsstring" where
  "pattern_source p = concat (map
     (\<lambda>char. if char = asterisk then [dot, asterisk] else if char = question then [dot]
             else escapeCommanderMaskRegExp [char]) p)"

lemma pattern_source_simps [simp]:
  "pattern_source [] = []"
  "pattern_source (c # p) = (if c = asterisk then [dot, asterisk] else if c = question then [dot]
     else escapeCommanderMaskRegExp [c]) @ pattern_source p"
  by (simp_all add: pattern_source_def)

lemma hd_pattern_source: "pattern_source p \<noteq> [] \<Longrightarrow> hd (pattern_source p) \<noteq> asterisk"
  by (cases p) (auto simp: escapeCommanderMaskRegExp_def regexp_special_def)

lemma regexp_atoms_pattern_source: "regexp_atoms (pattern_source p) = Some (map pattern_atom p)"
proof (induction p)
  case (Cons c p)
  consider (star) "c = asterisk" | (one) "c = question" | (lit) "c \<noteq> asterisk" "c \<noteq> question"
    by blast
  then show ?case
  proof cases
    case one
    with Cons.IH hd_pattern_source [of p] show ?thesis
      by (cases "pattern_source p") (auto simp: pattern_atom_def)
  qed (use Cons.IH regexp_atoms_literal in \<open>auto simp: pattern_atom_def\<close>)
qed simp

lemma commanderMaskPatternToRegExp_source:
  "js_trim p = p \<Longrightarrow> p \<noteq> [] \<Longrightarrow> commanderMaskPatternToRegExp p = Some (pattern_source p)"
  by (simp add: commanderMaskPatternToRegExp_def pattern_source_def)

lemma atoms_match_wildcard: "atoms_match h (map pattern_atom p) s \<Longrightarrow> wildcard h p s"
proof (induction "length p + length s" arbitrary: p s rule: less_induct)
  case less
  show ?case
  proof (cases p)
    case Nil
    with less.prems show ?thesis by (simp add: wild_end)
  next
    case (Cons l q)
    show ?thesis
    proof (cases s)
      case s: Nil
      with less Cons show ?thesis
        by (auto simp: pattern_atom_def intro: wildcard.intros split: if_splits)
    next
      case s: (Cons c t)
      with less Cons show ?thesis
        by (auto simp: pattern_atom_def intro: wildcard.intros split: if_splits)
    qed
  qed
qed

lemma wildcard_atoms_match: "wildcard h p s \<Longrightarrow> atoms_match h (map pattern_atom p) s"
proof (induction rule: wildcard.induct)
  case (wild_skip p s)
  then show ?case by (cases s) (auto simp: pattern_atom_def)
qed (auto simp: pattern_atom_def)

lemma regexp_test_pattern_source: "regexp_test h (pattern_source p) s \<longleftrightarrow> wildcard h p s"
  using atoms_match_wildcard wildcard_atoms_match
  by (auto simp: regexp_test_def regexp_atoms_pattern_source)

lemma set_getCommanderMatchedEntries: "set (getCommanderMatchedEntries h es msk b) \<subseteq> set es"
  by (auto simp: getCommanderMatchedEntries_def Let_def)

lemma getCommanderMatchedEntries_Nil [simp]: "getCommanderMatchedEntries h [] msk b = []"
  by (simp add: getCommanderMatchedEntries_def Let_def)

lemma map_filter_patterns:
  "List.map_filter commanderMaskPatternToRegExp (splitCommanderMaskPatterns msk)
     = map pattern_source (splitCommanderMaskPatterns msk)"
proof -
  have "\<forall>p\<in>set ps. js_trim p = p \<and> p \<noteq> [] \<Longrightarrow>
      List.map_filter commanderMaskPatternToRegExp ps = map pattern_source ps" for ps
    by (induction ps) (auto simp: List.map_filter_simps commanderMaskPatternToRegExp_source)
  then show ?thesis using patterns_not_special by blast
qed

lemma mask_patterns_eq_words: "splitCommanderMaskPatterns msk = mask_words [] msk"
proof -
  have "filter (\<lambda>p. p \<noteq> []) (split_mask acc msk) = mask_words acc msk" for acc
  proof (induction acc msk rule: split_mask.induct)
    case (2 acc c cs)
    consider "mask_punct c" "mask_separator c" | "\<not> mask_punct c" "js_space c" "mask_separator c"
      | "\<not> mask_punct c" "\<not> js_space c" "\<not> mask_separator c"
      by (auto simp: mask_separator_def)
    then show ?case by cases (use 2 in \<open>simp_all add: mask_words_dropWhile\<close>)
  qed simp
  then show ?thesis by (simp add: splitCommanderMaskPatterns_def map_trim_split_mask)
qed

lemma mask_words_trailing: "\<forall>c\<in>set t. js_space c \<Longrightarrow> mask_words acc (s @ t) = mask_words acc s"
proof (induction acc s rule: mask_words.induct)
  case (1 acc)
  then have "\<forall>c\<in>set t. js_space c \<Longrightarrow> mask_words [] t = []" for t
    by (induction t) (auto simp: mask_separator_def)
  with 1 show ?case by (cases t) (auto simp: mask_separator_def)
qed auto

text \<open>Trimming a mask keeps its patterns.\<close>

lemma mask_patterns_trim [simp]: "splitCommanderMaskPatterns (js_trim msk) = splitCommanderMaskPatterns msk"
proof -
  obtain t where t: "dropWhile js_space msk = js_trim msk @ t" "\<forall>c\<in>set t. js_space c"
    unfolding js_trim_def js_dropWhileEnd_def
    by (metis rev_append rev_rev_ident set_rev set_takeWhileD takeWhile_dropWhile_id)
  then show ?thesis
    unfolding mask_patterns_eq_words by (metis mask_words_dropWhile(2) mask_words_trailing)
qed

lemma getCommanderMatchedEntries_trim [simp]:
  "getCommanderMatchedEntries h es (js_trim msk) b = getCommanderMatchedEntries h es msk b"
  by (simp add: getCommanderMatchedEntries_def)

lemma matched_entries_wildcard:
  "getCommanderMatchedEntries h es msk emptyMeansAll =
     (if splitCommanderMaskPatterns msk = [] then (if emptyMeansAll then es else [])
      else filter (\<lambda>e. \<exists>p. p \<in> set (splitCommanderMaskPatterns msk) \<and> wildcard h p (entry_name e)) es)"
  unfolding getCommanderMatchedEntries_def map_filter_patterns Let_def
  by (auto simp: list_ex_iff regexp_test_pattern_source intro!: filter_cong)

section \<open>Properties of the masks\<close>

text \<open>The patterns of a mask are its words: splitting with the source's expression (a run of
  \<open>;\<close> and \<open>,\<close>, or a run of white space), trimming and dropping empty parts gives exactly the maximal
  runs of characters that are neither punctuation nor white space, for every mix of separators.\<close>

theorem splitCommanderMaskPatterns_words: "splitCommanderMaskPatterns msk = mask_words [] msk"
  by (rule mask_patterns_eq_words)

text \<open>C5: compiling a pattern to a regular expression is correct: escaping keeps every metacharacter
  literal, and the entries a mask matches are those whose name is in the wildcard language of one of
  its patterns, in their order. An empty mask matches everything or nothing, as the caller chose.\<close>

theorem getCommanderMatchedEntries_wildcard:
  "getCommanderMatchedEntries h es msk emptyMeansAll =
     (if splitCommanderMaskPatterns msk = [] then (if emptyMeansAll then es else [])
      else filter (\<lambda>e. \<exists>p. p \<in> set (splitCommanderMaskPatterns msk) \<and> wildcard h p (entry_name e)) es)"
  by (rule matched_entries_wildcard)

end
