(* ===== verification/Commander_Pane.thy ===== *)
theory Commander_Pane
  imports Commander_Mask Runtime_Paths
begin

text \<open>
  One pane of the file manager: \<^verbatim>\<open>features/commander/model/pane-state.ts\<close> (sorting, projecting and
  building a pane, the initial widget) and \<^verbatim>\<open>store-navigation.ts\<close> (reading and writing the panes of
  a widget, rebuilding them, the local history). The argument \<open>overrides?: Partial<Pane>\<close> of the
  source is the record update it denotes.
\<close>

section \<open>Sorting and projecting\<close>

definition commanderEntryCompare ::
    "host \<Rightarrow> CommanderSortMode \<Rightarrow> CommanderSortDirection \<Rightarrow> bool \<Rightarrow>
     CommanderDirectoryEntry \<Rightarrow> CommanderDirectoryEntry \<Rightarrow> int" where
  "commanderEntryCompare h sort_mode sort_direction dirs_first leftEntry rightEntry =
     (if dirs_first \<and> entry_kind leftEntry = Folder \<and> entry_kind rightEntry \<noteq> Folder then -1
      else if dirs_first \<and> entry_kind leftEntry \<noteq> Folder \<and> entry_kind rightEntry = Folder then 1
      else
        (let ext_or_name = (\<lambda>e. if entry_ext e \<noteq> [] then entry_ext e else entry_name e);
             c1 = (if sort_mode = SortExt then localeCompare h (ext_or_name leftEntry) (ext_or_name rightEntry)
                   else 0);
             c2 = (if sort_mode = SortModified \<and> c1 = 0
                   then localeCompare h (entry_modified rightEntry) (entry_modified leftEntry) else c1);
             c3 = (if sort_mode = SortSize \<and> c2 = 0
                   then js_default (entry_sizeBytes rightEntry) (-1) - js_default (entry_sizeBytes leftEntry) (-1)
                   else c2);
             c4 = (if c3 = 0 then localeCompare h (entry_name leftEntry) (entry_name rightEntry) else c3)
         in if sort_direction = Desc then c4 * -1 else c4))"

definition sortCommanderEntries ::
    "host \<Rightarrow> CommanderDirectoryEntry list \<Rightarrow> CommanderSortMode \<Rightarrow> CommanderSortDirection \<Rightarrow> bool \<Rightarrow>
     CommanderDirectoryEntry list" where
  "sortCommanderEntries h es sort_mode sort_direction dirs_first =
     js_sort (commanderEntryCompare h sort_mode sort_direction dirs_first) es"

definition projectCommanderEntries ::
    "host \<Rightarrow> CommanderDirectoryEntry list \<Rightarrow> CommanderProjectionOptions \<Rightarrow> jsstring \<Rightarrow>
     CommanderDirectoryEntry list" where
  "projectCommanderEntries h dir_entries options filter_query =
     (let visibleEntries = filter (\<lambda>e. opt_showHidden options \<or> \<not> entry_hidden e) dir_entries;
          sortedEntries = sortCommanderEntries h visibleEntries
            (opt_sortMode options) (opt_sortDirection options) (opt_dirsFirst options)
      in filterEntriesByMask h sortedEntries filter_query True)"

section \<open>Building a pane\<close>

definition buildCommanderPaneState ::
    "host \<Rightarrow> CommanderPaneId \<Rightarrow> jsstring \<Rightarrow> CommanderDirectoryEntry list \<Rightarrow> jsstring \<Rightarrow> jsstring list \<Rightarrow>
     jsstring option \<Rightarrow> jsstring option \<Rightarrow> jsstring list \<Rightarrow> jsstring list \<Rightarrow> CommanderProjectionOptions \<Rightarrow>
     CommanderPaneRuntimeState" where
  "buildCommanderPaneState h paneId pth dir_entries filter_query selected cursor anchor back forward options =
     (let es = projectCommanderEntries h dir_entries options filter_query;
          visibleIds = map entry_id es;
          nextSelectedIds = filter (\<lambda>i. i \<in> set visibleIds) selected;
          nextCursorEntryId =
            (if js_truthy cursor \<and> the cursor \<in> set visibleIds then cursor
             else map_option entry_id (js_nth es 0));
          nextSelectionAnchorEntryId =
            (if js_truthy anchor \<and> the anchor \<in> set visibleIds then anchor else nextCursorEntryId)
      in \<lparr>pane_id = paneId, path = pth, filterQuery = filter_query, directoryEntries = dir_entries,
          entries = es, cursorEntryId = nextCursorEntryId,
          selectionAnchorEntryId = nextSelectionAnchorEntryId, selectedIds = nextSelectedIds,
          historyBack = back, historyForward = forward, isLoading = False, errorMessage = None\<rparr>)"

definition createPaneStateFromPersisted ::
    "CommanderPaneId \<Rightarrow> CommanderPanePersistedState \<Rightarrow> CommanderPaneRuntimeState" where
  "createPaneStateFromPersisted paneId paneState =
     \<lparr>pane_id = paneId, path = persisted_path paneState, filterQuery = persisted_filterQuery paneState,
      directoryEntries = [], entries = [], cursorEntryId = persisted_cursorEntryId paneState,
      selectionAnchorEntryId = persisted_selectionAnchorEntryId paneState,
      selectedIds = persisted_selectedIds paneState, historyBack = persisted_historyBack paneState,
      historyForward = persisted_historyForward paneState, isLoading = True, errorMessage = None\<rparr>"

definition createEmptyPaneState :: "CommanderPaneId \<Rightarrow> CommanderPaneRuntimeState" where
  "createEmptyPaneState paneId =
     \<lparr>pane_id = paneId, path = [], filterQuery = [], directoryEntries = [], entries = [],
      cursorEntryId = None, selectionAnchorEntryId = None, selectedIds = [], historyBack = [],
      historyForward = [], isLoading = True, errorMessage = None\<rparr>"

definition createCommanderWidgetRuntimeState ::
    "jsstring \<Rightarrow> CommanderWidgetPersistedState option \<Rightarrow> CommanderWidgetRuntimeState" where
  "createCommanderWidgetRuntimeState wid persistedState =
     \<lparr>widgetId = wid,
      viewMode = js_default (map_option persisted_viewMode persistedState) defaultCommanderViewMode,
      activePane = js_default (map_option persisted_activePane persistedState) defaultCommanderActivePane,
      showHidden = js_default (map_option persisted_showHidden persistedState) defaultCommanderShowHidden,
      sortMode = js_default (map_option persisted_sortMode persistedState) defaultCommanderSortMode,
      sortDirection =
        js_default (map_option persisted_sortDirection persistedState) defaultCommanderSortDirection,
      dirsFirst = js_default (map_option persisted_dirsFirst persistedState) defaultCommanderDirsFirst,
      footerHints = defaultCommanderFooterHints,
      pendingOperation = None,
      fileDialog = None,
      leftPane = (case persistedState of
          Some ps \<Rightarrow> createPaneStateFromPersisted LeftPane (persisted_leftPane ps)
        | None \<Rightarrow> createEmptyPaneState LeftPane),
      rightPane = (case persistedState of
          Some ps \<Rightarrow> createPaneStateFromPersisted RightPane (persisted_rightPane ps)
        | None \<Rightarrow> createEmptyPaneState RightPane)\<rparr>"

definition projection_options :: "CommanderWidgetRuntimeState \<Rightarrow> CommanderProjectionOptions" where
  "projection_options w =
     \<lparr>opt_showHidden = showHidden w, opt_sortMode = sortMode w,
      opt_sortDirection = sortDirection w, opt_dirsFirst = dirsFirst w\<rparr>"

definition rebuildCommanderPaneState ::
    "host \<Rightarrow> CommanderWidgetRuntimeState \<Rightarrow> CommanderPaneRuntimeState \<Rightarrow>
     (CommanderPaneRuntimeState \<Rightarrow> CommanderPaneRuntimeState) \<Rightarrow> CommanderPaneRuntimeState" where
  "rebuildCommanderPaneState h widgetState paneState overrides =
     (let nextPaneState = overrides paneState in
      buildCommanderPaneState h (pane_id nextPaneState) (path nextPaneState)
        (directoryEntries nextPaneState) (filterQuery nextPaneState) (selectedIds nextPaneState)
        (cursorEntryId nextPaneState) (selectionAnchorEntryId nextPaneState)
        (historyBack nextPaneState) (historyForward nextPaneState) (projection_options widgetState))"

definition getCommanderParentPath :: "jsstring \<Rightarrow> jsstring option" where
  "getCommanderParentPath pth =
     (if pth = [] then None
      else
        (let normalizedPath = map (\<lambda>c. if c = backslash then slash else c) pth;
             trimmedPath = js_dropWhileEnd (\<lambda>c. c = slash) normalizedPath
         in if trimmedPath = [] \<or> trimmedPath = [slash] then None
            else
              (let lastSlashIndex = js_lastIndexOf slash trimmedPath in
               if lastSlashIndex = -1 then None
               else if lastSlashIndex = 0 then Some [slash]
               else Some (js_slice 0 lastSlashIndex trimmedPath))))"

section \<open>The panes of a widget\<close>

definition getPaneState :: "CommanderWidgetRuntimeState \<Rightarrow> CommanderPaneId \<Rightarrow> CommanderPaneRuntimeState" where
  "getPaneState widgetState paneId =
     (if paneId = LeftPane then leftPane widgetState else rightPane widgetState)"

definition setPaneState ::
    "CommanderWidgetRuntimeState \<Rightarrow> CommanderPaneId \<Rightarrow> CommanderPaneRuntimeState \<Rightarrow>
     CommanderWidgetRuntimeState" where
  "setPaneState widgetState paneId paneState =
     (if paneId = LeftPane then widgetState\<lparr>leftPane := paneState\<rparr>
      else widgetState\<lparr>rightPane := paneState\<rparr>)"

definition updatePaneState ::
    "CommanderWidgetRuntimeState \<Rightarrow> CommanderPaneId \<Rightarrow>
     (CommanderPaneRuntimeState \<Rightarrow> CommanderPaneRuntimeState) \<Rightarrow> CommanderWidgetRuntimeState" where
  "updatePaneState widgetState paneId updater =
     setPaneState widgetState paneId (updater (getPaneState widgetState paneId))"

definition rebuildPaneStateAt ::
    "host \<Rightarrow> CommanderWidgetRuntimeState \<Rightarrow> CommanderPaneRuntimeState \<Rightarrow> jsstring \<Rightarrow> CommanderPaneRuntimeState" where
  "rebuildPaneStateAt h widgetState paneState nextPath =
     rebuildCommanderPaneState h widgetState paneState
       (if nextPath = path paneState then (\<lambda>p. p)
        else (\<lambda>p. p\<lparr>path := nextPath, directoryEntries := [], selectedIds := [], cursorEntryId := None,
                     selectionAnchorEntryId := None, isLoading := True, errorMessage := None\<rparr>))"

text \<open>The same with the default argument \<open>nextPath = paneState.path\<close>.\<close>

definition rebuildPaneState ::
    "host \<Rightarrow> CommanderWidgetRuntimeState \<Rightarrow> CommanderPaneRuntimeState \<Rightarrow> CommanderPaneRuntimeState" where
  "rebuildPaneState h widgetState paneState = rebuildPaneStateAt h widgetState paneState (path paneState)"

definition navigatePaneState ::
    "host \<Rightarrow> CommanderWidgetRuntimeState \<Rightarrow> CommanderPaneId \<Rightarrow> jsstring \<Rightarrow> CommanderWidgetRuntimeState" where
  "navigatePaneState h widgetState paneId nextPath =
     updatePaneState widgetState paneId (\<lambda>paneState.
       if path paneState = nextPath then rebuildPaneState h widgetState paneState
       else (rebuildPaneStateAt h widgetState paneState nextPath)
              \<lparr>historyBack := historyBack paneState @ [path paneState], historyForward := []\<rparr>)"

datatype history_direction = HistoryBack | HistoryForward

definition navigatePaneHistory ::
    "host \<Rightarrow> CommanderWidgetRuntimeState \<Rightarrow> CommanderPaneId \<Rightarrow> history_direction \<Rightarrow>
     CommanderWidgetRuntimeState" where
  "navigatePaneHistory h widgetState paneId direction =
     updatePaneState widgetState paneId (\<lambda>paneState.
       (let historyStack = (if direction = HistoryBack then historyBack paneState else historyForward paneState);
            targetPath = js_nth historyStack (int (length historyStack) - 1)
        in if \<not> js_truthy targetPath then paneState
           else
             (let rebuiltPaneState = rebuildPaneStateAt h widgetState paneState (the targetPath) in
              if direction = HistoryBack then
                rebuiltPaneState\<lparr>historyBack := butlast (historyBack paneState),
                                 historyForward := historyForward paneState @ [path paneState]\<rparr>
              else
                rebuiltPaneState\<lparr>historyBack := historyBack paneState @ [path paneState],
                                 historyForward := butlast (historyForward paneState)\<rparr>)))"

text \<open>
  The overrides of a refresh: the two widget-level fields are present (\<open>Some v\<close>) or absent, the
  pane overrides are record updates.
\<close>

record CommanderWidgetRefreshOverrides =
  refresh_pendingOperation :: "CommanderPendingOperation option option"
  refresh_fileDialog :: "CommanderFileDialogState option option"
  refresh_leftPane :: "CommanderPaneRuntimeState \<Rightarrow> CommanderPaneRuntimeState"
  refresh_rightPane :: "CommanderPaneRuntimeState \<Rightarrow> CommanderPaneRuntimeState"

definition refreshWidgetPanes ::
    "host \<Rightarrow> CommanderWidgetRuntimeState \<Rightarrow> CommanderWidgetRefreshOverrides \<Rightarrow> CommanderWidgetRuntimeState" where
  "refreshWidgetPanes h widgetState overrides =
     (let nextWidgetState = widgetState
            \<lparr>pendingOperation := js_default (refresh_pendingOperation overrides) (pendingOperation widgetState),
             fileDialog := js_default (refresh_fileDialog overrides) (fileDialog widgetState),
             leftPane := refresh_leftPane overrides (leftPane widgetState),
             rightPane := refresh_rightPane overrides (rightPane widgetState)\<rparr>
      in nextWidgetState
            \<lparr>leftPane := rebuildPaneState h nextWidgetState (leftPane nextWidgetState),
             rightPane := rebuildPaneState h nextWidgetState (rightPane nextWidgetState)\<rparr>)"

section \<open>Invariants of a pane\<close>

definition pane_ids :: "CommanderPaneRuntimeState \<Rightarrow> jsstring list" where
  "pane_ids p = map entry_id (entries p)"

text \<open>A cursor or an anchor is a visible row, and absent exactly when there is no row.\<close>

definition focus_ok :: "jsstring list \<Rightarrow> jsstring option \<Rightarrow> bool" where
  "focus_ok ids v = (case v of None \<Rightarrow> ids = [] | Some i \<Rightarrow> i \<in> set ids)"

definition pane_consistent :: "CommanderPaneRuntimeState \<Rightarrow> bool" where
  "pane_consistent p \<longleftrightarrow>
     set (selectedIds p) \<subseteq> set (pane_ids p) \<and> focus_ok (pane_ids p) (cursorEntryId p)
     \<and> focus_ok (pane_ids p) (selectionAnchorEntryId p)"

text \<open>The rows of a pane are the projection of its directory under the settings of its widget.\<close>

definition pane_projected ::
    "host \<Rightarrow> CommanderProjectionOptions \<Rightarrow> CommanderPaneRuntimeState \<Rightarrow> bool" where
  "pane_projected h options p \<longleftrightarrow>
     entries p = projectCommanderEntries h (directoryEntries p) options (filterQuery p)"

section \<open>Lemmas\<close>

subsection \<open>The order of the rows\<close>

definition folder_rank :: "bool \<Rightarrow> CommanderDirectoryEntry \<Rightarrow> int" where
  "folder_rank dirs_first e = (if dirs_first \<and> entry_kind e \<noteq> Folder then 1 else 0)"

definition mode_compare ::
    "host \<Rightarrow> CommanderSortMode \<Rightarrow> CommanderDirectoryEntry \<Rightarrow> CommanderDirectoryEntry \<Rightarrow> int" where
  "mode_compare h m a b =
     (case m of
        SortName \<Rightarrow> 0
      | SortExt \<Rightarrow> localeCompare h (if entry_ext a \<noteq> [] then entry_ext a else entry_name a)
                     (if entry_ext b \<noteq> [] then entry_ext b else entry_name b)
      | SortModified \<Rightarrow> localeCompare h (entry_modified b) (entry_modified a)
      | SortSize \<Rightarrow> js_default (entry_sizeBytes b) (-1) - js_default (entry_sizeBytes a) (-1))"

definition row_compare ::
    "host \<Rightarrow> CommanderSortMode \<Rightarrow> CommanderDirectoryEntry \<Rightarrow> CommanderDirectoryEntry \<Rightarrow> int" where
  "row_compare h m a b =
     (if mode_compare h m a b = 0 then localeCompare h (entry_name a) (entry_name b)
      else mode_compare h m a b)"

lemma commanderEntryCompare_lex:
  "commanderEntryCompare h m d df = (\<lambda>a b.
     if folder_rank df a - folder_rank df b = 0
     then (if d = Desc then row_compare h m a b * -1 else row_compare h m a b)
     else folder_rank df a - folder_rank df b)"
  by (intro ext)
     (cases m; auto simp: commanderEntryCompare_def folder_rank_def row_compare_def mode_compare_def Let_def)

lemma js_comparator_mode_compare: "js_comparator (mode_compare h m)"
proof (cases m)
  case SortName
  then show ?thesis using js_comparator_diff [of "\<lambda>_. 0"] by (simp add: mode_compare_def [abs_def])
next
  case SortExt
  then show ?thesis
    using js_comparator_localeCompare [of h "\<lambda>e. if entry_ext e \<noteq> [] then entry_ext e else entry_name e"]
    by (simp add: mode_compare_def [abs_def])
next
  case SortSize
  then show ?thesis
    using js_comparator_swap [OF js_comparator_diff [of "\<lambda>e. js_default (entry_sizeBytes e) (-1)"]]
    by (simp add: mode_compare_def [abs_def])
next
  case SortModified
  then show ?thesis
    using js_comparator_swap [OF js_comparator_localeCompare [of h entry_modified]]
    by (simp add: mode_compare_def [abs_def])
qed

lemma js_comparator_row_compare: "js_comparator (row_compare h m)"
  using js_comparator_lex [OF js_comparator_mode_compare [of h m] js_comparator_localeCompare [of h entry_name]]
  by (simp add: row_compare_def [abs_def])

lemma js_comparator_commanderEntryCompare: "js_comparator (commanderEntryCompare h m d df)"
proof -
  have "js_comparator (\<lambda>a b. if d = Desc then row_compare h m a b * -1 else row_compare h m a b)"
    using js_comparator_row_compare js_comparator_neg [OF js_comparator_row_compare]
    by (cases "d = Desc") simp_all
  then show ?thesis
    unfolding commanderEntryCompare_lex by (rule js_comparator_lex [OF js_comparator_diff])
qed

interpretation entry_order: js_comparator "commanderEntryCompare h m d df" for h m d df
  by (rule js_comparator_commanderEntryCompare)

lemma set_sortCommanderEntries [simp]: "set (sortCommanderEntries h es m d df) = set es"
  by (simp add: sortCommanderEntries_def)

lemma folder_compare_le: "commanderEntryCompare h m d True a b \<le> 0 \<Longrightarrow> entry_kind b = Folder \<Longrightarrow> entry_kind a = Folder"
  by (auto simp: commanderEntryCompare_def split: if_splits)

lemma sorted_partition:
  assumes "sorted_wrt R xs" and "\<And>a b. R a b \<Longrightarrow> P b \<Longrightarrow> P a"
  shows "xs = filter P xs @ filter (\<lambda>x. \<not> P x) xs"
  using assms(1)
proof (induction xs)
  case (Cons x xs)
  show ?case
  proof (cases "P x")
    case False
    then have "\<forall>y\<in>set xs. \<not> P y" using Cons.prems assms(2) by auto
    then show ?thesis using False by (simp add: filter_empty_conv)
  qed (use Cons in simp)
qed simp

subsection \<open>Rebuilding a pane\<close>

lemma projectCommanderEntries_Nil [simp]: "projectCommanderEntries h [] options q = []"
  by (simp add: projectCommanderEntries_def sortCommanderEntries_def filterEntriesByMask_def)

lemma set_projectCommanderEntries: "set (projectCommanderEntries h es options q) \<subseteq> set es"
  using set_getCommanderMatchedEntries
  by (fastforce simp: projectCommanderEntries_def filterEntriesByMask_def Let_def)

lemma distinct_projectCommanderEntries:
  assumes "distinct (map entry_id es)"
  shows "distinct (map entry_id (projectCommanderEntries h es options q))"
  using assms
  by (auto simp: projectCommanderEntries_def filterEntriesByMask_def getCommanderMatchedEntries_def
      sortCommanderEntries_def Let_def distinct_map_js_sort intro!: distinct_map_filter)

lemma focus_ok_simps [simp]:
  "focus_ok ids None \<longleftrightarrow> ids = []"
  "focus_ok ids (Some i) \<longleftrightarrow> i \<in> set ids"
  by (simp_all add: focus_ok_def)

lemma focus_ok_first [simp]: "focus_ok (map entry_id es) (map_option entry_id (js_nth es 0))"
  by (cases es) (simp_all add: js_nth_def)

lemma focus_ok_keep: "js_truthy v \<Longrightarrow> the v \<in> set ids \<Longrightarrow> focus_ok ids v"
  by (cases v) auto

lemma buildCommanderPaneState_fields [pane_simps]:
  "pane_id (buildCommanderPaneState h pid pth de q sel cur anc back fwd options) = pid"
  "path (buildCommanderPaneState h pid pth de q sel cur anc back fwd options) = pth"
  "filterQuery (buildCommanderPaneState h pid pth de q sel cur anc back fwd options) = q"
  "directoryEntries (buildCommanderPaneState h pid pth de q sel cur anc back fwd options) = de"
  "entries (buildCommanderPaneState h pid pth de q sel cur anc back fwd options)
     = projectCommanderEntries h de options q"
  "historyBack (buildCommanderPaneState h pid pth de q sel cur anc back fwd options) = back"
  "historyForward (buildCommanderPaneState h pid pth de q sel cur anc back fwd options) = fwd"
  "isLoading (buildCommanderPaneState h pid pth de q sel cur anc back fwd options) = False"
  "errorMessage (buildCommanderPaneState h pid pth de q sel cur anc back fwd options) = None"
  by (simp_all add: buildCommanderPaneState_def Let_def)

lemma rebuildCommanderPaneState_fields [pane_simps]:
  "pane_id (rebuildCommanderPaneState h w p f) = pane_id (f p)"
  "path (rebuildCommanderPaneState h w p f) = path (f p)"
  "filterQuery (rebuildCommanderPaneState h w p f) = filterQuery (f p)"
  "directoryEntries (rebuildCommanderPaneState h w p f) = directoryEntries (f p)"
  "entries (rebuildCommanderPaneState h w p f)
     = projectCommanderEntries h (directoryEntries (f p)) (projection_options w) (filterQuery (f p))"
  "historyBack (rebuildCommanderPaneState h w p f) = historyBack (f p)"
  "historyForward (rebuildCommanderPaneState h w p f) = historyForward (f p)"
  "isLoading (rebuildCommanderPaneState h w p f) = False"
  "errorMessage (rebuildCommanderPaneState h w p f) = None"
  by (simp_all add: rebuildCommanderPaneState_def pane_simps Let_def)

lemma pane_consistent_build:
  "pane_consistent (buildCommanderPaneState h pid pth de q sel cur anc back fwd options)"
  by (auto simp: pane_consistent_def buildCommanderPaneState_def pane_ids_def Let_def
      simp del: focus_ok_simps intro: focus_ok_keep)

lemma pane_consistent_rebuild [intro]: "pane_consistent (rebuildCommanderPaneState h w p f)"
  by (simp add: rebuildCommanderPaneState_def pane_consistent_build Let_def)

lemma pane_projected_rebuild [intro]:
  "options = projection_options w \<Longrightarrow> pane_projected h options (rebuildCommanderPaneState h w p f)"
  by (simp add: pane_projected_def pane_simps)

lemma rebuildPaneStateAt_fields [pane_simps]:
  "pane_id (rebuildPaneStateAt h w p q) = pane_id p"
  "path (rebuildPaneStateAt h w p q) = q"
  "historyBack (rebuildPaneStateAt h w p q) = historyBack p"
  "historyForward (rebuildPaneStateAt h w p q) = historyForward p"
  "isLoading (rebuildPaneStateAt h w p q) = False"
  by (auto simp: rebuildPaneStateAt_def pane_simps)

lemma rebuildPaneState_fields [pane_simps]:
  "pane_id (rebuildPaneState h w p) = pane_id p"
  "path (rebuildPaneState h w p) = path p"
  "filterQuery (rebuildPaneState h w p) = filterQuery p"
  "directoryEntries (rebuildPaneState h w p) = directoryEntries p"
  "historyBack (rebuildPaneState h w p) = historyBack p"
  "historyForward (rebuildPaneState h w p) = historyForward p"
  by (simp_all add: rebuildPaneState_def rebuildPaneStateAt_def pane_simps)

lemma pane_consistent_rebuildPaneState [intro]: "pane_consistent (rebuildPaneState h w p)"
  by (auto simp: rebuildPaneState_def rebuildPaneStateAt_def)

lemma pane_projected_rebuildPaneState [intro]:
  "options = projection_options w \<Longrightarrow> pane_projected h options (rebuildPaneState h w p)"
  by (auto simp: rebuildPaneState_def rebuildPaneStateAt_def)

subsection \<open>Reading and writing the panes\<close>

lemma getPaneState_simps [simp]:
  "getPaneState w LeftPane = leftPane w"
  "getPaneState w RightPane = rightPane w"
  by (simp_all add: getPaneState_def)

lemma getPaneState_setPaneState [store_simps]:
  "getPaneState (setPaneState w i p) j = (if i = j then p else getPaneState w j)"
  by (cases i; cases j) (simp_all add: setPaneState_def)

lemma getPaneState_updatePaneState [store_simps]:
  "getPaneState (updatePaneState w i f) j = (if i = j then f (getPaneState w j) else getPaneState w j)"
  by (simp add: updatePaneState_def store_simps)

lemma updatePaneState_fields [store_simps]:
  "widgetId (updatePaneState w i f) = widgetId w"
  "viewMode (updatePaneState w i f) = viewMode w"
  "activePane (updatePaneState w i f) = activePane w"
  "showHidden (updatePaneState w i f) = showHidden w"
  "sortMode (updatePaneState w i f) = sortMode w"
  "sortDirection (updatePaneState w i f) = sortDirection w"
  "dirsFirst (updatePaneState w i f) = dirsFirst w"
  "pendingOperation (updatePaneState w i f) = pendingOperation w"
  "fileDialog (updatePaneState w i f) = fileDialog w"
  by (simp_all add: updatePaneState_def setPaneState_def)

lemma projection_options_updatePaneState [store_simps]:
  "projection_options (updatePaneState w i f) = projection_options w"
  by (simp add: projection_options_def store_simps)

lemma getPaneState_frame [store_simps]:
  "getPaneState (w\<lparr>activePane := a\<rparr>) i = getPaneState w i"
  "getPaneState (w\<lparr>pendingOperation := o'\<rparr>) i = getPaneState w i"
  "getPaneState (w\<lparr>fileDialog := d\<rparr>) i = getPaneState w i"
  "getPaneState (w\<lparr>viewMode := v\<rparr>) i = getPaneState w i"
  by (cases i; simp)+

lemma projection_options_frame [store_simps]:
  "projection_options (w\<lparr>activePane := a\<rparr>) = projection_options w"
  "projection_options (w\<lparr>pendingOperation := o'\<rparr>) = projection_options w"
  "projection_options (w\<lparr>fileDialog := d\<rparr>) = projection_options w"
  "projection_options (w\<lparr>viewMode := v\<rparr>) = projection_options w"
  by (simp_all add: projection_options_def)

section \<open>History\<close>

text \<open>
  The contract of a navigation history: what visiting a path and walking back and forward do to the
  stacks, for any state that provides it.
\<close>

locale pane_history =
  fixes hist :: "'s \<Rightarrow> jsstring list \<times> jsstring \<times> jsstring list"
    and visit :: "jsstring \<Rightarrow> 's \<Rightarrow> 's"
    and step_back :: "'s \<Rightarrow> 's"
    and step_forward :: "'s \<Rightarrow> 's"
  assumes visit_hist: "hist s = (b, c, f) \<Longrightarrow> c \<noteq> [] \<Longrightarrow> p \<noteq> c \<Longrightarrow> hist (visit p s) = (b @ [c], p, [])"
    and back_hist: "hist s = (b @ [t], c, f) \<Longrightarrow> t \<noteq> [] \<Longrightarrow> c \<noteq> [] \<Longrightarrow> hist (step_back s) = (b, t, f @ [c])"
    and forward_hist: "hist s = (b, c, f @ [t]) \<Longrightarrow> t \<noteq> [] \<Longrightarrow> c \<noteq> [] \<Longrightarrow> hist (step_forward s) = (b @ [c], t, f)"
begin

lemma back_visit:
  assumes "hist s = (b, c, f)" and "c \<noteq> []" and "p \<noteq> c" and "p \<noteq> []"
  shows "hist (step_back (visit p s)) = (b, c, [p])"
  using back_hist [OF visit_hist [OF assms(1-3)]] assms by simp

lemma forward_back:
  assumes "hist s = (b @ [t], c, f)" and "t \<noteq> []" and "c \<noteq> []"
  shows "hist (step_forward (step_back s)) = hist s"
  using forward_hist [OF back_hist [OF assms]] assms by simp

lemma back_forward:
  assumes "hist s = (b, c, f @ [t])" and "t \<noteq> []" and "c \<noteq> []"
  shows "hist (step_back (step_forward s)) = hist s"
  using back_hist [OF forward_hist [OF assms]] assms by simp

fun visits :: "jsstring list \<Rightarrow> 's \<Rightarrow> 's" where
  "visits [] s = s"
| "visits (p # ps) s = visits ps (visit p s)"

lemma visits_append: "visits (ps @ qs) s = visits qs (visits ps s)"
  by (induction ps arbitrary: s) simp_all

lemma visits_hist:
  assumes "hist s = (b, c, f)" and "c \<noteq> []" and "ps \<noteq> []" and "[] \<notin> set ps"
    and "distinct_adj (c # ps)"
  shows "hist (visits ps s) = (b @ c # butlast ps, last ps, [])"
  using assms
proof (induction ps arbitrary: s b c f)
  case (Cons p ps)
  have "hist (visit p s) = (b @ [c], p, [])"
    using Cons.prems by (intro visit_hist) auto
  then show ?case
    using Cons.IH [of "visit p s" "b @ [c]" p "[]"] Cons.prems by (cases ps) auto
qed simp

lemma back_unwinds:
  "hist s = (b @ ts, c, f) \<Longrightarrow> c \<noteq> [] \<Longrightarrow> [] \<notin> set ts \<Longrightarrow>
     hist ((step_back ^^ length ts) s) = (b, hd (ts @ [c]), f @ rev (tl (ts @ [c])))"
proof (induction ts arbitrary: s c f rule: rev_induct)
  case (snoc t ts)
  have "hist (step_back s) = (b @ ts, t, f @ [c])"
    using snoc.prems back_hist [of s "b @ ts" t c f] by auto
  then have "hist ((step_back ^^ length ts) (step_back s)) = (b, hd (ts @ [t]), (f @ [c]) @ rev (tl (ts @ [t])))"
    using snoc.prems by (intro snoc.IH) auto
  then show ?case by (cases ts) (simp_all add: funpow_swap1)
qed simp

text \<open>Walking step_back once per visit returns to where the visits started.\<close>

lemma back_after_visits:
  assumes "hist s = (b, c, f)" and "c \<noteq> []" and "ps \<noteq> []" and "[] \<notin> set ps"
    and "distinct_adj (c # ps)"
  shows "hist ((step_back ^^ length ps) (visits ps s)) = (b, c, rev ps)"
proof -
  have len: "length (c # butlast ps) = length ps" using assms(3) by simp
  have "last ps \<noteq> []" "[] \<notin> set (c # butlast ps)"
    using assms by (auto dest: in_set_butlastD) (metis last_in_set)
  from back_unwinds [OF visits_hist [OF assms] this] show ?thesis
    using assms(3) len by simp
qed

end

definition pane_hist ::
    "CommanderPaneId \<Rightarrow> CommanderWidgetRuntimeState \<Rightarrow> jsstring list \<times> jsstring \<times> jsstring list" where
  "pane_hist i w = (historyBack (getPaneState w i), path (getPaneState w i), historyForward (getPaneState w i))"

interpretation pane_nav: pane_history "pane_hist i" "\<lambda>p w. navigatePaneState h w i p"
    "\<lambda>w. navigatePaneHistory h w i HistoryBack" "\<lambda>w. navigatePaneHistory h w i HistoryForward" for h i
  by unfold_locales
     (auto simp: pane_hist_def navigatePaneState_def navigatePaneHistory_def store_simps pane_simps
        js_nth_def Let_def nth_append)

section \<open>Properties\<close>

text \<open>
  The order a pane promises, without its comparator: extensions (the name where there is none) ascend,
  times and sizes descend, and the name decides among equals; descending reverses all of it, and folders
  first comes before everything, in both directions.
\<close>

fun column_before :: "host \<Rightarrow> CommanderSortMode \<Rightarrow> CommanderDirectoryEntry \<Rightarrow> CommanderDirectoryEntry \<Rightarrow> bool" where
  "column_before h SortName a b \<longleftrightarrow> False"
| "column_before h SortExt a b \<longleftrightarrow>
     localeCompare h (if entry_ext a = [] then entry_name a else entry_ext a) (if entry_ext b = [] then entry_name b else entry_ext b) < 0"
| "column_before h SortModified a b \<longleftrightarrow> localeCompare h (entry_modified a) (entry_modified b) > 0"
| "column_before h SortSize a b \<longleftrightarrow> js_default (entry_sizeBytes a) (-1) > js_default (entry_sizeBytes b) (-1)"

definition ascends :: "host \<Rightarrow> CommanderSortMode \<Rightarrow> CommanderDirectoryEntry \<Rightarrow> CommanderDirectoryEntry \<Rightarrow> bool" where
  "ascends h m a b \<longleftrightarrow> column_before h m a b
     \<or> \<not> column_before h m b a \<and> localeCompare h (entry_name a) (entry_name b) \<le> 0"

definition row_before :: "host \<Rightarrow> CommanderProjectionOptions \<Rightarrow> CommanderDirectoryEntry \<Rightarrow> CommanderDirectoryEntry \<Rightarrow> bool" where
  "row_before h options a b \<longleftrightarrow>
     (if opt_dirsFirst options \<and> entry_kind a = Folder \<and> entry_kind b \<noteq> Folder then True
      else if opt_dirsFirst options \<and> entry_kind a \<noteq> Folder \<and> entry_kind b = Folder then False
      else if opt_sortDirection options = Asc then ascends h (opt_sortMode options) a b
      else ascends h (opt_sortMode options) b a)"

definition row_shown :: "host \<Rightarrow> CommanderProjectionOptions \<Rightarrow> jsstring \<Rightarrow> CommanderDirectoryEntry \<Rightarrow> bool" where
  "row_shown h options q e \<longleftrightarrow> (opt_showHidden options \<or> \<not> entry_hidden e)
     \<and> (splitCommanderMaskPatterns q = [] \<or> (\<exists>p\<in>set (splitCommanderMaskPatterns q). wildcard h p (entry_name e)))"

lemma localeCompare_flip: "localeCompare h a b < 0 \<longleftrightarrow> 0 < localeCompare h b a" "localeCompare h a b = 0 \<longleftrightarrow> localeCompare h b a = 0"
  using js_comparator.neg_iff [OF js_comparator_localeCompare [of h id], of a b]
    js_comparator.zero_sym [OF js_comparator_localeCompare [of h id], of a b] by simp_all

lemma column_before_compare: "column_before h m a b \<longleftrightarrow> mode_compare h m a b < 0"
  by (cases m) (auto simp: mode_compare_def localeCompare_flip(1) [of h "entry_modified b"])

lemma ascends_compare: "ascends h m a b \<longleftrightarrow> row_compare h m a b \<le> 0"
  using js_comparator.neg_iff [OF js_comparator_mode_compare, of h m b a]
  by (auto simp: ascends_def column_before_compare row_compare_def)

lemma row_before_compare:
  "row_before h options a b \<longleftrightarrow>
     commanderEntryCompare h (opt_sortMode options) (opt_sortDirection options) (opt_dirsFirst options) a b \<le> 0"
proof -
  have "0 \<le> row_compare h m a b \<longleftrightarrow> row_compare h m b a \<le> 0" for m
    using js_comparator.neg_iff [OF js_comparator_row_compare, of h m a b] by linarith
  then show ?thesis
    by (cases "opt_sortDirection options") (auto simp: row_before_def ascends_compare commanderEntryCompare_lex folder_rank_def)
qed

lemma filter_swap: "filter P (filter Q xs) = filter Q (filter P xs)"
  by (simp add: conj_commute)

lemma projectCommanderEntries_filter:
  "projectCommanderEntries h es options q = filter (row_shown h options q) (sortCommanderEntries h
     (filter (\<lambda>e. opt_showHidden options \<or> \<not> entry_hidden e) es) (opt_sortMode options) (opt_sortDirection options)
     (opt_dirsFirst options))"
proof -
  have "e \<in> set (sortCommanderEntries h (filter (\<lambda>e. opt_showHidden options \<or> \<not> entry_hidden e) es) m d f) \<Longrightarrow>
      opt_showHidden options \<or> \<not> entry_hidden e" for e m d f by simp
  then show ?thesis
    by (auto simp: projectCommanderEntries_def filterEntriesByMask_def matched_entries_wildcard row_shown_def Let_def
        intro!: filter_cong filter_True [symmetric])
qed

text \<open>
  C6: the rows of a pane are the entries of its directory that are shown and match the filter, each as
  often as it is listed, in the promised order for every sort mode, direction and collation, with folders
  first where that is set, and entries that the order does not tell apart stay in the order of the listing.
\<close>

theorem pane_rows_ordered:
  "mset (projectCommanderEntries h es options q) = mset (filter (row_shown h options q) es)
   \<and> sorted_wrt (row_before h options) (projectCommanderEntries h es options q)
   \<and> filter (\<lambda>e. row_before h options z e \<and> row_before h options e z) (projectCommanderEntries h es options q)
     = filter (\<lambda>e. row_before h options z e \<and> row_before h options e z) (filter (row_shown h options q) es)"
proof -
  let ?cmp = "commanderEntryCompare h (opt_sortMode options) (opt_sortDirection options) (opt_dirsFirst options)"
  let ?visible = "filter (\<lambda>e. opt_showHidden options \<or> \<not> entry_hidden e) es"
  have rows: "projectCommanderEntries h es options q = filter (row_shown h options q) (js_sort ?cmp ?visible)"
    by (simp add: projectCommanderEntries_filter sortCommanderEntries_def)
  have shown: "filter (row_shown h options q) ?visible = filter (row_shown h options q) es"
    by (auto simp: row_shown_def [abs_def])
  have tied: "row_before h options z e \<and> row_before h options e z \<longleftrightarrow> ?cmp z e = 0" for e
    by (simp add: row_before_compare entry_order.zero_iff [of h _ _ _ z e])
  have "mset (filter (row_shown h options q) (js_sort ?cmp ?visible)) = mset (filter (row_shown h options q) ?visible)"
    by (simp only: mset_filter mset_js_sort)
  moreover have "sorted_wrt (row_before h options) (js_sort ?cmp ?visible)"
    using entry_order.sorted_sort by (simp add: row_before_compare [abs_def])
  moreover have "filter (\<lambda>e. ?cmp z e = 0) (filter (row_shown h options q) (js_sort ?cmp ?visible))
      = filter (\<lambda>e. ?cmp z e = 0) (filter (row_shown h options q) ?visible)"
    unfolding filter_swap [of "\<lambda>e. ?cmp z e = 0" "row_shown h options q"] entry_order.stable_sort by simp
  ultimately show ?thesis unfolding rows tied shown [symmetric] by (simp add: sorted_wrt_filter)
qed

text \<open>With folders first, every folder comes before every file and link, in both directions of every
  sort mode: reversing the sort reverses the order inside the two groups only.\<close>

theorem sortCommanderEntries_folders_first:
  "sortCommanderEntries h es m d True =
     filter (\<lambda>e. entry_kind e = Folder) (sortCommanderEntries h es m d True)
     @ filter (\<lambda>e. entry_kind e \<noteq> Folder) (sortCommanderEntries h es m d True)"
  unfolding sortCommanderEntries_def
  by (rule sorted_partition [OF entry_order.sorted_sort]) (rule folder_compare_le)

text \<open>The rows of a pane are exactly the entries of its directory that are shown (not hidden, or
  hidden entries are shown) and that match the filter; a filter with no pattern matches every entry.\<close>

theorem set_projectCommanderEntries_iff:
  "e \<in> set (projectCommanderEntries h dir_entries options q) \<longleftrightarrow>
     e \<in> set dir_entries \<and> \<not> (entry_hidden e \<and> \<not> opt_showHidden options)
     \<and> (splitCommanderMaskPatterns q = []
        \<or> (\<exists>p. p \<in> set (splitCommanderMaskPatterns q) \<and> wildcard h p (entry_name e)))"
  by (auto simp: projectCommanderEntries_def filterEntriesByMask_def Let_def
      matched_entries_wildcard)

text \<open>Walking back through the local history of a pane undoes navigation: after visiting any sequence
  of paths, one step back per visit restores the path and the back stack, and the forward stack
  replays the visits.\<close>

theorem navigatePaneHistory_undoes_navigation:
  assumes "path (getPaneState w i) \<noteq> []" and "ps \<noteq> []" and "[] \<notin> set ps"
    and "distinct_adj (path (getPaneState w i) # ps)"
  shows "pane_hist i (((\<lambda>w. navigatePaneHistory h w i HistoryBack) ^^ length ps)
            (foldl (\<lambda>w p. navigatePaneState h w i p) w ps))
         = (historyBack (getPaneState w i), path (getPaneState w i), rev ps)"
proof -
  have "pane_nav.visits h i qs v = foldl (\<lambda>w p. navigatePaneState h w i p) v qs" for qs v
    by (induction qs arbitrary: v) simp_all
  then show ?thesis
    using pane_nav.back_after_visits [OF pane_hist_def [of i w] assms, where h = h] by simp
qed

theorem navigatePaneHistory_undoes_navigation_witness:
  "pane_hist LeftPane (((\<lambda>w. navigatePaneHistory ascii_host w LeftPane HistoryBack) ^^ 2)
      (foldl (\<lambda>w p. navigatePaneState ascii_host w LeftPane p)
        ((createCommanderWidgetRuntimeState (js ''w'') None)
           \<lparr>leftPane := (createEmptyPaneState LeftPane)\<lparr>path := js ''/a''\<rparr>\<rparr>)
        [js ''/b'', js ''/c'']))
   = ([], js ''/a'', [js ''/c'', js ''/b''])"
  using navigatePaneHistory_undoes_navigation
    [of "(createCommanderWidgetRuntimeState (js ''w'') None)
           \<lparr>leftPane := (createEmptyPaneState LeftPane)\<lparr>path := js ''/a''\<rparr>\<rparr>" LeftPane
        "[js ''/b'', js ''/c'']" ascii_host]
  by (simp add: createEmptyPaneState_def numeral_2_eq_2)

end
