(* ===== verification/Commander_Selection.thy ===== *)
theory Commander_Selection
  imports Commander_Pane
begin

text \<open>
  Cursor, selection and match operations on one pane,
  \<^verbatim>\<open>features/commander/model/store-selection.ts\<close>. Every operation moves the cursor, the anchor or the
  selection over the visible rows and leaves the rest of the pane alone; locale \<open>row_operation\<close> is
  that contract, and what a widget keeps of it is proved there once.
\<close>

section \<open>Cursor and range\<close>

datatype cursor_boundary = BoundaryStart | BoundaryEnd

definition entry_index :: "CommanderPaneRuntimeState \<Rightarrow> jsstring \<Rightarrow> int" where
  "entry_index paneState entryId = js_findIndex (\<lambda>entry. entry_id entry = entryId) (entries paneState)"

definition cursor_target_index :: "CommanderPaneRuntimeState \<Rightarrow> int \<Rightarrow> int" where
  "cursor_target_index paneState delta =
     (let currentCursorIndex =
            (if js_truthy (cursorEntryId paneState)
             then entry_index paneState (the (cursorEntryId paneState)) else -1);
          startIndex = (if currentCursorIndex = -1 then 0 else currentCursorIndex)
      in min (int (length (entries paneState)) - 1) (max 0 (startIndex + delta)))"

definition movePaneCursor :: "CommanderPaneRuntimeState \<Rightarrow> int \<Rightarrow> CommanderPaneRuntimeState" where
  "movePaneCursor paneState delta =
     (if entries paneState = [] then paneState
      else
        (let nextCursorIndex = cursor_target_index paneState delta in
         paneState\<lparr>cursorEntryId := map_option entry_id (js_nth (entries paneState) nextCursorIndex),
                   selectionAnchorEntryId := map_option entry_id (js_nth (entries paneState) nextCursorIndex)\<rparr>))"

definition boundary_entry :: "CommanderPaneRuntimeState \<Rightarrow> cursor_boundary \<Rightarrow> jsstring option" where
  "boundary_entry paneState boundary =
     (if boundary = BoundaryStart then map_option entry_id (js_nth (entries paneState) 0)
      else map_option entry_id (js_nth (entries paneState) (int (length (entries paneState)) - 1)))"

definition setCursorToBoundary ::
    "CommanderPaneRuntimeState \<Rightarrow> cursor_boundary \<Rightarrow> CommanderPaneRuntimeState" where
  "setCursorToBoundary paneState boundary =
     (if entries paneState = [] then paneState
      else paneState\<lparr>cursorEntryId := boundary_entry paneState boundary,
                     selectionAnchorEntryId := boundary_entry paneState boundary\<rparr>)"

definition setSelectionRangeAtCursor ::
    "CommanderPaneRuntimeState \<Rightarrow> jsstring \<Rightarrow> CommanderPaneRuntimeState" where
  "setSelectionRangeAtCursor paneState targetEntryId =
     (let targetIndex = entry_index paneState targetEntryId in
      if targetIndex = -1 then paneState
      else
        (let anchorEntryId = js_default (js_nullish (selectionAnchorEntryId paneState)
               (cursorEntryId paneState)) targetEntryId;
             anchorIndex = entry_index paneState anchorEntryId;
             resolvedAnchorIndex = (if anchorIndex = -1 then targetIndex else anchorIndex);
             (rangeStartIndex, rangeEndIndex) =
               (if resolvedAnchorIndex \<le> targetIndex then (resolvedAnchorIndex, targetIndex)
                else (targetIndex, resolvedAnchorIndex))
         in paneState\<lparr>cursorEntryId := Some targetEntryId,
                      selectionAnchorEntryId := Some anchorEntryId,
                      selectedIds := map entry_id
                        (js_slice rangeStartIndex (rangeEndIndex + 1) (entries paneState))\<rparr>))"

definition movePaneCursorWithSelection ::
    "CommanderPaneRuntimeState \<Rightarrow> int \<Rightarrow> CommanderPaneRuntimeState" where
  "movePaneCursorWithSelection paneState delta =
     (if entries paneState = [] then paneState
      else
        (let nextCursorEntryId =
               map_option entry_id (js_nth (entries paneState) (cursor_target_index paneState delta))
         in if \<not> js_truthy nextCursorEntryId then paneState
            else setSelectionRangeAtCursor paneState (the nextCursorEntryId)))"

definition setCursorToBoundaryWithSelection ::
    "CommanderPaneRuntimeState \<Rightarrow> cursor_boundary \<Rightarrow> CommanderPaneRuntimeState" where
  "setCursorToBoundaryWithSelection paneState boundary =
     (if entries paneState = [] then paneState
      else
        (let targetEntryId = boundary_entry paneState boundary in
         if \<not> js_truthy targetEntryId then paneState
         else setSelectionRangeAtCursor paneState (the targetEntryId)))"

definition toggleEntrySelection ::
    "CommanderPaneRuntimeState \<Rightarrow> jsstring \<Rightarrow> CommanderPaneRuntimeState" where
  "toggleEntrySelection paneState entryId =
     (if \<not> list_ex (\<lambda>entry. entry_id entry = entryId) (entries paneState) then paneState
      else paneState
        \<lparr>selectedIds := (if entryId \<in> set (selectedIds paneState)
           then filter (\<lambda>selectedId. selectedId \<noteq> entryId) (selectedIds paneState)
           else selectedIds paneState @ [entryId]),
         selectionAnchorEntryId := Some entryId\<rparr>)"

section \<open>Matches\<close>

record CommanderMatches =
  match_entryIds :: "jsstring list"
  match_entryNames :: "jsstring list"

definition matches_of :: "CommanderDirectoryEntry list \<Rightarrow> CommanderMatches" where
  "matches_of es = \<lparr>match_entryIds = map entry_id es, match_entryNames = map entry_name es\<rparr>"

definition getCommanderMaskMatches ::
    "host \<Rightarrow> CommanderPaneRuntimeState \<Rightarrow> jsstring \<Rightarrow> CommanderMatches" where
  "getCommanderMaskMatches h paneState msk =
     (let matchedEntries = getCommanderMatchedEntries h (entries paneState) msk False in
      if matchedEntries = [] then matches_of [] else matches_of matchedEntries)"

definition getCommanderFilterMatches ::
    "host \<Rightarrow> CommanderWidgetRuntimeState \<Rightarrow> CommanderPaneId \<Rightarrow> jsstring \<Rightarrow> CommanderMatches" where
  "getCommanderFilterMatches h widgetState paneId msk =
     (let paneState = (if paneId = LeftPane then leftPane widgetState else rightPane widgetState);
          visibleEntries = filter (\<lambda>e. showHidden widgetState \<or> \<not> entry_hidden e) (directoryEntries paneState)
      in matches_of (getCommanderMatchedEntries h visibleEntries msk True))"

definition getCommanderSearchMatches ::
    "host \<Rightarrow> CommanderPaneRuntimeState \<Rightarrow> jsstring \<Rightarrow> CommanderMatches" where
  "getCommanderSearchMatches h paneState query =
     (let normalizedQuery = toLocaleLowerCase h (js_trim query) in
      if normalizedQuery = [] then matches_of []
      else matches_of (filter
        (\<lambda>entry. js_includes (toLocaleLowerCase h (entry_name entry)) normalizedQuery) (entries paneState)))"

definition getCommanderResolvedSearchMatchIndex ::
    "jsstring list \<Rightarrow> jsstring option \<Rightarrow> int \<Rightarrow> int" where
  "getCommanderResolvedSearchMatchIndex ids cursor fallbackIndex =
     (if ids = [] then -1
      else if js_truthy cursor \<and> js_findIndex (\<lambda>i. i = the cursor) ids \<noteq> -1
      then js_findIndex (\<lambda>i. i = the cursor) ids
      else max 0 (min fallbackIndex (int (length ids) - 1)))"

section \<open>Selection by mask\<close>

datatype selection_mode = ModeSelect | ModeUnselect

definition applySelectionMaskToPane ::
    "host \<Rightarrow> CommanderPaneRuntimeState \<Rightarrow> jsstring \<Rightarrow> selection_mode \<Rightarrow> CommanderPaneRuntimeState" where
  "applySelectionMaskToPane h paneState msk mode =
     (let matched = match_entryIds (getCommanderMaskMatches h paneState msk);
          nextSelectedIds =
            (if mode = ModeSelect
             then map entry_id (filter
               (\<lambda>entry. entry_id entry \<in> set (selectedIds paneState) \<or> entry_id entry \<in> set matched)
               (entries paneState))
             else filter (\<lambda>entryId. entryId \<notin> set matched) (selectedIds paneState))
      in paneState\<lparr>selectedIds := nextSelectedIds,
                   selectionAnchorEntryId := js_nullish (selectionAnchorEntryId paneState)
                     (js_nullish (cursorEntryId paneState) (js_nth nextSelectedIds 0))\<rparr>)"

definition invertPaneSelection :: "CommanderPaneRuntimeState \<Rightarrow> CommanderPaneRuntimeState" where
  "invertPaneSelection paneState =
     (let nextSelectedIds = map entry_id
            (filter (\<lambda>entry. entry_id entry \<notin> set (selectedIds paneState)) (entries paneState))
      in paneState\<lparr>selectedIds := nextSelectedIds,
                   selectionAnchorEntryId := js_nullish (cursorEntryId paneState) (js_nth nextSelectedIds 0)\<rparr>)"

section \<open>The contract of a row operation\<close>

definition same_rows :: "CommanderPaneRuntimeState \<Rightarrow> CommanderPaneRuntimeState \<Rightarrow> bool" where
  "same_rows p q \<longleftrightarrow>
     q = p\<lparr>cursorEntryId := cursorEntryId q, selectionAnchorEntryId := selectionAnchorEntryId q,
           selectedIds := selectedIds q\<rparr>"

definition widget_projected :: "host \<Rightarrow> CommanderWidgetRuntimeState \<Rightarrow> bool" where
  "widget_projected h w \<longleftrightarrow>
     pane_projected h (projection_options w) (leftPane w)
     \<and> pane_projected h (projection_options w) (rightPane w)"

definition widget_consistent :: "CommanderWidgetRuntimeState \<Rightarrow> bool" where
  "widget_consistent w \<longleftrightarrow> pane_consistent (leftPane w) \<and> pane_consistent (rightPane w)"

lemma widget_projected_iff:
  "widget_projected h w \<longleftrightarrow> (\<forall>i. pane_projected h (projection_options w) (getPaneState w i))"
  by (metis (full_types) CommanderPaneId.exhaust getPaneState_simps widget_projected_def)

lemma widget_consistent_iff: "widget_consistent w \<longleftrightarrow> (\<forall>i. pane_consistent (getPaneState w i))"
  by (metis (full_types) CommanderPaneId.exhaust getPaneState_simps widget_consistent_def)

lemma same_rows_fields:
  assumes "same_rows p q"
  shows "entries q = entries p" "directoryEntries q = directoryEntries p" "filterQuery q = filterQuery p"
    "path q = path p" "pane_id q = pane_id p" "historyBack q = historyBack p"
    "historyForward q = historyForward p" "isLoading q = isLoading p" "errorMessage q = errorMessage p"
  using assms unfolding same_rows_def
  by (metis (no_types, lifting) CommanderPaneRuntimeState.simps CommanderPaneRuntimeState.surjective
      CommanderPaneRuntimeState.update_convs)+

lemma same_rows_update [simp, intro]:
  "same_rows p p"
  "same_rows p (p\<lparr>cursorEntryId := c, selectionAnchorEntryId := a\<rparr>)"
  "same_rows p (p\<lparr>cursorEntryId := c, selectionAnchorEntryId := a, selectedIds := s\<rparr>)"
  "same_rows p (p\<lparr>selectedIds := s, selectionAnchorEntryId := a\<rparr>)"
  by (cases p; simp add: same_rows_def)+

locale row_operation =
  fixes op :: "CommanderPaneRuntimeState \<Rightarrow> CommanderPaneRuntimeState"
  assumes rows: "same_rows p (op p)"
    and consistent: "pane_consistent p \<Longrightarrow> pane_consistent (op p)"
begin

lemma projected: "pane_projected h options p \<Longrightarrow> pane_projected h options (op p)"
  using same_rows_fields [OF rows [of p]] by (simp add: pane_projected_def)

lemma update_projected: "widget_projected h w \<Longrightarrow> widget_projected h (updatePaneState w i op)"
  by (simp add: widget_projected_iff store_simps projected)

lemma update_consistent: "widget_consistent w \<Longrightarrow> widget_consistent (updatePaneState w i op)"
  by (simp add: widget_consistent_iff store_simps consistent)

end

section \<open>Every operation meets the contract\<close>

lemma focus_ok_row: "e \<in> set (entries p) \<Longrightarrow> focus_ok (pane_ids p) (Some (entry_id e))"
  by (simp add: pane_ids_def)

lemma focus_ok_nth:
  assumes "0 \<le> k" and "k < int (length (entries p))"
  shows "focus_ok (pane_ids p) (map_option entry_id (js_nth (entries p) k))"
  using js_nth_in_range [OF assms] focus_ok_row by auto

lemma cursor_target_index_range:
  assumes "entries p \<noteq> []"
  shows "0 \<le> cursor_target_index p delta" "cursor_target_index p delta < int (length (entries p))"
  using assms by (cases "entries p"; simp add: cursor_target_index_def Let_def)+

lemma boundary_entry_focus: "entries p \<noteq> [] \<Longrightarrow> focus_ok (pane_ids p) (boundary_entry p b)"
  using focus_ok_nth [of 0 p] focus_ok_nth [of "int (length (entries p)) - 1" p]
  by (cases "entries p") (auto simp: boundary_entry_def simp del: focus_ok_simps)

lemma pane_ids_update [simp]:
  "pane_ids (p\<lparr>cursorEntryId := c, selectionAnchorEntryId := a\<rparr>) = pane_ids p"
  "pane_ids (p\<lparr>cursorEntryId := c, selectionAnchorEntryId := a, selectedIds := s\<rparr>) = pane_ids p"
  "pane_ids (p\<lparr>selectedIds := s, selectionAnchorEntryId := a\<rparr>) = pane_ids p"
  by (simp_all add: pane_ids_def)

lemma entry_index_found:
  "entry_index p t \<noteq> -1 \<longleftrightarrow> t \<in> set (pane_ids p)"
  by (auto simp: entry_index_def pane_ids_def)

lemma slice_ids: "set (map entry_id (js_slice a b (entries p))) \<subseteq> set (pane_ids p)"
  using set_js_slice [of a b "entries p"] by (auto simp: pane_ids_def)

lemma anchor_focus:
  assumes "pane_consistent p" and "t \<in> set (pane_ids p)"
  shows "js_default (js_nullish (selectionAnchorEntryId p) (cursorEntryId p)) t \<in> set (pane_ids p)"
  using assms by (auto simp: pane_consistent_def js_default_def js_nullish_def split: option.splits)

interpretation move_op: row_operation "\<lambda>p. movePaneCursor p delta" for delta
proof
  fix p
  show "same_rows p (movePaneCursor p delta)" by (simp add: movePaneCursor_def Let_def)
  show "pane_consistent p \<Longrightarrow> pane_consistent (movePaneCursor p delta)"
    using focus_ok_nth [OF cursor_target_index_range, of p delta]
    by (auto simp: movePaneCursor_def pane_consistent_def Let_def simp del: focus_ok_simps)
qed

interpretation boundary_op: row_operation "\<lambda>p. setCursorToBoundary p b" for b
proof
  fix p
  show "same_rows p (setCursorToBoundary p b)" by (simp add: setCursorToBoundary_def)
  show "pane_consistent p \<Longrightarrow> pane_consistent (setCursorToBoundary p b)"
    using boundary_entry_focus [of p b]
    by (auto simp: setCursorToBoundary_def pane_consistent_def simp del: focus_ok_simps)
qed

interpretation range_op: row_operation "\<lambda>p. setSelectionRangeAtCursor p t" for t
proof
  fix p
  show "same_rows p (setSelectionRangeAtCursor p t)"
    by (auto simp: setSelectionRangeAtCursor_def Let_def split: prod.splits)
  show "pane_consistent p \<Longrightarrow> pane_consistent (setSelectionRangeAtCursor p t)"
    using anchor_focus [of p t] slice_ids [of _ _ p] entry_index_found [of p t]
    by (auto simp: setSelectionRangeAtCursor_def pane_consistent_def Let_def split: prod.splits)
qed

interpretation move_range_op: row_operation "\<lambda>p. movePaneCursorWithSelection p delta" for delta
  by unfold_locales
     (auto simp: movePaneCursorWithSelection_def Let_def intro: range_op.rows range_op.consistent)

interpretation boundary_range_op: row_operation "\<lambda>p. setCursorToBoundaryWithSelection p b" for b
  by unfold_locales
     (auto simp: setCursorToBoundaryWithSelection_def Let_def intro: range_op.rows range_op.consistent)

interpretation toggle_op: row_operation "\<lambda>p. toggleEntrySelection p t" for t
  by unfold_locales
     (auto simp: toggleEntrySelection_def pane_consistent_def list_ex_iff pane_ids_def)

interpretation mask_op: row_operation "\<lambda>p. applySelectionMaskToPane h p m mode" for h m mode
proof
  fix p
  show "same_rows p (applySelectionMaskToPane h p m mode)" by (simp add: applySelectionMaskToPane_def Let_def)
  show "pane_consistent (applySelectionMaskToPane h p m mode)" if "pane_consistent p"
  proof -
    let ?s = "selectedIds (applySelectionMaskToPane h p m mode)"
    have "set ?s \<subseteq> set (pane_ids p)"
      using that by (auto simp: applySelectionMaskToPane_def pane_consistent_def pane_ids_def Let_def)
    moreover from this have "focus_ok (pane_ids p)
        (js_nullish (selectionAnchorEntryId p) (js_nullish (cursorEntryId p) (js_nth ?s 0)))"
      using that js_nth_Some_in_set [of ?s 0]
      by (cases "selectionAnchorEntryId p"; cases "cursorEntryId p") (auto simp: pane_consistent_def js_nth_def)
    ultimately show ?thesis
      using that by (simp add: applySelectionMaskToPane_def pane_consistent_def Let_def)
  qed
qed

interpretation invert_op: row_operation invertPaneSelection
proof
  fix p
  show "same_rows p (invertPaneSelection p)" by (simp add: invertPaneSelection_def Let_def)
  show "pane_consistent p \<Longrightarrow> pane_consistent (invertPaneSelection p)"
    by (cases "cursorEntryId p")
       (auto simp: invertPaneSelection_def pane_consistent_def pane_ids_def Let_def js_nth_def)
qed

section \<open>Properties\<close>

lemma entry_index_eq_findIndex: "entry_index p t = js_findIndex (\<lambda>i. i = t) (pane_ids p)"
  by (simp add: entry_index_def pane_ids_def js_findIndex_map)

lemma entry_index_nth:
  assumes "distinct (pane_ids p)" and "k < length (entries p)"
  shows "entry_index p (entry_id (entries p ! k)) = int k"
  using js_findIndex_eq_nth [OF assms(1), of k] assms(2)
  by (simp add: entry_index_eq_findIndex pane_ids_def)

text \<open>C10: moving the cursor by a delta moves it by that many rows and stops at the first and the last
  row: from the row \<open>k\<close> it goes to the row \<open>k + delta\<close> clamped to the visible rows, the anchor goes
  with it and the selection stays.\<close>

theorem movePaneCursor_clamps:
  assumes "distinct (pane_ids p)" and "k < length (entries p)" and "entry_id (entries p ! k) \<noteq> []"
    and "cursorEntryId p = Some (entry_id (entries p ! k))"
  shows "\<exists>j. int j = min (int (length (entries p)) - 1) (max 0 (int k + delta)) \<and> j < length (entries p)
      \<and> cursorEntryId (movePaneCursor p delta) = Some (entry_id (entries p ! j))
      \<and> selectionAnchorEntryId (movePaneCursor p delta) = cursorEntryId (movePaneCursor p delta)
      \<and> selectedIds (movePaneCursor p delta) = selectedIds p"
proof -
  have ne: "entries p \<noteq> []" using assms(2) by auto
  have target: "cursor_target_index p delta = min (int (length (entries p)) - 1) (max 0 (int k + delta))"
    using assms entry_index_nth [OF assms(1,2)] by (simp add: cursor_target_index_def)
  define j where "j = nat (cursor_target_index p delta)"
  have j: "int j = cursor_target_index p delta" "j < length (entries p)"
    using cursor_target_index_range [OF ne, of delta] by (auto simp: j_def)
  show ?thesis
    using j target ne js_nth_int [OF j(2)]
    by (intro exI [of _ j]) (simp add: movePaneCursor_def Let_def)
qed

definition sample_entry :: "string \<Rightarrow> CommanderDirectoryEntry" where
  "sample_entry n =
     \<lparr>entry_id = js ''/w::'' @ js n, entry_name = js n, entry_ext = [], entry_kind = File,
      entry_sizeLabel = [], entry_sizeBytes = None, entry_modified = [], entry_hidden = False,
      entry_gitStatus = None, entry_executable = None, entry_symlinkTarget = None\<rparr>"

definition sample_pane :: CommanderPaneRuntimeState where
  "sample_pane =
     \<lparr>pane_id = LeftPane, path = js ''/w'', filterQuery = [],
      directoryEntries = [sample_entry ''a'', sample_entry ''b'', sample_entry ''c''],
      entries = [sample_entry ''a'', sample_entry ''b'', sample_entry ''c''],
      cursorEntryId = Some (js ''/w::b''), selectionAnchorEntryId = Some (js ''/w::b''),
      selectedIds = [], historyBack = [], historyForward = [], isLoading = False, errorMessage = None\<rparr>"

theorem movePaneCursor_clamps_witness:
  "\<exists>j. int j = min (int (length (entries sample_pane)) - 1) (max 0 (1 + 5)) \<and> j < length (entries sample_pane)
      \<and> cursorEntryId (movePaneCursor sample_pane 5) = Some (entry_id (entries sample_pane ! j))
      \<and> selectionAnchorEntryId (movePaneCursor sample_pane 5) = cursorEntryId (movePaneCursor sample_pane 5)
      \<and> selectedIds (movePaneCursor sample_pane 5) = selectedIds sample_pane"
  using movePaneCursor_clamps [of sample_pane 1 5]
  by (simp add: sample_pane_def sample_entry_def pane_ids_def)

lemma entry_index_row:
  assumes "t \<in> set (pane_ids p)"
  obtains k where "entry_index p t = int k" "k < length (pane_ids p)" "pane_ids p ! k = t"
  using assms by (cases rule: js_findIndex_cases [of "\<lambda>i. i = t" "pane_ids p"])
    (auto simp: entry_index_eq_findIndex)

lemma range_with_anchor:
  assumes "selectionAnchorEntryId q = Some a" and "a \<in> set (pane_ids q)" and "u \<in> set (pane_ids q)"
  shows "setSelectionRangeAtCursor q u =
     q\<lparr>cursorEntryId := Some u, selectionAnchorEntryId := Some a,
       selectedIds := js_slice (min (entry_index q a) (entry_index q u))
         (max (entry_index q a) (entry_index q u) + 1) (pane_ids q)\<rparr>"
proof -
  have "entry_index q a \<noteq> -1" "entry_index q u \<noteq> -1"
    using assms(2,3) entry_index_found by blast+
  then show ?thesis
    using assms(1) by (simp add: setSelectionRangeAtCursor_def map_js_slice pane_ids_def Let_def min_def max_def)
qed

text \<open>Extending a selection is independent of the way: while the anchor stays, the selected range
  depends on the last target only, so extending to one row and then to another is the same as
  extending to the second at once. The range is contiguous and holds the anchor and the target.\<close>

theorem setSelectionRangeAtCursor_absorbs:
  assumes "pane_consistent p" and "t \<in> set (pane_ids p)" and "u \<in> set (pane_ids p)"
    and "selectionAnchorEntryId p = Some a"
  shows "setSelectionRangeAtCursor (setSelectionRangeAtCursor p t) u = setSelectionRangeAtCursor p u
    \<and> a \<in> set (selectedIds (setSelectionRangeAtCursor p u)) \<and> u \<in> set (selectedIds (setSelectionRangeAtCursor p u))
    \<and> (\<exists>xs zs. pane_ids p = xs @ selectedIds (setSelectionRangeAtCursor p u) @ zs)"
proof -
  have a: "a \<in> set (pane_ids p)" using assms(1,4) by (simp add: pane_consistent_def)
  obtain i where i: "entry_index p a = int i" "i < length (pane_ids p)" "pane_ids p ! i = a"
    using a by (rule entry_index_row)
  obtain k where k: "entry_index p u = int k" "k < length (pane_ids p)" "pane_ids p ! k = u"
    using assms(3) by (rule entry_index_row)
  note range_p = range_with_anchor [OF assms(4) a]
  have rows: "pane_ids (setSelectionRangeAtCursor p t) = pane_ids p"
    using same_rows_fields(1) [OF range_op.rows [of p t]] by (simp add: pane_ids_def)
  have "setSelectionRangeAtCursor (setSelectionRangeAtCursor p t) u = setSelectionRangeAtCursor p u"
    using range_with_anchor [of "setSelectionRangeAtCursor p t" a u] rows a assms(3)
    by (simp add: range_p [OF assms(2)] range_p [OF assms(3)] entry_index_eq_findIndex)
  moreover have "selectedIds (setSelectionRangeAtCursor p u)
      = js_slice (min (int i) (int k)) (max (int i) (int k) + 1) (pane_ids p)"
    by (simp add: range_p [OF assms(3)] i k)
  moreover have "a \<in> set (js_slice (min (int i) (int k)) (max (int i) (int k) + 1) (pane_ids p))"
    and "u \<in> set (js_slice (min (int i) (int k)) (max (int i) (int k) + 1) (pane_ids p))"
    using nth_in_js_slice [of _ i _ "pane_ids p"] nth_in_js_slice [of _ k _ "pane_ids p"] i k by auto
  moreover have "min (int i) (int k) \<le> max (int i) (int k) + 1" by linarith
  ultimately show ?thesis
    using js_slice_split [of "min (int i) (int k)" "max (int i) (int k) + 1" "pane_ids p"] by metis
qed

theorem setSelectionRangeAtCursor_absorbs_witness:
  "setSelectionRangeAtCursor (setSelectionRangeAtCursor sample_pane (js ''/w::a'')) (js ''/w::c'')
     = setSelectionRangeAtCursor sample_pane (js ''/w::c'')
   \<and> js ''/w::b'' \<in> set (selectedIds (setSelectionRangeAtCursor sample_pane (js ''/w::c'')))"
  using setSelectionRangeAtCursor_absorbs [of sample_pane "js ''/w::a''" "js ''/w::c''" "js ''/w::b''"]
  by (simp add: sample_pane_def sample_entry_def pane_consistent_def pane_ids_def)

text \<open>Selection by mask and its inversion are the set operations their names say, on the visible rows:
  selecting adds the matched rows, unselecting removes them, inverting takes the complement.\<close>

theorem selection_operations_sets:
  assumes "pane_consistent p"
  shows "set (selectedIds (applySelectionMaskToPane h p m ModeSelect))
      = set (selectedIds p) \<union> set (match_entryIds (getCommanderMaskMatches h p m))
    \<and> set (selectedIds (applySelectionMaskToPane h p m ModeUnselect))
      = set (selectedIds p) - set (match_entryIds (getCommanderMaskMatches h p m))
    \<and> set (selectedIds (invertPaneSelection p)) = set (pane_ids p) - set (selectedIds p)
    \<and> set (selectedIds (invertPaneSelection (invertPaneSelection p))) = set (selectedIds p)"
proof -
  have matched: "set (match_entryIds (getCommanderMaskMatches h p m)) \<subseteq> set (pane_ids p)"
    using set_getCommanderMatchedEntries [of h "entries p" m False]
    by (auto simp: getCommanderMaskMatches_def matches_of_def pane_ids_def Let_def)
  have selected: "set (selectedIds p) \<subseteq> set (pane_ids p)"
    using assms by (simp add: pane_consistent_def)
  have invert: "set (selectedIds (invertPaneSelection q)) = set (pane_ids q) - set (selectedIds q)" for q
    by (auto simp: invertPaneSelection_def pane_ids_def Let_def)
  have rows: "pane_ids (invertPaneSelection p) = pane_ids p"
    by (simp add: invertPaneSelection_def pane_ids_def Let_def)
  have select: "set (selectedIds (applySelectionMaskToPane h p m ModeSelect))
      = set (pane_ids p) \<inter> (set (selectedIds p) \<union> set (match_entryIds (getCommanderMaskMatches h p m)))"
    by (auto simp: applySelectionMaskToPane_def pane_ids_def Let_def)
  have unselect: "set (selectedIds (applySelectionMaskToPane h p m ModeUnselect))
      = set (selectedIds p) - set (match_entryIds (getCommanderMaskMatches h p m))"
    by (auto simp: applySelectionMaskToPane_def Let_def)
  show ?thesis
    unfolding select unselect invert rows using matched selected by auto
qed

theorem selection_operations_sets_witness:
  "set (selectedIds (invertPaneSelection (invertPaneSelection sample_pane))) = set (selectedIds sample_pane)
   \<and> set (selectedIds (invertPaneSelection sample_pane)) = set (pane_ids sample_pane) - set (selectedIds sample_pane)"
  using selection_operations_sets [of sample_pane ascii_host "js ''*''"]
  by (simp add: sample_pane_def sample_entry_def pane_consistent_def pane_ids_def)

end
