(* ===== verification/Commander_Preview.thy ===== *)
theory Commander_Preview
  imports Commander_Pane
begin

text \<open>
  Names of copies and renames, \<^verbatim>\<open>features/commander/model/operation-preview.ts\<close>: clone names, the
  rename template language (\<open>[N]\<close>, \<open>[E]\<close>, \<open>[F]\<close> with case modifiers and the counter
  \<open>[C:start:width:step]\<close>), and the preview that detects duplicate and conflicting targets. The
  regular expressions of the template language are written as the scanners they denote; counters are
  natural numbers, which is what the source computes below \<open>2^53\<close>.
\<close>

section \<open>Names\<close>

definition splitEntryBaseNameAndExt :: "host \<Rightarrow> CommanderDirectoryEntry \<Rightarrow> jsstring \<times> jsstring" where
  "splitEntryBaseNameAndExt h entry =
     (if entry_kind entry \<noteq> File \<or> entry_ext entry = [] then (entry_name entry, [])
      else
        (let expectedSuffix = dot # entry_ext entry in
         if js_endsWith (toLocaleLowerCase h (entry_name entry)) (toLocaleLowerCase h expectedSuffix)
         then (take (length (entry_name entry) - length expectedSuffix) (entry_name entry), entry_ext entry)
         else (entry_name entry, entry_ext entry)))"

definition normalizeEntryName :: "host \<Rightarrow> jsstring \<Rightarrow> jsstring" where
  "normalizeEntryName h name = toLowerCase h (js_trim name)"

definition buildCommanderCloneName :: "host \<Rightarrow> CommanderDirectoryEntry \<Rightarrow> nat \<Rightarrow> jsstring" where
  "buildCommanderCloneName h entry suffixIndex =
     (let (baseName, ext) = splitEntryBaseNameAndExt h entry;
          suffix = (if suffixIndex \<le> 1 then js ''-copy'' else js ''-copy-'' @ js_of_nat suffixIndex)
      in if entry_kind entry = File \<and> ext \<noteq> [] then baseName @ suffix @ [dot] @ ext
         else entry_name entry @ suffix)"

definition formatRenameCounter :: "nat \<Rightarrow> nat option \<Rightarrow> jsstring" where
  "formatRenameCounter counter width =
     (let counterValue = js_of_nat counter in
      case width of
        None \<Rightarrow> counterValue
      | Some w \<Rightarrow> if w = 0 \<or> w \<le> length counterValue then counterValue else js_padStart counterValue w 48)"

definition applyRenameTextTransform :: "host \<Rightarrow> jsstring \<Rightarrow> jsstring option \<Rightarrow> jsstring" where
  "applyRenameTextTransform h value modifier =
     (case map_option (toLowerCase h) modifier of
        None \<Rightarrow> value
      | Some m \<Rightarrow>
          if m = js ''l'' then toLocaleLowerCase h value
          else if m = js ''u'' then toLocaleUpperCase h value
          else value)"

section \<open>The template language\<close>

text \<open>One optional group \<^verbatim>\<open>(?::(\d+))?\<close>: its digits, if it matches, and the rest.\<close>

definition scan_number :: "jsstring \<Rightarrow> jsstring option \<times> jsstring" where
  "scan_number s =
     (case s of
        c # t \<Rightarrow> if c = colon \<and> takeWhile js_digit t \<noteq> []
                 then (Some (takeWhile js_digit t), dropWhile js_digit t) else (None, s)
      | [] \<Rightarrow> (None, s))"

text \<open>\<^verbatim>\<open>/\[C(?::(\d+))?(?::(\d+))?(?::(\d+))?\]/i\<close> at the start of a string: the groups and the rest.\<close>

definition scan_counter ::
    "jsstring \<Rightarrow> (jsstring option \<times> jsstring option \<times> jsstring option \<times> jsstring) option" where
  "scan_counter s =
     (case s of
        a # c # t \<Rightarrow>
          if a = lbracket \<and> (c = 67 \<or> c = 99) then
            (let (g1, t1) = scan_number t; (g2, t2) = scan_number t1; (g3, t3) = scan_number t2 in
             case t3 of b # rest \<Rightarrow> if b = rbracket then Some (g1, g2, g3, rest) else None | [] \<Rightarrow> None)
          else None
      | _ \<Rightarrow> None)"

definition counter_text ::
    "nat \<Rightarrow> jsstring option \<Rightarrow> jsstring option \<Rightarrow> jsstring option \<Rightarrow> jsstring" where
  "counter_text index g1 g2 g3 =
     (let first = map_option js_parse_nat g1; second = map_option js_parse_nat g2;
          third = map_option js_parse_nat g3;
          start = (if second \<noteq> None then js_default first 1 else 1);
          width = (if second \<noteq> None then second else first);
          step = (if third \<noteq> None then js_default third 1 else 1)
      in formatRenameCounter (start + index * step) width)"

text \<open>\<^verbatim>\<open>/\[(N|E|F)(?::([a-z]))?\]/i\<close> at the start of a string: the token, the modifier and the rest.\<close>

definition scan_name_token :: "jsstring \<Rightarrow> (code_unit \<times> jsstring option \<times> jsstring) option" where
  "scan_name_token s =
     (case s of
        a # k # t \<Rightarrow>
          if a = lbracket \<and> k \<in> set (js ''NEFnef'') then
            (case t of
               b # rest \<Rightarrow>
                 if b = rbracket then Some (k, None, rest)
                 else if b = colon then
                   (case rest of
                      m # e # rest' \<Rightarrow>
                        if js_ascii_letter m \<and> e = rbracket then Some (k, Some [m], rest') else None
                    | _ \<Rightarrow> None)
                 else None
             | [] \<Rightarrow> None)
          else None
      | _ \<Rightarrow> None)"

lemma scan_number_length: "scan_number s = (g, t) \<Longrightarrow> length t \<le> length s"
  by (auto simp: scan_number_def length_dropWhile_le le_Suc_eq split: list.splits if_splits)

lemma scan_counter_length: "scan_counter s = Some (g1, g2, g3, rest) \<Longrightarrow> length rest < length s"
  by (fastforce simp: scan_counter_def dest!: scan_number_length split: list.splits if_splits prod.splits)

lemma scan_name_token_length: "scan_name_token s = Some (k, m, rest) \<Longrightarrow> length rest < length s"
  by (auto simp: scan_name_token_def split: list.splits if_splits)

function replace_counters :: "nat \<Rightarrow> jsstring \<Rightarrow> jsstring" where
  "replace_counters index [] = []"
| "replace_counters index (c # s) =
     (case scan_counter (c # s) of
        Some (g1, g2, g3, rest) \<Rightarrow> counter_text index g1 g2 g3 @ replace_counters index rest
      | None \<Rightarrow> c # replace_counters index s)"
  by pat_completeness auto
termination
  by (relation "measure (\<lambda>(i, s). length s)") (auto dest: scan_counter_length)

definition name_token_text ::
    "host \<Rightarrow> CommanderDirectoryEntry \<Rightarrow> code_unit \<Rightarrow> jsstring option \<Rightarrow> jsstring" where
  "name_token_text h entry token modifier =
     (let (baseName, ext) = splitEntryBaseNameAndExt h entry;
          rawValue = (if token = 78 then baseName else if token = 69 then ext else entry_name entry)
      in applyRenameTextTransform h rawValue modifier)"

function replace_name_tokens :: "host \<Rightarrow> CommanderDirectoryEntry \<Rightarrow> jsstring \<Rightarrow> jsstring" where
  "replace_name_tokens h entry [] = []"
| "replace_name_tokens h entry (c # s) =
     (case scan_name_token (c # s) of
        Some (k, m, rest) \<Rightarrow> name_token_text h entry k m @ replace_name_tokens h entry rest
      | None \<Rightarrow> c # replace_name_tokens h entry s)"
  by pat_completeness auto
termination
  by (relation "measure (\<lambda>(h, e, s). length s)") (auto dest: scan_name_token_length)

text \<open>\<^verbatim>\<open>/\[F(?::[a-z])?\]/i.test(s)\<close> and its counterpart for \<open>E\<close>.\<close>

fun uses_token :: "code_unit list \<Rightarrow> jsstring \<Rightarrow> bool" where
  "uses_token ks [] = False"
| "uses_token ks (c # s) =
     ((case scan_name_token (c # s) of Some (k, _, _) \<Rightarrow> k \<in> set ks | None \<Rightarrow> False) \<or> uses_token ks s)"

definition applyCommanderRenameTemplate ::
    "host \<Rightarrow> CommanderDirectoryEntry \<Rightarrow> jsstring \<Rightarrow> nat \<Rightarrow> jsstring" where
  "applyCommanderRenameTemplate h entry template index =
     (let normalizedTemplate = js_trim template in
      if normalizedTemplate = [] then []
      else
        (let (baseName, ext) = splitEntryBaseNameAndExt h entry;
             usesFullNameToken = uses_token (js ''Ff'') normalizedTemplate;
             usesExtensionToken = uses_token (js ''Ee'') normalizedTemplate;
             nextName = js_trim (replace_name_tokens h entry (replace_counters index normalizedTemplate))
         in if nextName = [] then []
            else if entry_kind entry = File \<and> ext \<noteq> [] \<and> \<not> usesFullNameToken \<and> \<not> usesExtensionToken
                    \<and> dot \<notin> set nextName
            then nextName @ [dot] @ ext
            else nextName))"

section \<open>Conflicts\<close>

definition resolveEntriesInOrder ::
    "CommanderPaneRuntimeState \<Rightarrow> jsstring list \<Rightarrow> CommanderDirectoryEntry list" where
  "resolveEntriesInOrder paneState ids =
     List.map_filter (\<lambda>i. List.find (\<lambda>entry. entry_id entry = i) (directoryEntries paneState)) ids"

definition getCommanderConflictingEntryNames ::
    "host \<Rightarrow> CommanderWidgetRuntimeState \<Rightarrow> CommanderPaneId \<Rightarrow> jsstring list \<Rightarrow> jsstring list" where
  "getCommanderConflictingEntryNames h widgetState paneId ids =
     (let sourcePane = getPaneState widgetState paneId;
          targetPane = getPaneState widgetState (other_pane paneId)
      in if path sourcePane = path targetPane then []
         else
           (let targetNames = map (\<lambda>entry. normalizeEntryName h (entry_name entry)) (directoryEntries targetPane)
            in filter (\<lambda>entryName. normalizeEntryName h entryName \<in> set targetNames)
                 (map entry_name (resolveEntriesInOrder sourcePane ids))))"

definition getCommanderEntryNameConflict ::
    "host \<Rightarrow> CommanderPaneRuntimeState \<Rightarrow> jsstring \<Rightarrow> jsstring option \<Rightarrow> bool" where
  "getCommanderEntryNameConflict h paneState name ignoreEntryId =
     list_ex (\<lambda>entry.
       if js_truthy ignoreEntryId \<and> entry_id entry = the ignoreEntryId then False
       else normalizeEntryName h (entry_name entry) = normalizeEntryName h name)
     (directoryEntries paneState)"

text \<open>The loop \<^verbatim>\<open>while (suffixIndex < 1000)\<close>.\<close>

function suggest_clone_from ::
    "host \<Rightarrow> CommanderPaneRuntimeState \<Rightarrow> CommanderDirectoryEntry \<Rightarrow> nat \<Rightarrow> jsstring" where
  "suggest_clone_from h paneState entry suffixIndex =
     (if suffixIndex < 1000 then
        (if \<not> getCommanderEntryNameConflict h paneState
               (buildCommanderCloneName h entry suffixIndex) (Some (entry_id entry))
         then buildCommanderCloneName h entry suffixIndex
         else suggest_clone_from h paneState entry (suffixIndex + 1))
      else buildCommanderCloneName h entry suffixIndex)"
  by pat_completeness auto
termination
  by (relation "measure (\<lambda>(h, p, e, i). 1000 - i)") auto

declare suggest_clone_from.simps [simp del]

definition suggestCommanderCloneName ::
    "host \<Rightarrow> CommanderPaneRuntimeState \<Rightarrow> jsstring \<Rightarrow> jsstring option" where
  "suggestCommanderCloneName h paneState entryId =
     map_option (\<lambda>entry. suggest_clone_from h paneState entry 1)
       (List.find (\<lambda>entry. entry_id entry = entryId) (directoryEntries paneState))"

section \<open>The preview\<close>

record CommanderRenamePreview =
  preview_items :: "CommanderRenamePreviewItem list"
  preview_conflictEntryNames :: "jsstring list"
  preview_duplicateTargetNames :: "jsstring list"

text \<open>The map \<open>generatedNameCounts\<close> after the first pass over the generated names.\<close>

definition count_name :: "(jsstring \<rightharpoonup> nat) \<Rightarrow> jsstring \<Rightarrow> (jsstring \<rightharpoonup> nat)" where
  "count_name counts n = (if n \<noteq> [] then counts(n \<mapsto> js_default (counts n) 0 + 1) else counts)"

definition previewCommanderRenameEntries ::
    "host \<Rightarrow> CommanderPaneRuntimeState \<Rightarrow> jsstring list \<Rightarrow> jsstring \<Rightarrow> CommanderRenamePreview" where
  "previewCommanderRenameEntries h paneState ids template =
     (let renameEntries = resolveEntriesInOrder paneState ids;
          renameIds = map entry_id renameEntries;
          nextNames = map (\<lambda>(index, entry). applyCommanderRenameTemplate h entry template index)
            (zip [0..<length renameEntries] renameEntries);
          generatedNameCounts = foldl count_name Map.empty (map (normalizeEntryName h) nextNames);
          hasDuplicateTarget = (\<lambda>n. js_default (generatedNameCounts (normalizeEntryName h n)) 0 > 1);
          hasDirectoryConflict = (\<lambda>n. list_ex (\<lambda>entry.
            if entry_id entry \<in> set renameIds then False
            else normalizeEntryName h (entry_name entry) = normalizeEntryName h n) (directoryEntries paneState));
          item = (\<lambda>(entry, nextName).
            if normalizeEntryName h nextName = [] then
              \<lparr>item_entryId = entry_id entry, item_currentName = entry_name entry, item_nextName = nextName,
               item_status = StatusInvalid, item_conflict = True\<rparr>
            else
              \<lparr>item_entryId = entry_id entry, item_currentName = entry_name entry, item_nextName = nextName,
               item_status = (if hasDuplicateTarget nextName then StatusDuplicate
                 else if hasDirectoryConflict nextName then StatusConflict else StatusOk),
               item_conflict = (hasDuplicateTarget nextName \<or> hasDirectoryConflict nextName)\<rparr>);
          preview = map item (zip renameEntries nextNames)
      in \<lparr>preview_items = preview,
          preview_conflictEntryNames = js_unique
            (map item_nextName (filter (\<lambda>i. item_status i = StatusConflict) preview)),
          preview_duplicateTargetNames = js_unique
            (map (\<lambda>i. if item_status i = StatusInvalid then item_currentName i else item_nextName i)
              (filter (\<lambda>i. item_status i = StatusInvalid \<or> item_status i = StatusDuplicate) preview))\<rparr>)"

definition previewCommanderCloneEntries ::
    "host \<Rightarrow> CommanderPaneRuntimeState \<Rightarrow> jsstring list \<Rightarrow> jsstring \<Rightarrow> CommanderRenamePreview" where
  "previewCommanderCloneEntries h paneState ids template =
     previewCommanderRenameEntries h paneState ids template"

section \<open>Lemmas\<close>

lemma find_entry_id: "List.find (\<lambda>e. entry_id e = i) es = Some e \<Longrightarrow> entry_id e = i \<and> e \<in> set es"
  by (auto simp: find_Some_iff)

lemma resolveEntriesInOrder_simps [simp]:
  "resolveEntriesInOrder p [] = []"
  "resolveEntriesInOrder p (i # ids) =
     (case List.find (\<lambda>e. entry_id e = i) (directoryEntries p) of
        None \<Rightarrow> resolveEntriesInOrder p ids | Some e \<Rightarrow> e # resolveEntriesInOrder p ids)"
  by (simp_all add: resolveEntriesInOrder_def List.map_filter_simps split: option.splits)

lemma resolved_in_directory: "set (resolveEntriesInOrder p ids) \<subseteq> set (directoryEntries p)"
  by (induction ids) (auto split: option.splits dest: find_entry_id)

lemma find_entry_id_None:
  "List.find (\<lambda>e. entry_id e = i) es = None \<longleftrightarrow> i \<notin> set (map entry_id es)"
  by (induction es) auto

lemma resolved_ids:
  "map entry_id (resolveEntriesInOrder p ids)
     = filter (\<lambda>i. i \<in> set (map entry_id (directoryEntries p))) ids"
proof (induction ids)
  case (Cons i ids)
  show ?case
  proof (cases "List.find (\<lambda>e. entry_id e = i) (directoryEntries p)")
    case None
    then have "i \<notin> set (map entry_id (directoryEntries p))" using find_entry_id_None by blast
    with None Cons.IH show ?thesis by simp
  next
    case (Some e)
    then have "entry_id e = i" "i \<in> set (map entry_id (directoryEntries p))"
      by (auto dest: find_entry_id)
    with Some Cons.IH show ?thesis by simp
  qed
qed simp

lemma count_name_apply:
  "js_default (count_name m x n) 0 = js_default (m n) 0 + (if x = n \<and> n \<noteq> [] then 1 else 0)"
  by (simp add: count_name_def)

lemma count_name_fold:
  "js_default (foldl count_name m ns n) 0
     = js_default (m n) 0 + (if n = [] then 0 else count_list ns n)"
  by (induction ns arbitrary: m) (simp_all add: count_name_apply)

lemma generated_counts:
  "n \<noteq> [] \<Longrightarrow> js_default (foldl count_name Map.empty ns n) 0 = count_list ns n"
  using count_name_fold [of Map.empty ns n] by simp

lemma count_list_le_1_distinct:
  assumes "\<And>x. x \<in> set xs \<Longrightarrow> \<not> 1 < count_list xs x"
  shows "distinct xs"
  using assms
proof (induction xs)
  case (Cons x xs)
  have "count_list xs x = 0" using Cons.prems [of x] by simp
  then have "x \<notin> set xs" by (simp add: count_list_0_iff)
  moreover have "\<not> 1 < count_list xs y" if "y \<in> set xs" for y
    using Cons.prems [of y] that by (cases "x = y") auto
  ultimately show ?case using Cons.IH by simp
qed simp

lemma distinct_count_list: "distinct xs \<Longrightarrow> count_list xs x = (if x \<in> set xs then 1 else 0)"
  by (induction xs) auto

text \<open>The generated names, and the two tests of the preview in terms of them.\<close>

definition generated_names :: "host \<Rightarrow> CommanderPaneRuntimeState \<Rightarrow> jsstring list \<Rightarrow> jsstring \<Rightarrow> jsstring list" where
  "generated_names h p ids template =
     map (\<lambda>(index, entry). applyCommanderRenameTemplate h entry template index)
       (zip [0..<length (resolveEntriesInOrder p ids)] (resolveEntriesInOrder p ids))"

definition name_taken :: "host \<Rightarrow> CommanderPaneRuntimeState \<Rightarrow> jsstring list \<Rightarrow> jsstring \<Rightarrow> bool" where
  "name_taken h p ids n \<longleftrightarrow> (\<exists>e\<in>set (directoryEntries p).
     entry_id e \<notin> set ids \<and> normalizeEntryName h (entry_name e) = normalizeEntryName h n)"

lemma length_generated_names [simp]:
  "length (generated_names h p ids template) = length (resolveEntriesInOrder p ids)"
  by (simp add: generated_names_def)

definition preview_status ::
    "host \<Rightarrow> CommanderPaneRuntimeState \<Rightarrow> jsstring list \<Rightarrow> jsstring \<Rightarrow> jsstring \<Rightarrow> CommanderRenamePreviewStatus" where
  "preview_status h p ids template n =
     (if normalizeEntryName h n = [] then StatusInvalid
      else if 1 < count_list (map (normalizeEntryName h) (generated_names h p ids template)) (normalizeEntryName h n)
      then StatusDuplicate
      else if name_taken h p ids n then StatusConflict else StatusOk)"

lemma preview_items_eq:
  "preview_items (previewCommanderRenameEntries h p ids template) =
     map (\<lambda>(e, n). \<lparr>item_entryId = entry_id e, item_currentName = entry_name e, item_nextName = n,
            item_status = preview_status h p ids template n,
            item_conflict = (preview_status h p ids template n \<noteq> StatusOk)\<rparr>)
       (zip (resolveEntriesInOrder p ids) (generated_names h p ids template))"
proof -
  have taken: "list_ex (\<lambda>entry. if entry_id entry \<in> set (map entry_id (resolveEntriesInOrder p ids)) then False
      else normalizeEntryName h (entry_name entry) = normalizeEntryName h n) (directoryEntries p)
      \<longleftrightarrow> name_taken h p ids n" for n
    by (auto simp: list_ex_iff name_taken_def resolved_ids)
  show ?thesis
    unfolding previewCommanderRenameEntries_def Let_def taken generated_names_def [symmetric]
    by (auto simp: preview_status_def generated_counts)
qed

lemma item_nextName_preview:
  "map item_nextName (preview_items (previewCommanderRenameEntries h p ids template))
     = generated_names h p ids template"
  by (simp add: preview_items_eq comp_def case_prod_beta map_snd_zip)

lemma item_entryId_preview:
  "map item_entryId (preview_items (previewCommanderRenameEntries h p ids template))
     = map entry_id (resolveEntriesInOrder p ids)"
proof -
  have "map (\<lambda>x. entry_id (fst x)) (zip (resolveEntriesInOrder p ids) (generated_names h p ids template))
      = map entry_id (map fst (zip (resolveEntriesInOrder p ids) (generated_names h p ids template)))"
    by (simp only: map_map comp_def)
  then show ?thesis by (simp add: preview_items_eq comp_def case_prod_beta)
qed

lemma preview_lists:
  "preview_conflictEntryNames (previewCommanderRenameEntries h p ids template) = js_unique
     (map item_nextName (filter (\<lambda>i. item_status i = StatusConflict)
       (preview_items (previewCommanderRenameEntries h p ids template))))"
  "preview_duplicateTargetNames (previewCommanderRenameEntries h p ids template) = js_unique
     (map (\<lambda>i. if item_status i = StatusInvalid then item_currentName i else item_nextName i)
       (filter (\<lambda>i. item_status i = StatusInvalid \<or> item_status i = StatusDuplicate)
         (preview_items (previewCommanderRenameEntries h p ids template))))"
  by (simp_all add: previewCommanderRenameEntries_def Let_def)

lemma preview_clean:
  assumes "preview_conflictEntryNames (previewCommanderRenameEntries h p ids template) = []"
    and "preview_duplicateTargetNames (previewCommanderRenameEntries h p ids template) = []"
    and "n \<in> set (generated_names h p ids template)"
  shows "preview_status h p ids template n = StatusOk"
proof -
  obtain e where "(e, n) \<in> set (zip (resolveEntriesInOrder p ids) (generated_names h p ids template))"
    using assms(3) by (metis in_set_impl_in_set_zip2 length_generated_names)
  then have "\<exists>i\<in>set (preview_items (previewCommanderRenameEntries h p ids template)).
      item_status i = preview_status h p ids template n"
    by (force simp: preview_items_eq)
  moreover have "\<forall>i\<in>set (preview_items (previewCommanderRenameEntries h p ids template)).
      item_status i \<noteq> StatusConflict \<and> item_status i \<noteq> StatusInvalid \<and> item_status i \<noteq> StatusDuplicate"
    using assms(1,2) unfolding preview_lists by (auto simp: filter_empty_conv)
  ultimately show ?thesis by (metis CommanderRenamePreviewStatus.exhaust)
qed

lemma preview_clean_iff:
  "preview_conflictEntryNames (previewCommanderRenameEntries h p ids template) = []
     \<and> preview_duplicateTargetNames (previewCommanderRenameEntries h p ids template) = []
   \<longleftrightarrow> (\<forall>n\<in>set (generated_names h p ids template). preview_status h p ids template n = StatusOk)"
proof
  assume "\<forall>n\<in>set (generated_names h p ids template). preview_status h p ids template n = StatusOk"
  then have "\<forall>i\<in>set (preview_items (previewCommanderRenameEntries h p ids template)). item_status i = StatusOk"
    by (auto simp: preview_items_eq dest: set_zip_rightD)
  then show "preview_conflictEntryNames (previewCommanderRenameEntries h p ids template) = []
     \<and> preview_duplicateTargetNames (previewCommanderRenameEntries h p ids template) = []"
    unfolding preview_lists by (auto simp: filter_empty_conv)
qed (use preview_clean in blast)

section \<open>Properties of renaming and cloning\<close>

text \<open>The entries a rename leaves alone.\<close>

definition kept_entries :: "CommanderPaneRuntimeState \<Rightarrow> jsstring list \<Rightarrow> CommanderDirectoryEntry list" where
  "kept_entries p ids = filter (\<lambda>e. entry_id e \<notin> set ids) (directoryEntries p)"

lemma name_taken_kept:
  "name_taken h p ids n \<longleftrightarrow> normalizeEntryName h n \<in> set (map (normalizeEntryName h \<circ> entry_name) (kept_entries p ids))"
  by (force simp: name_taken_def kept_entries_def)


definition preview_sample :: CommanderPaneRuntimeState where
  "preview_sample = (createEmptyPaneState LeftPane)
     \<lparr>path := js ''/tmp'', directoryEntries :=
        [\<lparr>entry_id = js ''/tmp/a.txt'', entry_name = js ''a.txt'', entry_ext = js ''txt'', entry_kind = File,
          entry_sizeLabel = [], entry_sizeBytes = None, entry_modified = [], entry_hidden = False,
          entry_gitStatus = None, entry_executable = None, entry_symlinkTarget = None\<rparr>,
         \<lparr>entry_id = js ''/tmp/b'', entry_name = js ''b'', entry_ext = [], entry_kind = Folder,
          entry_sizeLabel = [], entry_sizeBytes = None, entry_modified = [], entry_hidden = False,
          entry_gitStatus = None, entry_executable = None, entry_symlinkTarget = None\<rparr>]\<rparr>"

lemma preview_sample_entries:
  "map entry_name (directoryEntries preview_sample) = [js ''a.txt'', js ''b'']"
  "map entry_id (directoryEntries preview_sample) = [js ''/tmp/a.txt'', js ''/tmp/b'']"
  by (simp_all add: preview_sample_def)


subsection \<open>Clone names\<close>

lemma suggest_clone_from_search:
  "(\<forall>j. i \<le> j \<and> j < k \<longrightarrow> getCommanderEntryNameConflict h p (buildCommanderCloneName h e j) (Some (entry_id e))) \<Longrightarrow>
   i \<le> k \<Longrightarrow> k < 1000 \<Longrightarrow>
   \<not> getCommanderEntryNameConflict h p (buildCommanderCloneName h e k) (Some (entry_id e)) \<Longrightarrow>
   suggest_clone_from h p e i = buildCommanderCloneName h e k"
proof (induction "k - i" arbitrary: i)
  case 0
  then show ?case by (simp add: suggest_clone_from.simps [of h p e i])
next
  case (Suc d)
  then have "i < k" by simp
  with Suc have "suggest_clone_from h p e (i + 1) = buildCommanderCloneName h e k" by simp
  moreover have "getCommanderEntryNameConflict h p (buildCommanderCloneName h e i) (Some (entry_id e))"
    using Suc.prems(1) \<open>i < k\<close> by blast
  ultimately show ?case using \<open>i < k\<close> Suc.prems(3) by (simp add: suggest_clone_from.simps [of h p e i])
qed

lemma conflict_in_names:
  "getCommanderEntryNameConflict h p n x \<Longrightarrow>
     normalizeEntryName h n \<in> set (map (normalizeEntryName h \<circ> entry_name) (directoryEntries p))"
  by (force simp: getCommanderEntryNameConflict_def list_ex_iff split: if_splits)

subsection \<open>Numbered names differ\<close>

text \<open>
  What ECMA-262 says of \<open>toLowerCase\<close> (the default case conversion of Unicode): only the capital sigma depends
  on its surroundings, a hyphen and a digit are neither cased nor case-ignorable, and lower-case ASCII
  letters, digits, hyphens and dots stand for themselves.
\<close>

definition plain_unit :: "code_unit \<Rightarrow> bool" where
  "plain_unit c \<longleftrightarrow> c = 45 \<or> c = dot \<or> js_digit c \<or> 97 \<le> c \<and> c \<le> 122"

definition lower_case_law :: "host \<Rightarrow> bool" where
  "lower_case_law h \<longleftrightarrow>
     (\<forall>x y. toLowerCase h (x @ 45 # y) = toLowerCase h x @ 45 # toLowerCase h y)
     \<and> (\<forall>c y. js_digit c \<longrightarrow> toLowerCase h (c # y) = c # toLowerCase h y)
     \<and> (\<forall>x y. list_all plain_unit x \<longrightarrow> take (length x) (toLowerCase h (x @ y)) = x)
     \<and> (\<forall>x. list_all plain_unit x \<longrightarrow> toLowerCase h x = x)"

lemma lower_digits: "lower_case_law h \<Longrightarrow> list_all js_digit d \<Longrightarrow> toLowerCase h (d @ y) = d @ toLowerCase h y"
  by (induction d) (auto simp: lower_case_law_def)

text \<open>A clone name ends with what follows its number; trimming it trims the start of the name and that end.\<close>

definition clone_end :: "host \<Rightarrow> CommanderDirectoryEntry \<Rightarrow> jsstring" where
  "clone_end h e = (let ext = snd (splitEntryBaseNameAndExt h e) in if entry_kind e = File \<and> ext \<noteq> [] then dot # ext else [])"

definition clone_start :: "host \<Rightarrow> CommanderDirectoryEntry \<Rightarrow> jsstring" where
  "clone_start h e = (let (base, ext) = splitEntryBaseNameAndExt h e in if entry_kind e = File \<and> ext \<noteq> [] then base else entry_name e)"

lemma clone_name_parts:
  "buildCommanderCloneName h e k = clone_start h e @ 45 # js ''copy'' @ (if k \<le> 1 then [] else 45 # js_of_nat k) @ clone_end h e"
  by (simp add: buildCommanderCloneName_def clone_start_def clone_end_def case_prod_beta Let_def)

lemma trim_parts:
  assumes "b \<noteq> []" "\<forall>c\<in>set b. \<not> js_space c"
  shows "js_trim (a @ b @ t) = dropWhile js_space a @ b @ js_dropWhileEnd js_space t"
proof -
  have "dropWhile js_space (a @ b @ t) = dropWhile js_space a @ b @ t"
    using assms by (cases b) (simp_all add: dropWhile_append3 dropWhile_append)
  moreover have "js_dropWhileEnd js_space (x @ b @ t) = x @ b @ js_dropWhileEnd js_space t" for x
    using assms by (cases b rule: rev_cases) (auto simp: js_dropWhileEnd_def dropWhile_append)
  ultimately show ?thesis by (simp add: js_trim_def)
qed

lemma number_not_space: "\<forall>c\<in>set (45 # js ''copy'' @ (if k \<le> 1 then [] else 45 # js_of_nat k)). \<not> js_space c"
proof -
  have "js_digit c \<Longrightarrow> \<not> js_space c" for c by (auto simp: js_space_def js_line_terminator_def js_digit_def)
  then have "\<forall>c\<in>set (js_of_nat k). \<not> js_space c" using js_of_nat_digits by blast
  then show ?thesis by (simp add: js_space_def js_line_terminator_def)
qed

lemma normal_clone_name:
  assumes "lower_case_law h"
  shows "normalizeEntryName h (buildCommanderCloneName h e k) =
     toLowerCase h (dropWhile js_space (clone_start h e)) @ 45 #
     (if k \<le> 1 then toLowerCase h (js ''copy'' @ js_dropWhileEnd js_space (clone_end h e))
      else js ''copy'' @ 45 # js_of_nat k @ toLowerCase h (js_dropWhileEnd js_space (clone_end h e)))"
proof -
  let ?t = "js_dropWhileEnd js_space (clone_end h e)"
  have "list_all plain_unit (js ''copy'')" by (simp add: plain_unit_def)
  then have copy: "toLowerCase h (js ''copy'') = js ''copy''" using assms by (simp add: lower_case_law_def del: js_Cons)
  have hyphen: "toLowerCase h (x @ 45 # y) = toLowerCase h x @ 45 # toLowerCase h y" for x y
    using assms by (simp add: lower_case_law_def)
  have digits: "toLowerCase h (js_of_nat k @ ?t) = js_of_nat k @ toLowerCase h ?t"
    by (rule lower_digits [OF assms]) (use js_of_nat_digits in \<open>auto simp: list_all_iff\<close>)
  have "js_trim (buildCommanderCloneName h e k) =
      dropWhile js_space (clone_start h e) @ 45 # js ''copy'' @ (if k \<le> 1 then [] else 45 # js_of_nat k) @ ?t"
    using trim_parts [OF _ number_not_space, of k "clone_start h e" "clone_end h e"] by (simp add: clone_name_parts del: js_Cons)
  then show ?thesis using hyphen digits copy by (simp add: normalizeEntryName_def del: js_Cons)
qed

lemma copy_is_no_number:
  assumes "lower_case_law h"
  shows "toLowerCase h (js ''copy'' @ js_dropWhileEnd js_space (clone_end h e)) \<noteq> js ''copy'' @ 45 # rest"
proof (cases "clone_end h e")
  case Nil
  have "list_all plain_unit (js ''copy'')" by (simp add: plain_unit_def)
  then show ?thesis using assms Nil by (simp add: lower_case_law_def js_dropWhileEnd_def del: js_Cons)
next
  case (Cons c ext)
  then have "c = dot" by (auto simp: clone_end_def Let_def split: if_splits)
  then have "js_trim (clone_end h e) = [dot] @ js_dropWhileEnd js_space ext" "dropWhile js_space (clone_end h e) = clone_end h e"
    using Cons trim_parts [of "[dot]" "[]" ext] by (simp_all add: js_space_def js_line_terminator_def)
  then obtain t where t: "js_dropWhileEnd js_space (clone_end h e) = dot # t" by (simp add: js_trim_def)
  have "list_all plain_unit (js ''copy.'')" by (simp add: plain_unit_def)
  then have "take (length (js ''copy.'')) (toLowerCase h (js ''copy.'' @ t)) = js ''copy.''"
    using assms by (simp add: lower_case_law_def del: js_Cons)
  then show ?thesis using t by auto
qed

lemma clone_names_differ:
  assumes "lower_case_law h"
  shows "inj_on (\<lambda>k. normalizeEntryName h (buildCommanderCloneName h e k)) {1..<1000}"
proof (rule inj_onI)
  fix j k :: nat
  assume range: "j \<in> {1..<1000}" "k \<in> {1..<1000}"
    and eq: "normalizeEntryName h (buildCommanderCloneName h e j) = normalizeEntryName h (buildCommanderCloneName h e k)"
  note differ = copy_is_no_number [OF assms, of e]
  show "j = k"
    using eq range differ differ [symmetric] unfolding normal_clone_name [OF assms] by (auto split: if_splits simp del: js_Cons)
qed

lemma free_clone_candidate:
  assumes "inj_on (\<lambda>k. normalizeEntryName h (buildCommanderCloneName h e k)) {1..<1000}"
    and "length (directoryEntries p) < 999"
  obtains k where "k \<in> {1..<1000}" "\<not> getCommanderEntryNameConflict h p (buildCommanderCloneName h e k) x"
proof (rule ccontr)
  let ?names = "set (map (normalizeEntryName h \<circ> entry_name) (directoryEntries p))"
  assume "\<not> thesis"
  then have "(\<lambda>k. normalizeEntryName h (buildCommanderCloneName h e k)) ` {1..<1000} \<subseteq> ?names"
    using conflict_in_names that by blast
  then have "card {1..<1000::nat} \<le> card ?names"
    using assms(1) by (intro card_inj_on_le [of "\<lambda>k. normalizeEntryName h (buildCommanderCloneName h e k)"]) auto
  also have "\<dots> \<le> length (directoryEntries p)"
    using card_length by (metis length_map)
  finally show False using assms(2) by simp
qed

text \<open>
  C14: for an entry of a directory with fewer than 999 entries the suggested clone name exists, is the
  first numbered candidate that no other entry of the directory has up to case and blanks at the ends, and
  is found before the bound of the loop, for every host whose lower case is that of Unicode.
\<close>
theorem suggestCommanderCloneName_first_free:
  assumes "List.find (\<lambda>x. entry_id x = i) (directoryEntries p) = Some e"
    and "lower_case_law h" and "length (directoryEntries p) < 999"
  shows "\<exists>k\<in>{1..<1000}.
      suggestCommanderCloneName h p i = Some (buildCommanderCloneName h e k)
      \<and> \<not> getCommanderEntryNameConflict h p (buildCommanderCloneName h e k) (Some i)
      \<and> (\<forall>j\<in>{1..<k}. getCommanderEntryNameConflict h p (buildCommanderCloneName h e j) (Some i))"
proof -
  let ?free = "\<lambda>k. k \<in> {1..<1000} \<and> \<not> getCommanderEntryNameConflict h p (buildCommanderCloneName h e k) (Some i)"
  obtain k0 where "?free k0" using free_clone_candidate [OF clone_names_differ [OF assms(2)] assms(3)] by metis
  define k where "k = (LEAST k. ?free k)"
  have free: "?free k" unfolding k_def using \<open>?free k0\<close> by (rule LeastI)
  have least: "\<not> ?free j" if "j < k" for j using that unfolding k_def by (rule not_less_Least)
  have before: "\<forall>j\<in>{1..<k}. getCommanderEntryNameConflict h p (buildCommanderCloneName h e j) (Some i)"
    using least free by (metis atLeastLessThan_iff order.strict_trans)
  have id: "entry_id e = i" using assms(1) by (auto dest: find_entry_id)
  have "suggest_clone_from h p e 1 = buildCommanderCloneName h e k"
  proof (rule suggest_clone_from_search)
    show "\<forall>j. 1 \<le> j \<and> j < k \<longrightarrow>
        getCommanderEntryNameConflict h p (buildCommanderCloneName h e j) (Some (entry_id e))"
      using before id by simp
  qed (use free id in simp_all)
  with assms(1) have "suggestCommanderCloneName h p i = Some (buildCommanderCloneName h e k)"
    by (simp add: suggestCommanderCloneName_def)
  with before free show ?thesis by blast
qed

lemma ascii_lower_case: "lower_case_law ascii_host"
proof -
  have "plain_unit c \<Longrightarrow> ascii_lower c = c" for c by (auto simp: plain_unit_def js_digit_def ascii_lower_def)
  then have "list_all plain_unit x \<Longrightarrow> map ascii_lower x = x" for x by (auto simp: list_all_iff intro: map_idI)
  then show ?thesis by (auto simp: lower_case_law_def ascii_host_def ascii_lower_def js_digit_def)
qed

theorem suggestCommanderCloneName_first_free_witness:
  "\<exists>k\<in>{1..<1000}.
      suggestCommanderCloneName ascii_host preview_sample (js ''/tmp/a.txt'')
        = Some (buildCommanderCloneName ascii_host (directoryEntries preview_sample ! 0) k)
      \<and> \<not> getCommanderEntryNameConflict ascii_host preview_sample
            (buildCommanderCloneName ascii_host (directoryEntries preview_sample ! 0) k) (Some (js ''/tmp/a.txt''))
      \<and> (\<forall>j\<in>{1..<k}. getCommanderEntryNameConflict ascii_host preview_sample
            (buildCommanderCloneName ascii_host (directoryEntries preview_sample ! 0) j) (Some (js ''/tmp/a.txt'')))"
proof (rule suggestCommanderCloneName_first_free)
  show "List.find (\<lambda>x. entry_id x = js ''/tmp/a.txt'') (directoryEntries preview_sample)
      = Some (directoryEntries preview_sample ! 0)"
    by (simp add: preview_sample_def)
  show "length (directoryEntries preview_sample) < 999" by (simp add: preview_sample_def)
qed (rule ascii_lower_case)

text \<open>The case of a token decides what it stands for: \<open>[N]\<close> is the base name, \<open>[n]\<close> the full name.\<close>

lemma lower_case_tokens_are_full_name:
  "replace_name_tokens h entry (js ''[N]'') = fst (splitEntryBaseNameAndExt h entry)"
  "replace_name_tokens h entry (js ''[n]'') = entry_name entry"
  "replace_name_tokens h entry (js ''[E]'') = snd (splitEntryBaseNameAndExt h entry)"
  "replace_name_tokens h entry (js ''[e]'') = entry_name entry"
  by (simp_all add: scan_name_token_def name_token_text_def applyRenameTextTransform_def case_prod_beta)

end
