(* ===== verification/Commander_Operations.thy ===== *)
theory Commander_Operations
  imports Commander_Selection Commander_Preview
begin

text \<open>
  Pending operations, \<^verbatim>\<open>features/commander/model/store-operations.ts\<close>: opening one from the active
  pane, recomputing it from the input line, stepping through search matches, and confirming the
  local kinds (select, unselect, filter, search). The backend kinds (copy, move, delete, mkdir, rename)
  are confirmed by the asynchronous session. \<open>null\<close> results are \<open>None\<close>.
\<close>

section \<open>The entries of an operation\<close>

definition getOperationEntryIds :: "CommanderPaneRuntimeState \<Rightarrow> jsstring list" where
  "getOperationEntryIds paneState =
     (if selectedIds paneState \<noteq> [] then selectedIds paneState
      else if js_truthy (cursorEntryId paneState) then [the (cursorEntryId paneState)] else [])"

text \<open>The transfer operations are given by their common fields and their transfer detail.\<close>

definition getCurrentPendingConflictName :: "CommanderTransferDetail \<Rightarrow> jsstring option" where
  "getCurrentPendingConflictName d = js_nth (transfer_conflictEntryNames d) 0"

definition remove_at :: "int \<Rightarrow> 'a list \<Rightarrow> 'a list" where
  "remove_at i xs = take (nat i) xs @ drop (nat i + 1) xs"

definition removePendingTransferEntry ::
    "CommanderPendingOperation \<Rightarrow> CommanderTransferDetail \<Rightarrow> jsstring \<Rightarrow> CommanderPendingOperation" where
  "removePendingTransferEntry operation d entryName =
     (let entryIndex = js_findIndex (\<lambda>candidateName. candidateName = entryName) (entryNames operation) in
      if entryIndex = -1 then operation
      else operation
        \<lparr>entryIds := remove_at entryIndex (entryIds operation),
         entryNames := remove_at entryIndex (entryNames operation),
         detail := TransferDetail (d\<lparr>transfer_conflictEntryNames :=
           filter (\<lambda>candidateName. candidateName \<noteq> entryName) (transfer_conflictEntryNames d)\<rparr>)\<rparr>)"

section \<open>Input\<close>

definition match_summary :: "CommanderMatches \<Rightarrow> int \<times> jsstring list" where
  "match_summary m = (int (length (match_entryIds m)), take 6 (match_entryNames m))"

definition update_clone_input ::
    "host \<Rightarrow> CommanderWidgetRuntimeState \<Rightarrow> CommanderPendingOperation \<Rightarrow> CommanderCloneDetail \<Rightarrow> jsstring \<Rightarrow>
     CommanderCloneDetail" where
  "update_clone_input h widgetState operation d inputValue =
     (let sourcePane = getPaneState widgetState (sourcePaneId operation) in
      if clone_mode d = CloneBatch then
        (let clonePreview = previewCommanderCloneEntries h sourcePane (entryIds operation) inputValue in
         d\<lparr>clone_inputValue := inputValue,
           clone_conflictEntryNames := preview_conflictEntryNames clonePreview,
           clone_duplicateTargetNames := preview_duplicateTargetNames clonePreview,
           clone_renamePreview := preview_items clonePreview\<rparr>)
      else
        (let nextName = js_trim inputValue;
             hasConflict = nextName \<noteq> [] \<and> Some nextName \<noteq> js_nth (entryNames operation) 0
               \<and> getCommanderEntryNameConflict h sourcePane nextName (js_nth (entryIds operation) 0)
         in d\<lparr>clone_inputValue := inputValue,
              clone_conflictEntryNames := (if hasConflict then [nextName] else []),
              clone_duplicateTargetNames := [],
              clone_renamePreview := []\<rparr>))"

definition update_detail_input ::
    "host \<Rightarrow> CommanderWidgetRuntimeState \<Rightarrow> CommanderPendingOperation \<Rightarrow> jsstring \<Rightarrow>
     CommanderPendingDetail option" where
  "update_detail_input h widgetState operation inputValue =
     (let sourcePane = getPaneState widgetState (sourcePaneId operation) in
      case detail operation of
        CloneDetail d \<Rightarrow> Some (CloneDetail (update_clone_input h widgetState operation d inputValue))
      | TransferDetail d \<Rightarrow> None
      | DeleteDetail \<Rightarrow> None
      | MkdirDetail _ \<Rightarrow> Some (MkdirDetail inputValue)
      | MaskDetail d \<Rightarrow>
          (let (count, preview) = match_summary
                 (if mask_kind d = MaskFilter
                  then getCommanderFilterMatches h widgetState (sourcePaneId operation) inputValue
                  else getCommanderMaskMatches h sourcePane inputValue)
           in Some (MaskDetail (d\<lparr>mask_inputValue := inputValue, mask_matchCount := count,
                                  mask_matchPreview := preview\<rparr>)))
      | SearchDetail d \<Rightarrow>
          (let matches = getCommanderSearchMatches h sourcePane inputValue;
               (count, preview) = match_summary matches
           in Some (SearchDetail (d\<lparr>search_inputValue := inputValue, search_matchCount := count,
                search_matchPreview := preview,
                search_matchIndex := getCommanderResolvedSearchMatchIndex (match_entryIds matches)
                  (cursorEntryId sourcePane) 0\<rparr>)))
      | RenameDetail d \<Rightarrow>
          (let renamePreview = previewCommanderRenameEntries h sourcePane (entryIds operation) inputValue
           in Some (RenameDetail (d\<lparr>rename_inputValue := inputValue,
                rename_conflictEntryNames := preview_conflictEntryNames renamePreview,
                rename_duplicateTargetNames := preview_duplicateTargetNames renamePreview,
                rename_preview := preview_items renamePreview\<rparr>))))"

definition updateCommanderPendingOperationInput ::
    "host \<Rightarrow> CommanderWidgetRuntimeState \<Rightarrow> jsstring \<Rightarrow> CommanderWidgetRuntimeState option" where
  "updateCommanderPendingOperationInput h widgetState inputValue =
     (case pendingOperation widgetState of
        None \<Rightarrow> None
      | Some operation \<Rightarrow>
          map_option (\<lambda>d. widgetState\<lparr>pendingOperation := Some (operation\<lparr>detail := d\<rparr>)\<rparr>)
            (update_detail_input h widgetState operation inputValue))"

section \<open>Opening an operation\<close>

definition single_rename_item :: "CommanderDirectoryEntry \<Rightarrow> CommanderRenamePreviewItem" where
  "single_rename_item entry =
     \<lparr>item_entryId = entry_id entry, item_currentName = entry_name entry, item_nextName = entry_name entry,
      item_status = StatusOk, item_conflict = False\<rparr>"

definition create_rename ::
    "host \<Rightarrow> CommanderWidgetRuntimeState \<Rightarrow> CommanderPendingOperation option" where
  "create_rename h widgetState =
     (let sourcePane = getPaneState widgetState (activePane widgetState);
          renameEntries = filter (\<lambda>entry. entry_id entry \<in> set (getOperationEntryIds sourcePane)) (entries sourcePane);
          template = js ''[N]-[C:2]'';
          renamePreview = previewCommanderRenameEntries h sourcePane (map entry_id renameEntries) template;
          operation = (\<lambda>d. \<lparr>sourcePaneId = activePane widgetState, sourcePath = path sourcePane,
            entryIds = map entry_id renameEntries, entryNames = map entry_name renameEntries,
            detail = RenameDetail d\<rparr>)
      in case renameEntries of
           [] \<Rightarrow> None
         | [currentEntry] \<Rightarrow> Some (operation
             \<lparr>rename_inputValue = entry_name currentEntry, rename_conflictEntryNames = [],
              rename_duplicateTargetNames = [], rename_mode = RenameSingle,
              rename_preview = [single_rename_item currentEntry]\<rparr>)
         | _ \<Rightarrow> Some (operation
             \<lparr>rename_inputValue = template,
              rename_conflictEntryNames = preview_conflictEntryNames renamePreview,
              rename_duplicateTargetNames = preview_duplicateTargetNames renamePreview,
              rename_mode = RenameBatch, rename_preview = preview_items renamePreview\<rparr>))"

definition create_transfer ::
    "host \<Rightarrow> CommanderWidgetRuntimeState \<Rightarrow> CommanderTransferKind \<Rightarrow> CommanderPendingOperation option" where
  "create_transfer h widgetState kind =
     (let active = activePane widgetState;
          sourcePane = getPaneState widgetState active;
          ids = getOperationEntryIds sourcePane;
          targetPaneId = other_pane active;
          targetPane = getPaneState widgetState targetPaneId;
          names = map entry_name (filter (\<lambda>entry. entry_id entry \<in> set ids) (entries sourcePane));
          operation = (\<lambda>d. \<lparr>sourcePaneId = active, sourcePath = path sourcePane,
            entryIds = ids, entryNames = names, detail = d\<rparr>)
      in if kind = TransferCopy \<and> path sourcePane = path targetPane then
           (if length ids = 1 then
              (let cloneName = suggestCommanderCloneName h sourcePane (ids ! 0) in
               if \<not> js_truthy cloneName then None
               else Some (operation (CloneDetail
                 \<lparr>clone_inputValue = the cloneName, clone_targetPaneId = active,
                  clone_targetPath = path sourcePane, clone_mode = CloneSingle,
                  clone_conflictEntryNames = [], clone_duplicateTargetNames = [],
                  clone_renamePreview = []\<rparr>)))
            else
              (let cloneTemplate = js ''[N]-copy'';
                   clonePreview = previewCommanderCloneEntries h sourcePane ids cloneTemplate
               in Some (operation (CloneDetail
                 \<lparr>clone_inputValue = cloneTemplate, clone_targetPaneId = active,
                  clone_targetPath = path sourcePane, clone_mode = CloneBatch,
                  clone_conflictEntryNames = preview_conflictEntryNames clonePreview,
                  clone_duplicateTargetNames = preview_duplicateTargetNames clonePreview,
                  clone_renamePreview = preview_items clonePreview\<rparr>))))
         else if path sourcePane = path targetPane then None
         else Some (operation (TransferDetail
           \<lparr>transfer_kind = kind, transfer_targetPaneId = targetPaneId,
            transfer_targetPath = path targetPane,
            transfer_conflictEntryNames = getCommanderConflictingEntryNames h widgetState active ids\<rparr>)))"

definition create_mask ::
    "CommanderWidgetRuntimeState \<Rightarrow> CommanderMaskKind \<Rightarrow> jsstring \<Rightarrow> CommanderMatches \<Rightarrow>
     CommanderPendingDetail" where
  "create_mask widgetState kind inputValue matches =
     (let (count, preview) = match_summary matches in
      MaskDetail \<lparr>mask_kind = kind, mask_inputValue = inputValue, mask_matchCount = count,
                  mask_matchPreview = preview\<rparr>)"

definition createPendingOperation ::
    "host \<Rightarrow> CommanderWidgetRuntimeState \<Rightarrow> CommanderPendingOperationKind \<Rightarrow>
     CommanderPendingOperation option" where
  "createPendingOperation h widgetState kind =
     (let active = activePane widgetState;
          sourcePane = getPaneState widgetState active;
          ids = getOperationEntryIds sourcePane;
          operation = (\<lambda>d. \<lparr>sourcePaneId = active, sourcePath = path sourcePane,
            entryIds = [], entryNames = [], detail = d\<rparr>)
      in if kind \<notin> {KMkdir, KSelect, KUnselect, KFilter, KSearch} \<and> ids = [] then None
         else case kind of
           KMkdir \<Rightarrow> Some (operation (MkdirDetail (js ''New folder'')))
         | KSelect \<Rightarrow> Some (operation (create_mask widgetState MaskSelect (js ''*'')
             (getCommanderMaskMatches h sourcePane (js ''*''))))
         | KUnselect \<Rightarrow> Some (operation (create_mask widgetState MaskUnselect (js ''*'')
             (getCommanderMaskMatches h sourcePane (js ''*''))))
         | KFilter \<Rightarrow> Some (operation (create_mask widgetState MaskFilter (filterQuery sourcePane)
             (getCommanderFilterMatches h widgetState active (filterQuery sourcePane))))
         | KSearch \<Rightarrow>
             (let matches = getCommanderSearchMatches h sourcePane [];
                  (count, preview) = match_summary matches
              in Some (operation (SearchDetail
                \<lparr>search_inputValue = [], search_matchCount = count, search_matchPreview = preview,
                 search_matchIndex = getCommanderResolvedSearchMatchIndex (match_entryIds matches)
                   (cursorEntryId sourcePane) 0\<rparr>)))
         | KRename \<Rightarrow> create_rename h widgetState
         | KDelete \<Rightarrow> Some \<lparr>sourcePaneId = active, sourcePath = path sourcePane, entryIds = ids,
             entryNames = map entry_name (filter (\<lambda>entry. entry_id entry \<in> set ids) (entries sourcePane)),
             detail = DeleteDetail\<rparr>
         | KCopy \<Rightarrow> create_transfer h widgetState TransferCopy
         | KMove \<Rightarrow> create_transfer h widgetState TransferMove)"

definition requestCommanderWidgetPendingOperation ::
    "host \<Rightarrow> CommanderWidgetRuntimeState \<Rightarrow> CommanderPendingOperationKind \<Rightarrow>
     CommanderWidgetRuntimeState option" where
  "requestCommanderWidgetPendingOperation h widgetState kind =
     map_option (\<lambda>operation. widgetState\<lparr>pendingOperation := Some operation\<rparr>)
       (createPendingOperation h widgetState kind)"

section \<open>Stepping and confirming\<close>

definition place_cursor :: "jsstring \<Rightarrow> CommanderPaneRuntimeState \<Rightarrow> CommanderPaneRuntimeState" where
  "place_cursor i paneState = paneState\<lparr>cursorEntryId := Some i, selectionAnchorEntryId := Some i\<rparr>"

definition stepCommanderWidgetPendingSearchMatch ::
    "host \<Rightarrow> CommanderWidgetRuntimeState \<Rightarrow> int \<Rightarrow> CommanderWidgetRuntimeState option" where
  "stepCommanderWidgetPendingSearchMatch h widgetState delta =
     (case pendingOperation widgetState of
        None \<Rightarrow> None
      | Some operation \<Rightarrow>
          (case detail operation of
             SearchDetail d \<Rightarrow>
               (let sourcePane = getPaneState widgetState (sourcePaneId operation);
                    matches = getCommanderSearchMatches h sourcePane (search_inputValue d);
                    ids = match_entryIds matches;
                    (count, preview) = match_summary matches;
                    currentIndex = getCommanderResolvedSearchMatchIndex ids (cursorEntryId sourcePane)
                      (search_matchIndex d);
                    nextIndex = (currentIndex + delta + int (length ids)) mod int (length ids);
                    nextCursorEntryId = js_nth ids nextIndex
                in if ids = [] then None
                   else if \<not> js_truthy nextCursorEntryId then None
                   else
                     (let nextWidgetState = updatePaneState widgetState (sourcePaneId operation)
                            (place_cursor (the nextCursorEntryId))
                      in Some (nextWidgetState\<lparr>pendingOperation := Some (operation
                           \<lparr>detail := SearchDetail (d\<lparr>search_matchCount := count,
                             search_matchPreview := preview, search_matchIndex := nextIndex\<rparr>)\<rparr>)\<rparr>)))
           | _ \<Rightarrow> None))"

definition confirmCommanderWidgetPendingOperation ::
    "host \<Rightarrow> CommanderWidgetRuntimeState \<Rightarrow> CommanderWidgetRuntimeState option" where
  "confirmCommanderWidgetPendingOperation h widgetState =
     (case pendingOperation widgetState of
        None \<Rightarrow> None
      | Some operation \<Rightarrow>
          (let closed = widgetState\<lparr>pendingOperation := None\<rparr> in
           case detail operation of
             MaskDetail d \<Rightarrow>
               (let inputMask = js_trim (mask_inputValue d) in
                Some (updatePaneState closed (sourcePaneId operation)
                  (case mask_kind d of
                     MaskSelect \<Rightarrow> (\<lambda>paneState. applySelectionMaskToPane h paneState inputMask ModeSelect)
                   | MaskUnselect \<Rightarrow> (\<lambda>paneState. applySelectionMaskToPane h paneState inputMask ModeUnselect)
                   | MaskFilter \<Rightarrow> (\<lambda>paneState. rebuildPaneState h widgetState (paneState\<lparr>filterQuery := inputMask\<rparr>)))))
           | SearchDetail d \<Rightarrow>
               (let sourcePane = getPaneState widgetState (sourcePaneId operation);
                    ids = match_entryIds (getCommanderSearchMatches h sourcePane (search_inputValue d));
                    resolvedMatchIndex = getCommanderResolvedSearchMatchIndex ids
                      (cursorEntryId sourcePane) (search_matchIndex d);
                    nextCursorEntryId =
                      (if resolvedMatchIndex = -1 then None else js_nth ids resolvedMatchIndex)
                in Some (updatePaneState closed (sourcePaneId operation)
                     (if js_truthy nextCursorEntryId then place_cursor (the nextCursorEntryId) else id)))
           | CloneDetail _ \<Rightarrow> None
           | TransferDetail _ \<Rightarrow> None
           | DeleteDetail \<Rightarrow> None
           | MkdirDetail _ \<Rightarrow> None
           | RenameDetail _ \<Rightarrow> None))"

section \<open>Lemmas\<close>

lemma place_cursor_fields [simp]:
  "entries (place_cursor i p) = entries p"
  "cursorEntryId (place_cursor i p) = Some i"
  "selectedIds (place_cursor i p) = selectedIds p"
  by (simp_all add: place_cursor_def)

lemma getCommanderSearchMatches_cong:
  "entries p = entries q \<Longrightarrow> getCommanderSearchMatches h p query = getCommanderSearchMatches h q query"
  by (simp add: getCommanderSearchMatches_def Let_def)

lemma search_match_ids: "set (match_entryIds (getCommanderSearchMatches h p query)) \<subseteq> set (pane_ids p)"
  by (auto simp: getCommanderSearchMatches_def matches_of_def pane_ids_def Let_def)

lemma resolved_index_at_cursor:
  assumes "distinct ids" and "i < length ids" and "ids ! i \<noteq> []"
  shows "getCommanderResolvedSearchMatchIndex ids (Some (ids ! i)) fallback = int i"
  using assms js_findIndex_eq_nth [OF assms(1,2)]
  by (auto simp: getCommanderResolvedSearchMatchIndex_def simp del: js_findIndex_eq_minus1)

lemma length_remove_at: "k < length xs \<Longrightarrow> length (remove_at (int k) xs) = length xs - 1"
  by (simp add: remove_at_def)

text \<open>The matches a pending search steps through.\<close>

definition search_ids :: "host \<Rightarrow> CommanderWidgetRuntimeState \<Rightarrow> CommanderPaneId \<Rightarrow> jsstring \<Rightarrow> jsstring list" where
  "search_ids h w i query = match_entryIds (getCommanderSearchMatches h (getPaneState w i) query)"

definition search_pending :: "CommanderWidgetRuntimeState \<Rightarrow> CommanderPaneId \<Rightarrow> jsstring \<Rightarrow> bool" where
  "search_pending w i query \<longleftrightarrow> (\<exists>operation d. pendingOperation w = Some operation
     \<and> detail operation = SearchDetail d \<and> sourcePaneId operation = i \<and> search_inputValue d = query)"

lemma search_step_once:
  assumes pending: "search_pending w i query"
    and ids: "distinct (search_ids h w i query)" "[] \<notin> set (search_ids h w i query)"
    and k: "k < length (search_ids h w i query)"
    and cursor: "cursorEntryId (getPaneState w i) = Some (search_ids h w i query ! k)"
    and delta: "delta = 1 \<or> delta = -1"
  shows "\<exists>w'. stepCommanderWidgetPendingSearchMatch h w delta = Some w' \<and> search_pending w' i query
     \<and> search_ids h w' i query = search_ids h w i query
     \<and> cursorEntryId (getPaneState w' i)
         = Some (search_ids h w i query ! nat ((int k + delta) mod int (length (search_ids h w i query))))"
proof -
  let ?ids = "search_ids h w i query" and ?n = "int (length (search_ids h w i query))"
  let ?next = "(int k + delta) mod ?n"
  obtain operation d where op: "pendingOperation w = Some operation" "detail operation = SearchDetail d"
    "sourcePaneId operation = i" "search_inputValue d = query"
    using pending by (auto simp: search_pending_def)
  have n: "0 < ?n" using k by linarith
  then have next_range: "0 \<le> ?next" "?next < ?n" by (rule pos_mod_sign, rule pos_mod_bound)
  have shift: "(int k + delta + ?n) mod ?n = ?next" by simp
  have at: "js_nth ?ids ?next = Some (?ids ! nat ?next)" using next_range by (simp add: js_nth_def)
  have "?ids ! k \<noteq> []" "?ids ! nat ?next \<noteq> []"
    using ids(2) k next_range nth_mem by (metis, metis nat_less_iff nth_mem)
  with resolved_index_at_cursor [OF ids(1) k] cursor
  have index: "getCommanderResolvedSearchMatchIndex ?ids (cursorEntryId (getPaneState w i)) f = int k" for f
    by simp
  define w' where "w' = (updatePaneState w i (place_cursor (?ids ! nat ?next)))\<lparr>pendingOperation := Some (operation
      \<lparr>detail := SearchDetail (d\<lparr>search_matchCount := fst (match_summary (getCommanderSearchMatches h (getPaneState w i) query)),
        search_matchPreview := snd (match_summary (getCommanderSearchMatches h (getPaneState w i) query)),
        search_matchIndex := ?next\<rparr>)\<rparr>)\<rparr>"
  have ne: "?ids \<noteq> []" using k by auto
  have found: "js_truthy (js_nth ?ids ?next)" "the (js_nth ?ids ?next) = ?ids ! nat ?next"
    unfolding at using \<open>?ids ! nat ?next \<noteq> []\<close> by simp_all
  have "stepCommanderWidgetPendingSearchMatch h w delta = Some w'"
    unfolding stepCommanderWidgetPendingSearchMatch_def w'_def op option.case
      CommanderPendingDetail.case Let_def case_prod_beta search_ids_def [symmetric] index shift
    by (simp only: ne found if_False not_True_eq_False)
  moreover have "search_pending w' i query" using op by (simp add: search_pending_def w'_def)
  moreover have "getCommanderSearchMatches h (getPaneState w' i) query = getCommanderSearchMatches h (getPaneState w i) query"
    by (rule getCommanderSearchMatches_cong) (simp add: w'_def store_simps)
  then have "search_ids h w' i query = ?ids" by (simp add: search_ids_def)
  moreover have "cursorEntryId (getPaneState w' i) = Some (?ids ! nat ?next)"
    by (simp add: w'_def store_simps)
  ultimately show ?thesis by blast
qed

section \<open>Properties of pending operations\<close>

text \<open>Pressing the step key \<open>k\<close> times.\<close>

primrec step_search_times ::
    "host \<Rightarrow> int \<Rightarrow> nat \<Rightarrow> CommanderWidgetRuntimeState \<Rightarrow> CommanderWidgetRuntimeState option" where
  "step_search_times h delta 0 w = Some w"
| "step_search_times h delta (Suc k) w =
     Option.bind (step_search_times h delta k w) (\<lambda>w'. stepCommanderWidgetPendingSearchMatch h w' delta)"

text \<open>
  Stepping through the matches of a quick search is cyclic: from the match at position \<open>k\<close>,
  \<open>m\<close> steps forward (or backward) put the cursor on the match at position \<open>k + m\<close> (or \<open>k - m\<close>) modulo
  the number of matches. In particular a full round returns to the start, and forward and backward
  steps undo each other. No step fails.
\<close>
theorem stepCommanderWidgetPendingSearchMatch_cyclic:
  assumes "search_pending w i query"
    and "distinct (search_ids h w i query)" and "[] \<notin> set (search_ids h w i query)"
    and "k < length (search_ids h w i query)"
    and "cursorEntryId (getPaneState w i) = Some (search_ids h w i query ! k)"
    and "delta = 1 \<or> delta = -1"
  shows "\<exists>w'. step_search_times h delta m w = Some w'
     \<and> cursorEntryId (getPaneState w' i)
         = Some (search_ids h w i query ! nat ((int k + int m * delta) mod int (length (search_ids h w i query))))"
proof -
  let ?ids = "search_ids h w i query"
  have "\<exists>w'. step_search_times h delta m w = Some w' \<and> search_pending w' i query
      \<and> search_ids h w' i query = ?ids
      \<and> cursorEntryId (getPaneState w' i) = Some (?ids ! nat ((int k + int m * delta) mod int (length ?ids)))"
  proof (induction m)
    case 0
    with assms show ?case by simp
  next
    case (Suc m)
    then obtain w' where w': "step_search_times h delta m w = Some w'" "search_pending w' i query"
      "search_ids h w' i query = ?ids"
      "cursorEntryId (getPaneState w' i) = Some (?ids ! nat ((int k + int m * delta) mod int (length ?ids)))"
      by blast
    define j where "j = nat ((int k + int m * delta) mod int (length ?ids))"
    have n: "0 < int (length ?ids)" using assms(4) by linarith
    have j: "int j = (int k + int m * delta) mod int (length ?ids)"
      unfolding j_def using pos_mod_sign [OF n] by simp
    have lt: "j < length ?ids" using j pos_mod_bound [OF n, of "int k + int m * delta"] by linarith
    have "(int j + delta) mod int (length ?ids) = (int k + int (Suc m) * delta) mod int (length ?ids)"
      unfolding j by (simp add: mod_simps algebra_simps)
    then show ?case
      using search_step_once [OF w'(2), of h j delta] w' assms(2,3,6) lt by (auto simp: j_def)
  qed
  then show ?thesis by blast
qed

definition sample_widget :: CommanderWidgetRuntimeState where
  "sample_widget = (createCommanderWidgetRuntimeState (js ''w1'') None)
     \<lparr>leftPane := sample_pane,
      rightPane := sample_pane\<lparr>pane_id := RightPane, path := js ''/v'', directoryEntries := [], entries := [],
        cursorEntryId := None, selectionAnchorEntryId := None\<rparr>,
      pendingOperation := Some \<lparr>sourcePaneId = LeftPane, sourcePath = js ''/w'', entryIds = [], entryNames = [],
        detail = SearchDetail \<lparr>search_inputValue = js ''B'', search_matchCount = 1,
          search_matchPreview = [js ''b''], search_matchIndex = 0\<rparr>\<rparr>\<rparr>"

lemma sample_search_ids: "search_ids ascii_host sample_widget LeftPane (js ''B'') = [js ''/w::b'']"
  by (simp add: search_ids_def sample_widget_def sample_pane_def sample_entry_def ascii_host_def
      getCommanderSearchMatches_def matches_of_def ascii_lower_def Let_def js_simps)

lemma sample_search_pending: "search_pending sample_widget LeftPane (js ''B'')"
  by (simp add: search_pending_def sample_widget_def)

theorem stepCommanderWidgetPendingSearchMatch_cyclic_witness:
  "\<exists>w'. step_search_times ascii_host (-1) 5 sample_widget = Some w'
     \<and> cursorEntryId (getPaneState w' LeftPane) = Some (js ''/w::b'')"
proof -
  have "cursorEntryId (getPaneState sample_widget LeftPane) = Some (js ''/w::b'')"
    by (simp add: sample_widget_def sample_pane_def)
  then show ?thesis
    using stepCommanderWidgetPendingSearchMatch_cyclic [OF sample_search_pending, of ascii_host 0 "-1" 5]
    unfolding sample_search_ids by simp
qed

text \<open>
  An operation opens except in the cases the interface has to refuse: nothing is selected and
  there is no cursor row, no selected row is visible for a rename, a move inside one directory, or
  a copy of one vanished entry onto itself. The opened operation has the requested kind, belongs to the
  active pane and its directory, and a transfer between panes never has equal source and target.
\<close>
theorem createPendingOperation_cases:
  "let p = getPaneState w (activePane w); q = getPaneState w (other_pane (activePane w));
       ids = getOperationEntryIds p
   in (case createPendingOperation h w kind of
         None \<Rightarrow> kind \<in> {KCopy, KMove, KDelete, KRename} \<and>
           (ids = []
            \<or> kind = KRename \<and> set ids \<inter> set (pane_ids p) = {}
            \<or> kind = KMove \<and> path p = path q
            \<or> kind = KCopy \<and> path p = path q \<and> length ids = 1
                \<and> \<not> js_truthy (suggestCommanderCloneName h p (ids ! 0)))
       | Some operation \<Rightarrow> pending_kind operation = kind \<and> sourcePaneId operation = activePane w
           \<and> sourcePath operation = path p
           \<and> (kind \<in> {KCopy, KMove, KDelete} \<longrightarrow> entryIds operation = ids \<and> ids \<noteq> [])
           \<and> (case detail operation of
                TransferDetail d \<Rightarrow> transfer_targetPaneId d = other_pane (activePane w)
                  \<and> transfer_targetPath d = path q \<and> path q \<noteq> path p
              | CloneDetail d \<Rightarrow> clone_targetPath d = path p \<and> path q = path p
              | RenameDetail d \<Rightarrow> set (entryIds operation) = set ids \<inter> set (pane_ids p)
                  \<and> entryIds operation \<noteq> [] \<and> (rename_mode d = RenameSingle \<longleftrightarrow> length (entryIds operation) = 1)
              | _ \<Rightarrow> True))"
proof (cases kind)
  case KRename
  let ?p = "getPaneState w (activePane w)"
  let ?es = "filter (\<lambda>e. entry_id e \<in> set (getOperationEntryIds ?p)) (entries ?p)"
  have ids: "set (map entry_id ?es) = set (getOperationEntryIds ?p) \<inter> set (pane_ids ?p)"
    by (auto simp: pane_ids_def)
  consider "?es = []" | e where "?es = [e]" | e f es where "?es = e # f # es"
    by (metis list.exhaust)
  then show ?thesis
    by cases (use KRename ids in
      \<open>simp_all add: createPendingOperation_def create_rename_def pending_kind_def Let_def\<close>)
qed (auto simp: createPendingOperation_def create_transfer_def create_mask_def pending_kind_def
  case_prod_beta Let_def)

theorem createPendingOperation_cases_witness:
  "case createPendingOperation ascii_host sample_widget KMove of
     None \<Rightarrow> False
   | Some operation \<Rightarrow> pending_kind operation = KMove \<and> sourcePaneId operation = LeftPane
       \<and> entryIds operation = [js ''/w::b'']"
proof -
  have *: "activePane sample_widget = LeftPane" "leftPane sample_widget = sample_pane"
    "path (rightPane sample_widget) = js ''/v''"
    by (simp_all add: sample_widget_def createCommanderWidgetRuntimeState_def commander_defaults)
  have "getOperationEntryIds sample_pane = [js ''/w::b'']" "path sample_pane = js ''/w''"
    by (simp_all add: getOperationEntryIds_def sample_pane_def)
  with * createPendingOperation_cases [where h = ascii_host and w = sample_widget and kind = KMove] show ?thesis
    by (auto simp: Let_def split: option.splits)
qed

text \<open>The rows a mask of a selection prompt stands for.\<close>

definition mask_rows :: "host \<Rightarrow> CommanderPaneRuntimeState \<Rightarrow> jsstring \<Rightarrow> CommanderDirectoryEntry list" where
  "mask_rows h p q = filter (\<lambda>e. \<exists>pattern\<in>set (splitCommanderMaskPatterns q). wildcard h pattern (entry_name e)) (entries p)"

lemma mask_matches_rows: "getCommanderMaskMatches h p q = matches_of (mask_rows h p q)"
  by (simp add: getCommanderMaskMatches_def matched_entries_wildcard mask_rows_def Bex_def Let_def)

lemma mask_rows_trim [simp]: "mask_rows h p (js_trim q) = mask_rows h p q"
  by (simp add: mask_rows_def)

lemma select_by_mask:
  "set (selectedIds (applySelectionMaskToPane h p q ModeSelect))
     = set (selectedIds p) \<inter> set (pane_ids p) \<union> entry_id ` set (mask_rows h p q)"
  "set (selectedIds (applySelectionMaskToPane h p q ModeUnselect)) = set (selectedIds p) - entry_id ` set (mask_rows h p q)"
  "entries (applySelectionMaskToPane h p q mode) = entries p"
  by (auto simp: applySelectionMaskToPane_def mask_matches_rows matches_of_def pane_ids_def mask_rows_def Let_def)

text \<open>
  C17: the preview of a selection prompt is truthful: when a mask is typed and the prompt is confirmed next,
  the number the prompt announced is the number of rows that match the mask and the names are the first six
  of them; confirming adds exactly these rows to the selection, or takes exactly these out of it, closes the
  prompt and leaves the rows and the other pane as they were.
\<close>
theorem selection_preview_truthful:
  assumes "pendingOperation w = Some operation" and "detail operation = MaskDetail d"
    and "mask_kind d \<noteq> MaskFilter" and "p = getPaneState w (sourcePaneId operation)"
  shows "\<exists>w1 d1 w2. updateCommanderPendingOperationInput h w q = Some w1
     \<and> pendingOperation w1 = Some (operation\<lparr>detail := MaskDetail d1\<rparr>)
     \<and> mask_matchCount d1 = int (length (mask_rows h p q)) \<and> mask_matchPreview d1 = take 6 (map entry_name (mask_rows h p q))
     \<and> confirmCommanderWidgetPendingOperation h w1 = Some w2 \<and> pendingOperation w2 = None
     \<and> set (selectedIds (getPaneState w2 (sourcePaneId operation))) =
         (if mask_kind d = MaskSelect then set (selectedIds p) \<inter> set (pane_ids p) \<union> entry_id ` set (mask_rows h p q)
          else set (selectedIds p) - entry_id ` set (mask_rows h p q))
     \<and> entries (getPaneState w2 (sourcePaneId operation)) = entries p
     \<and> getPaneState w2 (other_pane (sourcePaneId operation)) = getPaneState w (other_pane (sourcePaneId operation))"
proof -
  let ?i = "sourcePaneId operation"
  define d1 where "d1 = d\<lparr>mask_inputValue := q, mask_matchCount := int (length (mask_rows h p q)),
      mask_matchPreview := take 6 (map entry_name (mask_rows h p q))\<rparr>"
  define w1 where "w1 = w\<lparr>pendingOperation := Some (operation\<lparr>detail := MaskDetail d1\<rparr>)\<rparr>"
  define w2 where "w2 = updatePaneState (w1\<lparr>pendingOperation := None\<rparr>) ?i
      (\<lambda>p. applySelectionMaskToPane h p (js_trim q) (if mask_kind d = MaskSelect then ModeSelect else ModeUnselect))"
  have "updateCommanderPendingOperationInput h w q = Some w1"
    using assms by (simp add: updateCommanderPendingOperationInput_def update_detail_input_def match_summary_def
        mask_matches_rows matches_of_def w1_def d1_def Let_def)
  moreover have "confirmCommanderWidgetPendingOperation h w1 = Some w2"
    using assms(3) by (cases "mask_kind d") (simp_all add: confirmCommanderWidgetPendingOperation_def w1_def w2_def d1_def)
  moreover have "getPaneState w2 (other_pane ?i) = getPaneState w (other_pane ?i)"
    by (simp add: w2_def w1_def store_simps other_pane_simps(4) [symmetric])
  moreover have "getPaneState w2 ?i
      = applySelectionMaskToPane h p (js_trim q) (if mask_kind d = MaskSelect then ModeSelect else ModeUnselect)"
    using assms(4) by (simp add: w2_def w1_def store_simps)
  ultimately show ?thesis
    by (intro exI [of _ w1] exI [of _ d1] exI [of _ w2]) (simp add: w2_def w1_def d1_def store_simps select_by_mask)
qed

definition sample_selection :: "CommanderPendingOperation" where
  "sample_selection = \<lparr>sourcePaneId = LeftPane, sourcePath = js ''/w'', entryIds = [], entryNames = [],
     detail = MaskDetail \<lparr>mask_kind = MaskSelect, mask_inputValue = [], mask_matchCount = 0, mask_matchPreview = []\<rparr>\<rparr>"

theorem selection_preview_truthful_witness:
  "\<exists>w1 d1 w2. updateCommanderPendingOperationInput ascii_host (sample_widget\<lparr>pendingOperation := Some sample_selection\<rparr>) (js ''b*'') = Some w1
     \<and> pendingOperation w1 = Some (sample_selection\<lparr>detail := MaskDetail d1\<rparr>)
     \<and> confirmCommanderWidgetPendingOperation ascii_host w1 = Some w2
     \<and> mask_matchCount d1 = int (length (mask_rows ascii_host (getPaneState sample_widget LeftPane) (js ''b*'')))"
proof -
  have "sourcePaneId sample_selection = LeftPane" by (simp add: sample_selection_def)
  then show ?thesis
    using selection_preview_truthful [of "sample_widget\<lparr>pendingOperation := Some sample_selection\<rparr>" sample_selection
      "\<lparr>mask_kind = MaskSelect, mask_inputValue = [], mask_matchCount = 0, mask_matchPreview = []\<rparr>" _ ascii_host "js ''b*''", OF _ _ _ refl]
    by (auto simp: sample_selection_def store_simps simp del: js_Cons)
qed

lemma remove_at_zip: "remove_at i (zip xs ys) = zip (remove_at i xs) (remove_at i ys)" if "length xs = length ys"
  using that by (simp add: remove_at_def take_zip drop_zip zip_append)

lemma remove_at_distinct:
  assumes "distinct (map f xs)" and "k < length xs"
  shows "remove_at (int k) xs = filter (\<lambda>x. f x \<noteq> f (xs ! k)) xs"
proof -
  have split: "xs = take k xs @ xs ! k # drop (Suc k) xs" by (rule id_take_nth_drop [OF assms(2)])
  then have "f (xs ! k) \<notin> f ` set (take k xs)" "f (xs ! k) \<notin> f ` set (drop (Suc k) xs)"
    using assms(1) by (metis (no_types, lifting) disjoint_iff distinct.simps(2) distinct_append image_set
        insertI1 list.simps(9) list.set(2) map_append)+
  then have "filter (\<lambda>x. f x \<noteq> f (xs ! k)) (take k xs) = take k xs"
    "filter (\<lambda>x. f x \<noteq> f (xs ! k)) (drop (Suc k) xs) = drop (Suc k) xs"
    unfolding filter_id_conv by (metis imageI)+
  then have "filter (\<lambda>x. f x \<noteq> f (xs ! k)) (take k xs @ xs ! k # drop (Suc k) xs)
      = take k xs @ drop (Suc k) xs"
    by simp
  with split show ?thesis by (simp add: remove_at_def)
qed

text \<open>
  While the names of a transfer are listed in the order of its entries and are different, resolving
  one conflict removes exactly the entry of that name, from the queue and from the pending conflicts, and
  keeps ids and names aligned.
\<close>
lemma removePendingTransferEntry_aligned:
  assumes "length (entryIds operation) = length (entryNames operation)" and "distinct (entryNames operation)"
    and "detail operation = TransferDetail d" and "set (transfer_conflictEntryNames d) \<subseteq> set (entryNames operation)"
  shows "let r = removePendingTransferEntry operation d n in
      zip (entryIds r) (entryNames r) = filter (\<lambda>(i, m). m \<noteq> n) (zip (entryIds operation) (entryNames operation))
    \<and> length (entryIds r) = length (entryNames r)
    \<and> (\<exists>d'. detail r = TransferDetail d' \<and> n \<notin> set (transfer_conflictEntryNames d')
        \<and> set (transfer_conflictEntryNames d') = set (transfer_conflictEntryNames d) - {n})"
proof (cases rule: js_findIndex_cases [of "\<lambda>m. m = n" "entryNames operation"])
  case absent
  then have "\<forall>(i, m)\<in>set (zip (entryIds operation) (entryNames operation)). m \<noteq> n"
    by (auto dest: set_zip_rightD)
  then have "filter (\<lambda>(i, m). m \<noteq> n) (zip (entryIds operation) (entryNames operation))
      = zip (entryIds operation) (entryNames operation)"
    by (auto simp: filter_id_conv)
  with absent assms show ?thesis by (auto simp: removePendingTransferEntry_def Let_def)
next
  case (found k)
  let ?z = "zip (entryIds operation) (entryNames operation)"
  have "remove_at (int k) ?z = filter (\<lambda>x. snd x \<noteq> snd (?z ! k)) ?z"
    using assms(1,2) found(2) by (intro remove_at_distinct) (simp_all add: map_snd_zip)
  then have "remove_at (int k) ?z = filter (\<lambda>(i, m). m \<noteq> n) ?z"
    using found assms(1) by (simp add: case_prod_beta')
  moreover have "js_findIndex (\<lambda>m. m = n) (entryNames operation) \<noteq> -1" using found(1) by simp
  ultimately show ?thesis
    using found assms remove_at_zip [OF assms(1), of "int k"]
    by (auto simp: removePendingTransferEntry_def length_remove_at Let_def simp del: js_findIndex_eq_minus1)
qed

definition sample_transfer :: CommanderTransferDetail where
  "sample_transfer = \<lparr>transfer_kind = TransferCopy, transfer_targetPaneId = RightPane,
     transfer_targetPath = js ''/v'', transfer_conflictEntryNames = [js ''b'']\<rparr>"

definition sample_copy :: CommanderPendingOperation where
  "sample_copy = \<lparr>sourcePaneId = LeftPane, sourcePath = js ''/w'', entryIds = [js ''/w::a'', js ''/w::b''],
     entryNames = [js ''a'', js ''b''], detail = TransferDetail sample_transfer\<rparr>"

lemma removePendingTransferEntry_aligned_witness:
  "let r = removePendingTransferEntry sample_copy sample_transfer (js ''b'') in
     zip (entryIds r) (entryNames r)
       = filter (\<lambda>(i, m). m \<noteq> js ''b'') (zip (entryIds sample_copy) (entryNames sample_copy))
     \<and> length (entryIds r) = length (entryNames r)"
  using removePendingTransferEntry_aligned [of sample_copy sample_transfer "js ''b''"]
  by (simp add: sample_copy_def sample_transfer_def Let_def)

text \<open>
  The hypothesis of that lemma is not what opening a transfer establishes: the ids are in the order of
  selection and the names in the order of the rows. With \<open>b\<close> selected before \<open>a\<close>, resolving the
  conflict of \<open>b\<close> removes the entry \<open>a\<close> from the queue.
\<close>
lemma transfer_ids_follow_selection_order:
  "let w = sample_widget\<lparr>leftPane := sample_pane\<lparr>selectedIds := [js ''/w::b'', js ''/w::a'']\<rparr>\<rparr> in
   \<exists>operation d. createPendingOperation ascii_host w KCopy = Some operation \<and> detail operation = TransferDetail d
     \<and> entryIds operation = [js ''/w::b'', js ''/w::a''] \<and> entryNames operation = [js ''a'', js ''b'']
     \<and> entryIds (removePendingTransferEntry operation d (js ''b'')) = [js ''/w::b'']"
  by (simp add: createPendingOperation_def create_transfer_def getOperationEntryIds_def sample_widget_def
      createCommanderWidgetRuntimeState_def commander_defaults sample_pane_def sample_entry_def
      removePendingTransferEntry_def remove_at_def Let_def)

section \<open>What the operations keep\<close>

lemma widget_projected_pending [simp]:
  "widget_projected h (w\<lparr>pendingOperation := o'\<rparr>) = widget_projected h w"
  by (simp add: widget_projected_iff store_simps)

lemma widget_consistent_pending [simp]:
  "widget_consistent (w\<lparr>pendingOperation := o'\<rparr>) = widget_consistent w"
  by (simp add: widget_consistent_iff store_simps)

lemma place_cursor_rows: "same_rows p (place_cursor i p)"
  by (simp add: place_cursor_def)

lemma place_cursor_consistent: "pane_consistent p \<Longrightarrow> i \<in> set (pane_ids p) \<Longrightarrow> pane_consistent (place_cursor i p)"
  by (simp add: place_cursor_def pane_consistent_def)

lemma same_rows_projected: "same_rows p q \<Longrightarrow> pane_projected h options p \<Longrightarrow> pane_projected h options q"
  by (simp add: pane_projected_def same_rows_fields)

lemma update_pane_projected:
  "widget_projected h w \<Longrightarrow> pane_projected h (projection_options w) (f (getPaneState w i)) \<Longrightarrow>
     widget_projected h (updatePaneState w i f)"
  by (simp add: widget_projected_iff store_simps)

lemma update_pane_consistent:
  "widget_consistent w \<Longrightarrow> pane_consistent (f (getPaneState w i)) \<Longrightarrow> widget_consistent (updatePaneState w i f)"
  by (simp add: widget_consistent_iff store_simps)

lemma search_match_in_rows:
  "js_nth (match_entryIds (getCommanderSearchMatches h p q)) k = Some i \<Longrightarrow> i \<in> set (pane_ids p)"
  by (drule js_nth_Some_in_set) (rule subsetD [OF search_match_ids])

lemma updateInput_panes:
  assumes "updateCommanderPendingOperationInput h w q = Some w'"
  obtains o' where "w' = w\<lparr>pendingOperation := Some o'\<rparr>"
  using assms by (auto simp: updateCommanderPendingOperationInput_def split: option.splits)

lemma request_panes:
  assumes "requestCommanderWidgetPendingOperation h w kind = Some w'"
  obtains o' where "w' = w\<lparr>pendingOperation := Some o'\<rparr>"
  using assms by (auto simp: requestCommanderWidgetPendingOperation_def)

lemma step_search_panes:
  assumes "stepCommanderWidgetPendingSearchMatch h w delta = Some w'"
  obtains i c o' where "w' = (updatePaneState w i (place_cursor c))\<lparr>pendingOperation := Some o'\<rparr>"
    "c \<in> set (pane_ids (getPaneState w i))"
  using assms
  by (auto simp: stepCommanderWidgetPendingSearchMatch_def js_truthy_def Let_def case_prod_beta
      split: option.splits CommanderPendingDetail.splits if_splits
      intro: search_match_in_rows)

lemma confirm_panes:
  assumes "confirmCommanderWidgetPendingOperation h w = Some w'"
  obtains i f where "w' = updatePaneState (w\<lparr>pendingOperation := None\<rparr>) i f"
    "(\<exists>m mode. f = (\<lambda>p. applySelectionMaskToPane h p m mode))
     \<or> (\<exists>q. f = (\<lambda>p. rebuildPaneState h w (p\<lparr>filterQuery := q\<rparr>)))
     \<or> f = id \<or> (\<exists>c\<in>set (pane_ids (getPaneState w i)). f = place_cursor c)"
proof -
  obtain operation where op: "pendingOperation w = Some operation"
    using assms by (auto simp: confirmCommanderWidgetPendingOperation_def split: option.splits)
  show thesis
  proof (cases "detail operation")
    case (MaskDetail d)
    then show thesis
      using assms op by (cases "mask_kind d")
        (auto simp: confirmCommanderWidgetPendingOperation_def Let_def intro!: that)
  next
    case (SearchDetail d)
    then show thesis
      using assms op
      by (auto simp: confirmCommanderWidgetPendingOperation_def js_truthy_def Let_def
          intro!: that intro: search_match_in_rows split: if_splits option.splits)
  qed (use assms op in \<open>auto simp: confirmCommanderWidgetPendingOperation_def Let_def\<close>)
qed

end
