(* ===== verification/Commander_Store.thy ===== *)
theory Commander_Store
  imports Commander_Operations
begin

text \<open>
  The commander store, \<^verbatim>\<open>features/commander/model/store.ts\<close> and \<^verbatim>\<open>store-widget-state.ts\<close>: a map from
  widget ids to widget states and one reducer per event. A reducer is a partial update of one widget
  (\<open>None\<close> is the \<open>null\<close> that leaves the store as it is); \<open>commander_reduce\<close> dispatches an event. The
  events no reducer listens to (opening entries, parent and history commands, view, edit, save, conflict
  resolution) change nothing in the store.
\<close>

type_synonym CommanderWidgets = "jsstring \<rightharpoonup> CommanderWidgetRuntimeState"

section \<open>Payloads\<close>

datatype history_mode = ModeBack | ModeForward | ModePush | ModeReplace

text \<open>
  The three optional overrides are three-valued: absent (\<open>None\<close>), present and null or undefined
  (\<open>Some None\<close>), present with a value. The reducer asks \<open>hasOwnProperty\<close>.
\<close>

record CommanderHydratePanePayload =
  hydrate_directoryEntries :: "CommanderDirectoryEntry list"
  hydrate_cursorEntryId :: "jsstring option option"
  hydrate_filterQuery :: "jsstring option"
  hydrate_historyMode :: "history_mode option"
  hydrate_path :: jsstring
  hydrate_selectedIds :: "jsstring list option option"
  hydrate_selectionAnchorEntryId :: "jsstring option option"

datatype CommanderEvent =
    MountCommanderWidget "CommanderWidgetPersistedState option"
  | SetCommanderActivePane CommanderPaneId
  | SetCommanderPaneLoading CommanderPaneId
  | SetCommanderPaneLoadError CommanderPaneId "jsstring option" "jsstring option"
  | HydrateCommanderPaneDirectory CommanderPaneId CommanderHydratePanePayload
  | ToggleCommanderShowHidden
  | ToggleCommanderDirsFirst
  | SetCommanderViewMode CommanderViewMode
  | SetCommanderSortMode CommanderSortMode
  | SetCommanderPaneCursor CommanderPaneId jsstring bool
  | MoveCommanderPaneCursor CommanderPaneId int bool
  | MoveCommanderActivePaneCursor int bool
  | ToggleCommanderPaneSelection CommanderPaneId jsstring
  | ToggleCommanderActivePaneSelection bool
  | SetCommanderFileDialog "CommanderFileDialogState option"
  | SetCommanderFileDialogDraft jsstring
  | CloseCommanderFileDialog
  | SwitchCommanderActivePane
  | SetCommanderPaneBoundaryCursor CommanderPaneId cursor_boundary bool
  | RequestCommanderActivePane CommanderPendingOperationKind
  | StepCommanderPendingSearchMatch int
  | ClearCommanderActivePaneFilter
  | SetCommanderPaneFilterQuery CommanderPaneId jsstring
  | InvertCommanderActivePaneSelection
  | SetCommanderPendingOperationInput jsstring
  | SetCommanderPendingOperation "CommanderPendingOperation option"
  | ConfirmCommanderPendingOperation
  | CancelCommanderPendingOperation

section \<open>Reducers\<close>

definition withCommanderWidgetState ::
    "CommanderWidgets \<Rightarrow> jsstring \<Rightarrow> (CommanderWidgetRuntimeState \<Rightarrow> CommanderWidgetRuntimeState option) \<Rightarrow>
     CommanderWidgets" where
  "withCommanderWidgetState widgets wid updateWidgetState =
     (case widgets wid of
        None \<Rightarrow> widgets
      | Some widgetState \<Rightarrow>
          (case updateWidgetState widgetState of
             None \<Rightarrow> widgets
           | Some nextWidgetState \<Rightarrow> widgets(wid \<mapsto> nextWidgetState)))"

definition mountCommanderWidget ::
    "CommanderWidgets \<Rightarrow> jsstring \<Rightarrow> CommanderWidgetPersistedState option \<Rightarrow> CommanderWidgets" where
  "mountCommanderWidget widgets wid persisted =
     (if widgets wid \<noteq> None then widgets
      else widgets(wid \<mapsto> createCommanderWidgetRuntimeState wid persisted))"

definition setCommanderPaneLoading ::
    "CommanderPaneId \<Rightarrow> CommanderWidgetRuntimeState \<Rightarrow> CommanderWidgetRuntimeState" where
  "setCommanderPaneLoading paneId widgetState =
     updatePaneState widgetState paneId (\<lambda>paneState. paneState\<lparr>isLoading := True, errorMessage := None\<rparr>)"

definition setCommanderPaneLoadError ::
    "host \<Rightarrow> CommanderPaneId \<Rightarrow> jsstring option \<Rightarrow> jsstring option \<Rightarrow> CommanderWidgetRuntimeState \<Rightarrow>
     CommanderWidgetRuntimeState" where
  "setCommanderPaneLoadError h paneId message new_path widgetState =
     updatePaneState widgetState paneId (\<lambda>paneState.
       (let nextPath = js_default new_path (path paneState);
            pathChanged = nextPath \<noteq> path paneState
        in rebuildCommanderPaneState h widgetState paneState (\<lambda>p. p
             \<lparr>path := nextPath,
              directoryEntries := (if pathChanged then [] else directoryEntries paneState),
              selectedIds := (if pathChanged then [] else selectedIds paneState),
              cursorEntryId := (if pathChanged then None else cursorEntryId paneState),
              selectionAnchorEntryId := (if pathChanged then None else selectionAnchorEntryId paneState),
              isLoading := False,
              errorMessage := Some (js_default message (js ''Unable to load directory''))\<rparr>)))"

definition next_history_back :: "history_mode option \<Rightarrow> CommanderPaneRuntimeState \<Rightarrow> jsstring list" where
  "next_history_back mode p =
     (if mode = Some ModePush \<and> path p \<noteq> [] then historyBack p @ [path p]
      else if mode = Some ModeForward \<and> path p \<noteq> [] then historyBack p @ [path p]
      else if mode = Some ModeBack then butlast (historyBack p)
      else historyBack p)"

definition next_history_forward :: "history_mode option \<Rightarrow> CommanderPaneRuntimeState \<Rightarrow> jsstring list" where
  "next_history_forward mode p =
     (if mode = Some ModePush then []
      else if mode = Some ModeBack \<and> path p \<noteq> [] then historyForward p @ [path p]
      else if mode = Some ModeForward then butlast (historyForward p)
      else historyForward p)"

text \<open>\<^verbatim>\<open>hasOverride ? (value ?? fallback) : pathChanged ? fallback : current\<close>.\<close>

definition override :: "'a option option \<Rightarrow> bool \<Rightarrow> 'a \<Rightarrow> 'a \<Rightarrow> 'a" where
  "override given pathChanged fallback current =
     (case given of Some v \<Rightarrow> js_default v fallback | None \<Rightarrow> if pathChanged then fallback else current)"

definition hydrateCommanderPaneDirectory ::
    "host \<Rightarrow> CommanderPaneId \<Rightarrow> CommanderHydratePanePayload \<Rightarrow> CommanderWidgetRuntimeState \<Rightarrow>
     CommanderWidgetRuntimeState" where
  "hydrateCommanderPaneDirectory h paneId payload widgetState =
     (let currentPaneState = getPaneState widgetState paneId;
          pathChanged = path currentPaneState \<noteq> hydrate_path payload;
          nextHistoryBack = next_history_back (hydrate_historyMode payload) currentPaneState;
          nextHistoryForward = next_history_forward (hydrate_historyMode payload) currentPaneState;
          nextWidgetState = widgetState\<lparr>activePane := paneId\<rparr>
      in updatePaneState nextWidgetState paneId (\<lambda>paneState.
           rebuildCommanderPaneState h nextWidgetState paneState (\<lambda>p. p
             \<lparr>path := hydrate_path payload,
              filterQuery := js_default (hydrate_filterQuery payload)
                (if pathChanged then [] else filterQuery paneState),
              directoryEntries := hydrate_directoryEntries payload,
              selectedIds := override (hydrate_selectedIds payload) pathChanged [] (selectedIds paneState),
              cursorEntryId := override (map_option (map_option Some) (hydrate_cursorEntryId payload))
                pathChanged None (cursorEntryId paneState),
              selectionAnchorEntryId :=
                override (map_option (map_option Some) (hydrate_selectionAnchorEntryId payload))
                  pathChanged None (selectionAnchorEntryId paneState),
              historyBack := nextHistoryBack,
              historyForward := nextHistoryForward,
              isLoading := False,
              errorMessage := None\<rparr>)))"

definition rebuild_both ::
    "host \<Rightarrow> CommanderWidgetRuntimeState \<Rightarrow> CommanderWidgetRuntimeState \<Rightarrow> CommanderWidgetRuntimeState" where
  "rebuild_both h nextWidgetState widgetState =
     nextWidgetState\<lparr>leftPane := rebuildPaneState h nextWidgetState (leftPane widgetState),
                     rightPane := rebuildPaneState h nextWidgetState (rightPane widgetState)\<rparr>"

definition toggleCommanderShowHidden ::
    "host \<Rightarrow> CommanderWidgetRuntimeState \<Rightarrow> CommanderWidgetRuntimeState" where
  "toggleCommanderShowHidden h widgetState =
     rebuild_both h (widgetState\<lparr>showHidden := \<not> showHidden widgetState\<rparr>) widgetState"

definition toggleCommanderDirsFirst ::
    "host \<Rightarrow> CommanderWidgetRuntimeState \<Rightarrow> CommanderWidgetRuntimeState" where
  "toggleCommanderDirsFirst h widgetState =
     rebuild_both h (widgetState\<lparr>dirsFirst := \<not> dirsFirst widgetState\<rparr>) widgetState"

definition setCommanderViewMode ::
    "CommanderViewMode \<Rightarrow> CommanderWidgetRuntimeState \<Rightarrow> CommanderWidgetRuntimeState option" where
  "setCommanderViewMode mode widgetState =
     (if viewMode widgetState = mode then None else Some (widgetState\<lparr>viewMode := mode\<rparr>))"

definition setCommanderSortMode ::
    "host \<Rightarrow> CommanderSortMode \<Rightarrow> CommanderWidgetRuntimeState \<Rightarrow> CommanderWidgetRuntimeState" where
  "setCommanderSortMode h mode widgetState =
     (let nextSortDirection =
            (if sortMode widgetState = mode then (if sortDirection widgetState = Asc then Desc else Asc) else Asc)
      in rebuild_both h (widgetState\<lparr>sortMode := mode, sortDirection := nextSortDirection\<rparr>) widgetState)"

definition setCommanderPaneCursor ::
    "CommanderPaneId \<Rightarrow> jsstring \<Rightarrow> bool \<Rightarrow> CommanderWidgetRuntimeState \<Rightarrow> CommanderWidgetRuntimeState" where
  "setCommanderPaneCursor paneId entryId rangeSelect widgetState =
     updatePaneState (widgetState\<lparr>activePane := paneId\<rparr>) paneId (\<lambda>paneState.
       if \<not> list_ex (\<lambda>entry. entry_id entry = entryId) (entries paneState) then paneState
       else if rangeSelect then setSelectionRangeAtCursor paneState entryId
       else paneState\<lparr>cursorEntryId := Some entryId, selectionAnchorEntryId := Some entryId\<rparr>)"

definition move_cursor :: "int \<Rightarrow> bool \<Rightarrow> CommanderPaneRuntimeState \<Rightarrow> CommanderPaneRuntimeState" where
  "move_cursor delta extendSelection paneState =
     (if extendSelection then movePaneCursorWithSelection paneState delta else movePaneCursor paneState delta)"

definition toggleCommanderActivePaneSelection ::
    "bool \<Rightarrow> CommanderWidgetRuntimeState \<Rightarrow> CommanderWidgetRuntimeState option" where
  "toggleCommanderActivePaneSelection advance widgetState =
     (let active = activePane widgetState; entryId = cursorEntryId (getPaneState widgetState active) in
      if \<not> js_truthy entryId then None
      else
        (let nextWidgetState = updatePaneState widgetState active (\<lambda>p. toggleEntrySelection p (the entryId)) in
         Some (if advance then updatePaneState nextWidgetState active (\<lambda>p. movePaneCursor p 1)
               else nextWidgetState)))"

definition setCommanderPaneBoundaryCursor ::
    "CommanderPaneId \<Rightarrow> cursor_boundary \<Rightarrow> bool \<Rightarrow> CommanderWidgetRuntimeState \<Rightarrow> CommanderWidgetRuntimeState" where
  "setCommanderPaneBoundaryCursor paneId boundary extendSelection widgetState =
     updatePaneState (widgetState\<lparr>activePane := paneId\<rparr>) paneId (\<lambda>paneState.
       if extendSelection then setCursorToBoundaryWithSelection paneState boundary
       else setCursorToBoundary paneState boundary)"

definition set_filter_query ::
    "host \<Rightarrow> CommanderPaneId \<Rightarrow> jsstring \<Rightarrow> CommanderWidgetRuntimeState \<Rightarrow> CommanderWidgetRuntimeState" where
  "set_filter_query h paneId query widgetState =
     updatePaneState widgetState paneId (\<lambda>paneState.
       rebuildPaneState h widgetState (paneState\<lparr>filterQuery := query\<rparr>))"

text \<open>The reducer of every event but the mount, on the widget it names.\<close>

fun reduce_widget ::
    "host \<Rightarrow> CommanderEvent \<Rightarrow> CommanderWidgetRuntimeState \<Rightarrow> CommanderWidgetRuntimeState option" where
  "reduce_widget h (MountCommanderWidget p) w = None"
| "reduce_widget h (SetCommanderActivePane i) w = Some (w\<lparr>activePane := i\<rparr>)"
| "reduce_widget h (SetCommanderPaneLoading i) w = Some (setCommanderPaneLoading i w)"
| "reduce_widget h (SetCommanderPaneLoadError i m p) w = Some (setCommanderPaneLoadError h i m p w)"
| "reduce_widget h (HydrateCommanderPaneDirectory i d) w = Some (hydrateCommanderPaneDirectory h i d w)"
| "reduce_widget h ToggleCommanderShowHidden w = Some (toggleCommanderShowHidden h w)"
| "reduce_widget h ToggleCommanderDirsFirst w = Some (toggleCommanderDirsFirst h w)"
| "reduce_widget h (SetCommanderViewMode m) w = setCommanderViewMode m w"
| "reduce_widget h (SetCommanderSortMode m) w = Some (setCommanderSortMode h m w)"
| "reduce_widget h (SetCommanderPaneCursor i e r) w = Some (setCommanderPaneCursor i e r w)"
| "reduce_widget h (MoveCommanderPaneCursor i d x) w =
     Some (updatePaneState (w\<lparr>activePane := i\<rparr>) i (move_cursor d x))"
| "reduce_widget h (MoveCommanderActivePaneCursor d x) w =
     Some (updatePaneState w (activePane w) (move_cursor d x))"
| "reduce_widget h (ToggleCommanderPaneSelection i e) w =
     Some (updatePaneState (w\<lparr>activePane := i\<rparr>) i (\<lambda>p. toggleEntrySelection p e))"
| "reduce_widget h (ToggleCommanderActivePaneSelection a) w = toggleCommanderActivePaneSelection a w"
| "reduce_widget h (SetCommanderFileDialog d) w = Some (w\<lparr>fileDialog := d\<rparr>)"
| "reduce_widget h (SetCommanderFileDialogDraft v) w =
     map_option (\<lambda>d. w\<lparr>fileDialog := Some (d\<lparr>dialog_draftValue := v\<rparr>)\<rparr>) (fileDialog w)"
| "reduce_widget h CloseCommanderFileDialog w =
     (if fileDialog w = None then None else Some (w\<lparr>fileDialog := None\<rparr>))"
| "reduce_widget h SwitchCommanderActivePane w = Some (w\<lparr>activePane := other_pane (activePane w)\<rparr>)"
| "reduce_widget h (SetCommanderPaneBoundaryCursor i b x) w = Some (setCommanderPaneBoundaryCursor i b x w)"
| "reduce_widget h (RequestCommanderActivePane k) w = requestCommanderWidgetPendingOperation h w k"
| "reduce_widget h (StepCommanderPendingSearchMatch d) w = stepCommanderWidgetPendingSearchMatch h w d"
| "reduce_widget h ClearCommanderActivePaneFilter w = Some (set_filter_query h (activePane w) [] w)"
| "reduce_widget h (SetCommanderPaneFilterQuery i q) w = Some (set_filter_query h i q w)"
| "reduce_widget h InvertCommanderActivePaneSelection w =
     Some (updatePaneState w (activePane w) invertPaneSelection)"
| "reduce_widget h (SetCommanderPendingOperationInput v) w = updateCommanderPendingOperationInput h w v"
| "reduce_widget h (SetCommanderPendingOperation p) w = Some (w\<lparr>pendingOperation := p\<rparr>)"
| "reduce_widget h ConfirmCommanderPendingOperation w = confirmCommanderWidgetPendingOperation h w"
| "reduce_widget h CancelCommanderPendingOperation w =
     (if pendingOperation w = None then None else Some (w\<lparr>pendingOperation := None\<rparr>))"

definition commander_reduce :: "host \<Rightarrow> CommanderWidgets \<Rightarrow> jsstring \<Rightarrow> CommanderEvent \<Rightarrow> CommanderWidgets" where
  "commander_reduce h widgets wid event =
     (case event of
        MountCommanderWidget persisted \<Rightarrow> mountCommanderWidget widgets wid persisted
      | _ \<Rightarrow> withCommanderWidgetState widgets wid (reduce_widget h event))"

section \<open>Reachable stores\<close>

inductive commander_reachable :: "host \<Rightarrow> CommanderWidgets \<Rightarrow> bool" for h where
  reach_empty: "commander_reachable h Map.empty"
| reach_event: "commander_reachable h ws \<Longrightarrow> commander_reachable h (commander_reduce h ws wid event)"

text \<open>
  What every reachable widget satisfies: it is stored under its id, its panes are where they say they
  are, the rows of a pane are the projection of its directory under the settings of the widget, and a
  pane whose directory is not empty has its cursor, anchor and selection on its rows. (A pane restored
  from a snapshot keeps the saved cursor and selection until its directory is loaded.)
\<close>

definition pane_settled :: "CommanderPaneRuntimeState \<Rightarrow> bool" where
  "pane_settled p \<longleftrightarrow> directoryEntries p = [] \<or> pane_consistent p"

definition pane_ok :: "host \<Rightarrow> CommanderProjectionOptions \<Rightarrow> CommanderPaneId \<Rightarrow> CommanderPaneRuntimeState \<Rightarrow> bool" where
  "pane_ok h options i p \<longleftrightarrow> pane_id p = i \<and> pane_projected h options p \<and> pane_settled p"

definition widget_ok :: "host \<Rightarrow> jsstring \<Rightarrow> CommanderWidgetRuntimeState \<Rightarrow> bool" where
  "widget_ok h wid w \<longleftrightarrow> widgetId w = wid \<and> (\<forall>i. pane_ok h (projection_options w) i (getPaneState w i))"

definition store_ok :: "host \<Rightarrow> CommanderWidgets \<Rightarrow> bool" where
  "store_ok h ws \<longleftrightarrow> (\<forall>wid w. ws wid = Some w \<longrightarrow> widget_ok h wid w)"

lemma pane_ok_same_rows:
  assumes "pane_ok h options i p" and "same_rows p q" and "pane_consistent p \<Longrightarrow> pane_consistent q"
  shows "pane_ok h options i q"
  using assms same_rows_fields [OF assms(2)]
  by (auto simp: pane_ok_def pane_settled_def pane_projected_def)

lemma pane_ok_rebuild:
  "options = projection_options w \<Longrightarrow> pane_id (f p) = i \<Longrightarrow> pane_ok h options i (rebuildCommanderPaneState h w p f)"
  by (auto simp: pane_ok_def pane_settled_def pane_simps)

lemma pane_ok_rebuildPaneState:
  "options = projection_options w \<Longrightarrow> pane_id p = i \<Longrightarrow> pane_ok h options i (rebuildPaneState h w p)"
  by (auto simp: pane_ok_def pane_settled_def pane_simps)

lemma pane_ok_flags [simp]: "pane_ok h options i (p\<lparr>isLoading := l, errorMessage := e\<rparr>) = pane_ok h options i p"
  by (simp add: pane_ok_def pane_settled_def pane_projected_def pane_consistent_def pane_ids_def)

lemma pane_ok_id: "widget_ok h wid w \<Longrightarrow> pane_id (getPaneState w i) = i"
  by (simp add: widget_ok_def pane_ok_def)

lemma widget_ok_update:
  assumes "widget_ok h wid w" and "pane_ok h (projection_options w) i (f (getPaneState w i))"
  shows "widget_ok h wid (updatePaneState w i f)"
  using assms by (auto simp: widget_ok_def store_simps)

lemma widget_ok_frame [simp]:
  "widget_ok h wid (w\<lparr>activePane := a\<rparr>) = widget_ok h wid w"
  "widget_ok h wid (w\<lparr>pendingOperation := o'\<rparr>) = widget_ok h wid w"
  "widget_ok h wid (w\<lparr>fileDialog := d\<rparr>) = widget_ok h wid w"
  "widget_ok h wid (w\<lparr>viewMode := v\<rparr>) = widget_ok h wid w"
  by (simp_all add: widget_ok_def store_simps)

text \<open>A row operation keeps a widget well formed: the clients of \<open>row_operation\<close>.\<close>

context row_operation
begin

lemma update_ok: "widget_ok h wid w \<Longrightarrow> widget_ok h wid (updatePaneState w i op)"
  by (rule widget_ok_update) (auto simp: widget_ok_def intro: pane_ok_same_rows [OF _ rows] consistent)

end

interpretation cursor_op: row_operation "move_cursor delta x" for delta x
  by unfold_locales
     (auto simp: move_cursor_def intro: move_op.rows move_op.consistent move_range_op.rows move_range_op.consistent)

interpretation set_cursor_op: row_operation
  "\<lambda>p. if \<not> list_ex (\<lambda>e. entry_id e = t) (entries p) then p
       else if r then setSelectionRangeAtCursor p t
       else p\<lparr>cursorEntryId := Some t, selectionAnchorEntryId := Some t\<rparr>" for t r
proof
  fix p
  let ?q = "if \<not> list_ex (\<lambda>e. entry_id e = t) (entries p) then p
       else if r then setSelectionRangeAtCursor p t
       else p\<lparr>cursorEntryId := Some t, selectionAnchorEntryId := Some t\<rparr>"
  show "same_rows p ?q" by (simp add: range_op.rows)
  have "list_ex (\<lambda>e. entry_id e = t) (entries p) \<longleftrightarrow> t \<in> set (pane_ids p)"
    by (auto simp: list_ex_iff pane_ids_def)
  then show "pane_consistent p \<Longrightarrow> pane_consistent ?q"
    using range_op.consistent by (simp add: pane_consistent_def [of "_\<lparr>cursorEntryId := _, selectionAnchorEntryId := _\<rparr>"])
      (simp add: pane_consistent_def)
qed

interpretation set_boundary_op: row_operation
  "\<lambda>p. if x then setCursorToBoundaryWithSelection p b else setCursorToBoundary p b" for x b
  by unfold_locales
     (auto intro: boundary_op.rows boundary_op.consistent boundary_range_op.rows boundary_range_op.consistent)

interpretation id_op: row_operation id
  by unfold_locales auto

lemmas row_updates_ok =
  move_op.update_ok toggle_op.update_ok invert_op.update_ok mask_op.update_ok cursor_op.update_ok
  set_cursor_op.update_ok set_boundary_op.update_ok id_op.update_ok

lemma place_cursor_ok:
  assumes "widget_ok h wid w" and "c \<in> set (pane_ids (getPaneState w i))"
  shows "widget_ok h wid (updatePaneState w i (place_cursor c))"
  using assms place_cursor_rows place_cursor_consistent
  by (intro widget_ok_update) (auto simp: widget_ok_def intro: pane_ok_same_rows)

lemma widget_ok_rebuild_both:
  assumes "widget_ok h wid w" and "widgetId v = wid"
  shows "widget_ok h wid (rebuild_both h v w)"
proof -
  have "projection_options (rebuild_both h v w) = projection_options v" "widgetId (rebuild_both h v w) = wid"
    using assms(2) by (simp_all add: rebuild_both_def projection_options_def)
  moreover have "getPaneState (rebuild_both h v w) i = rebuildPaneState h v (getPaneState w i)" for i
    by (cases i) (simp_all add: rebuild_both_def)
  ultimately show ?thesis
    using pane_ok_id [OF assms(1)] by (simp add: widget_ok_def pane_ok_rebuildPaneState)
qed

lemma widget_ok_create: "widget_ok h wid (createCommanderWidgetRuntimeState wid persisted)"
proof -
  have "pane_ok h options i (getPaneState (createCommanderWidgetRuntimeState wid persisted) i)" for options i
    by (cases i; cases persisted)
       (simp_all add: pane_ok_def pane_settled_def pane_projected_def createCommanderWidgetRuntimeState_def
          createPaneStateFromPersisted_def createEmptyPaneState_def)
  then show ?thesis by (simp add: widget_ok_def) (simp add: createCommanderWidgetRuntimeState_def)
qed

lemma widget_ok_filter:
  "widget_ok h wid w \<Longrightarrow> projection_options v = projection_options w \<Longrightarrow>
     widget_ok h wid (updatePaneState w i (\<lambda>p. rebuildPaneState h v (p\<lparr>filterQuery := q\<rparr>)))"
  by (rule widget_ok_update) (auto intro!: pane_ok_rebuildPaneState simp: pane_ok_id)

lemma widget_ok_confirm:
  assumes "widget_ok h wid w" and "confirmCommanderWidgetPendingOperation h w = Some w'"
  shows "widget_ok h wid w'"
proof -
  obtain i f where w': "w' = updatePaneState (w\<lparr>pendingOperation := None\<rparr>) i f"
    and f: "(\<exists>m mode. f = (\<lambda>p. applySelectionMaskToPane h p m mode))
     \<or> (\<exists>q. f = (\<lambda>p. rebuildPaneState h w (p\<lparr>filterQuery := q\<rparr>)))
     \<or> f = id \<or> (\<exists>c\<in>set (pane_ids (getPaneState w i)). f = place_cursor c)"
    using assms(2) by (rule confirm_panes)
  have ok: "widget_ok h wid (w\<lparr>pendingOperation := None\<rparr>)" using assms(1) by simp
  from f show ?thesis
    unfolding w'
    by (elim disjE exE bexE)
       (auto intro!: widget_ok_filter row_updates_ok place_cursor_ok ok simp: store_simps assms(1))
qed

lemma reduce_widget_ok:
  assumes ok: "widget_ok h wid w" and step: "reduce_widget h event w = Some w'"
  shows "widget_ok h wid w'"
proof (cases event)
  case (SetCommanderPaneLoading i)
  with ok step show ?thesis
    by (auto simp: setCommanderPaneLoading_def intro!: widget_ok_update) (simp add: widget_ok_def)
next
  case (SetCommanderPaneLoadError i m p)
  with ok step show ?thesis
    by (auto simp: setCommanderPaneLoadError_def pane_ok_id Let_def intro!: widget_ok_update pane_ok_rebuild)
next
  case (HydrateCommanderPaneDirectory i d)
  with ok step show ?thesis
    by (auto simp: hydrateCommanderPaneDirectory_def pane_ok_id store_simps Let_def
        intro!: widget_ok_update pane_ok_rebuild)
next
  case (StepCommanderPendingSearchMatch d)
  with ok step show ?thesis by (auto elim!: step_search_panes intro: place_cursor_ok)
next
  case (SetCommanderPendingOperationInput v)
  with ok step show ?thesis by (auto elim!: updateInput_panes)
next
  case (RequestCommanderActivePane k)
  with ok step show ?thesis by (auto elim!: request_panes)
next
  case ConfirmCommanderPendingOperation
  with ok step show ?thesis by (auto intro: widget_ok_confirm)
qed (use ok step in \<open>auto simp: toggleCommanderShowHidden_def toggleCommanderDirsFirst_def setCommanderSortMode_def
   setCommanderViewMode_def setCommanderPaneCursor_def setCommanderPaneBoundaryCursor_def set_filter_query_def
   toggleCommanderActivePaneSelection_def Let_def widget_ok_def [of h wid, THEN iffD1, THEN conjunct1]
   split: if_splits intro!: row_updates_ok widget_ok_rebuild_both widget_ok_filter\<close>)

lemma commander_reduce_ok: "store_ok h ws \<Longrightarrow> store_ok h (commander_reduce h ws wid event)"
  by (cases event)
     (auto simp: store_ok_def commander_reduce_def mountCommanderWidget_def withCommanderWidgetState_def
        widget_ok_create simp del: reduce_widget.simps intro: reduce_widget_ok split: option.splits if_splits)

text \<open>An event changes at most the slot of its widget, from that slot alone.\<close>

definition reduce_slot ::
    "host \<Rightarrow> jsstring \<Rightarrow> CommanderEvent \<Rightarrow> CommanderWidgetRuntimeState option \<Rightarrow> CommanderWidgetRuntimeState option" where
  "reduce_slot h wid event slot =
     (case event of
        MountCommanderWidget persisted \<Rightarrow> Some (js_default slot (createCommanderWidgetRuntimeState wid persisted))
      | _ \<Rightarrow> map_option (\<lambda>w. js_default (reduce_widget h event w) w) slot)"

lemma commander_reduce_slot: "commander_reduce h ws wid event = ws(wid := reduce_slot h wid event (ws wid))"
  by (cases event; cases "ws wid")
     (auto simp: commander_reduce_def reduce_slot_def mountCommanderWidget_def withCommanderWidgetState_def fun_upd_idem
        simp del: reduce_widget.simps split: option.splits)

lemma commander_reachable_ok:
  assumes "commander_reachable h ws" and "ws wid = Some w"
  shows "widget_ok h wid w"
proof -
  have "store_ok h ws"
    using assms(1) by (induction rule: commander_reachable.induct) (simp add: store_ok_def, rule commander_reduce_ok)
  then show ?thesis using assms(2) by (simp add: store_ok_def)
qed

section \<open>Properties of the store\<close>

text \<open>
  C19: whatever events the store receives, in any order and for any widgets, every widget in it is stored
  under its own id, the rows of each pane are exactly the sorted and filtered projection of its directory
  under the current settings of the widget, and in a pane with a loaded directory the cursor, the anchor
  and the selection are rows of the pane.
\<close>
theorem commander_store_invariant:
  assumes "commander_reachable h ws" and "ws wid = Some w"
  shows "widgetId w = wid \<and> (\<forall>i. let p = getPaneState w i in
     pane_id p = i
     \<and> entries p = projectCommanderEntries h (directoryEntries p) (projection_options w) (filterQuery p)
     \<and> (directoryEntries p = [] \<or> set (selectedIds p) \<subseteq> set (pane_ids p)
          \<and> focus_ok (pane_ids p) (cursorEntryId p) \<and> focus_ok (pane_ids p) (selectionAnchorEntryId p)))"
  using commander_reachable_ok [OF assms]
  by (simp add: widget_ok_def pane_ok_def pane_settled_def pane_consistent_def pane_projected_def Let_def)

theorem commander_store_invariant_witness:
  "\<exists>w. commander_reduce ascii_host (commander_reduce ascii_host Map.empty (js ''w'') (MountCommanderWidget None))
        (js ''w'') ToggleCommanderShowHidden (js ''w'') = Some w
     \<and> widgetId w = js ''w'' \<and> showHidden w = False"
proof -
  define ws where "ws = commander_reduce ascii_host (commander_reduce ascii_host Map.empty (js ''w'') (MountCommanderWidget None))
        (js ''w'') ToggleCommanderShowHidden"
  have reach: "commander_reachable ascii_host ws" unfolding ws_def by (intro reach_event reach_empty)
  obtain w where w: "ws (js ''w'') = Some w" "showHidden w = False"
    by (auto simp: ws_def commander_reduce_slot reduce_slot_def toggleCommanderShowHidden_def rebuild_both_def
        createCommanderWidgetRuntimeState_def commander_defaults)
  from commander_store_invariant [OF reach w(1)] w show ?thesis unfolding ws_def by blast
qed

text \<open>
  Widgets are isolated: events of two different widgets commute, so any interleaving of the event
  streams of the widgets of a workspace leads to the same store.
\<close>
theorem commander_reduce_commute:
  assumes "wid \<noteq> wid'"
  shows "commander_reduce h (commander_reduce h ws wid event) wid' event'
     = commander_reduce h (commander_reduce h ws wid' event') wid event"
  unfolding commander_reduce_slot using assms by (simp add: fun_upd_twist)

theorem commander_reduce_commute_witness:
  "commander_reduce ascii_host (commander_reduce ascii_host Map.empty (js ''a'') (MountCommanderWidget None))
      (js ''b'') (MountCommanderWidget None)
   = commander_reduce ascii_host (commander_reduce ascii_host Map.empty (js ''b'') (MountCommanderWidget None))
      (js ''a'') (MountCommanderWidget None)"
  by (rule commander_reduce_commute) simp

lemma rebuild_identity:
  assumes "pane_projected h (projection_options w) p" and "pane_consistent p" and "[] \<notin> set (pane_ids p)"
  shows "buildCommanderPaneState h (pane_id p) (path p) (directoryEntries p) (filterQuery p) (selectedIds p)
     (cursorEntryId p) (selectionAnchorEntryId p) (historyBack p) (historyForward p) (projection_options w)
     = p\<lparr>isLoading := False, errorMessage := None\<rparr>"
proof -
  have rows: "projectCommanderEntries h (directoryEntries p) (projection_options w) (filterQuery p) = entries p"
    using assms(1) by (simp add: pane_projected_def)
  have "filter (\<lambda>i. i \<in> set (map entry_id (entries p))) (selectedIds p) = selectedIds p"
    using assms(2) by (auto simp: pane_consistent_def pane_ids_def filter_id_conv)
  moreover have "(if js_truthy v \<and> the v \<in> set (map entry_id (entries p)) then v else d) = v"
    if "focus_ok (pane_ids p) v" "pane_ids p = [] \<Longrightarrow> d = None" for v d
    using that assms(3) by (cases v) (auto simp: pane_ids_def, metis imageI)
  ultimately show ?thesis
    using assms(2) rows
    by (cases p) (simp add: buildCommanderPaneState_def pane_consistent_def pane_ids_def Let_def js_nth_def)
qed

text \<open>
  Reloading is idempotent: when a pane receives again the listing it already shows, and the payload
  overrides nothing, the pane keeps its rows, cursor, anchor, selection, filter and history; only the
  loading flag and the error are cleared and the pane becomes the active one.
\<close>
theorem hydrate_reload_identity:
  assumes "commander_reachable h ws" and "ws wid = Some w"
    and "directoryEntries (getPaneState w i) \<noteq> []" and "[] \<notin> set (pane_ids (getPaneState w i))"
    and "hydrate_path payload = path (getPaneState w i)"
    and "hydrate_directoryEntries payload = directoryEntries (getPaneState w i)"
    and "hydrate_cursorEntryId payload = None" and "hydrate_selectedIds payload = None"
    and "hydrate_selectionAnchorEntryId payload = None" and "hydrate_filterQuery payload = None"
    and "hydrate_historyMode payload = None \<or> hydrate_historyMode payload = Some ModeReplace"
  shows "hydrateCommanderPaneDirectory h i payload w
    = updatePaneState (w\<lparr>activePane := i\<rparr>) i (\<lambda>p. p\<lparr>isLoading := False, errorMessage := None\<rparr>)"
proof -
  have ok: "pane_projected h (projection_options w) (getPaneState w i)" "pane_consistent (getPaneState w i)"
    using commander_reachable_ok [OF assms(1,2)] assms(3)
    by (auto simp: widget_ok_def pane_ok_def pane_settled_def)
  have "next_history_back (hydrate_historyMode payload) (getPaneState w i) = historyBack (getPaneState w i)"
    "next_history_forward (hydrate_historyMode payload) (getPaneState w i) = historyForward (getPaneState w i)"
    using assms(11) by (auto simp: next_history_back_def next_history_forward_def)
  with rebuild_identity [OF ok assms(4)] assms(5-10) show ?thesis
    by (simp add: hydrateCommanderPaneDirectory_def updatePaneState_def rebuildCommanderPaneState_def
        override_def store_simps Let_def)
qed

definition sample_load :: "CommanderHydratePanePayload" where
  "sample_load = \<lparr>hydrate_directoryEntries = [sample_entry ''a'', sample_entry ''b''],
     hydrate_cursorEntryId = None, hydrate_filterQuery = None, hydrate_historyMode = None,
     hydrate_path = js ''/w'', hydrate_selectedIds = None, hydrate_selectionAnchorEntryId = None\<rparr>"

lemma sample_entry_id: "entry_id (sample_entry n) \<noteq> []"
  by (simp add: sample_entry_def)

definition loaded_widget :: CommanderWidgetRuntimeState where
  "loaded_widget = hydrateCommanderPaneDirectory ascii_host LeftPane sample_load
     (createCommanderWidgetRuntimeState (js ''w'') None)"

definition loaded_store :: CommanderWidgets where
  "loaded_store = commander_reduce ascii_host
     (commander_reduce ascii_host Map.empty (js ''w'') (MountCommanderWidget None))
     (js ''w'') (HydrateCommanderPaneDirectory LeftPane sample_load)"

lemma loaded_store_reachable: "commander_reachable ascii_host loaded_store"
  unfolding loaded_store_def by (intro reach_event reach_empty)

lemma loaded_store_widget: "loaded_store (js ''w'') = Some loaded_widget"
  by (simp add: loaded_store_def loaded_widget_def commander_reduce_slot reduce_slot_def)

lemma loaded_widget_fields:
  "directoryEntries (getPaneState loaded_widget LeftPane) = [sample_entry ''a'', sample_entry ''b'']"
  "path (getPaneState loaded_widget LeftPane) = js ''/w''"
  by (simp_all add: loaded_widget_def hydrateCommanderPaneDirectory_def store_simps pane_simps sample_load_def
      updatePaneState_def setPaneState_def Let_def)

lemma loaded_widget_ids: "[] \<notin> set (pane_ids (getPaneState loaded_widget LeftPane))"
proof (rule contra_subsetD)
  have "entries (getPaneState loaded_widget LeftPane) = projectCommanderEntries ascii_host
      [sample_entry ''a'', sample_entry ''b''] (projection_options loaded_widget)
      (filterQuery (getPaneState loaded_widget LeftPane))"
    using commander_reachable_ok [OF loaded_store_reachable loaded_store_widget]
    unfolding widget_ok_def pane_ok_def pane_projected_def loaded_widget_fields(1) [symmetric]
    by blast
  then have "set (entries (getPaneState loaded_widget LeftPane)) \<subseteq> {sample_entry ''a'', sample_entry ''b''}"
    using set_projectCommanderEntries [of ascii_host "[sample_entry ''a'', sample_entry ''b'']"] by simp
  then show "set (pane_ids (getPaneState loaded_widget LeftPane)) \<subseteq> entry_id ` {sample_entry ''a'', sample_entry ''b''}"
    unfolding pane_ids_def set_map by (rule image_mono)
  show "[] \<notin> entry_id ` {sample_entry ''a'', sample_entry ''b''}"
    using sample_entry_id [symmetric] by simp
qed

theorem hydrate_reload_identity_witness:
  "hydrateCommanderPaneDirectory ascii_host LeftPane sample_load loaded_widget
     = updatePaneState (loaded_widget\<lparr>activePane := LeftPane\<rparr>) LeftPane (\<lambda>p. p\<lparr>isLoading := False, errorMessage := None\<rparr>)"
  by (rule hydrate_reload_identity [OF loaded_store_reachable loaded_store_widget _ loaded_widget_ids])
     (simp_all only: loaded_widget_fields, simp_all add: sample_load_def)

text \<open>The error of a failed load never reaches the pane: rebuilding clears it.\<close>

lemma load_error_is_dropped:
  "errorMessage (getPaneState (setCommanderPaneLoadError h i m p w) i) = None
   \<and> isLoading (getPaneState (setCommanderPaneLoadError h i m p w) i) = False"
  by (simp add: setCommanderPaneLoadError_def store_simps pane_simps Let_def)

end
