(* ===== verification/Commander_Tidy.thy ===== *)
theory Commander_Tidy
  imports Commander_Store
begin

text \<open>
  Stores without repetitions: as long as no listing and no selection that comes from outside holds an id
  twice, no pane ever does. Locale \<open>tidy_operation\<close> extends the contract of a row operation by that.
\<close>

section \<open>Tidy events and stores\<close>

definition pane_tidy :: "CommanderPaneRuntimeState \<Rightarrow> bool" where
  "pane_tidy p \<longleftrightarrow> distinct (map entry_id (directoryEntries p)) \<and> distinct (selectedIds p)"

definition widget_tidy :: "CommanderWidgetRuntimeState \<Rightarrow> bool" where
  "widget_tidy w \<longleftrightarrow> (\<forall>i. pane_tidy (getPaneState w i))"

text \<open>A listing names every entry once, and a saved or given selection holds every id once.\<close>

fun tidy_event :: "CommanderEvent \<Rightarrow> bool" where
  "tidy_event (MountCommanderWidget (Some ps)) \<longleftrightarrow>
     distinct (persisted_selectedIds (persisted_leftPane ps)) \<and> distinct (persisted_selectedIds (persisted_rightPane ps))"
| "tidy_event (HydrateCommanderPaneDirectory i d) \<longleftrightarrow>
     distinct (map entry_id (hydrate_directoryEntries d)) \<and> distinct (js_default (Option.bind (hydrate_selectedIds d) id) [])"
| "tidy_event event \<longleftrightarrow> True"

inductive tidy_reachable :: "host \<Rightarrow> CommanderWidgets \<Rightarrow> bool" for h where
  tidy_empty: "tidy_reachable h Map.empty"
| tidy_step: "tidy_reachable h ws \<Longrightarrow> tidy_event event \<Longrightarrow> tidy_reachable h (commander_reduce h ws wid event)"

lemma tidy_is_reachable: "tidy_reachable h ws \<Longrightarrow> commander_reachable h ws"
  by (induction rule: tidy_reachable.induct) (auto intro: commander_reachable.intros)

section \<open>Panes\<close>

lemma tidy_rows:
  assumes "pane_projected h options p" "pane_tidy p"
  shows "distinct (pane_ids p)"
  using assms distinct_projectCommanderEntries [of "directoryEntries p" h options "filterQuery p"]
  by (simp add: pane_projected_def pane_tidy_def pane_ids_def)

lemma tidy_build:
  "distinct (map entry_id es) \<Longrightarrow> distinct ids \<Longrightarrow>
    pane_tidy (buildCommanderPaneState h i pth es q ids c a back forward options)"
  by (simp add: pane_tidy_def buildCommanderPaneState_def Let_def)

lemma tidy_rebuild: "pane_tidy (f p) \<Longrightarrow> pane_tidy (rebuildCommanderPaneState h w p f)"
  by (simp add: rebuildCommanderPaneState_def tidy_build pane_tidy_def [of "f p"] Let_def)

lemma tidy_rebuildPaneState: "pane_tidy p \<Longrightarrow> pane_tidy (rebuildPaneState h w p)"
  by (simp add: rebuildPaneState_def rebuildPaneStateAt_def tidy_build tidy_rebuild pane_tidy_def [of p] Let_def)

lemma widget_tidy_update:
  "widget_tidy w \<Longrightarrow> pane_tidy (f (getPaneState w i)) \<Longrightarrow> widget_tidy (updatePaneState w i f)"
  by (auto simp: widget_tidy_def store_simps)

lemma widget_tidy_frame [simp]:
  "widget_tidy (w\<lparr>activePane := a\<rparr>) = widget_tidy w" "widget_tidy (w\<lparr>pendingOperation := o'\<rparr>) = widget_tidy w"
  "widget_tidy (w\<lparr>fileDialog := d\<rparr>) = widget_tidy w" "widget_tidy (w\<lparr>viewMode := v\<rparr>) = widget_tidy w"
  by (simp_all add: widget_tidy_def store_simps)

lemma pane_tidy_update [simp]:
  "pane_tidy (p\<lparr>isLoading := l, errorMessage := e\<rparr>) = pane_tidy p" "pane_tidy (p\<lparr>filterQuery := q\<rparr>) = pane_tidy p"
  "pane_tidy (place_cursor c p) = pane_tidy p"
  by (simp_all add: pane_tidy_def place_cursor_def)

section \<open>Row operations\<close>

locale tidy_operation = row_operation +
  assumes once: "distinct (pane_ids p) \<Longrightarrow> distinct (selectedIds p) \<Longrightarrow> distinct (selectedIds (op p))"
begin

lemma update_tidy: "widget_ok h wid w \<Longrightarrow> widget_tidy w \<Longrightarrow> widget_tidy (updatePaneState w i op)"
proof (rule widget_tidy_update)
  assume ok: "widget_ok h wid w" and tidy: "widget_tidy w"
  let ?p = "getPaneState w i"
  have "pane_projected h (projection_options w) ?p" "pane_tidy ?p"
    using ok tidy by (auto simp: widget_ok_def pane_ok_def widget_tidy_def)
  then show "pane_tidy (op ?p)"
    using tidy_rows once [of ?p] same_rows_fields(2) [OF rows [of ?p]] by (auto simp: pane_tidy_def)
qed

end

lemma range_once: "distinct (pane_ids p) \<Longrightarrow> distinct (selectedIds p) \<Longrightarrow> distinct (selectedIds (setSelectionRangeAtCursor p t))"
  by (auto simp: setSelectionRangeAtCursor_def pane_ids_def js_slice_def Let_def simp flip: take_map drop_map split: prod.splits)

interpretation tidy_move: tidy_operation "\<lambda>p. movePaneCursor p delta" for delta
  by unfold_locales (simp add: movePaneCursor_def Let_def)

interpretation tidy_cursor: tidy_operation "move_cursor delta x" for delta x
  by unfold_locales
    (auto simp: move_cursor_def movePaneCursorWithSelection_def movePaneCursor_def Let_def intro: range_once)

interpretation tidy_set_cursor: tidy_operation
  "\<lambda>p. if \<not> list_ex (\<lambda>e. entry_id e = t) (entries p) then p
       else if r then setSelectionRangeAtCursor p t
       else p\<lparr>cursorEntryId := Some t, selectionAnchorEntryId := Some t\<rparr>" for t r
  by unfold_locales (simp add: range_once)

interpretation tidy_set_boundary: tidy_operation
  "\<lambda>p. if x then setCursorToBoundaryWithSelection p b else setCursorToBoundary p b" for x b
  by unfold_locales
    (auto simp: setCursorToBoundaryWithSelection_def setCursorToBoundary_def Let_def intro: range_once)

interpretation tidy_toggle: tidy_operation "\<lambda>p. toggleEntrySelection p t" for t
  by unfold_locales (simp add: toggleEntrySelection_def)

interpretation tidy_mask: tidy_operation "\<lambda>p. applySelectionMaskToPane h p m mode" for h m mode
  by unfold_locales (simp add: applySelectionMaskToPane_def pane_ids_def distinct_map_filter Let_def)

interpretation tidy_invert: tidy_operation invertPaneSelection
  by unfold_locales (simp add: invertPaneSelection_def pane_ids_def distinct_map_filter Let_def)

interpretation tidy_id: tidy_operation id
  by unfold_locales simp

lemmas row_updates_tidy =
  tidy_move.update_tidy tidy_toggle.update_tidy tidy_invert.update_tidy tidy_mask.update_tidy tidy_cursor.update_tidy
  tidy_set_cursor.update_tidy tidy_set_boundary.update_tidy tidy_id.update_tidy

section \<open>Every event keeps a store tidy\<close>

lemma place_cursor_tidy: "widget_tidy w \<Longrightarrow> widget_tidy (updatePaneState w i (place_cursor c))"
  by (rule widget_tidy_update) (simp_all add: widget_tidy_def)

lemma widget_tidy_filter:
  "widget_tidy w \<Longrightarrow> widget_tidy (updatePaneState w i (\<lambda>p. rebuildPaneState h v (p\<lparr>filterQuery := q\<rparr>)))"
  by (rule widget_tidy_update) (auto intro!: tidy_rebuildPaneState simp: widget_tidy_def)

lemma widget_tidy_rebuild_both: "widget_tidy w \<Longrightarrow> widget_tidy (rebuild_both h v w)"
proof -
  assume "widget_tidy w"
  moreover have "getPaneState (rebuild_both h v w) i = rebuildPaneState h v (getPaneState w i)" for i
    by (cases i) (simp_all add: rebuild_both_def)
  ultimately show ?thesis by (simp add: widget_tidy_def tidy_rebuildPaneState)
qed

lemma widget_tidy_create:
  assumes "tidy_event (MountCommanderWidget persisted)"
  shows "widget_tidy (createCommanderWidgetRuntimeState wid persisted)"
  unfolding widget_tidy_def
proof
  fix i
  show "pane_tidy (getPaneState (createCommanderWidgetRuntimeState wid persisted) i)"
    using assms by (cases i; cases persisted)
      (simp_all add: pane_tidy_def createCommanderWidgetRuntimeState_def createPaneStateFromPersisted_def createEmptyPaneState_def)
qed

lemma widget_tidy_confirm:
  assumes "widget_ok h wid w" "widget_tidy w" and "confirmCommanderWidgetPendingOperation h w = Some w'"
  shows "widget_tidy w'"
proof -
  obtain i f where w': "w' = updatePaneState (w\<lparr>pendingOperation := None\<rparr>) i f"
    and f: "(\<exists>m mode. f = (\<lambda>p. applySelectionMaskToPane h p m mode))
     \<or> (\<exists>q. f = (\<lambda>p. rebuildPaneState h w (p\<lparr>filterQuery := q\<rparr>)))
     \<or> f = id \<or> (\<exists>c\<in>set (pane_ids (getPaneState w i)). f = place_cursor c)"
    using assms(3) by (rule confirm_panes)
  have "widget_ok h wid (w\<lparr>pendingOperation := None\<rparr>)" "widget_tidy (w\<lparr>pendingOperation := None\<rparr>)" using assms by simp_all
  with f show ?thesis
    unfolding w' by (elim disjE exE bexE) (auto intro: row_updates_tidy widget_tidy_filter place_cursor_tidy)
qed

lemma hydrate_tidy:
  assumes "widget_tidy w" "tidy_event (HydrateCommanderPaneDirectory i d)"
  shows "widget_tidy (hydrateCommanderPaneDirectory h i d w)"
  unfolding hydrateCommanderPaneDirectory_def Let_def
proof (intro widget_tidy_update tidy_rebuild)
  show "widget_tidy (w\<lparr>activePane := i\<rparr>)" using assms(1) by simp
qed (use assms in \<open>auto simp: pane_tidy_def widget_tidy_def override_def store_simps split: option.splits\<close>)

lemma reduce_widget_tidy:
  assumes ok: "widget_ok h wid w" and tidy: "widget_tidy w" and event: "tidy_event event" and step: "reduce_widget h event w = Some w'"
  shows "widget_tidy w'"
proof (cases event)
  case (SetCommanderPaneLoading i)
  with tidy step show ?thesis
    by (auto simp: setCommanderPaneLoading_def intro!: widget_tidy_update) (simp add: widget_tidy_def)
next
  case (SetCommanderPaneLoadError i m p)
  with tidy step show ?thesis
    by (auto simp: setCommanderPaneLoadError_def Let_def intro!: widget_tidy_update tidy_rebuild) (auto simp: widget_tidy_def pane_tidy_def)
next
  case (HydrateCommanderPaneDirectory i d)
  with event have "tidy_event (HydrateCommanderPaneDirectory i d)" by simp
  with HydrateCommanderPaneDirectory tidy step show ?thesis using hydrate_tidy by auto
next
  case (StepCommanderPendingSearchMatch d)
  with tidy step show ?thesis by (auto elim!: step_search_panes intro: place_cursor_tidy)
next
  case (SetCommanderPendingOperationInput v)
  with tidy step show ?thesis by (auto elim!: updateInput_panes)
next
  case (RequestCommanderActivePane k)
  with tidy step show ?thesis by (auto elim!: request_panes)
next
  case ConfirmCommanderPendingOperation
  with ok tidy step show ?thesis by (auto intro: widget_tidy_confirm)
next
  case (ToggleCommanderActivePaneSelection advance)
  let ?v = "updatePaneState w (activePane w) (\<lambda>p. toggleEntrySelection p (the (cursorEntryId (getPaneState w (activePane w)))))"
  have "widget_ok h wid ?v" "widget_tidy ?v" using ok tidy by (auto intro: row_updates_ok row_updates_tidy)
  with ToggleCommanderActivePaneSelection step show ?thesis
    by (auto simp: toggleCommanderActivePaneSelection_def Let_def split: if_splits intro: row_updates_tidy)
qed (use ok tidy step in \<open>auto simp: toggleCommanderShowHidden_def toggleCommanderDirsFirst_def setCommanderSortMode_def
   setCommanderViewMode_def setCommanderPaneCursor_def setCommanderPaneBoundaryCursor_def set_filter_query_def
   Let_def split: if_splits intro!: widget_tidy_rebuild_both widget_tidy_filter
   intro: row_updates_tidy [where h = h and wid = wid]\<close>)

lemma commander_reduce_tidy:
  assumes "store_ok h ws" "\<And>wid w. ws wid = Some w \<Longrightarrow> widget_tidy w" "tidy_event event" "commander_reduce h ws wid event wid' = Some w"
  shows "widget_tidy w"
proof (cases "wid' = wid")
  case False
  then show ?thesis using assms(2,4) by (simp add: commander_reduce_slot)
next
  case True
  then have slot: "reduce_slot h wid event (ws wid) = Some w" using assms(4) by (simp add: commander_reduce_slot)
  show ?thesis
  proof (cases "\<exists>persisted. event = MountCommanderWidget persisted")
    case True
    with slot assms(2,3) show ?thesis
      using widget_tidy_create by (cases "ws wid") (auto simp: reduce_slot_def simp del: tidy_event.simps)
  next
    case False
    then obtain w0 where "ws wid = Some w0" "w = js_default (reduce_widget h event w0) w0"
      using slot by (cases event) (auto simp: reduce_slot_def simp del: reduce_widget.simps)
    moreover from this have "widget_ok h wid w0" "widget_tidy w0" using assms(1,2) by (simp_all add: store_ok_def)
    ultimately show ?thesis
      using reduce_widget_tidy [of h wid w0 event] assms(3) by (cases "reduce_widget h event w0") simp_all
  qed
qed

lemma tidy_reachable_tidy:
  assumes "tidy_reachable h ws" "ws wid = Some w"
  shows "widget_tidy w"
proof -
  have "store_ok h ws \<and> (\<forall>wid w. ws wid = Some w \<longrightarrow> widget_tidy w)"
    using assms(1)
  proof (induction rule: tidy_reachable.induct)
    case (tidy_step ws event wid)
    then show ?case using commander_reduce_ok commander_reduce_tidy by blast
  qed (simp add: store_ok_def)
  then show ?thesis using assms(2) by blast
qed

lemma tidy_reachable_distinct:
  assumes "tidy_reachable h ws" "ws wid = Some w"
  shows "distinct (pane_ids (getPaneState w i))" "distinct (selectedIds (getPaneState w i))"
proof -
  have "pane_projected h (projection_options w) (getPaneState w i)"
    using commander_reachable_ok [OF tidy_is_reachable [OF assms(1)] assms(2)] by (simp add: widget_ok_def pane_ok_def)
  moreover have "pane_tidy (getPaneState w i)" using tidy_reachable_tidy [OF assms] by (simp add: widget_tidy_def)
  ultimately show "distinct (pane_ids (getPaneState w i))" "distinct (selectedIds (getPaneState w i))"
    using tidy_rows by (auto simp: pane_tidy_def)
qed

end
