(* ===== verification/Commander_View.thy ===== *)
theory Commander_View
  imports Commander_Client Commander_Tidy
begin

text \<open>
  The view model of the file manager, \<^verbatim>\<open>features/commander/model/view-model.ts\<close>: what a widget shows of
  its state, the messages of failed requests, and the ids of the entries a mutation created.
\<close>

section \<open>View states\<close>

definition formatSelectedSize :: "int \<Rightarrow> jsstring" where
  "formatSelectedSize totalBytes =
     (if totalBytes \<le> 0 then js ''0 B''
      else if totalBytes < 1024 then js_of_nat (nat totalBytes) @ js '' B''
      else if totalBytes < 1024 * 1024 then to_fixed_1 (nat totalBytes) 1024 @ js '' KB''
      else to_fixed_1 (nat totalBytes) (1024 * 1024) @ js '' MB'')"

definition selected_bytes :: "CommanderDirectoryEntry list \<Rightarrow> jsstring list \<Rightarrow> int" where
  "selected_bytes es ids =
     foldl (\<lambda>currentTotal entry. currentTotal + js_default (entry_sizeBytes entry) 0) 0
       (filter (\<lambda>entry. entry_id entry \<in> set ids) es)"

definition getCommanderSelectedSize :: "CommanderDirectoryEntry list \<Rightarrow> jsstring list \<Rightarrow> jsstring" where
  "getCommanderSelectedSize es ids = formatSelectedSize (selected_bytes es ids)"

record CommanderFileRow =
  row_id :: jsstring
  row_name :: jsstring
  row_ext :: jsstring
  row_kind :: CommanderRowKind
  row_size :: jsstring
  row_modified :: jsstring
  row_hidden :: bool
  row_selected :: bool
  row_focused :: bool
  row_gitStatus :: "jsstring option"
  row_executable :: "bool option"
  row_symlinkTarget :: "jsstring option"

record CommanderPaneViewState =
  view_id :: CommanderPaneId
  view_path :: jsstring
  view_displayPath :: jsstring
  view_filterQuery :: jsstring
  view_canGoBack :: bool
  view_canGoForward :: bool
  view_isLoading :: bool
  view_errorMessage :: "jsstring option"
  view_items :: nat
  view_selectedItems :: nat
  view_selectedSize :: jsstring
  view_rows :: "CommanderFileRow list"

definition toPaneViewState ::
    "CommanderWidgetRuntimeState \<Rightarrow> CommanderPaneRuntimeState \<Rightarrow> RuntimeContext option \<Rightarrow> CommanderPaneViewState" where
  "toPaneViewState widgetState paneState runtimeContext =
     \<lparr>view_id = pane_id paneState,
      view_path = path paneState,
      view_displayPath = (case runtimeContext of
         Some c \<Rightarrow> formatRuntimePathForDisplay (path paneState) (homeDir c)
       | None \<Rightarrow> path paneState),
      view_filterQuery = filterQuery paneState,
      view_canGoBack = historyBack paneState \<noteq> [],
      view_canGoForward = historyForward paneState \<noteq> [],
      view_isLoading = isLoading paneState,
      view_errorMessage = errorMessage paneState,
      view_items = length (entries paneState),
      view_selectedItems = length (selectedIds paneState),
      view_selectedSize = getCommanderSelectedSize (entries paneState) (selectedIds paneState),
      view_rows = map (\<lambda>entry.
        \<lparr>row_id = entry_id entry, row_name = entry_name entry, row_ext = entry_ext entry,
         row_kind = entry_kind entry, row_size = entry_sizeLabel entry, row_modified = entry_modified entry,
         row_hidden = entry_hidden entry,
         row_selected = (entry_id entry \<in> set (selectedIds paneState)),
         row_focused = (activePane widgetState = pane_id paneState
           \<and> cursorEntryId paneState = Some (entry_id entry)),
         row_gitStatus = entry_gitStatus entry, row_executable = entry_executable entry,
         row_symlinkTarget = entry_symlinkTarget entry\<rparr>) (entries paneState)\<rparr>"

record CommanderWidgetViewState =
  wview_viewMode :: CommanderViewMode
  wview_activePane :: CommanderPaneId
  wview_showHidden :: bool
  wview_sortMode :: CommanderSortMode
  wview_sortDirection :: CommanderSortDirection
  wview_dirsFirst :: bool
  wview_footerHints :: "CommanderFooterHint list"
  wview_pendingOperation :: "CommanderPendingOperation option"
  wview_fileDialog :: "CommanderFileDialogState option"
  wview_leftPane :: CommanderPaneViewState
  wview_rightPane :: CommanderPaneViewState

definition toWidgetViewState ::
    "CommanderWidgetRuntimeState \<Rightarrow> RuntimeContext option \<Rightarrow> CommanderWidgetViewState" where
  "toWidgetViewState w runtimeContext =
     \<lparr>wview_viewMode = viewMode w, wview_activePane = activePane w, wview_showHidden = showHidden w,
      wview_sortMode = sortMode w, wview_sortDirection = sortDirection w, wview_dirsFirst = dirsFirst w,
      wview_footerHints = footerHints w, wview_pendingOperation = pendingOperation w,
      wview_fileDialog = fileDialog w,
      wview_leftPane = toPaneViewState w (leftPane w) runtimeContext,
      wview_rightPane = toPaneViewState w (rightPane w) runtimeContext\<rparr>"

section \<open>Messages\<close>

definition load_error_messages :: "(jsstring \<times> jsstring) list" where
  "load_error_messages =
     [(js ''fs_path_exists'', js ''Path already exists''),
      (js ''fs_path_outside_workspace'', js ''Path is outside the workspace root''),
      (js ''fs_path_not_found'', js ''Path not found''),
      (js ''invalid_fs_path'', js ''Invalid path''),
      (js ''invalid_fs_name'', js ''Invalid entry name''),
      (js ''invalid_fs_target'', js ''Invalid target path''),
      (js ''invalid_fs_directory'', js ''Target path is not a directory''),
      (js ''invalid_fs_text'', js ''File is not UTF-8 text''),
      (js ''fs_file_too_large'', js ''File is too large for inline editing'')]"

definition plain_error_message :: "jsstring \<Rightarrow> jsstring" where
  "plain_error_message message =
     (if js_trim message \<noteq> [] then message else js ''Unable to load commander data'')"

definition toLoadErrorMessage :: "commander_error \<Rightarrow> jsstring" where
  "toLoadErrorMessage error =
     (case error of
        CommanderAPIError status code message \<Rightarrow>
          (case map_of load_error_messages code of
             Some text \<Rightarrow> text
           | None \<Rightarrow> plain_error_message message)
      | PlainError message \<Rightarrow> plain_error_message message
      | NonError \<Rightarrow> js ''Unable to load commander data'')"

section \<open>Paths and ids\<close>

definition hasSinglePathSegment :: "jsstring \<Rightarrow> bool" where
  "hasSinglePathSegment inputValue =
     (let trimmedValue = js_trim inputValue in
      if trimmedValue = [] \<or> trimmedValue = [dot] \<or> trimmedValue = [dot, dot] then False
      else \<not> list_ex (\<lambda>c. c = backslash \<or> c = slash) trimmedValue)"

definition resolveDefaultPanePaths ::
    "RuntimeContext \<Rightarrow> CommanderWidgetRuntimeState \<Rightarrow> jsstring \<times> jsstring" where
  "resolveDefaultPanePaths runtimeContext runtimeState =
     (if path (leftPane runtimeState) \<noteq> [] then path (leftPane runtimeState) else repoRoot runtimeContext,
      if path (rightPane runtimeState) \<noteq> [] then path (rightPane runtimeState) else repoRoot runtimeContext)"

definition isCloneCopyOperation :: "CommanderPendingOperation \<Rightarrow> bool" where
  "isCloneCopyOperation operation = (case detail operation of CloneDetail _ \<Rightarrow> True | _ \<Rightarrow> False)"

definition toEntryIdFromPath :: "jsstring \<Rightarrow> jsstring" where
  "toEntryIdFromPath pth =
     (let trimmed = js_dropWhileEnd (\<lambda>c. c = slash) (normalizePathSeparators pth);
          normalizedPath = (if trimmed = [] then [slash] else trimmed);
          parentPath = js_default (getRuntimePathParent normalizedPath) [slash];
          entryName = last (js_split slash normalizedPath)
      in parentPath @ js ''::'' @ entryName)"

definition toEntryIdsFromPaths :: "jsstring \<Rightarrow> jsstring list \<Rightarrow> jsstring list" where
  "toEntryIdsFromPaths directoryPath paths =
     map toEntryIdFromPath
       (filter (\<lambda>p. js_default (getRuntimePathParent p) [slash] = directoryPath) paths)"

section \<open>Lemmas\<close>

lemma hasSinglePathSegment_iff: "hasSinglePathSegment s \<longleftrightarrow> path_segment (js_trim s)"
  by (auto simp: hasSinglePathSegment_def path_segment_def list_ex_iff Let_def)

lemma last_split_join:
  assumes "list_all path_segment segs" and "path_segment n"
  shows "last (js_split slash (slash # js_join slash (segs @ [n]))) = n"
proof -
  have "js_split slash (js_join slash (segs @ [n])) = segs @ [n]"
    using assms by (intro js_split_join) (auto simp: path_segment_def list_all_iff)
  then show ?thesis by simp
qed

lemma drop_slashes_canonical:
  assumes "list_all path_segment segs" and "segs \<noteq> []"
  shows "js_dropWhileEnd (\<lambda>c. c = slash) (normalizePathSeparators (slash # js_join slash segs)) = slash # js_join slash segs"
proof -
  have "last (slash # js_join slash segs) \<noteq> slash"
    using assms last_js_join [of segs] js_join_eq_Nil [of segs] by (auto dest: list_all_path_segmentD)
  then show ?thesis
    using normalizePathSeparators_id [OF segs_no_backslash [OF assms(1)]] by (simp add: js_dropWhileEnd_id)
qed

lemma toEntryIdFromPath_child:
  assumes "canonical_path d" and "path_segment n"
  shows "toEntryIdFromPath (toCommanderEntryPath d n) = toCommanderEntryId d n"
proof -
  obtain segs where segs: "list_all path_segment segs" "d = slash # js_join slash segs"
    using assms(1) by (auto simp: canonical_path_iff)
  have all: "list_all path_segment (segs @ [n])" "segs @ [n] \<noteq> []" using segs(1) assms(2) by simp_all
  show ?thesis
    unfolding toEntryIdFromPath_def toCommanderEntryPath_def segs(2) joinRuntimePath_segment [OF segs(1) assms(2)]
      drop_slashes_canonical [OF all] Let_def
    using getRuntimePathParent_canonical [OF segs(1) assms(2)] last_split_join [OF segs(1) assms(2)]
    by (simp add: toCommanderEntryId_def)
qed

lemma toEntryIdFromPath_drive_child:
  assumes "drive_path d" and "\<not> is_drive_root d" and "path_segment n"
  shows "toEntryIdFromPath (toCommanderEntryPath d n) = toCommanderEntryId d n"
proof -
  obtain c segs where d: "js_ascii_letter c" "list_all path_segment segs" "d = c # colon # slash # js_join slash segs"
    using assms(1) by (rule drive_path_cases)
  have segs: "segs \<noteq> []" using assms(2) drive_root_iff [OF d(2,1)] d(3) by simp
  let ?p = "c # colon # slash # js_join slash (segs @ [n])"
  have all: "list_all path_segment (segs @ [n])" "segs @ [n] \<noteq> []" using d(2) assms(3) by simp_all
  have letter: "c \<noteq> backslash" "c \<noteq> slash" using d(1) by (auto simp: js_ascii_letter_def)
  have "js_dropWhileEnd (\<lambda>c. c = slash) (normalizePathSeparators ?p) = ?p"
  proof -
    have "n \<noteq> []" "slash \<notin> set n" using assms(3) by (auto simp: path_segment_def)
    then have "last ?p \<noteq> slash" using last_in_set [of n] by (metis join_last_slash append_Cons last.simps last_append list.distinct(1))
    moreover have "backslash \<notin> set ?p" using segs_no_backslash [OF all(1)] letter by auto
    ultimately show ?thesis by (simp add: normalizePathSeparators_id js_dropWhileEnd_id)
  qed
  moreover have "last (js_split slash ?p) = n"
    using last_split_join [OF d(2) assms(3)] js_split_append_sep [of slash "[c, colon]" "js_join slash (segs @ [n])"] letter
      js_split_not_Nil [of slash "js_join slash (segs @ [n])"] by simp
  ultimately show ?thesis
    unfolding toEntryIdFromPath_def toCommanderEntryPath_def d(3) joinRuntimePath_drive [OF d(1,2) assms(3)] Let_def
    using getRuntimePathParent_drive [OF d(1,2) assms(3)] segs by (simp add: toCommanderEntryId_def)
qed

text \<open>The directories whose entries can be found again by their paths.\<close>

definition listed_directory :: "jsstring \<Rightarrow> bool" where
  "listed_directory d \<longleftrightarrow> canonical_path d \<or> drive_path d \<and> \<not> is_drive_root d"

lemma listed_child:
  assumes "listed_directory d" and "path_segment n"
  shows "getRuntimePathParent (joinRuntimePath d n) = Some d" "toEntryIdFromPath (toCommanderEntryPath d n) = toCommanderEntryId d n"
  using assms parent_of_child parent_of_drive_child toEntryIdFromPath_child toEntryIdFromPath_drive_child
  by (auto simp: listed_directory_def)

lemma toCommanderEntryId_inject [simp]: "toCommanderEntryId d m = toCommanderEntryId d n \<longleftrightarrow> m = n"
  by (simp add: toCommanderEntryId_def)

lemma length_filter_in_distinct:
  "distinct xs \<Longrightarrow> distinct ys \<Longrightarrow> set ys \<subseteq> set xs \<Longrightarrow> length (filter (\<lambda>x. x \<in> set ys) xs) = length ys"
proof -
  assume "distinct xs" "distinct ys" "set ys \<subseteq> set xs"
  then have "length (filter (\<lambda>x. x \<in> set ys) xs) = card (set xs \<inter> set ys)"
    by (simp add: Int_def flip: distinct_card)
  also have "\<dots> = length ys" using \<open>set ys \<subseteq> set xs\<close> \<open>distinct ys\<close> by (simp add: Int_absorb1 distinct_card)
  finally show ?thesis .
qed

section \<open>Properties of the client and the view\<close>

text \<open>
  C25: the ids computed for the paths a mutation reports are the ids the next listing gives to those
  entries: for a canonical directory, from the root or on a drive but not the root of a drive, and names
  that are single path segments without a backslash, mapping the names to paths and the paths back to ids
  is the id of each listed node. So the reload after a copy, a move or a rename there selects exactly the
  created entries.
\<close>
theorem toEntryIdsFromPaths_listed:
  assumes "listed_directory d" and "list_all path_segment (map node_name nodes)"
  shows "toEntryIdsFromPaths d (map (\<lambda>node. toCommanderEntryPath d (node_name node)) nodes)
    = map (\<lambda>node. entry_id (mapFSNode h d node)) nodes"
  using assms(2)
proof (induction nodes)
  case (Cons node nodes)
  then show ?case
    using listed_child [OF assms(1)]
    by (simp add: toEntryIdsFromPaths_def toCommanderEntryPath_def mapFSNode_def Let_def)
qed (simp add: toEntryIdsFromPaths_def)

definition sample_node :: FSNode where
  "sample_node = \<lparr>node_modified_time = None, node_name = js ''a.txt'', node_size = Some 12, node_type = NodeFile\<rparr>"

theorem toEntryIdsFromPaths_listed_witness:
  "toEntryIdsFromPaths (js ''/srv'') [toCommanderEntryPath (js ''/srv'') (js ''a.txt'')]
     = [entry_id (mapFSNode ascii_host (js ''/srv'') sample_node)]"
proof -
  have "listed_directory (js ''/srv'')" "list_all path_segment (map node_name [sample_node])"
    by (simp_all add: listed_directory_def canonical_path_def path_segment_def sample_node_def)
  from toEntryIdsFromPaths_listed [OF this, of ascii_host] show ?thesis by (simp add: sample_node_def)
qed

text \<open>
  A listing gives every entry its own id and marks exactly the dot files as hidden; a pane that
  receives it can address its rows by id. Failed replies give the error with the code and message of
  the envelope, or the generic ones.
\<close>
theorem listCommanderDirectory_ids:
  assumes "listCommanderDirectory h (FsOk payload) = Inr snapshot"
    and "distinct (map node_name (js_default (list_directories payload) [] @ js_default (list_files payload) []))"
  shows "distinct (map entry_id (snapshot_entries snapshot))
    \<and> snapshot_path snapshot = list_path payload
    \<and> distinct (map entry_id (projectCommanderEntries h (snapshot_entries snapshot) options q))
    \<and> (\<forall>e. e \<in> set (snapshot_entries snapshot) \<longrightarrow>
          entry_id e = toCommanderEntryId (list_path payload) (entry_name e)
          \<and> (entry_hidden e \<longleftrightarrow> (\<exists>t. entry_name e = dot # t)))"
proof -
  let ?nodes = "js_default (list_directories payload) [] @ js_default (list_files payload) []"
  have snapshot: "snapshot_entries snapshot = map (mapFSNode h (list_path payload)) ?nodes"
    "snapshot_path snapshot = list_path payload"
    using assms(1) by (auto simp: listCommanderDirectory_def fetchRuntimeJSON_def)
  have "map entry_id (snapshot_entries snapshot) = map (toCommanderEntryId (list_path payload)) (map node_name ?nodes)"
    unfolding snapshot by (simp add: mapFSNode_def Let_def)
  then have ids: "distinct (map entry_id (snapshot_entries snapshot))"
    using assms(2) by (simp add: distinct_map inj_on_def del: map_append map_map)
  have hidden: "js_startsWith s [dot] \<longleftrightarrow> (\<exists>t. s = dot # t)" for s
    by (simp add: js_startsWith_iff)
  show ?thesis
    using ids snapshot(2) distinct_projectCommanderEntries [OF ids] unfolding snapshot(1)
    by (auto simp: mapFSNode_def Let_def hidden)
qed

theorem listCommanderDirectory_ids_witness:
  "distinct (map entry_id (snapshot_entries (projr (listCommanderDirectory ascii_host
     (FsOk \<lparr>list_directories = None, list_files = Some [sample_node], list_path = js ''/srv''\<rparr>)))))"
  using listCommanderDirectory_ids [of ascii_host
     "\<lparr>list_directories = None, list_files = Some [sample_node], list_path = js ''/srv''\<rparr>"]
  by (simp add: listCommanderDirectory_def fetchRuntimeJSON_def)

text \<open>
  C27: the view of a loaded pane is consistent in every store that is reached by events whose listings and
  saved or given selections hold no id twice: the number of selected items shown is the number of rows
  marked as selected, at most one row is focused, and a row is focused exactly when the pane is active and
  has rows.
\<close>
theorem pane_view_consistent:
  assumes "tidy_reachable h ws" and "ws wid = Some w" and "directoryEntries (getPaneState w i) \<noteq> []"
  shows "let v = toPaneViewState w (getPaneState w i) context in
     view_selectedItems v = length (filter row_selected (view_rows v))
     \<and> length (filter row_focused (view_rows v)) = (if activePane w = i \<and> view_rows v \<noteq> [] then 1 else 0)"
proof -
  let ?p = "getPaneState w i"
  have ok: "pane_id ?p = i" "pane_consistent ?p"
    using commander_reachable_ok [OF tidy_is_reachable [OF assms(1)] assms(2)] assms(3)
    by (auto simp: widget_ok_def pane_ok_def pane_settled_def)
  note once = tidy_reachable_distinct [OF assms(1,2), of i]
  have selected: "length (filter (\<lambda>e. entry_id e \<in> set (selectedIds ?p)) (entries ?p)) = length (selectedIds ?p)"
    using length_filter_in_distinct [OF once] ok(2)
    by (simp add: pane_consistent_def pane_ids_def filter_map comp_def)
  have focused: "length (filter (\<lambda>e. cursorEntryId ?p = Some (entry_id e)) (entries ?p))
      = (if entries ?p = [] then 0 else 1)"
  proof (cases "cursorEntryId ?p")
    case None
    then show ?thesis using ok(2) by (simp add: pane_consistent_def pane_ids_def)
  next
    case (Some c)
    then have "c \<in> set (pane_ids ?p)" using ok(2) by (simp add: pane_consistent_def)
    moreover from this have "length (filter (\<lambda>x. x \<in> set [c]) (pane_ids ?p)) = length [c]"
      using once(1) by (intro length_filter_in_distinct) auto
    ultimately show ?thesis
      using Some by (auto simp: pane_ids_def filter_map comp_def eq_commute [of c])
  qed
  show ?thesis
    using selected focused ok(1)
    by (simp add: toPaneViewState_def filter_map comp_def Let_def)
qed

lemma loaded_store_tidy: "tidy_reachable ascii_host loaded_store"
  unfolding loaded_store_def
  by (intro tidy_reachable.intros) (simp_all add: sample_load_def sample_entry_def)

theorem pane_view_consistent_witness:
  "let v = toPaneViewState loaded_widget (getPaneState loaded_widget LeftPane) None in
     view_selectedItems v = length (filter row_selected (view_rows v))"
proof -
  have "directoryEntries (getPaneState loaded_widget LeftPane) \<noteq> []" unfolding loaded_widget_fields(1) by simp
  from pane_view_consistent [OF loaded_store_tidy loaded_store_widget this, of None]
  show ?thesis unfolding Let_def by blast
qed

text \<open>
  A size label is accurate: the tenths shown for a size in a unit of \<open>d\<close> bytes differ from the
  exact size by at most half a tenth of the unit; a size of at least one unit shows at least 1.0, and a
  size below the next unit shows at most 1024.0.
\<close>
lemma size_label_accuracy:
  assumes "0 < d"
  shows "\<bar>int (tenths n d) * int d - 10 * int n\<bar> * 2 \<le> int d
     \<and> (d \<le> n \<longrightarrow> 10 \<le> tenths n d) \<and> (n < 1024 * d \<longrightarrow> tenths n d \<le> 10240)"
proof -
  have eq: "int (20 * n + d) = int (2 * d) * int (tenths n d) + int ((20 * n + d) mod (2 * d))"
    unfolding tenths_def by (metis mult_div_mod_eq of_nat_add of_nat_mult)
  have lt: "(20 * n + d) mod (2 * d) < 2 * d" using assms by simp
  have near: "\<bar>int (tenths n d) * int d - 10 * int n\<bar> * 2 \<le> int d"
    using eq lt by (simp add: abs_if algebra_simps)
  have mono: "m \<le> n \<Longrightarrow> tenths m d \<le> tenths n d" for m n
    unfolding tenths_def by (rule div_le_mono) simp
  have exact: "tenths (k * d) d = 10 * k" for k
  proof -
    have "20 * (k * d) + d = d + 10 * k * (2 * d)" by (simp add: algebra_simps)
    then have "tenths (k * d) d = (d + 10 * k * (2 * d)) div (2 * d)" by (simp only: tenths_def)
    also have "\<dots> = 10 * k + d div (2 * d)" using assms by (intro div_mult_self1) simp
    finally show ?thesis using assms by simp
  qed
  have "d \<le> n \<longrightarrow> 10 \<le> tenths n d" using mono [of d n] exact [of 1] by simp
  moreover have "n < 1024 * d \<longrightarrow> tenths n d \<le> 10240" using mono [of n "1024 * d"] exact [of 1024] by simp
  ultimately show ?thesis using near by blast
qed

text \<open>The upper end is reached: a file one byte short of a megabyte is labelled in kilobytes as a full one.\<close>

lemma kilobyte_label_overflow: "formatBytes 1048575 = js ''1024.0 KB''"
  by (simp add: formatBytes_def to_fixed_1_def tenths_def js_of_nat.simps)

text \<open>At the root of a drive no reported path is found, and neither is a name with a backslash.\<close>

lemma drive_root_entries_dropped:
  assumes "js_ascii_letter c" and "list_all path_segment ns"
  shows "toEntryIdsFromPaths [c, colon, slash] (map (toCommanderEntryPath [c, colon, slash]) ns) = []"
proof -
  have "drive_path [c, colon, slash]" "is_drive_root [c, colon, slash]"
    using assms(1) by (simp_all add: drive_path_def canonical_path_def is_drive_root_def)
  then have "getRuntimePathParent (toCommanderEntryPath [c, colon, slash] n) = Some [c, colon]" if "n \<in> set ns" for n
    using that assms(2) parent_of_drive_child by (simp add: toCommanderEntryPath_def list_all_iff)
  then show ?thesis by (simp add: toEntryIdsFromPaths_def filter_empty_conv)
qed

lemma backslash_name_dropped:
  "toEntryIdsFromPaths (js ''/w'') [toCommanderEntryPath (js ''/w'') (js ''a'' @ backslash # js ''b'')] = []"
  by (simp add: js_simps toEntryIdsFromPaths_def toCommanderEntryPath_def joinRuntimePath_def normalizeJoinedPath_def
      getRuntimePathParent_def trimTrailingSeparators_def normalizePathSeparators_def is_drive_root_def js_ascii_letter_def
      push_segment_def Let_def js_lastIndexOf_def js_slice_def)

end
