(* ===== verification/Commander_Session.thy ===== *)
theory Commander_Session
  imports Commander_View
begin

text \<open>
  The asynchronous session of a widget, \<^verbatim>\<open>features/commander/model/hooks.ts\<close> and
  \<^verbatim>\<open>file-dialog-controller.ts\<close>. An asynchronous function is the tree of its effects: store events, reads and
  writes of the refs (the mutation flag and the request counters), backend calls with a continuation per
  reply, and \<open>Promise.all\<close>. A tree closes over the widget state it was started with, as a React callback
  does. Code between two awaits runs without interruption: \<open>run\<close> executes a tree up to its next call.
\<close>

section \<open>Effects\<close>

datatype flow =
    Done
  | Emit CommanderEvent flow
  | ReadLock "bool \<Rightarrow> flow"
  | SetLock bool flow
  | NextRequest CommanderPaneId "nat \<Rightarrow> flow"
  | CurrentRequest CommanderPaneId "nat \<Rightarrow> flow"
  | NextFileRequest "nat \<Rightarrow> flow"
  | CurrentFileRequest "nat \<Rightarrow> flow"
  | CallList fs_request "commander_error + CommanderDirectorySnapshot \<Rightarrow> flow"
  | CallRead fs_request "commander_error + CommanderFileSnapshot \<Rightarrow> flow"
  | CallOpen fs_request "commander_error option \<Rightarrow> flow"
  | CallWrite fs_request "commander_error + CommanderFileSnapshot \<Rightarrow> flow"
  | CallMkdir fs_request "commander_error + MkdirResult \<Rightarrow> flow"
  | CallPaths fs_request "commander_error + jsstring list \<Rightarrow> flow"
  | Par flow flow flow

text \<open>The refs of a mounted widget and its state in the store.\<close>

record session =
  ses_widget :: CommanderWidgetRuntimeState
  ses_lock :: bool
  ses_paneRequest :: "CommanderPaneId \<Rightarrow> nat"
  ses_fileRequest :: nat

definition apply_event :: "host \<Rightarrow> CommanderEvent \<Rightarrow> session \<Rightarrow> session" where
  "apply_event h event s = s\<lparr>ses_widget := js_default (reduce_widget h event (ses_widget s)) (ses_widget s)\<rparr>"

primrec run :: "host \<Rightarrow> flow \<Rightarrow> session \<Rightarrow> session \<times> flow" where
  "run h Done s = (s, Done)"
| "run h (Emit event p) s = run h p (apply_event h event s)"
| "run h (ReadLock f) s = run h (f (ses_lock s)) s"
| "run h (SetLock b p) s = run h p (s\<lparr>ses_lock := b\<rparr>)"
| "run h (NextRequest i f) s = run h (f (ses_paneRequest s i + 1))
     (s\<lparr>ses_paneRequest := (ses_paneRequest s)(i := ses_paneRequest s i + 1)\<rparr>)"
| "run h (CurrentRequest i f) s = run h (f (ses_paneRequest s i)) s"
| "run h (NextFileRequest f) s = run h (f (ses_fileRequest s + 1)) (s\<lparr>ses_fileRequest := ses_fileRequest s + 1\<rparr>)"
| "run h (CurrentFileRequest f) s = run h (f (ses_fileRequest s)) s"
| "run h (CallList q f) s = (s, CallList q f)"
| "run h (CallRead q f) s = (s, CallRead q f)"
| "run h (CallOpen q f) s = (s, CallOpen q f)"
| "run h (CallWrite q f) s = (s, CallWrite q f)"
| "run h (CallMkdir q f) s = (s, CallMkdir q f)"
| "run h (CallPaths q f) s = (s, CallPaths q f)"
| "run h (Par p q k) s =
     (let (s1, p') = run h p s; (s2, q') = run h q s1 in
      case (p', q') of (Done, Done) \<Rightarrow> run h k s2 | _ \<Rightarrow> (s2, Par p' q' k))"

section \<open>Loading directories\<close>

text \<open>
  The options of a load. The source passes every key to the store even when its value is undefined, so
  the overrides of the payload are always present.
\<close>

record load_options =
  load_cursorEntryId :: "jsstring option"
  load_filterQuery :: "jsstring option"
  load_selectedIds :: "jsstring list option"
  load_selectionAnchorEntryId :: "jsstring option"

definition no_load_options :: load_options where
  "no_load_options = \<lparr>load_cursorEntryId = None, load_filterQuery = None, load_selectedIds = None,
     load_selectionAnchorEntryId = None\<rparr>"

definition hydrate_payload ::
    "CommanderDirectorySnapshot \<Rightarrow> jsstring \<Rightarrow> history_mode \<Rightarrow> load_options \<Rightarrow> CommanderHydratePanePayload" where
  "hydrate_payload snapshot query mode options =
     \<lparr>hydrate_directoryEntries = snapshot_entries snapshot,
      hydrate_cursorEntryId = Some (load_cursorEntryId options),
      hydrate_filterQuery = Some query,
      hydrate_historyMode = Some mode,
      hydrate_path = snapshot_path snapshot,
      hydrate_selectedIds = Some (load_selectedIds options),
      hydrate_selectionAnchorEntryId = Some (load_selectionAnchorEntryId options)\<rparr>"

definition load_query :: "CommanderWidgetRuntimeState \<Rightarrow> CommanderPaneId \<Rightarrow> load_options \<Rightarrow> jsstring" where
  "load_query rs paneId options = js_default (load_filterQuery options) (filterQuery (getPaneState rs paneId))"

definition loaded_flow ::
    "CommanderWidgetRuntimeState \<Rightarrow> CommanderPaneId \<Rightarrow> jsstring \<Rightarrow> history_mode \<Rightarrow> load_options \<Rightarrow> nat \<Rightarrow> flow \<Rightarrow>
     commander_error + CommanderDirectorySnapshot \<Rightarrow> flow" where
  "loaded_flow rs paneId pth mode options requestId k reply =
     CurrentRequest paneId (\<lambda>current.
       if current \<noteq> requestId then k
       else case reply of
         Inr snapshot \<Rightarrow>
           Emit (HydrateCommanderPaneDirectory paneId
             (hydrate_payload snapshot (load_query rs paneId options) mode options)) k
       | Inl error \<Rightarrow>
           Emit (SetCommanderPaneLoadError paneId (Some (toLoadErrorMessage error)) (Some pth)) k)"

definition loadPaneDirectory ::
    "RuntimeContext option \<Rightarrow> CommanderWidgetRuntimeState \<Rightarrow> CommanderPaneId \<Rightarrow> jsstring \<Rightarrow> history_mode \<Rightarrow>
     load_options \<Rightarrow> flow \<Rightarrow> flow" where
  "loadPaneDirectory ctx rs paneId pth mode options k =
     (case ctx of
        None \<Rightarrow> k
      | Some _ \<Rightarrow>
          NextRequest paneId (\<lambda>requestId.
            Emit (SetCommanderPaneLoading paneId)
              (CallList (list_request pth (Some (load_query rs paneId options)))
                (loaded_flow rs paneId pth mode options requestId k))))"

definition getEntryPaths :: "CommanderWidgetRuntimeState \<Rightarrow> CommanderPaneId \<Rightarrow> jsstring list \<Rightarrow> jsstring list" where
  "getEntryPaths rs paneId ids =
     (let paneState = getPaneState rs paneId in
      map (\<lambda>entry. toCommanderEntryPath (path paneState) (entry_name entry)) (resolveEntriesInOrder paneState ids))"

definition reloadPaneSelection ::
    "RuntimeContext option \<Rightarrow> CommanderWidgetRuntimeState \<Rightarrow> CommanderPaneId \<Rightarrow> jsstring \<Rightarrow> jsstring list \<Rightarrow> flow \<Rightarrow> flow" where
  "reloadPaneSelection ctx rs paneId pth entryPaths k =
     (let selected = toEntryIdsFromPaths pth entryPaths; cursor = js_nth selected 0 in
      loadPaneDirectory ctx rs paneId pth ModeReplace
        \<lparr>load_cursorEntryId = cursor, load_filterQuery = None, load_selectedIds = Some selected,
         load_selectionAnchorEntryId = cursor\<rparr> k)"

section \<open>Transfers\<close>

definition transfer_target :: "CommanderPendingOperation \<Rightarrow> CommanderPaneId \<times> jsstring" where
  "transfer_target operation =
     (case detail operation of
        CloneDetail d \<Rightarrow> (clone_targetPaneId d, clone_targetPath d)
      | TransferDetail d \<Rightarrow> (transfer_targetPaneId d, transfer_targetPath d)
      | _ \<Rightarrow> (sourcePaneId operation, sourcePath operation))"

text \<open>The copies of a clone: one per preview item in batch mode, the typed name in single mode.\<close>

definition clone_copies ::
    "CommanderPendingOperation \<Rightarrow> CommanderCloneDetail \<Rightarrow> jsstring list \<Rightarrow> (jsstring \<times> jsstring) list" where
  "clone_copies operation d sourcePaths =
     (if clone_mode d = CloneBatch then
        List.map_filter (\<lambda>item.
          (let sourceIndex = js_findIndex (\<lambda>i. i = item_entryId item) (entryIds operation);
               source = (if sourceIndex = -1 then None else js_nth sourcePaths sourceIndex);
               nextName = js_trim (item_nextName item)
           in if \<not> js_truthy source \<or> nextName = [] then None
              else Some (the source, toCommanderEntryPath (sourcePath operation) nextName)))
          (clone_renamePreview d)
      else [(js_default (js_nth sourcePaths 0) [],
             toCommanderEntryPath (sourcePath operation) (js_trim (clone_inputValue d)))])"

definition transfer_request ::
    "CommanderPendingOperation \<Rightarrow> jsstring list \<Rightarrow> bool \<Rightarrow> fs_request" where
  "transfer_request operation sourcePaths overwrite =
     (case detail operation of
        CloneDetail d \<Rightarrow> copyCommanderEntriesToPaths (clone_copies operation d sourcePaths) overwrite
      | TransferDetail d \<Rightarrow>
          (case transfer_kind d of
             TransferCopy \<Rightarrow> copyCommanderEntries sourcePaths (transfer_targetPath d) overwrite
           | TransferMove \<Rightarrow> moveCommanderEntries sourcePaths (transfer_targetPath d) overwrite)
      | _ \<Rightarrow> moveCommanderEntries sourcePaths (snd (transfer_target operation)) overwrite)"

definition transfer_reloads ::
    "RuntimeContext option \<Rightarrow> CommanderWidgetRuntimeState \<Rightarrow> CommanderPendingOperation \<Rightarrow> jsstring list \<Rightarrow> flow \<Rightarrow> flow" where
  "transfer_reloads ctx rs operation paths k =
     (let (targetPane, targetPath) = transfer_target operation;
          reload = (if isCloneCopyOperation operation
            then reloadPaneSelection ctx rs (sourcePaneId operation) (sourcePath operation) paths
            else reloadPaneSelection ctx rs targetPane targetPath paths)
      in if pending_kind operation = KMove
         then Par (reload Done)
                (loadPaneDirectory ctx rs (sourcePaneId operation) (sourcePath operation) ModeReplace no_load_options Done) k
         else reload k)"

text \<open>\<open>k\<close> is what follows a normal return, \<open>err\<close> what follows a throw.\<close>

definition performTransferMutation ::
    "RuntimeContext option \<Rightarrow> CommanderWidgetRuntimeState \<Rightarrow> CommanderPendingOperation \<Rightarrow> jsstring list \<Rightarrow> bool \<Rightarrow>
     flow \<Rightarrow> (commander_error \<Rightarrow> flow) \<Rightarrow> flow" where
  "performTransferMutation ctx rs operation ids overwrite k err =
     (let sourcePaths = getEntryPaths rs (sourcePaneId operation) ids in
      if sourcePaths = [] then k
      else if isCloneCopyOperation operation \<and> sourcePaths ! 0 = [] then k
      else CallPaths (transfer_request operation sourcePaths overwrite) (\<lambda>reply.
        case reply of
          Inl error \<Rightarrow> err error
        | Inr paths \<Rightarrow> transfer_reloads ctx rs operation paths k))"

definition handleTransferMutationError :: "CommanderPendingOperation \<Rightarrow> commander_error \<Rightarrow> flow \<Rightarrow> flow" where
  "handleTransferMutationError operation error k =
     Emit (SetCommanderPaneLoadError (fst (transfer_target operation)) (Some (toLoadErrorMessage error))
       (Some (snd (transfer_target operation)))) k"

section \<open>Resolving conflicts\<close>

datatype conflict_resolution = OverwriteCurrent | SkipCurrent | OverwriteAll | SkipAll

text \<open>\<^verbatim>\<open>try { lock = true; await transfer; cancel } catch { report } finally { lock = false }\<close>.\<close>

definition locked_transfer ::
    "RuntimeContext option \<Rightarrow> CommanderWidgetRuntimeState \<Rightarrow> CommanderPendingOperation \<Rightarrow> jsstring list \<Rightarrow> bool \<Rightarrow> flow" where
  "locked_transfer ctx rs operation ids overwrite =
     SetLock True
       (performTransferMutation ctx rs operation ids overwrite
         (Emit CancelCommanderPendingOperation (SetLock False Done))
         (\<lambda>error. handleTransferMutationError operation error (SetLock False Done)))"

definition non_conflicting_ids :: "CommanderPendingOperation \<Rightarrow> CommanderTransferDetail \<Rightarrow> jsstring list" where
  "non_conflicting_ids operation d =
     map snd (filter (\<lambda>(index, i).
         js_default (js_nth (entryNames operation) (int index)) [] \<notin> set (transfer_conflictEntryNames d))
       (zip [0..<length (entryIds operation)] (entryIds operation)))"

definition after_current_conflict ::
    "RuntimeContext option \<Rightarrow> CommanderWidgetRuntimeState \<Rightarrow> CommanderPendingOperation \<Rightarrow> flow" where
  "after_current_conflict ctx rs nextOperation =
     (if entryIds nextOperation = [] then Emit CancelCommanderPendingOperation (SetLock False Done)
      else if (case detail nextOperation of TransferDetail d \<Rightarrow> transfer_conflictEntryNames d \<noteq> [] | _ \<Rightarrow> False)
      then Emit (SetCommanderPendingOperation (Some nextOperation)) (SetLock False Done)
      else Emit (SetCommanderPendingOperation (Some nextOperation))
        (performTransferMutation ctx rs nextOperation (entryIds nextOperation) False
          (Emit CancelCommanderPendingOperation (SetLock False Done))
          (\<lambda>error. handleTransferMutationError nextOperation error (SetLock False Done))))"

definition resolve_transfer_conflict ::
    "RuntimeContext option \<Rightarrow> CommanderWidgetRuntimeState \<Rightarrow> CommanderPendingOperation \<Rightarrow> CommanderTransferDetail \<Rightarrow>
     conflict_resolution \<Rightarrow> flow" where
  "resolve_transfer_conflict ctx rs operation d resolution =
     (case resolution of
        OverwriteAll \<Rightarrow> locked_transfer ctx rs operation (entryIds operation) True
      | SkipAll \<Rightarrow>
          (let ids = non_conflicting_ids operation d in
           if ids = [] then SetLock True (Emit CancelCommanderPendingOperation (SetLock False Done))
           else locked_transfer ctx rs operation ids False)
      | _ \<Rightarrow>
          (let currentConflictName = getCurrentPendingConflictName d in
           if \<not> js_truthy currentConflictName then Done
           else
             (let name = the currentConflictName;
                  nextOperation = removePendingTransferEntry operation d name;
                  index = js_findIndex (\<lambda>n. n = name) (entryNames operation);
                  currentId = (if index = -1 then None else js_nth (entryIds operation) index)
              in if resolution = SkipCurrent then after_current_conflict ctx rs nextOperation
                 else if \<not> js_truthy currentId then Done
                 else SetLock True
                   (performTransferMutation ctx rs operation [the currentId] True
                     (after_current_conflict ctx rs nextOperation)
                     (\<lambda>error. handleTransferMutationError operation error (SetLock False Done))))))"

definition resolvePendingTransferConflictAsync ::
    "RuntimeContext option \<Rightarrow> CommanderWidgetRuntimeState \<Rightarrow> conflict_resolution \<Rightarrow> flow" where
  "resolvePendingTransferConflictAsync ctx rs resolution =
     (case pendingOperation rs of
        None \<Rightarrow> Done
      | Some operation \<Rightarrow>
          (case detail operation of
             CloneDetail d \<Rightarrow>
               ReadLock (\<lambda>locked. if locked then Done
                 else if resolution = SkipCurrent \<or> resolution = SkipAll then Emit CancelCommanderPendingOperation Done
                 else locked_transfer ctx rs operation (entryIds operation) True)
           | TransferDetail d \<Rightarrow>
               ReadLock (\<lambda>locked. if locked then Done else resolve_transfer_conflict ctx rs operation d resolution)
           | _ \<Rightarrow> Done))"

section \<open>Confirming\<close>

definition confirm_transfer_refused :: "CommanderPendingOperation \<Rightarrow> bool" where
  "confirm_transfer_refused operation =
     (case detail operation of
        CloneDetail d \<Rightarrow> js_trim (clone_inputValue d) = []
          \<or> clone_mode d = CloneSingle \<and> Some (js_trim (clone_inputValue d)) = js_nth (entryNames operation) 0
      | _ \<Rightarrow> False)"

definition pending_conflicts :: "CommanderPendingOperation \<Rightarrow> jsstring list" where
  "pending_conflicts operation =
     (case detail operation of
        CloneDetail d \<Rightarrow> clone_conflictEntryNames d
      | TransferDetail d \<Rightarrow> transfer_conflictEntryNames d
      | RenameDetail d \<Rightarrow> rename_conflictEntryNames d
      | _ \<Rightarrow> [])"

definition source_error :: "CommanderPendingOperation \<Rightarrow> jsstring \<Rightarrow> flow \<Rightarrow> flow" where
  "source_error operation message k =
     Emit (SetCommanderPaneLoadError (sourcePaneId operation) (Some message) (Some (sourcePath operation))) k"

abbreviation unlock :: flow where "unlock \<equiv> SetLock False Done"

definition confirm_transfer ::
    "RuntimeContext option \<Rightarrow> CommanderWidgetRuntimeState \<Rightarrow> CommanderPendingOperation \<Rightarrow> flow" where
  "confirm_transfer ctx rs operation =
     (if confirm_transfer_refused operation then
        source_error operation (js ''Copy target name must differ from the source entry'') unlock
      else if pending_conflicts operation \<noteq> [] then unlock
      else performTransferMutation ctx rs operation (entryIds operation) False
        (Emit CancelCommanderPendingOperation unlock)
        (\<lambda>error. handleTransferMutationError operation error unlock))"

definition confirm_delete ::
    "RuntimeContext option \<Rightarrow> CommanderWidgetRuntimeState \<Rightarrow> CommanderPendingOperation \<Rightarrow> flow" where
  "confirm_delete ctx rs operation =
     (let paths = getEntryPaths rs (sourcePaneId operation) (entryIds operation) in
      if paths = [] then unlock
      else CallPaths (deleteCommanderEntries paths) (\<lambda>reply.
        case reply of
          Inl error \<Rightarrow> source_error operation (toLoadErrorMessage error) unlock
        | Inr _ \<Rightarrow> Emit CancelCommanderPendingOperation
            (loadPaneDirectory ctx rs (sourcePaneId operation) (sourcePath operation) ModeReplace no_load_options unlock)))"

definition confirm_mkdir ::
    "RuntimeContext option \<Rightarrow> CommanderWidgetRuntimeState \<Rightarrow> CommanderPendingOperation \<Rightarrow> jsstring \<Rightarrow> flow" where
  "confirm_mkdir ctx rs operation inputValue =
     (let nextDirectoryName = js_trim inputValue in
      if \<not> hasSinglePathSegment nextDirectoryName then
        source_error operation (js ''Directory name must be a single path segment'') unlock
      else CallMkdir (FsMkdir (toCommanderEntryPath (sourcePath operation) nextDirectoryName)) (\<lambda>reply.
        case reply of
          Inl error \<Rightarrow> source_error operation (toLoadErrorMessage error) unlock
        | Inr created \<Rightarrow> Emit CancelCommanderPendingOperation
            (loadPaneDirectory ctx rs (sourcePaneId operation) (mkdir_parentPath created) ModeReplace
              \<lparr>load_cursorEntryId = Some (mkdir_entryId created), load_filterQuery = None,
               load_selectedIds = Some [], load_selectionAnchorEntryId = Some (mkdir_entryId created)\<rparr> unlock)))"

definition rename_pair ::
    "CommanderWidgetRuntimeState \<Rightarrow> CommanderPendingOperation \<Rightarrow> jsstring option \<Rightarrow> jsstring \<Rightarrow> (jsstring \<times> jsstring) option" where
  "rename_pair rs operation entryId inputName =
     (let entry = Option.bind entryId (\<lambda>i. List.find (\<lambda>e. entry_id e = i)
            (directoryEntries (getPaneState rs (sourcePaneId operation))));
          nextName = js_trim inputName
      in case entry of
           None \<Rightarrow> None
         | Some e \<Rightarrow> if nextName = [] then None
                     else Some (toCommanderEntryPath (sourcePath operation) (entry_name e), nextName))"

definition rename_entries ::
    "CommanderWidgetRuntimeState \<Rightarrow> CommanderPendingOperation \<Rightarrow> CommanderRenameDetail \<Rightarrow> (jsstring \<times> jsstring) list" where
  "rename_entries rs operation d =
     (if rename_mode d = RenameSingle
      then (case rename_pair rs operation (js_nth (entryIds operation) 0) (rename_inputValue d) of
              None \<Rightarrow> [] | Some pair \<Rightarrow> [pair])
      else List.map_filter (\<lambda>item. rename_pair rs operation (Some (item_entryId item)) (item_nextName item))
             (rename_preview d))"

definition confirm_rename ::
    "RuntimeContext option \<Rightarrow> CommanderWidgetRuntimeState \<Rightarrow> CommanderPendingOperation \<Rightarrow> CommanderRenameDetail \<Rightarrow> flow" where
  "confirm_rename ctx rs operation d =
     (let renames = rename_entries rs operation d in
      if renames = [] \<or> rename_duplicateTargetNames d \<noteq> [] then unlock
      else CallPaths (renameCommanderEntries renames (rename_conflictEntryNames d \<noteq> [])) (\<lambda>reply.
        case reply of
          Inl error \<Rightarrow> source_error operation (toLoadErrorMessage error) unlock
        | Inr paths \<Rightarrow> Emit CancelCommanderPendingOperation
            (reloadPaneSelection ctx rs (sourcePaneId operation) (sourcePath operation) paths unlock)))"

text \<open>A filter is confirmed by a load of the directory with the new query.\<close>

definition confirm_filter ::
    "RuntimeContext option \<Rightarrow> CommanderWidgetRuntimeState \<Rightarrow> CommanderPendingOperation \<Rightarrow> jsstring \<Rightarrow> flow" where
  "confirm_filter ctx rs operation inputValue =
     (let paneState = getPaneState rs (sourcePaneId operation); query = js_trim inputValue in
      loadPaneDirectory ctx rs (sourcePaneId operation) (sourcePath operation) ModeReplace
        \<lparr>load_cursorEntryId = cursorEntryId paneState, load_filterQuery = Some query,
         load_selectedIds = Some (selectedIds paneState),
         load_selectionAnchorEntryId = selectionAnchorEntryId paneState\<rparr>
        (Emit (SetCommanderPaneFilterQuery (sourcePaneId operation) query)
          (Emit (SetCommanderPendingOperation None) Done)))"

definition locked :: "flow \<Rightarrow> flow" where
  "locked body = ReadLock (\<lambda>held. if held then Done else SetLock True body)"

definition confirmPendingOperationAsync ::
    "RuntimeContext option \<Rightarrow> CommanderWidgetRuntimeState \<Rightarrow> flow" where
  "confirmPendingOperationAsync ctx rs =
     (case pendingOperation rs of
        None \<Rightarrow> Done
      | Some operation \<Rightarrow>
          (case detail operation of
             MaskDetail d \<Rightarrow>
               (if mask_kind d = MaskFilter then confirm_filter ctx rs operation (mask_inputValue d)
                else Emit ConfirmCommanderPendingOperation Done)
           | SearchDetail _ \<Rightarrow> Emit ConfirmCommanderPendingOperation Done
           | CloneDetail _ \<Rightarrow> locked (confirm_transfer ctx rs operation)
           | TransferDetail _ \<Rightarrow> locked (confirm_transfer ctx rs operation)
           | DeleteDetail \<Rightarrow> locked (confirm_delete ctx rs operation)
           | MkdirDetail inputValue \<Rightarrow> locked (confirm_mkdir ctx rs operation inputValue)
           | RenameDetail d \<Rightarrow> locked (confirm_rename ctx rs operation d)))"

section \<open>Navigation\<close>

definition openFileDialogForEntry ::
    "CommanderWidgetRuntimeState \<Rightarrow> CommanderPaneId \<Rightarrow> jsstring \<Rightarrow> bool \<Rightarrow> flow" where
  "openFileDialogForEntry rs paneId entryId edit =
     (let paneState = getPaneState rs paneId in
      case List.find (\<lambda>e. entry_id e = entryId) (entries paneState) of
        None \<Rightarrow> Done
      | Some entry \<Rightarrow>
          (let entryPath = toCommanderEntryPath (path paneState) (entry_name entry);
               blocked = \<lparr>dialog_paneId = paneId, dialog_path = path paneState, dialog_entryId = entryId,
                 dialog_entryName = entry_name entry, dialog_mode = DialogBlocked, dialog_content = [],
                 dialog_draftValue = [], dialog_previewKind = None, dialog_previewBytes = None,
                 dialog_sizeBytes = None, dialog_truncated = None, dialog_blockedReason = None,
                 dialog_blockedTitle = None, dialog_blockedHint = None\<rparr>;
               opened = (\<lambda>snapshot. \<lparr>dialog_paneId = paneId, dialog_path = file_path snapshot,
                 dialog_entryId = file_entryId snapshot, dialog_entryName = file_entryName snapshot,
                 dialog_mode = (if edit then DialogEdit else DialogView),
                 dialog_content = file_content snapshot, dialog_draftValue = file_content snapshot,
                 dialog_previewKind = Some (file_previewKind snapshot),
                 dialog_previewBytes = file_previewBytes snapshot, dialog_sizeBytes = file_sizeBytes snapshot,
                 dialog_truncated = file_truncated snapshot, dialog_blockedReason = None,
                 dialog_blockedTitle = None, dialog_blockedHint = None\<rparr>);
               failed = (\<lambda>error. Emit (SetCommanderPaneLoadError paneId (Some (toLoadErrorMessage error)) None) Done)
           in if entry_kind entry \<noteq> File \<or> entryPath = [] then Done
              else NextFileRequest (\<lambda>requestId.
                CallRead (if edit then FsReadFile entryPath else FsRead entryPath None) (\<lambda>reply.
                  case reply of
                    Inr snapshot \<Rightarrow>
                      CurrentFileRequest (\<lambda>current.
                        if current \<noteq> requestId then Done
                        else if \<not> edit \<and> \<not> file_previewAvailable snapshot then
                          Emit (SetCommanderFileDialog (Some (blocked
                            \<lparr>dialog_blockedTitle := Some (js ''Preview unavailable for this file''),
                             dialog_blockedReason := Some
                               (js ''File is binary or not UTF-8 text. Open it with an external tool.''),
                             dialog_blockedHint := Some (js ''Binary preview unavailable'')\<rparr>))) Done
                        else Emit (SetCommanderFileDialog (Some (opened snapshot))) Done)
                  | Inl error \<Rightarrow>
                      (case error of
                         CommanderAPIError status code message \<Rightarrow>
                           if edit \<and> code = js ''invalid_fs_text'' then
                             CallRead (FsRead entryPath None) (\<lambda>binary.
                               CurrentFileRequest (\<lambda>current.
                                 if current \<noteq> requestId then Done
                                 else Emit (SetCommanderFileDialog (Some (blocked
                                   \<lparr>dialog_blockedReason := Some
                                      (js ''File is not UTF-8 text. Use F3 for preview or open it with an external tool.''),
                                    dialog_previewKind := (case binary of Inr b \<Rightarrow> Some (file_previewKind b) | Inl _ \<Rightarrow> None),
                                    dialog_previewBytes := (case binary of Inr b \<Rightarrow> file_previewBytes b | Inl _ \<Rightarrow> None),
                                    dialog_sizeBytes := (case binary of Inr b \<Rightarrow> file_sizeBytes b | Inl _ \<Rightarrow> None),
                                    dialog_truncated := (case binary of Inr b \<Rightarrow> file_truncated b | Inl _ \<Rightarrow> None)\<rparr>))) Done))
                           else failed error
                       | _ \<Rightarrow> failed error)))))"

definition openPaneEntry ::
    "RuntimeContext option \<Rightarrow> CommanderWidgetRuntimeState \<Rightarrow> CommanderPaneId \<Rightarrow> jsstring \<Rightarrow> flow" where
  "openPaneEntry ctx rs paneId entryId =
     (let paneState = getPaneState rs paneId in
      case List.find (\<lambda>e. entry_id e = entryId) (entries paneState) of
        None \<Rightarrow> Done
      | Some entry \<Rightarrow>
          (case entry_kind entry of
             Folder \<Rightarrow> loadPaneDirectory ctx rs paneId (toCommanderEntryPath (path paneState) (entry_name entry))
               ModePush no_load_options Done
           | File \<Rightarrow> openFileDialogForEntry rs paneId entryId False
           | Symlink \<Rightarrow> Done))"

definition setPanePath ::
    "RuntimeContext option \<Rightarrow> CommanderWidgetRuntimeState \<Rightarrow> CommanderPaneId \<Rightarrow> jsstring \<Rightarrow> flow" where
  "setPanePath ctx rs paneId pathInput =
     (case ctx of
        None \<Rightarrow> Done
      | Some context \<Rightarrow>
          (let paneState = getPaneState rs paneId;
               nextPath = resolveRuntimePathInput pathInput (homeDir context) (path paneState)
           in if nextPath = [] \<or> nextPath = path paneState then Done
              else loadPaneDirectory ctx rs paneId nextPath ModePush no_load_options Done))"

definition goPaneParent :: "RuntimeContext option \<Rightarrow> CommanderWidgetRuntimeState \<Rightarrow> CommanderPaneId \<Rightarrow> flow" where
  "goPaneParent ctx rs paneId =
     (let parentPath = getRuntimePathParent (path (getPaneState rs paneId)) in
      if \<not> js_truthy parentPath then Done
      else loadPaneDirectory ctx rs paneId (the parentPath) ModePush no_load_options Done)"

definition goPaneBack :: "RuntimeContext option \<Rightarrow> CommanderWidgetRuntimeState \<Rightarrow> CommanderPaneId \<Rightarrow> flow" where
  "goPaneBack ctx rs paneId =
     (let stack = historyBack (getPaneState rs paneId); targetPath = js_nth stack (int (length stack) - 1) in
      if \<not> js_truthy targetPath then Done
      else loadPaneDirectory ctx rs paneId (the targetPath) ModeBack no_load_options Done)"

definition goPaneForward :: "RuntimeContext option \<Rightarrow> CommanderWidgetRuntimeState \<Rightarrow> CommanderPaneId \<Rightarrow> flow" where
  "goPaneForward ctx rs paneId =
     (let stack = historyForward (getPaneState rs paneId); targetPath = js_nth stack (int (length stack) - 1) in
      if \<not> js_truthy targetPath then Done
      else loadPaneDirectory ctx rs paneId (the targetPath) ModeForward no_load_options Done)"

definition initial_load :: "RuntimeContext \<Rightarrow> CommanderWidgetRuntimeState \<Rightarrow> flow" where
  "initial_load context rs =
     (let (leftPath, rightPath) = resolveDefaultPanePaths context rs in
      Par (loadPaneDirectory (Some context) rs LeftPane leftPath ModeReplace no_load_options Done)
          (loadPaneDirectory (Some context) rs RightPane rightPath ModeReplace no_load_options Done) Done)"

definition clear_active_filter :: "RuntimeContext option \<Rightarrow> CommanderWidgetRuntimeState \<Rightarrow> flow" where
  "clear_active_filter ctx rs =
     (let active = activePane rs; paneState = getPaneState rs active in
      loadPaneDirectory ctx rs active (path paneState) ModeReplace
        \<lparr>load_cursorEntryId = cursorEntryId paneState, load_filterQuery = Some [],
         load_selectedIds = Some (selectedIds paneState),
         load_selectionAnchorEntryId = selectionAnchorEntryId paneState\<rparr>
        (Emit (SetCommanderPaneFilterQuery active []) (Emit ClearCommanderActivePaneFilter Done)))"

definition open_active_entry :: "RuntimeContext option \<Rightarrow> CommanderWidgetRuntimeState \<Rightarrow> flow" where
  "open_active_entry ctx rs =
     (let entryId = cursorEntryId (getPaneState rs (activePane rs)) in
      if \<not> js_truthy entryId then Done else openPaneEntry ctx rs (activePane rs) (the entryId))"

section \<open>The file dialog\<close>

definition openFilePreview :: "CommanderWidgetRuntimeState \<Rightarrow> CommanderPaneId \<Rightarrow> flow" where
  "openFilePreview rs paneId =
     (let entryId = cursorEntryId (getPaneState rs paneId) in
      if \<not> js_truthy entryId then Done else openFileDialogForEntry rs paneId (the entryId) False)"

definition openFileEditor :: "CommanderWidgetRuntimeState \<Rightarrow> CommanderPaneId \<Rightarrow> flow" where
  "openFileEditor rs paneId =
     (let entryId = cursorEntryId (getPaneState rs paneId) in
      if \<not> js_truthy entryId then Done else openFileDialogForEntry rs paneId (the entryId) True)"

definition dialog_error :: "CommanderFileDialogState \<Rightarrow> commander_error \<Rightarrow> flow \<Rightarrow> flow" where
  "dialog_error d error k =
     Emit (SetCommanderPaneLoadError (dialog_paneId d) (Some (toLoadErrorMessage error)) (Some (dialog_path d))) k"

definition saveFileDialogAsync :: "RuntimeContext option \<Rightarrow> CommanderWidgetRuntimeState \<Rightarrow> flow" where
  "saveFileDialogAsync ctx rs =
     (case fileDialog rs of
        None \<Rightarrow> Done
      | Some d \<Rightarrow>
          if dialog_mode d \<noteq> DialogEdit then Done
          else locked
            (CallWrite (FsWriteFile (toCommanderEntryPath (dialog_path d) (dialog_entryName d)) (dialog_draftValue d))
              (\<lambda>reply. case reply of
                 Inl error \<Rightarrow> dialog_error d error unlock
               | Inr saved \<Rightarrow>
                   Emit (SetCommanderFileDialog (Some (d
                     \<lparr>dialog_content := file_content saved, dialog_draftValue := file_content saved,
                      dialog_entryId := file_entryId saved, dialog_entryName := file_entryName saved,
                      dialog_path := file_path saved\<rparr>)))
                     (loadPaneDirectory ctx rs (dialog_paneId d) (file_path saved) ModeReplace
                       \<lparr>load_cursorEntryId = Some (file_entryId saved), load_filterQuery = None,
                        load_selectedIds = Some [file_entryId saved],
                        load_selectionAnchorEntryId = Some (file_entryId saved)\<rparr> unlock))))"

definition openFileDialogEntryExternallyAsync :: "CommanderWidgetRuntimeState \<Rightarrow> flow" where
  "openFileDialogEntryExternallyAsync rs =
     (case fileDialog rs of
        None \<Rightarrow> Done
      | Some d \<Rightarrow> CallOpen (FsOpen (toCommanderEntryPath (dialog_path d) (dialog_entryName d)))
          (\<lambda>reply. case reply of None \<Rightarrow> Done | Some error \<Rightarrow> dialog_error d error Done))"

definition openFileDialogFolderExternallyAsync :: "CommanderWidgetRuntimeState \<Rightarrow> flow" where
  "openFileDialogFolderExternallyAsync rs =
     (case fileDialog rs of
        None \<Rightarrow> Done
      | Some d \<Rightarrow> CallOpen (FsOpen (dialog_path d))
          (\<lambda>reply. case reply of None \<Rightarrow> Done | Some error \<Rightarrow> dialog_error d error Done))"

section \<open>Commands\<close>

datatype session_command =
    CmdEvent CommanderEvent
  | CmdConfirm
  | CmdResolve conflict_resolution
  | CmdSave
  | CmdOpenExternally
  | CmdOpenFolder
  | CmdPreview CommanderPaneId
  | CmdEdit CommanderPaneId
  | CmdOpenEntry CommanderPaneId jsstring
  | CmdOpenActive
  | CmdSetPath CommanderPaneId jsstring
  | CmdParent CommanderPaneId
  | CmdBack CommanderPaneId
  | CmdForward CommanderPaneId
  | CmdClearFilter

fun command_flow :: "RuntimeContext option \<Rightarrow> CommanderWidgetRuntimeState \<Rightarrow> session_command \<Rightarrow> flow" where
  "command_flow ctx rs (CmdEvent event) = Emit event Done"
| "command_flow ctx rs CmdConfirm = confirmPendingOperationAsync ctx rs"
| "command_flow ctx rs (CmdResolve r) = resolvePendingTransferConflictAsync ctx rs r"
| "command_flow ctx rs CmdSave = saveFileDialogAsync ctx rs"
| "command_flow ctx rs CmdOpenExternally = openFileDialogEntryExternallyAsync rs"
| "command_flow ctx rs CmdOpenFolder = openFileDialogFolderExternallyAsync rs"
| "command_flow ctx rs (CmdPreview i) = openFilePreview rs i"
| "command_flow ctx rs (CmdEdit i) = openFileEditor rs i"
| "command_flow ctx rs (CmdOpenEntry i e) = openPaneEntry ctx rs i e"
| "command_flow ctx rs CmdOpenActive = open_active_entry ctx rs"
| "command_flow ctx rs (CmdSetPath i p) = setPanePath ctx rs i p"
| "command_flow ctx rs (CmdParent i) = goPaneParent ctx rs i"
| "command_flow ctx rs (CmdBack i) = goPaneBack ctx rs i"
| "command_flow ctx rs (CmdForward i) = goPaneForward ctx rs i"
| "command_flow ctx rs CmdClearFilter = clear_active_filter ctx rs"

end
