(* ===== verification/Commander_Concurrency.thy ===== *)
theory Commander_Concurrency
  imports Commander_Session
begin

text \<open>
  Interleavings of the flows of one widget: commands start flows, replies of the backend resume them
  in any order. The theory states the discipline under which a flow uses the mutation flag, shows that
  the flows of the session follow it, and derives mutual exclusion of mutations, that the last load of a
  pane wins, and that the history commands of a session undo its visits.
\<close>

section \<open>Interleaved execution\<close>

text \<open>A reply reaches one blocked call of a flow.\<close>

inductive resume :: "flow \<Rightarrow> flow \<Rightarrow> bool" where
  reply_list: "resume (CallList q f) (f r)"
| reply_read: "resume (CallRead q f) (f r')"
| reply_open: "resume (CallOpen q f) (f r'')"
| reply_write: "resume (CallWrite q f) (f r')"
| reply_mkdir: "resume (CallMkdir q f) (f m)"
| reply_paths: "resume (CallPaths q f) (f ps)"
| reply_left: "resume p p' \<Longrightarrow> resume (Par p q k) (Par p' q k)"
| reply_right: "resume q q' \<Longrightarrow> resume (Par p q k) (Par p q' k)"

inductive_cases resume_DoneE: "resume Done p"
inductive_cases resume_ParE: "resume (Par p q k) r"
inductive_simps resume_CallPaths [simp]: "resume (CallPaths q f) p"

text \<open>
  The states of a mounted widget: the refs and the flows in progress. A command starts a flow from some
  rendered state \<open>rs\<close> of the widget; only the commands satisfying \<open>allowed\<close> are given.
\<close>

inductive session_reach ::
    "host \<Rightarrow> RuntimeContext option \<Rightarrow> (session_command \<Rightarrow> bool) \<Rightarrow> session \<times> flow list \<Rightarrow> bool"
    for h ctx allowed where
  session_start: "\<not> ses_lock s \<Longrightarrow> session_reach h ctx allowed (s, [])"
| session_command: "session_reach h ctx allowed (s, ts) \<Longrightarrow> allowed c \<Longrightarrow>
    run h (command_flow ctx rs c) s = (s', p) \<Longrightarrow> session_reach h ctx allowed (s', p # ts)"
| session_reply: "session_reach h ctx allowed (s, us @ p # vs) \<Longrightarrow> resume p p' \<Longrightarrow>
    run h p' s = (s', p'') \<Longrightarrow> session_reach h ctx allowed (s', us @ p'' # vs)"

section \<open>The lock discipline\<close>

text \<open>
  What a flow knows of the mutation flag: nothing (\<open>Idle\<close>), that it is clear (\<open>Free\<close>, until the next
  await), or that the flow itself has set it (\<open>Held\<close>).
\<close>

datatype lock_view = Idle | Free | Held

definition wait :: "lock_view \<Rightarrow> lock_view" where
  "wait v = (if v = Free then Idle else v)"

primrec lock_free :: "flow \<Rightarrow> bool" where
  "lock_free Done = True"
| "lock_free (Emit e p) = lock_free p"
| "lock_free (ReadLock f) = False"
| "lock_free (SetLock b p) = False"
| "lock_free (NextRequest i f) = (\<forall>n. lock_free (f n))"
| "lock_free (CurrentRequest i f) = (\<forall>n. lock_free (f n))"
| "lock_free (NextFileRequest f) = (\<forall>n. lock_free (f n))"
| "lock_free (CurrentFileRequest f) = (\<forall>n. lock_free (f n))"
| "lock_free (CallList q f) = (\<forall>r. lock_free (f r))"
| "lock_free (CallRead q f) = (\<forall>r. lock_free (f r))"
| "lock_free (CallOpen q f) = (\<forall>r. lock_free (f r))"
| "lock_free (CallWrite q f) = False"
| "lock_free (CallMkdir q f) = False"
| "lock_free (CallPaths q f) = False"
| "lock_free (Par p q k) = (lock_free p \<and> lock_free q \<and> lock_free k)"

primrec disciplined :: "flow \<Rightarrow> lock_view \<Rightarrow> bool" where
  "disciplined Done v = (v \<noteq> Held)"
| "disciplined (Emit e p) v = disciplined p v"
| "disciplined (ReadLock f) v = (v \<noteq> Held \<and> disciplined (f True) Idle \<and> disciplined (f False) Free)"
| "disciplined (SetLock b p) v = (v \<noteq> Idle \<and> disciplined p (if b then Held else Free))"
| "disciplined (NextRequest i f) v = (\<forall>n. disciplined (f n) v)"
| "disciplined (CurrentRequest i f) v = (\<forall>n. disciplined (f n) v)"
| "disciplined (NextFileRequest f) v = (\<forall>n. disciplined (f n) v)"
| "disciplined (CurrentFileRequest f) v = (\<forall>n. disciplined (f n) v)"
| "disciplined (CallList q f) v = (\<forall>r. disciplined (f r) (wait v))"
| "disciplined (CallRead q f) v = (\<forall>r. disciplined (f r) (wait v))"
| "disciplined (CallOpen q f) v = (\<forall>r. disciplined (f r) (wait v))"
| "disciplined (CallWrite q f) v = (v = Held \<and> (\<forall>r. disciplined (f r) Held))"
| "disciplined (CallMkdir q f) v = (v = Held \<and> (\<forall>r. disciplined (f r) Held))"
| "disciplined (CallPaths q f) v = (v = Held \<and> (\<forall>r. disciplined (f r) Held))"
| "disciplined (Par p q k) v = (lock_free p \<and> lock_free q \<and> disciplined k (wait v))"

lemma wait_simps [simp]: "wait Idle = Idle" "wait Free = Idle" "wait Held = Held" "wait (wait v) = wait v"
  by (simp_all add: wait_def)

lemma run_lock_free:
  "lock_free p \<Longrightarrow> run h p s = (s', p') \<Longrightarrow> lock_free p' \<and> ses_lock s' = ses_lock s"
proof (induction p arbitrary: s s' p')
  case (Par p q k)
  obtain s1 p1 where 1: "run h p s = (s1, p1)" by fastforce
  obtain s2 q2 where 2: "run h q s1 = (s2, q2)" by fastforce
  have ok: "lock_free p1" "ses_lock s1 = ses_lock s" "lock_free q2" "ses_lock s2 = ses_lock s"
    using Par.IH(1) [OF _ 1] Par.IH(2) [OF _ 2] Par.prems(1) by auto
  have "run h k s2 = (s', p') \<or> (s', p') = (s2, Par p1 q2 k)"
    using Par.prems(2) 1 2 by (simp split: flow.splits)
  then show ?case using ok Par.IH(3) [of s2 s' p'] Par.prems(1) by auto
next
  case (NextRequest i f)
  then show ?case by (auto dest: NextRequest.IH [OF rangeI, rotated])
next
  case (CurrentRequest i f)
  then show ?case by (auto dest: CurrentRequest.IH [OF rangeI, rotated])
next
  case (NextFileRequest f)
  then show ?case by (auto dest: NextFileRequest.IH [OF rangeI, rotated])
next
  case (CurrentFileRequest f)
  then show ?case by (auto dest: CurrentFileRequest.IH [OF rangeI, rotated])
qed (auto simp: apply_event_def)

lemma resume_lock_free: "resume p p' \<Longrightarrow> lock_free p \<Longrightarrow> lock_free p'"
  by (induction rule: resume.induct) auto

lemma resume_disciplined: "resume p p' \<Longrightarrow> disciplined p v \<Longrightarrow> v \<noteq> Free \<Longrightarrow> disciplined p' v"
  by (induction rule: resume.induct) (auto simp: wait_def dest: resume_lock_free)

text \<open>Running to the next await: what the flow holds afterwards is what the flag says.\<close>

lemma run_disciplined:
  assumes "disciplined p v" and "v = Held \<Longrightarrow> ses_lock s" and "v = Free \<Longrightarrow> \<not> ses_lock s" and "run h p s = (s', p')"
  shows "\<exists>v'. v' \<noteq> Free \<and> disciplined p' v' \<and>
     (if v = Idle \<and> ses_lock s then v' = Idle \<and> ses_lock s' else ses_lock s' = (v' = Held))"
  using assms
proof (induction p arbitrary: v s s' p')
  case (ReadLock f)
  show ?case
  proof (cases "ses_lock s")
    case True
    then show ?thesis using ReadLock.IH [OF rangeI, of True Idle s s' p'] ReadLock.prems by (cases v) auto
  next
    case False
    then show ?thesis using ReadLock.IH [OF rangeI, of False Free s s' p'] ReadLock.prems by (cases v) auto
  qed
next
  case (SetLock b p)
  then show ?case using SetLock.IH [of "if b then Held else Free" "s\<lparr>ses_lock := b\<rparr>" s' p']
    by (cases b; cases v) auto
next
  case (Par p q k)
  obtain s1 p1 where 1: "run h p s = (s1, p1)" by fastforce
  obtain s2 q2 where 2: "run h q s1 = (s2, q2)" by fastforce
  have ok: "lock_free p1" "lock_free q2" "ses_lock s2 = ses_lock s"
    using run_lock_free [OF _ 1] run_lock_free [OF _ 2] Par.prems(1) by auto
  have "run h k s2 = (s', p') \<or> (s', p') = (s2, Par p1 q2 k)"
    using Par.prems(4) 1 2 by (simp split: flow.splits)
  then show ?case
  proof
    assume "run h k s2 = (s', p')"
    then show ?thesis using Par.IH(3) [of "wait v" s2 s' p'] Par.prems ok by (cases v) (auto split: if_splits)
  next
    assume "(s', p') = (s2, Par p1 q2 k)"
    then show ?thesis using ok Par.prems by (intro exI [of _ "wait v"]) (cases v; auto)
  qed
next
  case (Emit e p)
  then show ?case using Emit.IH [of v "apply_event h e s" s' p'] by (simp add: apply_event_def)
next
  case (NextRequest i f)
  then show ?case
    using NextRequest.IH [OF rangeI, of "ses_paneRequest s i + 1" v
      "s\<lparr>ses_paneRequest := (ses_paneRequest s)(i := ses_paneRequest s i + 1)\<rparr>" s' p'] by simp
next
  case (CurrentRequest i f)
  then show ?case using CurrentRequest.IH [OF rangeI, of "ses_paneRequest s i" v s s' p'] by simp
next
  case (NextFileRequest f)
  then show ?case
    using NextFileRequest.IH [OF rangeI, of "ses_fileRequest s + 1" v "s\<lparr>ses_fileRequest := ses_fileRequest s + 1\<rparr>" s' p']
    by simp
next
  case (CurrentFileRequest f)
  then show ?case using CurrentFileRequest.IH [OF rangeI, of "ses_fileRequest s" v s s' p'] by simp
next
  case Done
  then show ?case by (intro exI [of _ Idle]) (cases v; auto)
next
  case (CallList q f)
  then show ?case by (intro exI [of _ "wait v"]) (cases v; auto)
next
  case (CallRead q f)
  then show ?case by (intro exI [of _ "wait v"]) (cases v; auto)
next
  case (CallOpen q f)
  then show ?case by (intro exI [of _ "wait v"]) (cases v; auto)
qed auto

section \<open>The flows of the session are disciplined\<close>

lemma disciplined_load:
  assumes "disciplined k v" and "disciplined k (wait v)"
  shows "disciplined (loadPaneDirectory ctx rs i p m o' k) v"
  using assms by (auto simp: loadPaneDirectory_def loaded_flow_def split: option.splits sum.splits)

lemma disciplined_load_wait: "v \<noteq> Free \<Longrightarrow> disciplined k v \<Longrightarrow> disciplined (loadPaneDirectory ctx rs i p m o' k) v"
  by (rule disciplined_load) (simp_all add: wait_def)

lemma lock_free_load: "lock_free k \<Longrightarrow> lock_free (loadPaneDirectory ctx rs i p m o' k)"
  by (auto simp: loadPaneDirectory_def loaded_flow_def split: option.splits sum.splits)

lemma lock_free_disciplined: "lock_free p \<Longrightarrow> v \<noteq> Held \<Longrightarrow> disciplined p v"
  by (induction p arbitrary: v) (auto simp: wait_def)

lemma disciplined_reload:
  "v \<noteq> Free \<Longrightarrow> disciplined k v \<Longrightarrow> disciplined (reloadPaneSelection ctx rs i p ps k) v"
  by (simp add: reloadPaneSelection_def disciplined_load_wait Let_def)

lemma disciplined_transfer:
  assumes "disciplined k Held" and "\<And>e. disciplined (err e) Held"
  shows "disciplined (performTransferMutation ctx rs op ids ov k err) Held"
  using assms
  by (auto simp: performTransferMutation_def transfer_reloads_def reloadPaneSelection_def Let_def lock_free_load
      intro: disciplined_load_wait split: sum.splits prod.splits)

lemma disciplined_locked_transfer: "disciplined (locked_transfer ctx rs op ids ov) Free"
  by (auto simp: locked_transfer_def handleTransferMutationError_def intro!: disciplined_transfer)

lemma disciplined_locked: "disciplined body Held \<Longrightarrow> disciplined (locked body) Idle"
  by (simp add: locked_def)

lemma disciplined_after_conflict: "disciplined (after_current_conflict ctx rs op) Held"
  by (auto simp: after_current_conflict_def handleTransferMutationError_def intro!: disciplined_transfer)

lemma disciplined_resolve:
  assumes "r \<noteq> SkipCurrent"
  shows "disciplined (resolvePendingTransferConflictAsync ctx rs r) Idle"
  using assms disciplined_locked_transfer disciplined_after_conflict
  by (cases r)
     (auto simp: resolvePendingTransferConflictAsync_def resolve_transfer_conflict_def handleTransferMutationError_def
        Let_def intro!: disciplined_transfer split: option.splits CommanderPendingDetail.splits)

lemma disciplined_confirm: "disciplined (confirmPendingOperationAsync ctx rs) Idle"
  by (auto simp: confirmPendingOperationAsync_def confirm_filter_def confirm_transfer_def confirm_delete_def confirm_mkdir_def
      confirm_rename_def source_error_def handleTransferMutationError_def Let_def
      intro!: disciplined_locked disciplined_load_wait disciplined_transfer disciplined_reload
      split: option.splits CommanderPendingDetail.splits sum.splits)

lemma disciplined_save: "disciplined (saveFileDialogAsync ctx rs) Idle"
  by (auto simp: saveFileDialogAsync_def dialog_error_def intro!: disciplined_locked disciplined_load_wait
      split: option.splits sum.splits)

lemma lock_free_open_dialog: "lock_free (openFileDialogForEntry rs i e edit)"
  by (auto simp: openFileDialogForEntry_def Let_def split: option.splits sum.splits commander_error.splits)

lemma lock_free_open_entry: "lock_free (openPaneEntry ctx rs i e)"
  by (auto simp: openPaneEntry_def lock_free_open_dialog Let_def intro: lock_free_load
      split: option.splits CommanderRowKind.splits)

lemma lock_free_navigation:
  "lock_free (open_active_entry ctx rs)" "lock_free (setPanePath ctx rs i p)" "lock_free (goPaneParent ctx rs i)"
  "lock_free (goPaneBack ctx rs i)" "lock_free (goPaneForward ctx rs i)" "lock_free (clear_active_filter ctx rs)"
  "lock_free (openFilePreview rs i)" "lock_free (openFileEditor rs i)"
  "lock_free (openFileDialogEntryExternallyAsync rs)" "lock_free (openFileDialogFolderExternallyAsync rs)"
  by (auto simp: open_active_entry_def setPanePath_def goPaneParent_def goPaneBack_def goPaneForward_def
      clear_active_filter_def openFilePreview_def openFileEditor_def openFileDialogEntryExternallyAsync_def
      openFileDialogFolderExternallyAsync_def dialog_error_def lock_free_open_entry lock_free_open_dialog Let_def
      intro!: lock_free_load split: option.splits)

lemma disciplined_command: "c \<noteq> CmdResolve SkipCurrent \<Longrightarrow> disciplined (command_flow ctx rs c) Idle"
  by (cases c)
     (auto simp: disciplined_confirm disciplined_save lock_free_navigation lock_free_open_entry
        intro: disciplined_resolve lock_free_disciplined)

section \<open>Mutual exclusion\<close>

definition session_inv :: "session \<times> flow list \<Rightarrow> bool" where
  "session_inv S \<longleftrightarrow> (\<exists>vs. list_all2 disciplined (snd S) vs \<and> Free \<notin> set vs
     \<and> count_list vs Held = (if ses_lock (fst S) then 1 else 0))"

lemma session_inv_command:
  assumes "session_inv (s, ts)" and "disciplined p Idle" and "run h p s = (s', p')"
  shows "session_inv (s', p' # ts)"
proof -
  obtain vs where vs: "list_all2 disciplined ts vs" "Free \<notin> set vs" "count_list vs Held = (if ses_lock s then 1 else 0)"
    using assms(1) by (auto simp: session_inv_def)
  obtain v' where v': "v' \<noteq> Free" "disciplined p' v'"
    "if ses_lock s then v' = Idle \<and> ses_lock s' else ses_lock s' = (v' = Held)"
    using run_disciplined [OF assms(2) _ _ assms(3)] by auto
  have "list_all2 disciplined (p' # ts) (v' # vs)" using vs v' by simp
  moreover have "count_list (v' # vs) Held = (if ses_lock s' then 1 else 0)"
    using vs(3) v'(3) by (auto split: if_splits)
  ultimately show ?thesis
    unfolding session_inv_def using vs(2) v'(1) by (intro exI [of _ "v' # vs"]) simp
qed

lemma session_inv_reply:
  assumes "session_inv (s, us @ p # ws)" and "resume p p'" and "run h p' s = (s', p'')"
  shows "session_inv (s', us @ p'' # ws)"
proof -
  obtain vs where vs: "list_all2 disciplined (us @ p # ws) vs" "Free \<notin> set vs"
    "count_list vs Held = (if ses_lock s then 1 else 0)"
    using assms(1) by (auto simp: session_inv_def)
  obtain as v bs where split: "vs = as @ v # bs" "list_all2 disciplined us as" "disciplined p v" "list_all2 disciplined ws bs"
    using vs(1) by (auto simp: list_all2_append1 list_all2_Cons1)
  have free: "v \<noteq> Free" "Free \<notin> set as" "Free \<notin> set bs" using vs(2) split(1) by auto
  have disc: "disciplined p' v" by (rule resume_disciplined [OF assms(2) split(3) free(1)])
  have held: "v = Held \<Longrightarrow> ses_lock s" using vs(3) split(1) by (auto split: if_splits)
  obtain v' where v': "v' \<noteq> Free" "disciplined p'' v'"
    "if v = Idle \<and> ses_lock s then v' = Idle \<and> ses_lock s' else ses_lock s' = (v' = Held)"
    using run_disciplined [OF disc held _ assms(3)] free(1) by auto
  have rest: "count_list as Held + count_list bs Held = (if ses_lock s \<and> v = Idle then 1 else 0)"
    using vs(3) split(1) free(1) held by (cases v) (auto split: if_splits)
  have "count_list (as @ v' # bs) Held = (if ses_lock s' then 1 else 0)"
    using rest v'(3) by (auto split: if_splits)
  moreover have "list_all2 disciplined (us @ p'' # ws) (as @ v' # bs)"
    using split(2,4) v'(2) by (simp add: list_all2_appendI)
  ultimately show ?thesis
    unfolding session_inv_def using free v'(1) by (intro exI [of _ "as @ v' # bs"]) simp
qed

lemma session_reach_inv:
  assumes "session_reach h ctx (\<lambda>c. c \<noteq> CmdResolve SkipCurrent) S"
  shows "session_inv S"
  using assms
proof (induction rule: session_reach.induct)
  case (session_start s)
  then show ?case by (simp add: session_inv_def)
next
  case (session_command s ts c rs s' p)
  then show ?case using session_inv_command disciplined_command by blast
next
  case (session_reply s us p vs p' s' p'')
  then show ?case using session_inv_reply by blast
qed

text \<open>A flow that waits for the reply of a mutation.\<close>

definition mutating :: "flow \<Rightarrow> bool" where
  "mutating p = (case p of CallWrite _ _ \<Rightarrow> True | CallMkdir _ _ \<Rightarrow> True | CallPaths _ _ \<Rightarrow> True | _ \<Rightarrow> False)"

lemma mutating_held: "disciplined p v \<Longrightarrow> mutating p \<Longrightarrow> v = Held"
  by (auto simp: mutating_def split: flow.splits)

lemma count_mutating: "list_all2 disciplined ts vs \<Longrightarrow> length (filter mutating ts) \<le> count_list vs Held"
  by (induction rule: list_all2_induct) (auto dest: mutating_held)

text \<open>
  C28: mutations exclude each other: whatever commands the user gives (other than skipping a single
  conflict) and in whatever order the backend answers, at most one write, directory creation, copy, move,
  delete or rename of the widget is in progress, and the mutation flag is set while one is.
\<close>
theorem mutations_exclude_each_other:
  assumes "session_reach h ctx (\<lambda>c. c \<noteq> CmdResolve SkipCurrent) (s, ts)"
  shows "length (filter mutating ts) \<le> 1 \<and> (ses_lock s \<or> filter mutating ts = [])"
proof -
  obtain vs where "list_all2 disciplined ts vs" "count_list vs Held = (if ses_lock s then 1 else 0)"
    using session_reach_inv [OF assms] by (auto simp: session_inv_def)
  then show ?thesis using count_mutating [of ts vs] by (auto split: if_splits)
qed

definition idle_session :: "CommanderWidgetRuntimeState \<Rightarrow> session" where
  "idle_session w = \<lparr>ses_widget = w, ses_lock = False, ses_paneRequest = (\<lambda>_. 0), ses_fileRequest = 0\<rparr>"

definition mkdir_widget :: CommanderWidgetRuntimeState where
  "mkdir_widget = sample_widget\<lparr>pendingOperation := Some \<lparr>sourcePaneId = LeftPane, sourcePath = js ''/w'',
     entryIds = [], entryNames = [], detail = MkdirDetail (js ''docs'')\<rparr>\<rparr>"

lemma mkdir_flow:
  "run h (command_flow ctx mkdir_widget CmdConfirm) (idle_session w)
     = ((idle_session w)\<lparr>ses_lock := True\<rparr>, snd (run h (command_flow ctx mkdir_widget CmdConfirm) (idle_session w)))"
  "mutating (snd (run h (command_flow ctx mkdir_widget CmdConfirm) (idle_session w)))"
  by (simp_all add: mkdir_widget_def confirmPendingOperationAsync_def locked_def confirm_mkdir_def idle_session_def
      hasSinglePathSegment_def mutating_def Let_def js_simps)

theorem mutations_exclude_each_other_witness:
  "let (s, p) = run ascii_host (command_flow None mkdir_widget CmdConfirm) (idle_session mkdir_widget) in
     mutating p \<and> (ses_lock s \<or> filter mutating [p] = [])"
proof -
  obtain s p where r: "run ascii_host (command_flow None mkdir_widget CmdConfirm) (idle_session mkdir_widget) = (s, p)"
    by fastforce
  have "session_reach ascii_host None (\<lambda>c. c \<noteq> CmdResolve SkipCurrent) (idle_session mkdir_widget, [])"
    by (rule session_start) (simp add: idle_session_def)
  then have reach: "session_reach ascii_host None (\<lambda>c. c \<noteq> CmdResolve SkipCurrent) (s, [p])"
    by (rule session_command [OF _ _ r]) simp
  have "mutating p" using mkdir_flow(2) [of ascii_host None mkdir_widget] unfolding r by simp
  with mutations_exclude_each_other [OF reach] show ?thesis unfolding r by simp
qed

text \<open>
  The exception is needed: the transfer that follows a skipped conflict runs without the flag, so
  skipping twice starts it twice.
\<close>

definition conflict_widget :: CommanderWidgetRuntimeState where
  "conflict_widget = sample_widget\<lparr>pendingOperation := Some sample_copy\<rparr>"

lemma skip_current_flow:
  "\<exists>s' p. run h (command_flow ctx conflict_widget (CmdResolve SkipCurrent)) s = (s', p) \<and> ses_lock s' = ses_lock s \<and> mutating p"
  if "\<not> ses_lock s"
  using that
  by (simp add: resolvePendingTransferConflictAsync_def resolve_transfer_conflict_def after_current_conflict_def
      performTransferMutation_def getCurrentPendingConflictName_def removePendingTransferEntry_def remove_at_def
      getEntryPaths_def isCloneCopyOperation_def conflict_widget_def sample_copy_def sample_transfer_def
      sample_widget_def sample_pane_def sample_entry_def mutating_def apply_event_def js_nth_def Let_def)

lemma skipping_twice_transfers_twice:
  "\<exists>s ts. session_reach h ctx (\<lambda>_. True) (s, ts) \<and> length (filter mutating ts) = 2"
proof -
  let ?c = "command_flow ctx conflict_widget (CmdResolve SkipCurrent)"
  have 0: "session_reach h ctx (\<lambda>_. True) (idle_session conflict_widget, [])"
    by (rule session_start) (simp add: idle_session_def)
  obtain s1 p1 where 1: "run h ?c (idle_session conflict_widget) = (s1, p1)" "\<not> ses_lock s1" "mutating p1"
    using skip_current_flow [of "idle_session conflict_widget" h ctx] by (auto simp: idle_session_def)
  obtain s2 p2 where 2: "run h ?c s1 = (s2, p2)" "mutating p2"
    using skip_current_flow [OF 1(2), of h ctx] by auto
  have "session_reach h ctx (\<lambda>_. True) (s1, [p1])" by (rule session_command [OF 0 _ 1(1)]) simp
  then have "session_reach h ctx (\<lambda>_. True) (s2, [p2, p1])" by (rule session_command [OF _ _ 2(1)]) simp
  then show ?thesis using 1(3) 2(2) by (intro exI [of _ s2] exI [of _ "[p2, p1]"]) simp
qed

section \<open>The last load wins\<close>

lemma run_load:
  "run h (loadPaneDirectory (Some c) rs i p m o' k) s =
     (apply_event h (SetCommanderPaneLoading i) (s\<lparr>ses_paneRequest := (ses_paneRequest s)(i := ses_paneRequest s i + 1)\<rparr>),
      CallList (list_request p (Some (load_query rs i o'))) (loaded_flow rs i p m o' (ses_paneRequest s i + 1) k))"
  by (simp add: loadPaneDirectory_def)

lemma apply_event_request [simp]: "ses_paneRequest (apply_event h e s) = ses_paneRequest s"
  by (simp add: apply_event_def)

lemma run_loaded:
  "run h (loaded_flow rs i p m o' n k r) s =
     (if ses_paneRequest s i \<noteq> n then run h k s
      else run h k (apply_event h (case r of
        Inr snapshot \<Rightarrow> HydrateCommanderPaneDirectory i (hydrate_payload snapshot (load_query rs i o') m o')
      | Inl e \<Rightarrow> SetCommanderPaneLoadError i (Some (toLoadErrorMessage e)) (Some p)) s))"
  by (simp add: loaded_flow_def split: sum.splits)


definition sample_context :: RuntimeContext where
  "sample_context = \<lparr>authToken = [], baseUrl = [], colorTerm = [], defaultShell = [], homeDir = js ''/home'',
     repoRoot = js ''/w'', term_name = []\<rparr>"


section \<open>History through the session\<close>

text \<open>A flow that loads a directory, answered by a backend that lists the requested path.\<close>

definition answer_list :: "host \<Rightarrow> (jsstring \<Rightarrow> CommanderDirectoryEntry list) \<Rightarrow> flow \<Rightarrow> session \<Rightarrow> session" where
  "answer_list h ls p s =
     (case run h p s of
        (s', CallList (FsList pth q) f) \<Rightarrow>
          fst (run h (f (Inr \<lparr>snapshot_path = pth, snapshot_entries = ls pth\<rparr>)) s')
      | (s', _) \<Rightarrow> s')"

definition session_hist :: "CommanderPaneId \<Rightarrow> session \<Rightarrow> jsstring list \<times> jsstring \<times> jsstring list" where
  "session_hist i s = pane_hist i (ses_widget s)"

lemma answer_load:
  "answer_list h ls (loadPaneDirectory (Some c) rs i p m o' Done) s =
     apply_event h (HydrateCommanderPaneDirectory i
       (hydrate_payload \<lparr>snapshot_path = p, snapshot_entries = ls p\<rparr> (load_query rs i o') m o'))
       (apply_event h (SetCommanderPaneLoading i)
         (s\<lparr>ses_paneRequest := (ses_paneRequest s)(i := ses_paneRequest s i + 1)\<rparr>))"
  by (simp add: answer_list_def run_load run_loaded list_request_def)

lemma hydrated_hist:
  "pane_hist i (hydrateCommanderPaneDirectory h i (hydrate_payload sn q m o') w) =
     (next_history_back (Some m) (getPaneState w i), snapshot_path sn, next_history_forward (Some m) (getPaneState w i))"
  by (simp add: pane_hist_def hydrateCommanderPaneDirectory_def hydrate_payload_def store_simps pane_simps Let_def)

lemma loading_hist: "pane_hist i (setCommanderPaneLoading i w) = pane_hist i w"
  by (simp add: pane_hist_def setCommanderPaneLoading_def store_simps)

lemma loading_next_history:
  "next_history_back m (getPaneState (setCommanderPaneLoading i w) i) = next_history_back m (getPaneState w i)"
  "next_history_forward m (getPaneState (setCommanderPaneLoading i w) i) = next_history_forward m (getPaneState w i)"
  by (simp_all add: next_history_back_def next_history_forward_def setCommanderPaneLoading_def store_simps)

lemma answered_hist:
  "session_hist i (answer_list h ls (loadPaneDirectory (Some c) rs i p m o' Done) s) =
     (next_history_back (Some m) (getPaneState (ses_widget s) i), p, next_history_forward (Some m) (getPaneState (ses_widget s) i))"
  unfolding answer_load session_hist_def
  by (simp add: apply_event_def hydrated_hist loading_next_history)

lemma last_of_stack: "js_nth (b @ [t]) (int (length (b @ [t])) - 1) = Some t"
  by (simp add: js_nth_def nth_append)

interpretation session_nav: pane_history "session_hist i"
    "\<lambda>p s. answer_list h ls (loadPaneDirectory (Some c) (ses_widget s) i p ModePush no_load_options Done) s"
    "\<lambda>s. answer_list h ls (goPaneBack (Some c) (ses_widget s) i) s"
    "\<lambda>s. answer_list h ls (goPaneForward (Some c) (ses_widget s) i) s" for h ls c i
proof
  fix s b cur f p
  show "session_hist i s = (b, cur, f) \<Longrightarrow> cur \<noteq> [] \<Longrightarrow> p \<noteq> cur \<Longrightarrow>
      session_hist i (answer_list h ls (loadPaneDirectory (Some c) (ses_widget s) i p ModePush no_load_options Done) s)
        = (b @ [cur], p, [])"
    by (simp add: answered_hist) (simp add: session_hist_def pane_hist_def next_history_back_def next_history_forward_def)
next
  fix s b t cur f
  assume "session_hist i s = (b @ [t], cur, f)" "t \<noteq> []" "cur \<noteq> []"
  then show "session_hist i (answer_list h ls (goPaneBack (Some c) (ses_widget s) i) s) = (b, t, f @ [cur])"
    using last_of_stack [of b t]
    by (simp add: goPaneBack_def session_hist_def [of i s] pane_hist_def Let_def)
       (simp add: answered_hist next_history_back_def next_history_forward_def)
next
  fix s b cur f t
  assume "session_hist i s = (b, cur, f @ [t])" "t \<noteq> []" "cur \<noteq> []"
  then show "session_hist i (answer_list h ls (goPaneForward (Some c) (ses_widget s) i) s) = (b @ [cur], t, f)"
    using last_of_stack [of f t]
    by (simp add: goPaneForward_def session_hist_def [of i s] pane_hist_def Let_def)
       (simp add: answered_hist next_history_back_def next_history_forward_def)
qed

text \<open>
  C30: the back command of a session undoes its visits: after loading any sequence of directories, each
  answered by the backend, as many back commands return the pane to the path it came from with its back
  stack, and the forward stack replays the visits.
\<close>
theorem session_back_undoes_visits:
  assumes "path (getPaneState (ses_widget s) i) \<noteq> []" and "ps \<noteq> []" and "[] \<notin> set ps"
    and "distinct_adj (path (getPaneState (ses_widget s) i) # ps)"
  shows "session_hist i (((\<lambda>s. answer_list h ls (goPaneBack (Some c) (ses_widget s) i) s) ^^ length ps)
      (foldl (\<lambda>s p. answer_list h ls (loadPaneDirectory (Some c) (ses_widget s) i p ModePush no_load_options Done) s) s ps))
    = (historyBack (getPaneState (ses_widget s) i), path (getPaneState (ses_widget s) i), rev ps)"
proof -
  have "session_nav.visits h ls c i qs v = foldl (\<lambda>s p. answer_list h ls
      (loadPaneDirectory (Some c) (ses_widget s) i p ModePush no_load_options Done) s) v qs" for qs v
    by (induction qs arbitrary: v) simp_all
  moreover have hist: "session_hist i s = (historyBack (getPaneState (ses_widget s) i), path (getPaneState (ses_widget s) i),
      historyForward (getPaneState (ses_widget s) i))"
    by (simp add: session_hist_def pane_hist_def)
  ultimately show ?thesis
    using session_nav.back_after_visits [OF hist assms, where h = h and ls = ls and ca = c] by simp
qed

theorem session_back_undoes_visits_witness:
  "session_hist LeftPane (((\<lambda>s. answer_list ascii_host (\<lambda>_. []) (goPaneBack (Some sample_context) (ses_widget s) LeftPane) s) ^^ length [js ''/a'', js ''/b''])
      (foldl (\<lambda>s p. answer_list ascii_host (\<lambda>_. []) (loadPaneDirectory (Some sample_context) (ses_widget s) LeftPane p ModePush no_load_options Done) s)
        (idle_session sample_widget) [js ''/a'', js ''/b'']))
    = ([], js ''/w'', rev [js ''/a'', js ''/b''])"
proof -
  have *: "path (getPaneState (ses_widget (idle_session sample_widget)) LeftPane) = js ''/w''"
    "historyBack (getPaneState (ses_widget (idle_session sample_widget)) LeftPane) = []"
    by (simp_all add: idle_session_def sample_widget_def sample_pane_def)
  show ?thesis
    unfolding * [symmetric] by (rule session_back_undoes_visits) (simp_all add: * del: getPaneState_simps)
qed

end
