(* ===== verification/Json.thy ===== *)
theory Json
  imports Prelude
begin

text \<open>
  JSON values and the schemas of the validation library, as the decoders the program builds from them: a schema takes
  the value of a property (\<open>None\<close> when it is missing) and gives the decoded value or fails. Numbers are the integers
  the program exchanges; properties a schema does not name are dropped.
\<close>

section \<open>Values and schemas\<close>

datatype json =
    JNull
  | JBool bool
  | JNum int
  | JStr jsstring
  | JArr "json list"
  | JObj "(jsstring \<times> json) list"

text \<open>A property read: \<open>None\<close> is \<open>undefined\<close>.\<close>

definition json_field :: "(jsstring \<times> json) list \<Rightarrow> string \<Rightarrow> json option" where
  "json_field props k = map_of props (js k)"

fun zod_string :: "json option \<Rightarrow> jsstring option" where
  "zod_string (Some (JStr s)) = Some s"
| "zod_string _ = None"

fun zod_bool :: "json option \<Rightarrow> bool option" where
  "zod_bool (Some (JBool b)) = Some b"
| "zod_bool _ = None"

fun zod_number :: "json option \<Rightarrow> int option" where
  "zod_number (Some (JNum n)) = Some n"
| "zod_number _ = None"

text \<open>\<open>.optional()\<close>: undefined is accepted. \<open>.default(v)\<close>: undefined becomes \<open>v\<close>. \<open>.nullable()\<close>: null is accepted.\<close>

definition zod_optional :: "(json option \<Rightarrow> 'a option) \<Rightarrow> json option \<Rightarrow> 'a option option" where
  "zod_optional schema v = (if v = None then Some None else map_option Some (schema v))"

definition zod_default :: "'a \<Rightarrow> (json option \<Rightarrow> 'a option) \<Rightarrow> json option \<Rightarrow> 'a option" where
  "zod_default d schema v = (if v = None then Some d else schema v)"

definition zod_nullable :: "(json option \<Rightarrow> 'a option) \<Rightarrow> json option \<Rightarrow> 'a option option" where
  "zod_nullable schema v = (if v = Some JNull then Some None else map_option Some (schema v))"

fun zod_all :: "(json option \<Rightarrow> 'a option) \<Rightarrow> json list \<Rightarrow> 'a list option" where
  "zod_all schema [] = Some []"
| "zod_all schema (x # xs) =
     (case schema (Some x) of
        None \<Rightarrow> None
      | Some y \<Rightarrow> map_option ((#) y) (zod_all schema xs))"

fun zod_array :: "(json option \<Rightarrow> 'a option) \<Rightarrow> json option \<Rightarrow> 'a list option" where
  "zod_array schema (Some (JArr xs)) = zod_all schema xs"
| "zod_array schema _ = None"

definition zod_enum :: "(string \<times> 'a) list \<Rightarrow> json option \<Rightarrow> 'a option" where
  "zod_enum cases v = Option.bind (zod_string v) (\<lambda>s. map_of (map (\<lambda>(k, x). (js k, x)) cases) s)"

fun zod_object :: "((jsstring \<times> json) list \<Rightarrow> 'a option) \<Rightarrow> json option \<Rightarrow> 'a option" where
  "zod_object schema (Some (JObj props)) = schema props"
| "zod_object schema _ = None"

text \<open>A nullable and optional string: null and undefined are both \<open>None\<close> after \<open>?? null\<close>.\<close>

definition zod_nullish_string :: "json option \<Rightarrow> jsstring option option" where
  "zod_nullish_string v = (if v = None then Some None else zod_nullable zod_string v)"

text \<open>An array of strings, and a string or null.\<close>

definition json_strings :: "jsstring list \<Rightarrow> json" where
  "json_strings xs = JArr (map JStr xs)"

definition json_nullable :: "jsstring option \<Rightarrow> json" where
  "json_nullable v = (case v of None \<Rightarrow> JNull | Some s \<Rightarrow> JStr s)"

text \<open>An object as the program builds it: undefined properties are left out.\<close>

fun json_props :: "(string \<times> json option) list \<Rightarrow> (jsstring \<times> json) list" where
  "json_props [] = []"
| "json_props ((k, v) # props) = (case v of None \<Rightarrow> [] | Some x \<Rightarrow> [(js k, x)]) @ json_props props"

definition json_array :: "('a \<Rightarrow> json) \<Rightarrow> 'a list \<Rightarrow> json" where
  "json_array f xs = JArr (map f xs)"

lemma js_inject [simp]: "js s = js t \<longleftrightarrow> s = t"
  unfolding js_def by (rule inj_map_eq_map) (simp add: inj_on_def)

lemma json_props_absent: "k \<notin> fst ` set props \<Longrightarrow> map_of (json_props props) (js k) = None"
  by (induction props rule: json_props.induct) (auto split: option.split)

text \<open>Reading a property of an object that was built gives the value it was built with.\<close>

lemma json_field_props:
  "distinct (map fst props) \<Longrightarrow> json_field (json_props props) k = Option.bind (map_of props k) (\<lambda>v. v)"
proof (induction props rule: json_props.induct)
  case (2 k' v props)
  then show ?case
    using json_props_absent [of k' props] by (auto simp: json_field_def split: option.split)
qed (simp add: json_field_def)

lemma zod_all_array: "(\<And>x. x \<in> set xs \<Longrightarrow> schema (Some (f x)) = Some x) \<Longrightarrow> zod_all schema (map f xs) = Some xs"
  by (induction xs) simp_all

lemma zod_optional_map [simp]:
  "zod_optional zod_string (map_option JStr v) = Some v" "zod_optional zod_bool (map_option JBool b) = Some b"
  "zod_optional zod_number (map_option JNum n) = Some n"
  by (simp_all add: zod_optional_def option.case_eq_if) (cases v; cases b; cases n; simp)+

lemma zod_all_strings: "zod_all zod_string (map JStr xs) = Some xs"
  by (induction xs) simp_all

lemma map_of_map_snd: "map_of (map (\<lambda>(k, x). (k, f x)) xs) = (\<lambda>k. map_option f (map_of xs k))"
  by (induction xs) auto

section \<open>Types\<close>

text \<open>The types of the language's declarations; a property of an object may be declared optional.\<close>

datatype json_type =
    TString
  | TBoolean
  | TNumber
  | TArray json_type
  | TNullable json_type
  | TObject "(string \<times> bool \<times> json_type) list"

fun has_type :: "json_type \<Rightarrow> json \<Rightarrow> bool" where
  "has_type TString v \<longleftrightarrow> (\<exists>s. v = JStr s)"
| "has_type TBoolean v \<longleftrightarrow> (\<exists>b. v = JBool b)"
| "has_type TNumber v \<longleftrightarrow> (\<exists>n. v = JNum n)"
| "has_type (TArray t) v \<longleftrightarrow> (case v of JArr xs \<Rightarrow> list_all (has_type t) xs | _ \<Rightarrow> False)"
| "has_type (TNullable t) v \<longleftrightarrow> v = JNull \<or> has_type t v"
| "has_type (TObject decls) v \<longleftrightarrow>
     (case v of
        JObj props \<Rightarrow>
          list_all (\<lambda>(k, optional, t). case json_field props k of None \<Rightarrow> optional | Some x \<Rightarrow> has_type t x) decls
      | _ \<Rightarrow> False)"

text \<open>A schema accepts exactly the values of a type, and no missing property.\<close>

definition accepts :: "(json option \<Rightarrow> 'a option) \<Rightarrow> json_type \<Rightarrow> bool" where
  "accepts schema t \<longleftrightarrow> schema None = None \<and> (\<forall>v. schema (Some v) = None \<longleftrightarrow> \<not> has_type t v)"

lemma accepts_atoms [simp]: "accepts zod_string TString" "accepts zod_bool TBoolean" "accepts zod_number TNumber"
proof -
  have "zod_string (Some v) = None \<longleftrightarrow> \<not> has_type TString v" "zod_bool (Some v) = None \<longleftrightarrow> \<not> has_type TBoolean v"
    "zod_number (Some v) = None \<longleftrightarrow> \<not> has_type TNumber v" for v by (cases v; simp)+
  then show "accepts zod_string TString" "accepts zod_bool TBoolean" "accepts zod_number TNumber"
    unfolding accepts_def by simp_all
qed

lemma zod_all_None: "accepts schema t \<Longrightarrow> zod_all schema xs = None \<longleftrightarrow> \<not> list_all (has_type t) xs"
proof (induction xs)
  case (Cons x xs)
  then have "schema (Some x) = None \<longleftrightarrow> \<not> has_type t x" by (simp add: accepts_def)
  with Cons show ?case by (cases "schema (Some x)") auto
qed simp

lemma accepts_array: "accepts schema t \<Longrightarrow> accepts (zod_array schema) (TArray t)"
  unfolding accepts_def [of "zod_array schema"] by (auto simp: zod_all_None split: json.split)

lemma accepts_nullable: "accepts schema t \<Longrightarrow> accepts (zod_nullable schema) (TNullable t)"
  by (auto simp: accepts_def zod_nullable_def)

lemma required_field:
  "accepts schema t \<Longrightarrow> schema v = None \<longleftrightarrow> \<not> (case v of None \<Rightarrow> False | Some x \<Rightarrow> has_type t x)"
  by (cases v) (auto simp: accepts_def)

lemma optional_field:
  "accepts schema t \<Longrightarrow> zod_optional schema v = None \<longleftrightarrow> \<not> (case v of None \<Rightarrow> True | Some x \<Rightarrow> has_type t x)"
  by (cases v) (auto simp: accepts_def zod_optional_def)

lemma bind_None: "Option.bind x f = None \<longleftrightarrow> x = None \<or> f (the x) = None"
  by (cases x) simp_all

lemma accepts_object:
  assumes "\<And>props. schema props = None \<longleftrightarrow>
    \<not> list_all (\<lambda>(k, optional, t). case json_field props k of None \<Rightarrow> optional | Some x \<Rightarrow> has_type t x) decls"
  shows "accepts (zod_object schema) (TObject decls)"
  using assms by (auto simp: accepts_def split: json.split)

end
