(* ===== verification/Commander_Persistence.thy ===== *)
theory Commander_Persistence
  imports Commander_Store Json
begin

text \<open>
  Saving and restoring widgets, \<^verbatim>\<open>features/commander/model/persistence.ts\<close> and \<^verbatim>\<open>store-persistence.ts\<close>.
  The item in the browser's storage is represented by the JSON value of its text (or the fact that
  the text is missing or does not parse); the schemas are decoders on JSON values that fail on a missing
  or ill-typed field, fill in the declared defaults, and apply the declared transformation. The debounced
  writer is a state machine over store updates, timer expiry and disposal.
\<close>

section \<open>Schemas\<close>

definition commanderPaneIdSchema :: "json option \<Rightarrow> CommanderPaneId option" where
  "commanderPaneIdSchema = zod_enum [(''left'', LeftPane), (''right'', RightPane)]"

definition commanderViewModeSchema :: "json option \<Rightarrow> CommanderViewMode option" where
  "commanderViewModeSchema =
     zod_enum [(''commander'', ViewCommander), (''split'', ViewSplit), (''terminal'', ViewTerminal)]"

definition commanderSortModeSchema :: "json option \<Rightarrow> CommanderSortMode option" where
  "commanderSortModeSchema =
     zod_enum [(''name'', SortName), (''ext'', SortExt), (''size'', SortSize), (''modified'', SortModified)]"

definition commanderSortDirectionSchema :: "json option \<Rightarrow> CommanderSortDirection option" where
  "commanderSortDirectionSchema = zod_enum [(''asc'', Asc), (''desc'', Desc)]"

definition commanderRowKindSchema :: "json option \<Rightarrow> CommanderRowKind option" where
  "commanderRowKindSchema = zod_enum [(''file'', File), (''folder'', Folder), (''symlink'', Symlink)]"

definition stringArraySchema :: "json option \<Rightarrow> jsstring list option" where
  "stringArraySchema = zod_array zod_string"

definition commanderDirectoryEntrySchema :: "json option \<Rightarrow> CommanderDirectoryEntry option" where
  "commanderDirectoryEntrySchema = zod_object (\<lambda>props.
     Option.bind (zod_string (json_field props ''id'')) (\<lambda>i.
     Option.bind (zod_string (json_field props ''name'')) (\<lambda>n.
     Option.bind (zod_string (json_field props ''ext'')) (\<lambda>e.
     Option.bind (commanderRowKindSchema (json_field props ''kind'')) (\<lambda>k.
     Option.bind (zod_string (json_field props ''sizeLabel'')) (\<lambda>sl.
     Option.bind (zod_default None (zod_nullable zod_number) (json_field props ''sizeBytes'')) (\<lambda>sb.
     Option.bind (zod_string (json_field props ''modified'')) (\<lambda>mo.
     Option.bind (zod_default False zod_bool (json_field props ''hidden'')) (\<lambda>hd.
     Option.bind (zod_optional zod_string (json_field props ''gitStatus'')) (\<lambda>gs.
     Option.bind (zod_optional zod_bool (json_field props ''executable'')) (\<lambda>ex.
     Option.bind (zod_optional zod_string (json_field props ''symlinkTarget'')) (\<lambda>st.
     Some \<lparr>entry_id = i, entry_name = n, entry_ext = e, entry_kind = k, entry_sizeLabel = sl,
           entry_sizeBytes = sb, entry_modified = mo, entry_hidden = hd, entry_gitStatus = gs,
           entry_executable = ex, entry_symlinkTarget = st\<rparr>))))))))))))"

definition commanderPanePersistedStateSchema :: "json option \<Rightarrow> CommanderPanePersistedState option" where
  "commanderPanePersistedStateSchema = zod_object (\<lambda>props.
     Option.bind (zod_string (json_field props ''path'')) (\<lambda>p.
     Option.bind (zod_default [] zod_string (json_field props ''filterQuery'')) (\<lambda>q.
     Option.bind (zod_optional (zod_array commanderDirectoryEntrySchema) (json_field props ''directoryEntries'')) (\<lambda>de.
     Option.bind (zod_optional (zod_array commanderDirectoryEntrySchema) (json_field props ''entries'')) (\<lambda>es.
     Option.bind (zod_nullish_string (json_field props ''cursorEntryId'')) (\<lambda>c.
     Option.bind (zod_nullish_string (json_field props ''selectionAnchorEntryId'')) (\<lambda>a.
     Option.bind (stringArraySchema (json_field props ''selectedIds'')) (\<lambda>s.
     Option.bind (stringArraySchema (json_field props ''historyBack'')) (\<lambda>b.
     Option.bind (stringArraySchema (json_field props ''historyForward'')) (\<lambda>f.
     Some \<lparr>persisted_path = p, persisted_filterQuery = q,
           persisted_directoryEntries = Some (js_default de (js_default es [])),
           persisted_entries = Some (js_default es (js_default de [])),
           persisted_cursorEntryId = c, persisted_selectionAnchorEntryId = js_nullish a c,
           persisted_selectedIds = s, persisted_historyBack = b, persisted_historyForward = f\<rparr>))))))))))"

definition commanderWidgetPersistedRuntimeSchema :: "json option \<Rightarrow> CommanderWidgetPersistedState option" where
  "commanderWidgetPersistedRuntimeSchema = zod_object (\<lambda>props.
     Option.bind (commanderPaneIdSchema (json_field props ''activePane'')) (\<lambda>a.
     Option.bind (commanderViewModeSchema (json_field props ''viewMode'')) (\<lambda>v.
     Option.bind (zod_bool (json_field props ''showHidden'')) (\<lambda>sh.
     Option.bind (commanderSortModeSchema (json_field props ''sortMode'')) (\<lambda>sm.
     Option.bind (zod_default Asc commanderSortDirectionSchema (json_field props ''sortDirection'')) (\<lambda>sd.
     Option.bind (zod_default True zod_bool (json_field props ''dirsFirst'')) (\<lambda>df.
     Option.bind (commanderPanePersistedStateSchema (json_field props ''leftPane'')) (\<lambda>l.
     Option.bind (commanderPanePersistedStateSchema (json_field props ''rightPane'')) (\<lambda>r.
     Some \<lparr>persisted_activePane = a, persisted_viewMode = v, persisted_showHidden = sh,
           persisted_sortMode = sm, persisted_sortDirection = sd, persisted_dirsFirst = df,
           persisted_leftPane = l, persisted_rightPane = r\<rparr>)))))))))"

text \<open>A snapshot is an object with the single field \<open>runtime\<close>: it is represented by that field.\<close>

definition normalizeWidgetState :: "json \<Rightarrow> CommanderWidgetPersistedState option" where
  "normalizeWidgetState value =
     zod_object (\<lambda>props. commanderWidgetPersistedRuntimeSchema (json_field props ''runtime'')) (Some value)"

section \<open>Reading and writing the storage\<close>

datatype stored_item = ItemAbsent | ItemUnparsable | ItemJson json

definition readPersistenceState :: "stored_item \<Rightarrow> (jsstring \<rightharpoonup> CommanderWidgetPersistedState)" where
  "readPersistenceState item =
     (case item of
        ItemAbsent \<Rightarrow> Map.empty
      | ItemUnparsable \<Rightarrow> Map.empty
      | ItemJson v \<Rightarrow>
          (case v of
             JObj props \<Rightarrow>
               (case json_field props ''widgets'' of
                  None \<Rightarrow> Map.empty
                | Some (JObj ws) \<Rightarrow> (\<lambda>wid. Option.bind (map_of ws wid) normalizeWidgetState)
                | Some _ \<Rightarrow> Map.empty)
           | _ \<Rightarrow> Map.empty))"

definition readPersistedCommanderWidget :: "stored_item \<Rightarrow> jsstring \<Rightarrow> CommanderWidgetPersistedState option" where
  "readPersistedCommanderWidget item wid = readPersistenceState item wid"

definition serializePaneState :: "CommanderPaneRuntimeState \<Rightarrow> CommanderPanePersistedState" where
  "serializePaneState p =
     \<lparr>persisted_path = path p, persisted_filterQuery = filterQuery p,
      persisted_directoryEntries = None, persisted_entries = None,
      persisted_cursorEntryId = cursorEntryId p,
      persisted_selectionAnchorEntryId = selectionAnchorEntryId p,
      persisted_selectedIds = selectedIds p, persisted_historyBack = historyBack p,
      persisted_historyForward = historyForward p\<rparr>"

definition serializeCommanderWidgetRuntimeState ::
    "CommanderWidgetRuntimeState \<Rightarrow> CommanderWidgetPersistedState" where
  "serializeCommanderWidgetRuntimeState w =
     \<lparr>persisted_activePane = activePane w, persisted_viewMode = viewMode w,
      persisted_showHidden = showHidden w, persisted_sortMode = sortMode w,
      persisted_sortDirection = sortDirection w, persisted_dirsFirst = dirsFirst w,
      persisted_leftPane = serializePaneState (leftPane w),
      persisted_rightPane = serializePaneState (rightPane w)\<rparr>"

text \<open>\<open>JSON.stringify\<close> on the persisted types.\<close>

definition json_of_pane :: "CommanderPanePersistedState \<Rightarrow> json" where
  "json_of_pane p = JObj
     [(js ''path'', JStr (persisted_path p)),
      (js ''filterQuery'', JStr (persisted_filterQuery p)),
      (js ''cursorEntryId'', json_nullable (persisted_cursorEntryId p)),
      (js ''selectionAnchorEntryId'', json_nullable (persisted_selectionAnchorEntryId p)),
      (js ''selectedIds'', json_strings (persisted_selectedIds p)),
      (js ''historyBack'', json_strings (persisted_historyBack p)),
      (js ''historyForward'', json_strings (persisted_historyForward p))]"

definition json_pane_id :: "CommanderPaneId \<Rightarrow> json" where
  "json_pane_id p = JStr (case p of LeftPane \<Rightarrow> js ''left'' | RightPane \<Rightarrow> js ''right'')"

definition json_view_mode :: "CommanderViewMode \<Rightarrow> json" where
  "json_view_mode v = JStr (case v of ViewCommander \<Rightarrow> js ''commander'' | ViewSplit \<Rightarrow> js ''split''
     | ViewTerminal \<Rightarrow> js ''terminal'')"

definition json_sort_mode :: "CommanderSortMode \<Rightarrow> json" where
  "json_sort_mode m = JStr (case m of SortName \<Rightarrow> js ''name'' | SortExt \<Rightarrow> js ''ext'' | SortSize \<Rightarrow> js ''size''
     | SortModified \<Rightarrow> js ''modified'')"

definition json_sort_direction :: "CommanderSortDirection \<Rightarrow> json" where
  "json_sort_direction d = JStr (case d of Asc \<Rightarrow> js ''asc'' | Desc \<Rightarrow> js ''desc'')"

definition json_of_widget :: "CommanderWidgetPersistedState \<Rightarrow> json" where
  "json_of_widget w = JObj
     [(js ''activePane'', json_pane_id (persisted_activePane w)),
      (js ''viewMode'', json_view_mode (persisted_viewMode w)),
      (js ''showHidden'', JBool (persisted_showHidden w)),
      (js ''sortMode'', json_sort_mode (persisted_sortMode w)),
      (js ''sortDirection'', json_sort_direction (persisted_sortDirection w)),
      (js ''dirsFirst'', JBool (persisted_dirsFirst w)),
      (js ''leftPane'', json_of_pane (persisted_leftPane w)),
      (js ''rightPane'', json_of_pane (persisted_rightPane w))]"

definition writePersistedCommanderWidgets :: "(jsstring \<times> CommanderWidgetPersistedState) list \<Rightarrow> stored_item" where
  "writePersistedCommanderWidgets ws =
     ItemJson (JObj [(js ''widgets'',
       JObj (map (\<lambda>(wid, snapshot). (wid, JObj [(js ''runtime'', json_of_widget snapshot)])) ws))])"

section \<open>The debounced writer\<close>

text \<open>
  The watcher of \<open>attachCommanderWidgetsPersistence\<close>: it ignores the first notification, and every later
  one replaces the pending timer; the timer writes the store it captured. A store is the list of its
  entries. \<open>disposed\<close> is the state after the returned function ran.
\<close>

type_synonym widget_entries = "(jsstring \<times> CommanderWidgetRuntimeState) list"

record persistence_state =
  initialized :: bool
  pending_write :: "widget_entries option"
  disposed :: bool
  storage :: stored_item

datatype persistence_event = StoreChanged widget_entries | TimerFired | Dispose

definition persist_entries :: "widget_entries \<Rightarrow> stored_item" where
  "persist_entries ws = writePersistedCommanderWidgets
     (map (\<lambda>(wid, w). (wid, serializeCommanderWidgetRuntimeState w)) ws)"

fun attachCommanderWidgetsPersistence :: "persistence_state \<Rightarrow> persistence_event \<Rightarrow> persistence_state" where
  "attachCommanderWidgetsPersistence s (StoreChanged ws) =
     (if disposed s then s
      else if \<not> initialized s then s\<lparr>initialized := True\<rparr>
      else s\<lparr>pending_write := Some ws\<rparr>)"
| "attachCommanderWidgetsPersistence s TimerFired =
     (case pending_write s of
        None \<Rightarrow> s
      | Some ws \<Rightarrow> s\<lparr>pending_write := None, storage := persist_entries ws\<rparr>)"
| "attachCommanderWidgetsPersistence s Dispose = s\<lparr>pending_write := None, disposed := True\<rparr>"

definition persistence_start :: "stored_item \<Rightarrow> persistence_state" where
  "persistence_start item = \<lparr>initialized = False, pending_write = None, disposed = False, storage = item\<rparr>"

section \<open>Lemmas\<close>

lemma string_schemas [simp]:
  "stringArraySchema (Some (json_strings xs)) = Some xs"
  "zod_nullish_string (Some (json_nullable v)) = Some v"
  by (simp_all add: stringArraySchema_def json_strings_def zod_all_strings zod_nullish_string_def zod_nullable_def
      json_nullable_def split: option.splits)

lemma enum_schemas [simp]:
  "commanderPaneIdSchema (Some (json_pane_id i)) = Some i"
  "commanderViewModeSchema (Some (json_view_mode v)) = Some v"
  "commanderSortModeSchema (Some (json_sort_mode m)) = Some m"
  "commanderSortDirectionSchema (Some (json_sort_direction d)) = Some d"
  by (cases i; cases v; cases m; cases d;
      simp add: commanderPaneIdSchema_def commanderViewModeSchema_def commanderSortModeSchema_def
        commanderSortDirectionSchema_def zod_enum_def json_pane_id_def json_view_mode_def json_sort_mode_def
        json_sort_direction_def)+

text \<open>What a pane snapshot is after the schema: the transformation fills in the derived fields.\<close>

definition normal_pane :: "CommanderPanePersistedState \<Rightarrow> CommanderPanePersistedState" where
  "normal_pane p = p\<lparr>persisted_directoryEntries := Some [], persisted_entries := Some [],
     persisted_selectionAnchorEntryId := js_nullish (persisted_selectionAnchorEntryId p) (persisted_cursorEntryId p)\<rparr>"

lemma pane_schema_roundtrip:
  "commanderPanePersistedStateSchema (Some (json_of_pane p)) = Some (normal_pane p)"
  by (cases p) (simp add: commanderPanePersistedStateSchema_def json_of_pane_def json_field_def zod_default_def
      zod_optional_def normal_pane_def)

lemma widget_schema_roundtrip:
  "commanderWidgetPersistedRuntimeSchema (Some (json_of_widget w))
     = Some (w\<lparr>persisted_leftPane := normal_pane (persisted_leftPane w),
               persisted_rightPane := normal_pane (persisted_rightPane w)\<rparr>)"
  by (cases w) (simp add: commanderWidgetPersistedRuntimeSchema_def json_of_widget_def json_field_def zod_default_def
      pane_schema_roundtrip)

lemma read_persisted:
  "readPersistedCommanderWidget (persist_entries ws) wid = map_option (\<lambda>w.
     (serializeCommanderWidgetRuntimeState w)
       \<lparr>persisted_leftPane := normal_pane (serializePaneState (leftPane w)),
        persisted_rightPane := normal_pane (serializePaneState (rightPane w))\<rparr>) (map_of ws wid)"
proof -
  have "map (\<lambda>(wid, snapshot). (wid, JObj [(js ''runtime'', json_of_widget snapshot)]))
      (map (\<lambda>(wid, w). (wid, serializeCommanderWidgetRuntimeState w)) ws)
      = map (\<lambda>(wid, w). (wid, JObj [(js ''runtime'', json_of_widget (serializeCommanderWidgetRuntimeState w))])) ws"
    by auto
  then have "map_of (map (\<lambda>(wid, snapshot). (wid, JObj [(js ''runtime'', json_of_widget snapshot)]))
      (map (\<lambda>(wid, w). (wid, serializeCommanderWidgetRuntimeState w)) ws)) wid
      = map_option (\<lambda>w. JObj [(js ''runtime'', json_of_widget (serializeCommanderWidgetRuntimeState w))]) (map_of ws wid)"
    by (simp only: map_of_map_snd)
  moreover have "normalizeWidgetState (JObj [(js ''runtime'', json_of_widget (serializeCommanderWidgetRuntimeState w))])
      = Some ((serializeCommanderWidgetRuntimeState w)
       \<lparr>persisted_leftPane := normal_pane (serializePaneState (leftPane w)),
        persisted_rightPane := normal_pane (serializePaneState (rightPane w))\<rparr>)" for w
    by (simp add: normalizeWidgetState_def json_field_def widget_schema_roundtrip serializeCommanderWidgetRuntimeState_def)
  ultimately show ?thesis
    unfolding readPersistedCommanderWidget_def readPersistenceState_def persist_entries_def writePersistedCommanderWidgets_def
    by (cases "map_of ws wid") (simp_all add: json_field_def)
qed

section \<open>Properties of persistence\<close>

text \<open>The widget a snapshot is mounted as.\<close>

definition restored_widget :: "stored_item \<Rightarrow> jsstring \<Rightarrow> CommanderWidgetRuntimeState" where
  "restored_widget item wid = createCommanderWidgetRuntimeState wid (readPersistedCommanderWidget item wid)"

lemma restored_pane:
  assumes "map_of ws wid = Some w"
  shows "getPaneState (restored_widget (persist_entries ws) wid) i
     = createPaneStateFromPersisted i (normal_pane (serializePaneState (getPaneState w i)))"
  using assms
  by (cases i) (simp_all add: restored_widget_def read_persisted createCommanderWidgetRuntimeState_def)

text \<open>
  C22: saving the store and mounting a widget from the saved item restores it: the settings, the active
  pane, and for both panes the path, the filter, the cursor, the selection and both history stacks; the
  rows are empty and the pane is marked as loading until its directory arrives.
\<close>
theorem persisted_widget_roundtrip:
  assumes "map_of ws wid = Some w"
  shows "let w' = restored_widget (persist_entries ws) wid in
     activePane w' = activePane w \<and> viewMode w' = viewMode w \<and> showHidden w' = showHidden w
     \<and> sortMode w' = sortMode w \<and> sortDirection w' = sortDirection w \<and> dirsFirst w' = dirsFirst w
     \<and> (\<forall>i. let p = getPaneState w i; p' = getPaneState w' i in
          pane_id p' = i \<and> path p' = path p \<and> filterQuery p' = filterQuery p
          \<and> cursorEntryId p' = cursorEntryId p
          \<and> selectionAnchorEntryId p' = js_nullish (selectionAnchorEntryId p) (cursorEntryId p)
          \<and> selectedIds p' = selectedIds p \<and> historyBack p' = historyBack p
          \<and> historyForward p' = historyForward p \<and> entries p' = [] \<and> isLoading p')"
  unfolding restored_pane [OF assms] Let_def
  using assms
  by (simp add: createPaneStateFromPersisted_def normal_pane_def serializePaneState_def)
     (simp add: restored_widget_def read_persisted createCommanderWidgetRuntimeState_def
       serializeCommanderWidgetRuntimeState_def)

theorem persisted_widget_roundtrip_witness:
  "let w' = restored_widget (persist_entries [(js ''w1'', sample_widget)]) (js ''w1'') in
     sortMode w' = sortMode sample_widget \<and> cursorEntryId (leftPane w') = Some (js ''/w::b'')"
proof -
  have "cursorEntryId (getPaneState sample_widget LeftPane) = Some (js ''/w::b'')"
    by (simp add: sample_widget_def sample_pane_def)
  with persisted_widget_roundtrip [of "[(js ''w1'', sample_widget)]" "js ''w1''" sample_widget] show ?thesis
    by (auto simp: Let_def dest: spec [of _ LeftPane])
qed

lemma restored_projection_options:
  assumes "map_of ws wid = Some w"
  shows "projection_options (restored_widget (persist_entries ws) wid) = projection_options w"
  using assms
  by (simp add: projection_options_def restored_widget_def read_persisted createCommanderWidgetRuntimeState_def
      serializeCommanderWidgetRuntimeState_def)

text \<open>
  The debounced writer saves the last state: after any run of store changes and timer expiries, a
  change followed by the expiry of its timer leaves exactly that store in the storage; a disposed writer
  never writes again.
\<close>
theorem debounced_write_saves_last:
  assumes "Dispose \<notin> set events"
  shows "storage (foldl attachCommanderWidgetsPersistence (persistence_start item)
            (StoreChanged ws0 # events @ [StoreChanged ws, TimerFired])) = persist_entries ws
     \<and> storage (foldl attachCommanderWidgetsPersistence s (Dispose # late)) = storage s"
proof -
  have "\<not> disposed s \<and> initialized s \<Longrightarrow>
      \<not> disposed (foldl attachCommanderWidgetsPersistence s events)
      \<and> initialized (foldl attachCommanderWidgetsPersistence s events)" for s
    using assms
  proof (induction events arbitrary: s)
    case (Cons e es)
    then show ?case by (cases e) (auto split: option.splits)
  qed simp
  then have "\<not> disposed (foldl attachCommanderWidgetsPersistence (persistence_start item) (StoreChanged ws0 # events))
      \<and> initialized (foldl attachCommanderWidgetsPersistence (persistence_start item) (StoreChanged ws0 # events))"
    by (simp add: persistence_start_def)
  moreover have "disposed s \<and> pending_write s = None \<Longrightarrow>
      storage (foldl attachCommanderWidgetsPersistence s late) = storage s" for s
  proof (induction late arbitrary: s)
    case (Cons e es)
    then show ?case by (cases e) auto
  qed simp
  ultimately show ?thesis by simp
qed

theorem debounced_write_saves_last_witness:
  "storage (foldl attachCommanderWidgetsPersistence (persistence_start ItemAbsent)
     (StoreChanged [] # [StoreChanged [], TimerFired] @ [StoreChanged [(js ''w1'', sample_widget)], TimerFired]))
   = persist_entries [(js ''w1'', sample_widget)]"
  using debounced_write_saves_last [of "[StoreChanged [], TimerFired]" ItemAbsent "[]" "[(js ''w1'', sample_widget)]"]
  by simp

end
