(* ===== verification/Commander_Restart.thy ===== *)
theory Commander_Restart
  imports Commander_Concurrency Commander_Persistence
begin

text \<open>
  A restart of the Commander: the widget that is mounted from the saved item starts the first load of both
  panes, and the backend answers the two requests in either order. The theory states what of the saved
  widget is there again once both panes have their directory.
\<close>

section \<open>The first load of both panes\<close>

text \<open>The backend answers the request of one pane with a listing.\<close>

fun listed_reply :: "(fs_request \<Rightarrow> CommanderDirectorySnapshot) \<Rightarrow> flow \<Rightarrow> flow" where
  "listed_reply ls (CallList q f) = f (Inr (ls q))"
| "listed_reply ls p = p"

fun pane_reply :: "(fs_request \<Rightarrow> CommanderDirectorySnapshot) \<Rightarrow> CommanderPaneId \<Rightarrow> flow \<Rightarrow> flow" where
  "pane_reply ls LeftPane (Par p q k) = Par (listed_reply ls p) q k"
| "pane_reply ls RightPane (Par p q k) = Par p (listed_reply ls q) k"
| "pane_reply ls i p = p"

definition first_load ::
    "host \<Rightarrow> RuntimeContext \<Rightarrow> (fs_request \<Rightarrow> CommanderDirectorySnapshot) \<Rightarrow> CommanderPaneId \<Rightarrow>
     CommanderWidgetRuntimeState \<Rightarrow> session \<times> flow" where
  "first_load h c ls i w =
     (let (s0, p0) = run h (initial_load c w) (idle_session w);
          (s1, p1) = run h (pane_reply ls i p0) s0
      in run h (pane_reply ls (other_pane i) p1) s1)"

text \<open>The request of a pane and the payload its reply is stored with.\<close>

definition first_path :: "RuntimeContext \<Rightarrow> CommanderWidgetRuntimeState \<Rightarrow> CommanderPaneId \<Rightarrow> jsstring" where
  "first_path c w i = (if path (getPaneState w i) \<noteq> [] then path (getPaneState w i) else repoRoot c)"

definition first_request :: "RuntimeContext \<Rightarrow> CommanderWidgetRuntimeState \<Rightarrow> CommanderPaneId \<Rightarrow> fs_request" where
  "first_request c w i = list_request (first_path c w i) (Some (filterQuery (getPaneState w i)))"

definition first_payload ::
    "RuntimeContext \<Rightarrow> (fs_request \<Rightarrow> CommanderDirectorySnapshot) \<Rightarrow> CommanderWidgetRuntimeState \<Rightarrow> CommanderPaneId \<Rightarrow>
     CommanderHydratePanePayload" where
  "first_payload c ls w i =
     hydrate_payload (ls (first_request c w i)) (filterQuery (getPaneState w i)) ModeReplace no_load_options"

lemma first_load_widget:
  "\<exists>s. first_load h c ls i w = (s, Done)
     \<and> ses_widget s = hydrateCommanderPaneDirectory h (other_pane i) (first_payload c ls w (other_pane i))
         (hydrateCommanderPaneDirectory h i (first_payload c ls w i)
           (setCommanderPaneLoading RightPane (setCommanderPaneLoading LeftPane w)))"
  by (cases i)
     (simp_all add: first_load_def initial_load_def resolveDefaultPanePaths_def run_load run_loaded idle_session_def
       load_query_def no_load_options_def apply_event_def first_payload_def first_request_def first_path_def Let_def)

lemma first_hydrate:
  "getPaneState (hydrateCommanderPaneDirectory h i (hydrate_payload sn q ModeReplace no_load_options) w) j =
     (if i = j then buildCommanderPaneState h (pane_id (getPaneState w i)) (snapshot_path sn) (snapshot_entries sn) q [] None None
        (historyBack (getPaneState w i)) (historyForward (getPaneState w i)) (projection_options w)
      else getPaneState w j)"
  by (auto simp: hydrateCommanderPaneDirectory_def hydrate_payload_def no_load_options_def store_simps pane_simps
      rebuildCommanderPaneState_def override_def next_history_back_def next_history_forward_def Let_def)

lemma hydrate_frame:
  "projection_options (hydrateCommanderPaneDirectory h i payload w) = projection_options w"
  "activePane (hydrateCommanderPaneDirectory h i payload w) = i"
  "viewMode (hydrateCommanderPaneDirectory h i payload w) = viewMode w"
  by (simp_all add: hydrateCommanderPaneDirectory_def store_simps projection_options_def Let_def)

lemma loading_frame:
  "projection_options (setCommanderPaneLoading i w) = projection_options w"
  "viewMode (setCommanderPaneLoading i w) = viewMode w"
  "pane_id (getPaneState (setCommanderPaneLoading i w) j) = pane_id (getPaneState w j)"
  "historyBack (getPaneState (setCommanderPaneLoading i w) j) = historyBack (getPaneState w j)"
  "historyForward (getPaneState (setCommanderPaneLoading i w) j) = historyForward (getPaneState w j)"
  by (simp_all add: setCommanderPaneLoading_def store_simps projection_options_def)

lemma first_load_pane:
  assumes "first_load h c ls i w = (s, p)"
  shows "p = Done" "activePane (ses_widget s) = other_pane i" "viewMode (ses_widget s) = viewMode w"
    "projection_options (ses_widget s) = projection_options w"
    "getPaneState (ses_widget s) j = buildCommanderPaneState h (pane_id (getPaneState w j))
       (snapshot_path (ls (first_request c w j))) (snapshot_entries (ls (first_request c w j)))
       (filterQuery (getPaneState w j)) [] None None (historyBack (getPaneState w j)) (historyForward (getPaneState w j))
       (projection_options w)"
proof -
  have s: "p = Done" "ses_widget s = hydrateCommanderPaneDirectory h (other_pane i) (first_payload c ls w (other_pane i))
      (hydrateCommanderPaneDirectory h i (first_payload c ls w i)
        (setCommanderPaneLoading RightPane (setCommanderPaneLoading LeftPane w)))"
    using first_load_widget [of h c ls i w] assms by auto
  show "p = Done" "activePane (ses_widget s) = other_pane i" "viewMode (ses_widget s) = viewMode w"
    "projection_options (ses_widget s) = projection_options w"
    unfolding s by (simp_all add: hydrate_frame loading_frame)
  have "j = i \<or> j = other_pane i" by (cases i; cases j) simp_all
  moreover have "other_pane i \<noteq> i" by (cases i) simp_all
  ultimately show "getPaneState (ses_widget s) j = buildCommanderPaneState h (pane_id (getPaneState w j))
      (snapshot_path (ls (first_request c w j))) (snapshot_entries (ls (first_request c w j)))
      (filterQuery (getPaneState w j)) [] None None (historyBack (getPaneState w j)) (historyForward (getPaneState w j))
      (projection_options w)"
    unfolding s first_payload_def by (auto simp: first_hydrate hydrate_frame loading_frame simp del: getPaneState_simps)
qed

section \<open>What a restart restores\<close>



end
