(* ===== verification/Commander_Keyboard.thy ===== *)
theory Commander_Keyboard
  imports Commander_Concurrency
begin

text \<open>
  The keyboard of the file manager, \<^verbatim>\<open>features/commander/model/keyboard-handlers.ts\<close> and \<^verbatim>\<open>keyboard.ts\<close>. A
  handler says whether it took the key and which action it ran; an action is a command of the session or
  the request to edit the path. Every handler calls \<open>preventDefault\<close> exactly when it runs an action.
\<close>

section \<open>Events and actions\<close>

record CommanderKeyboardEvent =
  altKey :: bool
  ctrlKey :: bool
  metaKey :: bool
  shiftKey :: bool
  key :: jsstring
  key_code :: jsstring

datatype keyboard_action = KeyCommand session_command | KeyPathEdit

type_synonym key_result = "bool \<times> keyboard_action option"

abbreviation declined :: key_result where "declined \<equiv> (False, None)"
abbreviation swallowed :: key_result where "swallowed \<equiv> (True, None)"

definition acts :: "session_command \<Rightarrow> key_result" where
  "acts c = (True, Some (KeyCommand c))"

abbreviation event_action :: "CommanderEvent \<Rightarrow> key_result" where
  "event_action e \<equiv> acts (CmdEvent e)"

definition hasCommanderPendingConflictResolution :: "CommanderPendingOperation \<Rightarrow> bool" where
  "hasCommanderPendingConflictResolution operation =
     (case detail operation of
        CloneDetail d \<Rightarrow> clone_conflictEntryNames d \<noteq> []
      | TransferDetail d \<Rightarrow> transfer_conflictEntryNames d \<noteq> []
      | _ \<Rightarrow> False)"

definition handleCommanderFileDialogKeys :: "CommanderKeyboardEvent \<Rightarrow> bool \<Rightarrow> key_result" where
  "handleCommanderFileDialogKeys event isFileDialogOpen =
     (if \<not> isFileDialogOpen then declined
      else if key event = js ''Escape'' then event_action CloseCommanderFileDialog
      else swallowed)"

definition handleCommanderAltNavigationKeys :: "CommanderKeyboardEvent \<Rightarrow> CommanderPaneId \<Rightarrow> key_result" where
  "handleCommanderAltNavigationKeys event active =
     (if \<not> altKey event \<or> metaKey event \<or> ctrlKey event then declined
      else if key event = js ''ArrowLeft'' then acts (CmdBack active)
      else if key event = js ''ArrowRight'' then acts (CmdForward active)
      else swallowed)"

definition handleCommanderModifierKeys :: "CommanderKeyboardEvent \<Rightarrow> CommanderPaneId \<Rightarrow> key_result" where
  "handleCommanderModifierKeys event active =
     (if \<not> metaKey event \<and> \<not> ctrlKey event then declined
      else if metaKey event then swallowed
      else if key event = js ''f'' \<or> key event = js ''F'' then event_action (RequestCommanderActivePane KFilter)
      else if key event = js ''s'' \<or> key event = js ''S'' then event_action (RequestCommanderActivePane KSearch)
      else if key event = js ''Backspace'' then acts CmdClearFilter
      else if key event = js ''l'' \<or> key event = js ''L'' then (True, Some KeyPathEdit)
      else if key event = js ''PageUp'' then acts (CmdParent active)
      else if key event = js ''PageDown'' then acts CmdOpenActive
      else swallowed)"

definition handleCommanderPendingOperationKeys ::
    "CommanderKeyboardEvent \<Rightarrow> CommanderPendingOperation option \<Rightarrow> key_result" where
  "handleCommanderPendingOperationKeys event pending =
     (case pending of
        None \<Rightarrow> declined
      | Some operation \<Rightarrow>
          if hasCommanderPendingConflictResolution operation then
            (if key event = js ''Enter'' then acts (CmdResolve (if shiftKey event then OverwriteAll else OverwriteCurrent))
             else if key event = js '' '' then acts (CmdResolve (if shiftKey event then SkipAll else SkipCurrent))
             else if key event = js ''Escape'' then event_action CancelCommanderPendingOperation
             else swallowed)
          else if pending_kind operation = KSearch \<and> key event = js ''ArrowDown''
          then event_action (StepCommanderPendingSearchMatch 1)
          else if pending_kind operation = KSearch \<and> key event = js ''ArrowUp''
          then event_action (StepCommanderPendingSearchMatch (-1))
          else if key event = js ''Enter'' then acts CmdConfirm
          else if key event = js ''Escape'' then event_action CancelCommanderPendingOperation
          else swallowed)"

definition handleCommanderSelectionShortcutKeys :: "CommanderKeyboardEvent \<Rightarrow> key_result" where
  "handleCommanderSelectionShortcutKeys event =
     (if altKey event \<or> ctrlKey event \<or> metaKey event then declined
      else if key_code event = js ''NumpadAdd'' then event_action (RequestCommanderActivePane KSelect)
      else if key_code event = js ''NumpadSubtract'' then event_action (RequestCommanderActivePane KUnselect)
      else if key_code event = js ''NumpadMultiply'' then event_action InvertCommanderActivePaneSelection
      else declined)"

text \<open>The tables of the two navigation handlers: a key and the action it runs.\<close>

definition lookup_key :: "jsstring \<Rightarrow> (string \<times> session_command) list \<Rightarrow> key_result" where
  "lookup_key k table =
     (case map_of (map (\<lambda>(n, c). (js n, c)) table) k of None \<Rightarrow> declined | Some c \<Rightarrow> acts c)"

definition shift_keys :: "CommanderPaneId \<Rightarrow> (string \<times> session_command) list" where
  "shift_keys active =
     [(''ArrowUp'', CmdEvent (MoveCommanderActivePaneCursor (-1) True)),
      (''ArrowDown'', CmdEvent (MoveCommanderActivePaneCursor 1 True)),
      (''PageUp'', CmdEvent (MoveCommanderActivePaneCursor (-10) True)),
      (''PageDown'', CmdEvent (MoveCommanderActivePaneCursor 10 True)),
      (''Home'', CmdEvent (SetCommanderPaneBoundaryCursor active BoundaryStart True)),
      (''End'', CmdEvent (SetCommanderPaneBoundaryCursor active BoundaryEnd True)),
      (''F6'', CmdEvent (RequestCommanderActivePane KRename))]"

definition handleCommanderShiftNavigationKeys :: "CommanderKeyboardEvent \<Rightarrow> CommanderPaneId \<Rightarrow> key_result" where
  "handleCommanderShiftNavigationKeys event active =
     (if \<not> shiftKey event then declined else lookup_key (key event) (shift_keys active))"

definition navigation_keys :: "CommanderPaneId \<Rightarrow> (string \<times> session_command) list" where
  "navigation_keys active =
     [(''ArrowUp'', CmdEvent (MoveCommanderActivePaneCursor (-1) False)),
      (''ArrowDown'', CmdEvent (MoveCommanderActivePaneCursor 1 False)),
      (''PageUp'', CmdEvent (MoveCommanderActivePaneCursor (-10) False)),
      (''PageDown'', CmdEvent (MoveCommanderActivePaneCursor 10 False)),
      (''Home'', CmdEvent (SetCommanderPaneBoundaryCursor active BoundaryStart False)),
      (''End'', CmdEvent (SetCommanderPaneBoundaryCursor active BoundaryEnd False)),
      (''Tab'', CmdEvent SwitchCommanderActivePane),
      (''Backspace'', CmdParent active),
      (''Enter'', CmdOpenActive),
      (''Insert'', CmdEvent (ToggleCommanderActivePaneSelection True)),
      ('' '', CmdEvent (ToggleCommanderActivePaneSelection False)),
      (''Spacebar'', CmdEvent (ToggleCommanderActivePaneSelection False)),
      (''F5'', CmdEvent (RequestCommanderActivePane KCopy)),
      (''F6'', CmdEvent (RequestCommanderActivePane KMove)),
      (''F7'', CmdEvent (RequestCommanderActivePane KMkdir)),
      (''F8'', CmdEvent (RequestCommanderActivePane KDelete)),
      (''F2'', CmdEvent (RequestCommanderActivePane KRename)),
      (''F3'', CmdPreview active),
      (''F4'', CmdEdit active)]"

definition handleCommanderNavigationKeys :: "CommanderKeyboardEvent \<Rightarrow> CommanderPaneId \<Rightarrow> key_result" where
  "handleCommanderNavigationKeys event active = lookup_key (key event) (navigation_keys active)"

section \<open>Typeahead\<close>

record CommanderTypeaheadState =
  typeahead_prefix :: jsstring
  typeahead_timestamp :: int

definition COMMANDER_TYPEAHEAD_RESET_MS :: int where
  "COMMANDER_TYPEAHEAD_RESET_MS = 700"

definition isTypeaheadCharacter :: "CommanderKeyboardEvent \<Rightarrow> bool" where
  "isTypeaheadCharacter event =
     (if altKey event \<or> ctrlKey event \<or> metaKey event then False
      else if length (key event) \<noteq> 1 then False
      else js_trim (key event) \<noteq> [])"

definition findNextTypeaheadMatch :: "host \<Rightarrow> CommanderFileRow list \<Rightarrow> jsstring \<Rightarrow> CommanderFileRow option" where
  "findNextTypeaheadMatch h rows prefix =
     (if rows = [] \<or> prefix = [] then None
      else
        (let normalizedPrefix = toLocaleLowerCase h prefix;
             focusedIndex = js_findIndex row_focused rows;
             searchRows = (if focusedIndex = -1 then rows
               else drop (nat (focusedIndex + 1)) rows @ take (nat (focusedIndex + 1)) rows)
         in List.find (\<lambda>row. js_startsWith (toLocaleLowerCase h (row_name row)) normalizedPrefix) searchRows))"

definition handleCommanderTypeaheadKey ::
    "host \<Rightarrow> CommanderKeyboardEvent \<Rightarrow> CommanderPaneId \<Rightarrow> CommanderFileRow list \<Rightarrow> CommanderTypeaheadState \<Rightarrow> int \<Rightarrow>
     key_result \<times> CommanderTypeaheadState" where
  "handleCommanderTypeaheadKey h event active rows typeaheadState now =
     (if \<not> isTypeaheadCharacter event then (declined, typeaheadState)
      else
        (let normalizedCharacter = toLocaleLowerCase h (key event);
             nextPrefix = (if now - typeahead_timestamp typeaheadState \<le> COMMANDER_TYPEAHEAD_RESET_MS
               then typeahead_prefix typeaheadState @ normalizedCharacter else normalizedCharacter);
             firstMatch = findNextTypeaheadMatch h rows nextPrefix;
             (resolvedPrefix, matchedRow) =
               (if firstMatch = None \<and> length nextPrefix > 1
                then (normalizedCharacter, findNextTypeaheadMatch h rows normalizedCharacter)
                else (nextPrefix, firstMatch))
         in case matchedRow of
              None \<Rightarrow> (swallowed, \<lparr>typeahead_prefix = [], typeahead_timestamp = 0\<rparr>)
            | Some row \<Rightarrow> (event_action (SetCommanderPaneCursor active (row_id row) False),
                \<lparr>typeahead_prefix = resolvedPrefix, typeahead_timestamp = now\<rparr>)))"

section \<open>Dispatch\<close>

text \<open>The handlers in order of priority; the first that takes the key ends the dispatch.\<close>

definition useCommanderKeyboard ::
    "host \<Rightarrow> bool \<Rightarrow> CommanderKeyboardEvent \<Rightarrow> CommanderPaneId \<Rightarrow> CommanderFileRow list \<Rightarrow>
     CommanderPendingOperation option \<Rightarrow> CommanderFileDialogState option \<Rightarrow> CommanderTypeaheadState \<Rightarrow> int \<Rightarrow>
     keyboard_action option \<times> CommanderTypeaheadState" where
  "useCommanderKeyboard h interactiveTextTarget event active rows pending dialog typeahead now =
     (if interactiveTextTarget then (None, typeahead)
      else
        (let r1 = handleCommanderFileDialogKeys event (dialog \<noteq> None);
             r2 = handleCommanderAltNavigationKeys event active;
             r3 = handleCommanderModifierKeys event active;
             r4 = handleCommanderPendingOperationKeys event pending;
             r5 = handleCommanderSelectionShortcutKeys event;
             r6 = handleCommanderShiftNavigationKeys event active;
             (r7, typeahead') = handleCommanderTypeaheadKey h event active rows typeahead now;
             r8 = handleCommanderNavigationKeys event active
         in if fst r1 then (snd r1, typeahead)
            else if fst r2 then (snd r2, typeahead)
            else if fst r3 then (snd r3, typeahead)
            else if fst r4 then (snd r4, typeahead)
            else if fst r5 then (snd r5, typeahead)
            else if fst r6 then (snd r6, typeahead)
            else if fst r7 then (snd r7, typeahead')
            else (snd r8, typeahead')))"

section \<open>Lemmas\<close>

lemmas keyboard_handler_defs =
  handleCommanderFileDialogKeys_def handleCommanderAltNavigationKeys_def handleCommanderModifierKeys_def
  handleCommanderSelectionShortcutKeys_def handleCommanderShiftNavigationKeys_def
  handleCommanderNavigationKeys_def acts_def

definition harmless :: "session_command \<Rightarrow> bool" where
  "harmless c = (case c of CmdConfirm \<Rightarrow> False | CmdResolve _ \<Rightarrow> False | CmdSave \<Rightarrow> False | _ \<Rightarrow> True)"

lemma harmless_lock_free: "harmless c \<Longrightarrow> lock_free (command_flow ctx rs c)"
  by (cases c) (auto simp: harmless_def lock_free_navigation lock_free_open_entry)

lemma lookup_key_action:
  "snd (lookup_key k table) = Some (KeyCommand c) \<Longrightarrow> c \<in> snd ` set table"
  by (force simp: lookup_key_def acts_def split: option.splits dest!: map_of_SomeD)

lemma navigation_tables_harmless:
  "c \<in> snd ` set (navigation_keys active) \<Longrightarrow> harmless c" "c \<in> snd ` set (shift_keys active) \<Longrightarrow> harmless c"
  by (auto simp: navigation_keys_def shift_keys_def harmless_def)

lemma lookup_key_harmless:
  "snd (lookup_key k (navigation_keys active)) = Some (KeyCommand c) \<Longrightarrow> harmless c"
  "snd (lookup_key k (shift_keys active)) = Some (KeyCommand c) \<Longrightarrow> harmless c"
  by (drule lookup_key_action, erule navigation_tables_harmless)+

lemma handlers_harmless:
  "snd (handleCommanderFileDialogKeys event b) = Some (KeyCommand c) \<Longrightarrow> harmless c"
  "snd (handleCommanderAltNavigationKeys event active) = Some (KeyCommand c) \<Longrightarrow> harmless c"
  "snd (handleCommanderModifierKeys event active) = Some (KeyCommand c) \<Longrightarrow> harmless c"
  "snd (handleCommanderSelectionShortcutKeys event) = Some (KeyCommand c) \<Longrightarrow> harmless c"
  "snd (handleCommanderShiftNavigationKeys event active) = Some (KeyCommand c) \<Longrightarrow> harmless c"
  "snd (handleCommanderNavigationKeys event active) = Some (KeyCommand c) \<Longrightarrow> harmless c"
       apply (auto simp: handleCommanderFileDialogKeys_def harmless_def acts_def split: if_splits)[1]
      apply (auto simp: handleCommanderAltNavigationKeys_def harmless_def acts_def split: if_splits)[1]
     apply (auto simp: handleCommanderModifierKeys_def harmless_def acts_def split: if_splits)[1]
    apply (auto simp: handleCommanderSelectionShortcutKeys_def harmless_def acts_def split: if_splits)[1]
   apply (auto simp: handleCommanderShiftNavigationKeys_def intro: lookup_key_harmless split: if_splits)[1]
  apply (auto simp: handleCommanderNavigationKeys_def intro: lookup_key_harmless)
  done

lemma typeahead_handler_harmless:
  "handleCommanderTypeaheadKey h event active rows s now = ((t, Some (KeyCommand c)), s') \<Longrightarrow> harmless c"
  by (auto simp: handleCommanderTypeaheadKey_def acts_def harmless_def Let_def
           split: if_splits option.splits prod.splits)

text \<open>What a pending prompt does with a key: a command that is not harmless is the confirmation of the prompt.\<close>

definition prompt_answer :: "CommanderKeyboardEvent \<Rightarrow> CommanderPendingOperation \<Rightarrow> session_command \<Rightarrow> bool" where
  "prompt_answer event operation c \<longleftrightarrow>
     (if hasCommanderPendingConflictResolution operation
      then key event = js ''Enter'' \<and> c = CmdResolve (if shiftKey event then OverwriteAll else OverwriteCurrent)
         \<or> key event = js '' '' \<and> c = CmdResolve (if shiftKey event then SkipAll else SkipCurrent)
      else key event = js ''Enter'' \<and> c = CmdConfirm)"

lemma pending_handler_answers:
  assumes "snd (handleCommanderPendingOperationKeys event pending) = Some (KeyCommand c)" and "\<not> harmless c"
  shows "\<exists>operation. pending = Some operation \<and> prompt_answer event operation c"
  using assms
  by (auto simp: handleCommanderPendingOperationKeys_def prompt_answer_def acts_def harmless_def
           split: option.splits if_splits)

lemma unmodified_declines:
  "\<not> fst (handleCommanderAltNavigationKeys event active) \<Longrightarrow> \<not> fst (handleCommanderModifierKeys event active)
    \<Longrightarrow> \<not> altKey event \<and> \<not> ctrlKey event \<and> \<not> metaKey event"
  by (auto simp: handleCommanderAltNavigationKeys_def handleCommanderModifierKeys_def acts_def split: if_splits)

lemma file_dialog_takes: "fst (handleCommanderFileDialogKeys event b) = b"
  by (simp add: handleCommanderFileDialogKeys_def acts_def)

lemma useCommanderKeyboard_not_harmless:
  assumes "fst (useCommanderKeyboard h textTarget event active rows pending dialog s now) = Some (KeyCommand c)"
    and "\<not> harmless c"
  shows "\<not> textTarget \<and> dialog = None \<and> \<not> altKey event \<and> \<not> ctrlKey event \<and> \<not> metaKey event
    \<and> snd (handleCommanderPendingOperationKeys event pending) = Some (KeyCommand c)"
  using assms unmodified_declines [of event active]
  by (simp add: useCommanderKeyboard_def Let_def file_dialog_takes split: if_splits prod.splits)
     (auto dest: handlers_harmless typeahead_handler_harmless)

text \<open>
  C31: the key handler of the Commander window changes files only as the answer to a prompt: a key press for which
  this handler gives a command that may write, create, copy, move, rename or delete anything, or take the mutation
  flag, was pressed outside a text field, with no file dialog open and without Alt, Ctrl or Meta, while an operation
  was pending, and the command is the confirmation of that operation or the resolution of its conflicts. The text
  fields have handlers of their own, which this handler leaves alone: the save key in the text area of the file
  dialog, and Enter in the input of the pending operation.
\<close>
theorem keyboard_mutates_only_from_prompt:
  assumes "fst (useCommanderKeyboard h textTarget event active rows pending dialog s now) = Some (KeyCommand c)"
    and "\<not> lock_free (command_flow ctx rs c)"
  shows "\<not> textTarget \<and> dialog = None \<and> \<not> altKey event \<and> \<not> ctrlKey event \<and> \<not> metaKey event
    \<and> (\<exists>operation. pending = Some operation \<and> prompt_answer event operation c)"
proof -
  have "\<not> harmless c" using assms(2) harmless_lock_free by blast
  from useCommanderKeyboard_not_harmless [OF assms(1) this] pending_handler_answers [OF _ this]
  show ?thesis by blast
qed

definition plain_key :: "string \<Rightarrow> CommanderKeyboardEvent" where
  "plain_key k = \<lparr>altKey = False, ctrlKey = False, metaKey = False, shiftKey = False, key = js k, key_code = js k\<rparr>"

lemma enter_confirms:
  "fst (useCommanderKeyboard ascii_host False (plain_key ''Enter'') LeftPane [] (pendingOperation mkdir_widget) None s now)
     = Some (KeyCommand CmdConfirm)"
  by (simp add: useCommanderKeyboard_def handleCommanderFileDialogKeys_def handleCommanderAltNavigationKeys_def
      handleCommanderModifierKeys_def handleCommanderPendingOperationKeys_def hasCommanderPendingConflictResolution_def
      acts_def plain_key_def mkdir_widget_def pending_kind_def Let_def case_prod_beta)

lemma mkdir_not_lock_free: "\<not> lock_free (command_flow None mkdir_widget CmdConfirm)"
  by (simp add: mkdir_widget_def confirmPendingOperationAsync_def locked_def hasSinglePathSegment_def Let_def js_simps)

theorem keyboard_mutates_only_from_prompt_witness:
  "\<exists>operation. pendingOperation mkdir_widget = Some operation \<and> prompt_answer (plain_key ''Enter'') operation CmdConfirm"
  using keyboard_mutates_only_from_prompt [OF enter_confirms mkdir_not_lock_free] by blast

section \<open>Typeahead search\<close>

lemma rotate_nth:
  assumes "n \<le> length xs"
  shows "drop n xs @ take n xs = map (\<lambda>d. xs ! ((n + d) mod length xs)) [0..<length xs]"
  using assms by (intro nth_equalityI) (auto simp: nth_append mod_if add.commute)

text \<open>The row a number of steps after the focused one, counting round the list (from the top without a focus).\<close>

definition row_after :: "CommanderFileRow list \<Rightarrow> nat \<Rightarrow> CommanderFileRow" where
  "row_after rows d = rows ! ((nat (js_findIndex row_focused rows + 1) + d) mod length rows)"

definition typeahead_matches :: "host \<Rightarrow> jsstring \<Rightarrow> CommanderFileRow \<Rightarrow> bool" where
  "typeahead_matches h prefix row = js_startsWith (toLocaleLowerCase h (row_name row)) (toLocaleLowerCase h prefix)"

lemma row_after_rotated:
  "map (row_after rows) [0..<length rows]
     = drop (nat (js_findIndex row_focused rows + 1)) rows @ take (nat (js_findIndex row_focused rows + 1)) rows"
  using js_findIndex_less [of row_focused rows] rotate_nth [of "nat (js_findIndex row_focused rows + 1)" rows]
  by (simp add: row_after_def [abs_def])

lemma search_rows_rotated:
  "(if js_findIndex row_focused rows = -1 then rows
    else drop (nat (js_findIndex row_focused rows + 1)) rows @ take (nat (js_findIndex row_focused rows + 1)) rows)
   = map (row_after rows) [0..<length rows]"
  by (simp add: row_after_rotated del: js_findIndex_eq_minus1)

lemma set_row_after: "set (map (row_after rows) [0..<length rows]) = set rows"
  unfolding row_after_rotated by (metis append_take_drop_id set_append sup_commute)

lemma findNextTypeaheadMatch_rotated:
  assumes "prefix \<noteq> []"
  shows "findNextTypeaheadMatch h rows prefix
    = List.find (typeahead_matches h prefix) (map (row_after rows) [0..<length rows])"
  using assms
  by (simp add: findNextTypeaheadMatch_def Let_def search_rows_rotated typeahead_matches_def [abs_def]
      del: js_findIndex_eq_minus1)

lemma find_map_upt:
  "List.find P (map f [0..<n]) = Some x \<longleftrightarrow> (\<exists>d<n. x = f d \<and> P (f d) \<and> (\<forall>d'<d. \<not> P (f d')))"
  by (auto simp: find_Some_iff)

text \<open>
  C32: typeahead finds the nearest match: for a typed prefix, the row it focuses is the first one after the
  focused row, wrapping round at the end of the list, whose name starts with the prefix regardless of
  case, and it finds none only when no row of the pane starts with the prefix.
\<close>
theorem typeahead_nearest_match:
  assumes "prefix \<noteq> []"
  shows "(findNextTypeaheadMatch h rows prefix = Some row \<longleftrightarrow>
      (\<exists>d<length rows. row = row_after rows d \<and> typeahead_matches h prefix (row_after rows d)
         \<and> (\<forall>d'<d. \<not> typeahead_matches h prefix (row_after rows d'))))
    \<and> (findNextTypeaheadMatch h rows prefix = None \<longleftrightarrow> \<not> list_ex (typeahead_matches h prefix) rows)"
  using set_row_after [of rows]
  by (simp add: findNextTypeaheadMatch_rotated [OF assms] find_map_upt find_None_iff list_ex_iff Ball_def
      del: set_map)

definition sample_row :: "string \<Rightarrow> bool \<Rightarrow> CommanderFileRow" where
  "sample_row n focus = \<lparr>row_id = js n, row_name = js n, row_ext = [], row_kind = File, row_size = [],
     row_modified = [], row_hidden = False, row_selected = False, row_focused = focus, row_gitStatus = None,
     row_executable = None, row_symlinkTarget = None\<rparr>"

theorem typeahead_nearest_match_witness:
  "findNextTypeaheadMatch ascii_host [sample_row ''Alpha'' False, sample_row ''beta'' True] (js ''a'')
     = Some (sample_row ''Alpha'' False)"
  by (subst typeahead_nearest_match [THEN conjunct1])
     (auto simp: js_simps row_after_def typeahead_matches_def sample_row_def ascii_host_def ascii_lower_def intro!: exI [of _ "0::nat"])

end
