(* ===== verification/Agent_Types.thy ===== *)
theory Agent_Types
  imports Prelude
begin

text \<open>
  The data of the agent panel: the types of \<^verbatim>\<open>features/agent/model/types.ts\<close>, the conversation and stream
  types of \<^verbatim>\<open>features/agent/api/client.ts\<close> and the pending flow of \<^verbatim>\<open>interaction-flow.ts\<close>. An optional field
  is an option; a union of string literals is a datatype; a union of object types with a \<open>type\<close> tag is a
  datatype with one constructor per tag.
\<close>

section \<open>Conversation\<close>

record AgentAttachmentReference =
  attachment_id :: jsstring
  attachment_name :: jsstring
  attachment_path :: jsstring
  attachment_mime_type :: jsstring
  attachment_size :: int
  attachment_modified_time :: int

datatype conversation_role = RoleSystem | RoleUser | RoleAssistant

datatype conversation_status = StatusStreaming | StatusComplete | StatusError

record AgentConversationMessage =
  msg_id :: jsstring
  msg_role :: conversation_role
  msg_content :: jsstring
  msg_attachments :: "AgentAttachmentReference list option"
  msg_status :: conversation_status
  msg_provider :: "jsstring option"
  msg_model :: "jsstring option"
  msg_reasoning :: "jsstring option"
  msg_created_at :: jsstring

record AgentConversationProvider =
  provider_kind :: jsstring
  provider_base_url :: jsstring
  provider_model :: "jsstring option"
  provider_streaming :: bool

record AgentConversationContextPreferences =
  widget_context_enabled :: bool
  preferred_widget_ids :: "jsstring list option"

record AgentConversationSnapshot =
  conversation_id :: jsstring
  conversation_title :: jsstring
  conversation_messages :: "AgentConversationMessage list"
  conversation_provider :: AgentConversationProvider
  conversation_context_preferences :: AgentConversationContextPreferences
  conversation_created_at :: jsstring
  conversation_updated_at :: jsstring
  conversation_archived_at :: "jsstring option"

record AgentConversationSummary =
  summary_id :: jsstring
  summary_title :: jsstring
  summary_created_at :: jsstring
  summary_updated_at :: jsstring
  summary_message_count :: nat
  summary_archived_at :: "jsstring option"

section \<open>Stream events\<close>

record AgentConversationToolCall =
  call_id :: "jsstring option"
  call_kind :: "jsstring option"
  call_name :: "jsstring option"
  call_status :: "jsstring option"
  call_summary :: "jsstring option"
  call_input :: "jsstring option"
  call_output :: "jsstring option"
  call_exit_code :: "int option"

text \<open>
  The payload of an event is cast, not checked: \<open>OtherEvent\<close> is one whose \<open>type\<close> is none of the six.
\<close>

datatype AgentConversationStreamEvent =
    MessageStart jsstring AgentConversationMessage
  | TextDelta jsstring jsstring
  | ReasoningDelta jsstring jsstring
  | ToolCall jsstring AgentConversationToolCall
  | MessageComplete jsstring AgentConversationMessage
  | StreamError "jsstring option" "AgentConversationMessage option" "jsstring option"
  | OtherEvent jsstring

fun event_type :: "AgentConversationStreamEvent \<Rightarrow> jsstring" where
  "event_type (MessageStart _ _) = js ''message-start''"
| "event_type (TextDelta _ _) = js ''text-delta''"
| "event_type (ReasoningDelta _ _) = js ''reasoning-delta''"
| "event_type (ToolCall _ _) = js ''tool-call''"
| "event_type (MessageComplete _ _) = js ''message-complete''"
| "event_type (StreamError _ _ _) = js ''error''"
| "event_type (OtherEvent t) = t"

section \<open>Messages of the panel\<close>

datatype MessageIntent = IntentChat | IntentExecution | IntentQuestion

record MessageMeta =
  meta_provider :: "jsstring option"
  meta_model :: "jsstring option"
  meta_status :: "jsstring option"
  meta_reasoning :: "jsstring option"
  meta_prompt :: "jsstring option"
  meta_summary :: "jsstring option"

type_synonym ChatMessageSortKey = int

datatype chat_role = ChatUser | ChatAssistant

record ChatTextMessage =
  chat_id :: jsstring
  chat_role :: chat_role
  chat_content :: jsstring
  chat_attachments :: "AgentAttachmentReference list option"
  chat_meta :: "MessageMeta option"
  chat_sortKey :: "ChatMessageSortKey option"

record PlanTool =
  tool_name :: jsstring
  tool_description :: "jsstring option"

record PlanMessage =
  plan_id :: jsstring
  plan_planId :: jsstring
  plan_steps :: "jsstring list"
  plan_tools :: "PlanTool list"
  plan_sortKey :: "ChatMessageSortKey option"

datatype ApprovalState = ApprovalPending | ApprovalApproved | ApprovalCancelled

record ApprovalMessage =
  approval_id :: jsstring
  approval_planId :: jsstring
  approval_status :: ApprovalState
  approval_sortKey :: "ChatMessageSortKey option"

datatype AuditEntryStatus = AuditPending | AuditRunning | AuditDone | AuditError

record AuditEntry =
  audit_tool :: jsstring
  audit_status :: AuditEntryStatus
  audit_timestamp :: "int option"

record AuditMessage =
  audit_id :: jsstring
  audit_entries :: "AuditEntry list"
  audit_sortKey :: "ChatMessageSortKey option"

record QuestionnaireOption =
  option_label :: jsstring
  option_value :: jsstring

datatype questionnaire_status = QuestionPending | QuestionAnswered

record QuestionnaireMessage =
  questionnaire_id :: jsstring
  questionnaire_question :: jsstring
  questionnaire_options :: "QuestionnaireOption list"
  questionnaire_allowCustom :: bool
  questionnaire_answer :: "jsstring option"
  questionnaire_status :: questionnaire_status
  questionnaire_sortKey :: "ChatMessageSortKey option"

datatype ChatMessageView =
    ChatView ChatTextMessage
  | PlanView PlanMessage
  | ApprovalView ApprovalMessage
  | AuditView AuditMessage
  | QuestionnaireView QuestionnaireMessage

fun message_id :: "ChatMessageView \<Rightarrow> jsstring" where
  "message_id (ChatView m) = chat_id m"
| "message_id (PlanView m) = plan_id m"
| "message_id (ApprovalView m) = approval_id m"
| "message_id (AuditView m) = audit_id m"
| "message_id (QuestionnaireView m) = questionnaire_id m"

fun message_sortKey :: "ChatMessageView \<Rightarrow> ChatMessageSortKey option" where
  "message_sortKey (ChatView m) = chat_sortKey m"
| "message_sortKey (PlanView m) = plan_sortKey m"
| "message_sortKey (ApprovalView m) = approval_sortKey m"
| "message_sortKey (AuditView m) = audit_sortKey m"
| "message_sortKey (QuestionnaireView m) = questionnaire_sortKey m"

record AiPanelWidgetState =
  panel_title :: jsstring
  panel_toolbarLabel :: jsstring
  panel_activeTool :: jsstring
  panel_messages :: "ChatMessageView list"
  panel_composerPlaceholder :: jsstring

section \<open>Pending flows\<close>

record PendingRunApproval =
  run_approvalID :: jsstring
  run_baselineNextSeq :: int
  run_command :: jsstring
  run_prompt :: jsstring
  run_repoRoot :: jsstring
  run_targetConnectionID :: jsstring
  run_targetSession :: jsstring
  run_targetWidgetID :: jsstring

record PendingInteractionFlow =
  flow_approvalMessageID :: "jsstring option"
  flow_attachments :: "AgentAttachmentReference list option"
  flow_auditMessageID :: "jsstring option"
  flow_auditProgressed :: bool
  flow_flowID :: jsstring
  flow_prompt :: jsstring
  flow_questionnaireMessageID :: "jsstring option"
  flow_runApproval :: "PendingRunApproval option"
  flow_tools :: "PlanTool list"

record InteractionClassification =
  class_intent :: MessageIntent
  class_tools :: "PlanTool list"

text \<open>
  A generator of local sort keys is the sequence of the values its calls return, from the next call on.
\<close>

type_synonym LocalSortKeyGenerator = "nat \<Rightarrow> ChatMessageSortKey"

end
