(* ===== verification/Event_Stream.thy ===== *)
theory Event_Stream
  imports Prelude
begin

text \<open>
  Reading an event stream, the code that \<^verbatim>\<open>features/agent/api/client.ts\<close> and \<^verbatim>\<open>features/terminal/api/client.ts\<close> share word
  for word: splitting the text into blocks, parsing a block, and the loop that is fed the text chunk by chunk. A chunk
  is the text the streaming decoder returns for one read; the last one belongs to the read that reports the end. What
  a block delivers is the argument \<open>deliver\<close>: the events it passes on, or the error it throws.
\<close>

section \<open>Blocks\<close>

text \<open>\<^verbatim>\<open>buffer.replace(/\r\n?/g, '\n')\<close>.\<close>

fun normalize_newlines :: "jsstring \<Rightarrow> jsstring" where
  "normalize_newlines [] = []"
| "normalize_newlines (c # s) =
     (if c = 13 then 10 # (case s of [] \<Rightarrow> [] | d # t \<Rightarrow> if d = 10 then normalize_newlines t else normalize_newlines s)
      else c # normalize_newlines s)"

text \<open>The text before and after the first blank line (\<^verbatim>\<open>indexOf('\n\n')\<close> and the two slices).\<close>

fun split_block :: "jsstring \<Rightarrow> (jsstring \<times> jsstring) option" where
  "split_block [] = None"
| "split_block (c # s) =
     (if c = 10 \<and> js_startsWith s [10] then Some ([], tl s)
      else map_option (\<lambda>(b, r). (c # b, r)) (split_block s))"

definition parse_line :: "jsstring \<times> jsstring list \<Rightarrow> jsstring \<Rightarrow> jsstring \<times> jsstring list" where
  "parse_line st line =
     (if line = [] \<or> js_startsWith line [colon] then st
      else
        (let separatorIndex = js_findIndex (\<lambda>c. c = colon) line;
             field = (if separatorIndex = -1 then line else take (nat separatorIndex) line);
             rawValue = (if separatorIndex = -1 then [] else drop (nat (separatorIndex + 1)) line);
             value = (if js_startsWith rawValue [32] then drop 1 rawValue else rawValue)
         in if field = js ''event'' then (value, snd st)
            else if field = js ''data'' then (fst st, snd st @ [value])
            else st))"

definition parseEventBlock :: "jsstring \<Rightarrow> (jsstring \<times> jsstring) option" where
  "parseEventBlock block =
     (let (eventName, dataLines) = foldl parse_line (js ''message'', []) (js_split 10 block) in
      if dataLines = [] then None else Some (js_join 10 dataLines, eventName))"

section \<open>The reader\<close>

lemma split_block_length: "split_block s = Some (b, r) \<Longrightarrow> length r < length s"
  by (induction s arbitrary: b) (auto split: if_splits)

text \<open>The events delivered, the error thrown if any, and the buffer left.\<close>

function flush_blocks ::
    "(jsstring \<Rightarrow> 'e + 'v list) \<Rightarrow> jsstring \<Rightarrow> 'v list \<times> 'e option \<times> jsstring" where
  "flush_blocks deliver buffer =
     (case split_block buffer of
        None \<Rightarrow> ([], None, buffer)
      | Some (block, rest) \<Rightarrow>
          (case deliver block of
             Inl e \<Rightarrow> ([], Some e, [])
           | Inr evs \<Rightarrow> (let (evs', err, rest') = flush_blocks deliver rest in (evs @ evs', err, rest'))))"
  by pat_completeness auto
termination
  by (relation "measure (\<lambda>(_, buffer). length buffer)") (auto dest: split_block_length)

declare flush_blocks.simps [simp del]

definition flush_remainder ::
    "(jsstring \<Rightarrow> 'e + 'v list) \<Rightarrow> jsstring \<Rightarrow> 'v list \<times> 'e option" where
  "flush_remainder deliver rest =
     (if js_trim rest = [] then ([], None)
      else case deliver rest of Inl e \<Rightarrow> ([], Some e) | Inr evs \<Rightarrow> (evs, None))"

fun consume_stream ::
    "(jsstring \<Rightarrow> 'e + 'v list) \<Rightarrow> jsstring \<Rightarrow> jsstring list \<Rightarrow> jsstring \<Rightarrow> 'v list \<times> 'e option" where
  "consume_stream deliver buffer [] final =
     (let (evs, err, rest) = flush_blocks deliver (normalize_newlines (buffer @ final)) in
      case err of
        Some e \<Rightarrow> (evs, Some e)
      | None \<Rightarrow> (let (evs', err') = flush_remainder deliver rest in (evs @ evs', err')))"
| "consume_stream deliver buffer (chunk # chunks) final =
     (let (evs, err, rest) = flush_blocks deliver (normalize_newlines (buffer @ chunk)) in
      case err of
        Some e \<Rightarrow> (evs, Some e)
      | None \<Rightarrow> (let (evs', err') = consume_stream deliver rest chunks final in (evs @ evs', err')))"

text \<open>The events delivered by the reads before one that fails, and the error a block threw meanwhile.\<close>

fun read_chunks :: "(jsstring \<Rightarrow> 'e + 'v list) \<Rightarrow> jsstring \<Rightarrow> jsstring list \<Rightarrow> 'v list \<times> 'e option" where
  "read_chunks deliver buffer [] = ([], None)"
| "read_chunks deliver buffer (chunk # chunks) =
     (let (evs, err, rest) = flush_blocks deliver (normalize_newlines (buffer @ chunk)) in
      case err of
        Some e \<Rightarrow> (evs, Some e)
      | None \<Rightarrow> (let (evs', err') = read_chunks deliver rest chunks in (evs @ evs', err')))"

section \<open>Newlines\<close>

lemma normalize_no_cr [simp]: "13 \<notin> set (normalize_newlines s)"
  by (induction s rule: normalize_newlines.induct) (auto split: list.splits if_splits)

lemma normalize_id: "13 \<notin> set s \<Longrightarrow> normalize_newlines s = s"
  by (induction s) auto

lemma normalize_append:
  "s = [] \<or> last s \<noteq> 13 \<Longrightarrow> normalize_newlines (s @ t) = normalize_newlines s @ normalize_newlines t"
proof (induction s rule: normalize_newlines.induct)
  case (2 c s)
  show ?case
  proof (cases "c = 13")
    case True
    with "2.prems" obtain d u where s: "s = d # u" by (cases s) auto
    then show ?thesis
      using True "2.prems" "2.IH"(1) [OF True s] "2.IH"(2) [OF True s]
      by (cases "d = 10") (auto split: if_splits)
  next
    case False
    then show ?thesis using "2.IH"(3) "2.prems" by (auto split: if_splits)
  qed
qed simp

section \<open>Reading in chunks\<close>

lemma split_block_append: "split_block s = Some (b, r) \<Longrightarrow> split_block (s @ t) = Some (b, r @ t)"
proof (induction s arbitrary: b)
  case (Cons c s)
  show ?case
  proof (cases "c = 10 \<and> js_startsWith s [10]")
    case True
    then obtain u where "s = 10 # u" by (auto simp: js_startsWith_iff)
    then show ?thesis using True Cons.prems by simp
  next
    case False
    then obtain b' where b': "b = c # b'" "split_block s = Some (b', r)" using Cons.prems by (auto split: if_splits)
    then have "s \<noteq> []" by auto
    with False have "\<not> (c = 10 \<and> js_startsWith (s @ t) [10])" by (cases s) auto
    then show ?thesis using Cons.IH [OF b'(2)] b'(1) by simp
  qed
qed simp

lemma flush_append_ok:
  "flush_blocks deliver s = (evs, None, rest) \<Longrightarrow>
     flush_blocks deliver (s @ t) = (let (evs', err, rest') = flush_blocks deliver (rest @ t) in (evs @ evs', err, rest'))"
proof (induction deliver s arbitrary: evs rule: flush_blocks.induct)
  case (1 deliver s)
  show ?case
  proof (cases "split_block s")
    case None
    then show ?thesis using "1.prems" flush_blocks.simps [of deliver s] by (auto split: prod.splits)
  next
    case (Some br)
    obtain b r where br: "split_block s = Some (b, r)" using Some by (cases br) auto
    obtain evs1 where del: "deliver b = Inr evs1"
      using "1.prems" flush_blocks.simps [of deliver s] br by (auto split: sum.splits)
    obtain evs2 where tail: "flush_blocks deliver r = (evs2, None, rest)" "evs = evs1 @ evs2"
      using "1.prems" flush_blocks.simps [of deliver s] br del by (auto split: prod.splits)
    show ?thesis
      using "1.IH" [OF br refl del tail(1)] flush_blocks.simps [of deliver "s @ t"] split_block_append [OF br, of t] del tail(2)
      by (auto split: prod.splits)
  qed
qed

lemma flush_append_error:
  "flush_blocks deliver s = (evs, Some e, rest) \<Longrightarrow> flush_blocks deliver (s @ t) = (evs, Some e, rest)"
proof (induction deliver s arbitrary: evs rule: flush_blocks.induct)
  case (1 deliver s)
  then obtain b r where br: "split_block s = Some (b, r)"
    using flush_blocks.simps [of deliver s] by (auto split: option.splits)
  show ?case
    using "1.prems" "1.IH" [OF br refl] flush_blocks.simps [of deliver s] flush_blocks.simps [of deliver "s @ t"]
      br split_block_append [OF br, of t]
    by (auto split: sum.splits prod.splits)
qed

lemma flush_rest_no_cr: "13 \<notin> set s \<Longrightarrow> flush_blocks deliver s = (evs, err, rest) \<Longrightarrow> 13 \<notin> set rest"
proof (induction deliver s arbitrary: evs err rest rule: flush_blocks.induct)
  case (1 deliver s)
  have split: "set r \<subseteq> set s" if "split_block s = Some (b, r)" for b r and s :: jsstring
    using that by (induction s arbitrary: b) (auto split: if_splits dest: list.set_sel(2) [rotated])
  show ?case
    using "1.prems" "1.IH" split flush_blocks.simps [of deliver s]
    by (fastforce split: option.splits sum.splits prod.splits)
qed

lemma consume_no_buffer_cr:
  assumes "13 \<notin> set buffer"
  shows "normalize_newlines (buffer @ s) = buffer @ normalize_newlines s"
proof -
  have "buffer = [] \<or> last buffer \<noteq> 13" using assms by (metis last_in_set)
  then show ?thesis using normalize_append [of buffer s] normalize_id [OF assms] by simp
qed

lemma consume_chunks_at_once:
  assumes "list_all (\<lambda>c. c = [] \<or> last c \<noteq> 13) chunks" and "13 \<notin> set buffer"
  shows "consume_stream deliver buffer chunks final
    = consume_stream deliver buffer [] (concat chunks @ final)"
  using assms
proof (induction chunks arbitrary: buffer)
  case (Cons c cs)
  let ?s = "buffer @ normalize_newlines c" and ?t = "normalize_newlines (concat cs @ final)"
  have all: "normalize_newlines (buffer @ c @ concat cs @ final) = ?s @ ?t"
    using Cons.prems normalize_append [of c "concat cs @ final"] by (simp add: consume_no_buffer_cr)
  obtain evs err rest where fl: "flush_blocks deliver ?s = (evs, err, rest)" by (metis prod_cases3)
  have cr: "13 \<notin> set rest" using flush_rest_no_cr [OF _ fl] Cons.prems(2) by simp
  show ?case
  proof (cases err)
    case None
    have "consume_stream deliver rest cs final = consume_stream deliver rest [] (concat cs @ final)"
      using Cons.IH [OF _ cr] Cons.prems(1) by simp
    then show ?thesis
      using fl None all flush_append_ok [of deliver ?s evs rest ?t] Cons.prems(2) cr
      by (auto simp: consume_no_buffer_cr Let_def split: prod.splits option.splits)
  next
    case (Some e)
    then show ?thesis
      using fl all flush_append_error [of deliver ?s evs e rest ?t] Cons.prems(2) by (simp add: consume_no_buffer_cr)
  qed
qed simp

section \<open>Delivery\<close>

text \<open>A block as the backend writes it: its type and its payload on one line.\<close>

definition sse_block :: "jsstring \<Rightarrow> jsstring \<Rightarrow> jsstring" where
  "sse_block event data = js ''event: '' @ event @ 10 # js ''data: '' @ data"

lemma split_block_at:
  "split_block (x @ [10]) = None \<Longrightarrow> split_block (x @ 10 # 10 # r) = Some (x, r)"
proof (induction x)
  case (Cons c x)
  have "js_startsWith (x @ 10 # 10 # r) [10] \<longleftrightarrow> js_startsWith (x @ [10]) [10]" by (cases x) auto
  with Cons show ?case by (auto split: if_splits)
qed simp

lemma split_block_line: "10 \<notin> set b \<Longrightarrow> split_block (b @ [10]) = None"
proof (induction b)
  case (Cons c b)
  then show ?case by auto
qed simp

lemma split_block_lines:
  assumes "10 \<notin> set a" and "10 \<notin> set b" and "b \<noteq> []"
  shows "split_block (a @ 10 # b @ [10]) = None"
  using assms
proof (induction a)
  case Nil
  then show ?case using split_block_line [of b] by (cases b) auto
qed auto

lemma frame_lines:
  assumes "10 \<notin> set event" and "10 \<notin> set data"
  shows "js_split 10 (js ''event: '' @ event @ 10 # js ''data: '' @ data) = [js ''event: '' @ event, js ''data: '' @ data]"
proof -
  have "js_split 10 ((js ''event: '' @ event) @ 10 # (js ''data: '' @ data))
      = js_split 10 (js ''event: '' @ event) @ js_split 10 (js ''data: '' @ data)"
    by (rule js_split_append_sep)
  then show ?thesis using assms by (simp add: js_split_single del: js_Cons)  (simp add: js_split_single)
qed

lemma parse_sse_block:
  assumes "10 \<notin> set event" and "10 \<notin> set data"
  shows "parseEventBlock (sse_block event data) = Some (data, event)"
proof -
  have "parse_line st (js ''event: '' @ name) = (name, snd st)" and "parse_line st (js ''data: '' @ d) = (fst st, snd st @ [d])"
    for st name d by (simp_all add: parse_line_def)
  then show ?thesis unfolding parseEventBlock_def sse_block_def frame_lines [OF assms] by (simp add: Let_def del: js_Cons)
qed

lemma sse_block_one_block:
  "10 \<notin> set event \<Longrightarrow> 10 \<notin> set data \<Longrightarrow> split_block (sse_block event data @ [10]) = None"
  using split_block_lines [of "js ''event: '' @ event" "js ''data: '' @ data"] by (simp add: sse_block_def)

lemma sse_block_no_cr: "13 \<notin> set event \<Longrightarrow> 13 \<notin> set data \<Longrightarrow> 13 \<notin> set (sse_block event data)"
  by (simp add: sse_block_def)

text \<open>
  What a reader promises about the frames a backend writes: a good frame is one block without carriage returns, and
  its block delivers the events of the frame.
\<close>

locale framed_stream =
  fixes deliver :: "jsstring \<Rightarrow> 'e + 'v list" and block :: "'f \<Rightarrow> jsstring" and events :: "'f \<Rightarrow> 'v list"
    and good :: "'f \<Rightarrow> bool"
  assumes delivered: "good f \<Longrightarrow> deliver (block f) = Inr (events f)"
    and one_block: "good f \<Longrightarrow> split_block (block f @ [10]) = None"
    and no_cr: "good f \<Longrightarrow> 13 \<notin> set (block f)"
begin

abbreviation written :: "'f list \<Rightarrow> jsstring" where
  "written fs \<equiv> concat (map (\<lambda>f. block f @ [10, 10]) fs)"

lemma flush_frame:
  assumes "good f"
  shows "flush_blocks deliver (block f @ 10 # 10 # rest)
    = (let (evs, err, rest') = flush_blocks deliver rest in (events f @ evs, err, rest'))"
  using split_block_at [OF one_block [OF assms], of rest] delivered [OF assms]
  by (subst flush_blocks.simps) simp

lemma flush_frames: "list_all good fs \<Longrightarrow> flush_blocks deliver (written fs) = (concat (map events fs), None, [])"
proof (induction fs)
  case Nil
  show ?case by (simp add: flush_blocks.simps)
next
  case (Cons f fs)
  then show ?case by (simp add: flush_frame)
qed

lemma frames_delivered:
  assumes "list_all good fs" and "concat chunks @ final = written fs"
  shows "consume_stream deliver [] chunks final = (concat (map events fs), None)"
proof -
  have cr: "13 \<notin> set (written fs)" using assms(1) by (induction fs) (simp_all add: no_cr)
  then have "list_all (\<lambda>c. c = [] \<or> last c \<noteq> 13) chunks"
    using assms(2) [symmetric] by (force simp: list_all_iff dest: last_in_set)
  from consume_chunks_at_once [OF this, of "[]" deliver final] assms(2)
  have "consume_stream deliver [] chunks final = consume_stream deliver [] [] (written fs)" by simp
  then show ?thesis
    by (simp add: normalize_id [OF cr] flush_frames [OF assms(1)] flush_remainder_def js_trim_def)
qed

end

end
