(* ===== verification/Agent_Stream.thy ===== *)
theory Agent_Stream
  imports Agent_Types Event_Stream
begin

text \<open>
  The event stream of a conversation, in \<^verbatim>\<open>features/agent/api/client.ts\<close>: what a block of the stream delivers, and the
  reader. \<open>JSON.parse\<close> with the cast to an event is the argument \<open>parse\<close>: \<open>None\<close> when it throws.
\<close>

section \<open>The reader\<close>

definition isSupportedAgentConversationStreamEventType :: "jsstring \<Rightarrow> bool" where
  "isSupportedAgentConversationStreamEventType value =
     (value = js ''message-start'' \<or> value = js ''text-delta'' \<or> value = js ''reasoning-delta''
      \<or> value = js ''tool-call'' \<or> value = js ''message-complete'' \<or> value = js ''error'')"

datatype stream_error =
    UnsupportedEventType jsstring
  | InvalidPayload jsstring
  | EventTypeMismatch jsstring jsstring

type_synonym payload_parser = "jsstring \<Rightarrow> AgentConversationStreamEvent option"

definition deliver_block :: "payload_parser \<Rightarrow> jsstring \<Rightarrow> stream_error + AgentConversationStreamEvent list" where
  "deliver_block parse block =
     (case parseEventBlock block of
        None \<Rightarrow> Inr []
      | Some (data, event) \<Rightarrow>
          if \<not> isSupportedAgentConversationStreamEventType event then Inl (UnsupportedEventType event)
          else (case parse data of
                  None \<Rightarrow> Inl (InvalidPayload data)
                | Some payload \<Rightarrow>
                    if event_type payload \<noteq> event then Inl (EventTypeMismatch event (event_type payload))
                    else Inr [payload]))"

definition consumeAgentConversationStream ::
    "payload_parser \<Rightarrow> jsstring list \<Rightarrow> jsstring \<Rightarrow> AgentConversationStreamEvent list \<times> stream_error option" where
  "consumeAgentConversationStream parse chunks final = consume_stream (deliver_block parse) [] chunks final"

text \<open>
  C35: the reader does not depend on how the network cuts the text: as long as no read ends between a
  carriage return and its line feed, the events delivered, their order and the error thrown, if any, are
  those of reading the whole text at once.
\<close>
theorem stream_independent_of_chunks:
  assumes "list_all (\<lambda>c. c = [] \<or> last c \<noteq> 13) chunks" and "list_all (\<lambda>c. c = [] \<or> last c \<noteq> 13) chunks'"
    and "concat chunks @ final = concat chunks' @ final'"
  shows "consumeAgentConversationStream parse chunks final = consumeAgentConversationStream parse chunks' final'"
  unfolding consumeAgentConversationStream_def
  using consume_chunks_at_once [OF assms(1), of "[]" "deliver_block parse" final]
    consume_chunks_at_once [OF assms(2), of "[]" "deliver_block parse" final'] assms(3) by simp

text \<open>The condition is needed: a read that ends between the two characters splits the event in two.\<close>

definition sample_event :: AgentConversationStreamEvent where
  "sample_event = TextDelta (js ''m'') (js ''hi'')"

definition sample_parser :: payload_parser where
  "sample_parser d = (if d = js ''x'' then Some sample_event else None)"

lemmas stream_eval =
  flush_blocks.simps flush_remainder_def deliver_block_def parseEventBlock_def parse_line_def sample_parser_def
  sample_event_def consumeAgentConversationStream_def isSupportedAgentConversationStreamEventType_def Let_def

abbreviation crlf_head :: jsstring where "crlf_head \<equiv> js ''event: text-delta'' @ [13]"
abbreviation crlf_tail :: jsstring where "crlf_tail \<equiv> 10 # js ''data: x'' @ [13, 10, 13, 10]"

lemma split_crlf_breaks_event:
  "consumeAgentConversationStream sample_parser [crlf_head @ crlf_tail] [] = ([sample_event], None)"
  "consumeAgentConversationStream sample_parser [crlf_head, crlf_tail] []
     = ([], Some (UnsupportedEventType (js ''message'')))"
  by (simp_all add: stream_eval js_simps)

theorem stream_independent_of_chunks_witness:
  "consumeAgentConversationStream sample_parser [js ''event: text-del'', js ''ta'' @ [10] @ js ''data: x'', [10, 10]] []
     = consumeAgentConversationStream sample_parser [] (js ''event: text-delta'' @ [10] @ js ''data: x'' @ [10, 10])"
  by (rule stream_independent_of_chunks) simp_all

section \<open>Delivery\<close>

text \<open>A frame is an event with the text of its payload.\<close>

type_synonym event_frame = "AgentConversationStreamEvent \<times> jsstring"

definition frame_ok :: "payload_parser \<Rightarrow> event_frame \<Rightarrow> bool" where
  "frame_ok parse frame \<longleftrightarrow> 10 \<notin> set (snd frame) \<and> 13 \<notin> set (snd frame) \<and> parse (snd frame) = Some (fst frame)
     \<and> isSupportedAgentConversationStreamEventType (event_type (fst frame))"

lemma supported_one_line:
  "isSupportedAgentConversationStreamEventType name \<Longrightarrow> 10 \<notin> set name \<and> 13 \<notin> set name"
  by (auto simp: isSupportedAgentConversationStreamEventType_def)

abbreviation frame_block :: "event_frame \<Rightarrow> jsstring" where
  "frame_block frame \<equiv> sse_block (event_type (fst frame)) (snd frame)"

interpretation agent_events: framed_stream "deliver_block parse" frame_block "\<lambda>frame. [fst frame]" "frame_ok parse"
proof
  fix f assume ok: "frame_ok parse f"
  then have type: "10 \<notin> set (event_type (fst f)) \<and> 13 \<notin> set (event_type (fst f))"
    using supported_one_line by (auto simp: frame_ok_def)
  show "deliver_block parse (frame_block f) = Inr [fst f]"
    using ok type by (simp add: deliver_block_def parse_sse_block frame_ok_def)
  show "split_block (frame_block f @ [10]) = None" using ok type by (simp add: sse_block_one_block frame_ok_def)
  show "13 \<notin> set (frame_block f)" using ok type by (simp add: sse_block_no_cr frame_ok_def)
qed

text \<open>
  C36: every event reaches the panel: when the backend writes any sequence of supported events, each with its
  payload on one line and followed by a blank line, then in whatever pieces the text arrives, the reader delivers
  exactly these events in order and throws nothing.
\<close>
theorem stream_delivers_events:
  assumes "list_all (frame_ok parse) frames"
    and "concat chunks @ final = concat (map (\<lambda>f. sse_block (event_type (fst f)) (snd f) @ [10, 10]) frames)"
  shows "consumeAgentConversationStream parse chunks final = (map fst frames, None)"
  using agent_events.frames_delivered [OF assms] by (simp add: consumeAgentConversationStream_def)

theorem stream_delivers_events_witness:
  "consumeAgentConversationStream sample_parser [js ''event: text-de'', js ''lta'' @ 10 # js ''data: x'', [10]] [10]
     = ([sample_event], None)"
proof -
  have "list_all (frame_ok sample_parser) [(sample_event, js ''x'')]"
    by (simp add: frame_ok_def sample_parser_def sample_event_def isSupportedAgentConversationStreamEventType_def)
  from stream_delivers_events [OF this, of "[js ''event: text-de'', js ''lta'' @ 10 # js ''data: x'', [10]]" "[10]"]
  show ?thesis by (simp add: sse_block_def sample_event_def)
qed

end
