(* ===== verification/Agent_Flow.thy ===== *)
theory Agent_Flow
  imports Agent_Types
begin

text \<open>
  The interaction flow of the agent panel, \<^verbatim>\<open>features/agent/model/interaction-flow.ts\<close> and
  \<^verbatim>\<open>chat-message-utils.ts\<close>: how a prompt is classified by its keywords, the plan, approval, questionnaire
  and audit messages, the progress of an audit, and the list of interaction messages. Cyrillic literals are
  written as code units. The clock is an argument.
\<close>

section \<open>Keywords\<close>

definition ENVIRONMENT_OPTIONS :: "QuestionnaireOption list" where
  "ENVIRONMENT_OPTIONS =
     [\<lparr>option_label = js ''Production'', option_value = js ''production''\<rparr>,
      \<lparr>option_label = js ''Staging'', option_value = js ''staging''\<rparr>,
      \<lparr>option_label = js ''Development'', option_value = js ''development''\<rparr>]"

definition READ_KEYWORDS :: "jsstring list" where
  "READ_KEYWORDS =
     [js ''config'', js ''file'', js ''read'', js ''open file'', js ''inspect file'',
      [1092, 1072, 1081, 1083], [1087, 1088, 1086, 1095, 1080, 1090, 1072, 1081],
      [1087, 1088, 1086, 1095, 1077, 1089, 1090, 1100], [1095, 1080, 1090, 1072, 1090, 1100],
      [1082, 1086, 1085, 1092, 1080, 1075]]"

definition API_KEYWORDS :: "jsstring list" where
  "API_KEYWORDS =
     [js ''api'', js ''http'', js ''request'', js ''fetch'', js ''webhook'',
      [1079, 1072, 1087, 1088, 1086, 1089], [1072, 1087, 1080], [1074, 1077, 1073, 1093, 1091, 1082]]"

definition SAVE_KEYWORDS :: "jsstring list" where
  "SAVE_KEYWORDS =
     [js ''save'', js ''write'', js ''update'', js ''persist'', js ''edit'', js ''change'',
      [1089, 1086, 1093, 1088, 1072, 1085, 1080], [1079, 1072, 1087, 1080, 1096, 1080],
      [1086, 1073, 1085, 1086, 1074, 1080], [1080, 1079, 1084, 1077, 1085, 1080]]"

definition EXECUTION_KEYWORDS :: "jsstring list" where
  "EXECUTION_KEYWORDS =
     [js ''deploy'', js ''run'', js ''execute'', js ''release'', js ''apply'', js ''migrate'',
      [1079, 1072, 1087, 1091, 1089, 1090, 1080], [1074, 1099, 1087, 1086, 1083, 1085, 1080],
      [1076, 1077, 1087, 1083, 1086, 1081], [1088, 1077, 1083, 1080, 1079],
      [1087, 1088, 1080, 1084, 1077, 1085, 1080], [1084, 1080, 1075, 1088, 1072, 1094]]"

definition TERMINAL_EXECUTION_KEYWORDS :: "jsstring list" where
  "TERMINAL_EXECUTION_KEYWORDS =
     [js ''check'', js ''show'', js ''inspect'', js ''status'', js ''logs'', js ''disk'', js ''space'',
      js ''memory'', js ''cpu'', js ''process'', js ''service'', js ''port'', js ''console'',
      js ''terminal'', js ''ssh'', [1087, 1088, 1086, 1074, 1077, 1088, 1100],
      [1087, 1086, 1089, 1084, 1086, 1090, 1088, 1080], [1087, 1086, 1082, 1072, 1078, 1080],
      [1089, 1090, 1072, 1090, 1091, 1089], [1083, 1086, 1075, 1080], [1076, 1080, 1089, 1082],
      [1084, 1077, 1089, 1090, 1086], [1087, 1072, 1084, 1103, 1090, 1100],
      [1087, 1088, 1086, 1094, 1077, 1089, 1089], [1089, 1077, 1088, 1074, 1080, 1089],
      [1087, 1086, 1088, 1090], [1082, 1086, 1085, 1089, 1086, 1083, 1100],
      [1090, 1077, 1088, 1084, 1080, 1085, 1072, 1083], js ''ssh'']"

definition ENVIRONMENT_HINT_KEYWORDS :: "jsstring list" where
  "ENVIRONMENT_HINT_KEYWORDS =
     [js ''environment'', js ''production'', js ''staging'', js ''development'', js ''prod'',
      js ''stage'', js ''deploy'', js ''release'', [1086, 1082, 1088, 1091, 1078, 1077, 1085],
      [1087, 1088, 1086, 1076], [1089, 1090, 1077, 1081, 1076, 1078],
      [1088, 1072, 1079, 1088, 1072, 1073, 1086, 1090, 1082], [1076, 1077, 1087, 1083, 1086, 1081],
      [1088, 1077, 1083, 1080, 1079]]"

definition EXPLICIT_ENVIRONMENTS :: "jsstring list" where
  "EXPLICIT_ENVIRONMENTS =
     [js ''production'', js ''staging'', js ''development'', js ''dev'', js ''prod'', js ''stage'',
      [1087, 1088, 1086, 1076], [1089, 1090, 1077, 1081, 1076, 1078],
      [1088, 1072, 1079, 1088, 1072, 1073, 1086, 1090, 1082]]"

definition containsAnyKeyword :: "jsstring \<Rightarrow> jsstring list \<Rightarrow> bool" where
  "containsAnyKeyword value keywords = list_ex (js_includes value) keywords"

section \<open>Plans\<close>

fun dedupe_from :: "jsstring list \<Rightarrow> PlanTool list \<Rightarrow> PlanTool list" where
  "dedupe_from seen [] = []"
| "dedupe_from seen (tool # tools) =
     (if tool_name tool \<in> set seen then dedupe_from seen tools
      else tool # dedupe_from (tool_name tool # seen) tools)"

definition dedupeTools :: "PlanTool list \<Rightarrow> PlanTool list" where
  "dedupeTools tools = dedupe_from [] tools"

definition plan_tool :: "string \<Rightarrow> string \<Rightarrow> PlanTool" where
  "plan_tool name description = \<lparr>tool_name = js name, tool_description = Some (js description)\<rparr>"

definition buildPlanTools :: "host \<Rightarrow> jsstring \<Rightarrow> bool \<Rightarrow> PlanTool list" where
  "buildPlanTools h prompt hasTerminalContext =
     (let normalizedPrompt = toLowerCase h prompt in
      dedupeTools
        ((if containsAnyKeyword normalizedPrompt READ_KEYWORDS
          then [plan_tool ''read_file'' ''Inspect the relevant project files before execution.''] else [])
         @ (if containsAnyKeyword normalizedPrompt API_KEYWORDS
            then [plan_tool ''http_request'' ''Call the required backend or external API.''] else [])
         @ (if containsAnyKeyword normalizedPrompt SAVE_KEYWORDS
            then [plan_tool ''save_result'' ''Persist the resulting change after the checks pass.''] else [])
         @ (if containsAnyKeyword normalizedPrompt EXECUTION_KEYWORDS
            then [plan_tool ''execute_plan'' ''Run the approved execution step.''] else [])
         @ (if hasTerminalContext \<and> containsAnyKeyword normalizedPrompt TERMINAL_EXECUTION_KEYWORDS
            then [plan_tool ''execute_terminal''
                   ''Plan and run the approved terminal command in the selected shell context.''] else [])))"

definition buildPlanSteps :: "host \<Rightarrow> jsstring \<Rightarrow> bool \<Rightarrow> jsstring option \<Rightarrow> jsstring list" where
  "buildPlanSteps h prompt needsQuestionnaire answer =
     (let normalizedPrompt = toLowerCase h prompt;
          mentions = (\<lambda>ws. containsAnyKeyword normalizedPrompt (map js ws));
          steps = (if needsQuestionnaire \<and> \<not> js_truthy answer then [js ''Confirm the target environment''] else [])
            @ (if mentions [''config'', ''file'', ''read''] then [js ''Read config''] else [])
            @ (if mentions [''api'', ''http'', ''request'', ''fetch''] then [js ''Call API''] else [])
            @ (if mentions [''save'', ''write'', ''update'', ''persist''] then [js ''Save result''] else []);
          filled = (if steps = []
            then [js ''Inspect the request'', js ''Run the approved execution'', js ''Summarize the result'']
            else steps);
          answered = (case answer of
              None \<Rightarrow> filled
            | Some a \<Rightarrow> if a = [] then filled else (js ''Target environment: '' @ a) # filled)
      in js_unique answered)"

definition needsEnvironmentQuestionnaire :: "host \<Rightarrow> jsstring \<Rightarrow> jsstring option \<Rightarrow> bool" where
  "needsEnvironmentQuestionnaire h prompt answer =
     (let normalizedPrompt = toLowerCase h prompt;
          normalizedAnswer = (case answer of None \<Rightarrow> [] | Some a \<Rightarrow> toLowerCase h (js_trim a))
      in containsAnyKeyword normalizedPrompt ENVIRONMENT_HINT_KEYWORDS
         \<and> \<not> containsAnyKeyword (normalizedPrompt @ 10 # normalizedAnswer) EXPLICIT_ENVIRONMENTS)"

definition classifyMessageIntent ::
    "host \<Rightarrow> jsstring \<Rightarrow> jsstring option \<Rightarrow> bool \<Rightarrow> InteractionClassification" where
  "classifyMessageIntent h prompt answer hasTerminalContext =
     (let tools = buildPlanTools h prompt hasTerminalContext in
      if needsEnvironmentQuestionnaire h prompt answer \<and> tools \<noteq> []
      then \<lparr>class_intent = IntentQuestion, class_tools = tools\<rparr>
      else if tools = [] then \<lparr>class_intent = IntentChat, class_tools = []\<rparr>
      else \<lparr>class_intent = IntentExecution, class_tools = tools\<rparr>)"

section \<open>Messages of a flow\<close>

definition createPlanMessage ::
    "host \<Rightarrow> jsstring \<Rightarrow> jsstring \<Rightarrow> PlanTool list \<Rightarrow> ChatMessageSortKey \<Rightarrow> jsstring option \<Rightarrow> PlanMessage" where
  "createPlanMessage h flowID prompt tools sortKey answer =
     \<lparr>plan_id = flowID @ js ''-plan'', plan_planId = flowID,
      plan_steps = buildPlanSteps h prompt (needsEnvironmentQuestionnaire h prompt answer) answer,
      plan_tools = tools, plan_sortKey = Some sortKey\<rparr>"

definition createApprovalMessage :: "jsstring \<Rightarrow> ChatMessageSortKey \<Rightarrow> ApprovalState \<Rightarrow> ApprovalMessage" where
  "createApprovalMessage flowID sortKey status =
     \<lparr>approval_id = flowID @ js ''-approval'', approval_planId = flowID, approval_status = status,
      approval_sortKey = Some sortKey\<rparr>"

definition createQuestionnaireMessage :: "jsstring \<Rightarrow> ChatMessageSortKey \<Rightarrow> QuestionnaireMessage" where
  "createQuestionnaireMessage flowID sortKey =
     \<lparr>questionnaire_id = flowID @ js ''-questionnaire'', questionnaire_question = js ''Choose environment:'',
      questionnaire_options = ENVIRONMENT_OPTIONS, questionnaire_allowCustom = True, questionnaire_answer = None,
      questionnaire_status = QuestionPending, questionnaire_sortKey = Some sortKey\<rparr>"

definition createAuditMessage :: "jsstring \<Rightarrow> PlanTool list \<Rightarrow> int \<Rightarrow> ChatMessageSortKey \<Rightarrow> AuditMessage" where
  "createAuditMessage flowID tools now sortKey =
     \<lparr>audit_id = flowID @ js ''-audit'',
      audit_entries = map (\<lambda>(index, tool).
          \<lparr>audit_tool = tool_name tool,
           audit_status = (if index = 0 then AuditRunning else AuditPending),
           audit_timestamp = (if index = 0 then Some now else None)\<rparr>)
        (zip [0..<length tools] tools),
      audit_sortKey = Some sortKey\<rparr>"

definition createPendingInteractionFlow ::
    "host \<Rightarrow> jsstring \<Rightarrow> jsstring \<Rightarrow> nat \<Rightarrow> LocalSortKeyGenerator \<Rightarrow> jsstring option \<Rightarrow> bool \<Rightarrow>
     InteractionClassification \<times> PendingInteractionFlow option \<times> ChatMessageView list" where
  "createPendingInteractionFlow h hostID prompt sequence nextSortKey answer hasTerminalContext =
     (let flowID = js ''agent-flow-'' @ hostID @ js ''-'' @ js_of_nat sequence;
          classification = classifyMessageIntent h prompt answer hasTerminalContext;
          base = \<lparr>flow_approvalMessageID = None, flow_attachments = None, flow_auditMessageID = None,
            flow_auditProgressed = False, flow_flowID = flowID, flow_prompt = prompt,
            flow_questionnaireMessageID = None, flow_runApproval = None,
            flow_tools = class_tools classification\<rparr>
      in case class_intent classification of
           IntentChat \<Rightarrow> (classification, None, [])
         | IntentQuestion \<Rightarrow>
             (let q = createQuestionnaireMessage flowID (nextSortKey 0)
              in (classification, Some (base\<lparr>flow_questionnaireMessageID := Some (questionnaire_id q)\<rparr>),
                  [QuestionnaireView q]))
         | IntentExecution \<Rightarrow>
             (let plan = createPlanMessage h flowID prompt (class_tools classification) (nextSortKey 0) answer;
                  approval = createApprovalMessage flowID (nextSortKey 1) ApprovalPending
              in (classification, Some (base\<lparr>flow_approvalMessageID := Some (approval_id approval)\<rparr>),
                  [PlanView plan, ApprovalView approval])))"

definition updateApprovalMessageStatus ::
    "ApprovalMessage \<Rightarrow> ApprovalState \<Rightarrow> ChatMessageSortKey \<Rightarrow> ApprovalMessage" where
  "updateApprovalMessageStatus message status sortKey =
     message\<lparr>approval_status := status, approval_sortKey := Some sortKey\<rparr>"

definition updateQuestionnaireMessageAnswer ::
    "QuestionnaireMessage \<Rightarrow> jsstring \<Rightarrow> ChatMessageSortKey \<Rightarrow> QuestionnaireMessage" where
  "updateQuestionnaireMessageAnswer message answer sortKey =
     message\<lparr>questionnaire_answer := Some answer, questionnaire_status := QuestionAnswered,
       questionnaire_sortKey := Some sortKey\<rparr>"

section \<open>Audit entries\<close>

definition mark_entry :: "int \<Rightarrow> AuditEntryStatus \<Rightarrow> AuditEntry \<Rightarrow> AuditEntry" where
  "mark_entry now status entry = entry\<lparr>audit_status := status, audit_timestamp := Some now\<rparr>"

definition advanceAuditEntries :: "int \<Rightarrow> AuditEntry list \<Rightarrow> AuditEntry list" where
  "advanceAuditEntries now entries =
     (let runningIndex = js_findIndex (\<lambda>e. audit_status e = AuditRunning) entries in
      if runningIndex < 0 then entries
      else
        (let nextPendingIndex = js_findIndex (\<lambda>(index, e). int index > runningIndex \<and> audit_status e = AuditPending)
               (zip [0..<length entries] entries)
         in if nextPendingIndex < 0 then entries
            else map (\<lambda>(index, e). if int index = runningIndex then mark_entry now AuditDone e
                   else if int index = nextPendingIndex then mark_entry now AuditRunning e else e)
                 (zip [0..<length entries] entries)))"

definition completeAuditEntries :: "int \<Rightarrow> AuditEntry list \<Rightarrow> AuditEntry list" where
  "completeAuditEntries now entries = map (mark_entry now AuditDone) entries"

definition failAuditEntries :: "int \<Rightarrow> AuditEntry list \<Rightarrow> AuditEntry list" where
  "failAuditEntries now entries =
     (let runningIndex = js_findIndex (\<lambda>e. audit_status e = AuditRunning) entries;
          firstPendingIndex = js_findIndex (\<lambda>e. audit_status e = AuditPending) entries;
          targetIndex = (if runningIndex \<ge> 0 then runningIndex else firstPendingIndex)
      in if targetIndex < 0 then entries
         else map (\<lambda>(index, e). if int index = targetIndex then mark_entry now AuditError e else e)
              (zip [0..<length entries] entries))"

section \<open>The list of interaction messages\<close>

definition createOptimisticUserConversationMessage ::
    "jsstring \<Rightarrow> nat \<Rightarrow> jsstring \<Rightarrow> AgentAttachmentReference list option \<Rightarrow> jsstring \<Rightarrow> AgentConversationMessage" where
  "createOptimisticUserConversationMessage hostId sequence prompt attachments nowISO =
     \<lparr>msg_id = js ''agent-local-user-'' @ hostId @ js ''-'' @ js_of_nat sequence, msg_role = RoleUser,
      msg_content = prompt, msg_attachments = Some (js_default attachments []), msg_status = StatusComplete,
      msg_provider = None, msg_model = None, msg_reasoning = None, msg_created_at = nowISO\<rparr>"

definition sortMessagesBySortKey :: "ChatMessageView list \<Rightarrow> ChatMessageView list" where
  "sortMessagesBySortKey messages =
     js_sort (\<lambda>left right. js_default (message_sortKey left) 0 - js_default (message_sortKey right) 0) messages"

definition upsertInteractionMessage :: "ChatMessageView list \<Rightarrow> ChatMessageView \<Rightarrow> ChatMessageView list" where
  "upsertInteractionMessage currentMessages nextMessage =
     (let messageIndex = js_findIndex (\<lambda>m. message_id m = message_id nextMessage) currentMessages in
      if messageIndex < 0 then sortMessagesBySortKey (currentMessages @ [nextMessage])
      else sortMessagesBySortKey (currentMessages[nat messageIndex := nextMessage]))"

definition updateInteractionMessage ::
    "ChatMessageView list \<Rightarrow> jsstring \<Rightarrow> (ChatMessageView \<Rightarrow> ChatMessageView) \<Rightarrow> ChatMessageView list" where
  "updateInteractionMessage currentMessages messageID update =
     (let messageIndex = js_findIndex (\<lambda>m. message_id m = messageID) currentMessages in
      if messageIndex < 0 then currentMessages
      else sortMessagesBySortKey
             (currentMessages[nat messageIndex := update (currentMessages ! nat messageIndex)]))"

section \<open>Classification\<close>

lemma dedupe_from_distinct:
  "distinct (map tool_name tools) \<Longrightarrow> set (map tool_name tools) \<inter> set seen = {} \<Longrightarrow> dedupe_from seen tools = tools"
  by (induction tools arbitrary: seen) auto

lemma dedupe_from_names:
  "distinct (map tool_name (dedupe_from seen tools)) \<and> set (map tool_name (dedupe_from seen tools)) \<inter> set seen = {}"
  by (induction seen tools rule: dedupe_from.induct) auto

lemma dedupeTools_Nil [simp]: "dedupeTools tools = [] \<longleftrightarrow> tools = []"
  by (cases tools) (simp_all add: dedupeTools_def)

text \<open>The prompt names a tool: it has a keyword of one of the groups.\<close>

definition mentions_tool :: "host \<Rightarrow> jsstring \<Rightarrow> bool \<Rightarrow> bool" where
  "mentions_tool h prompt hasTerminalContext =
     (let p = toLowerCase h prompt in
      list_ex (containsAnyKeyword p) [READ_KEYWORDS, API_KEYWORDS, SAVE_KEYWORDS, EXECUTION_KEYWORDS]
      \<or> hasTerminalContext \<and> containsAnyKeyword p TERMINAL_EXECUTION_KEYWORDS)"

lemma buildPlanTools_Nil: "buildPlanTools h prompt ctx = [] \<longleftrightarrow> \<not> mentions_tool h prompt ctx"
  by (auto simp: buildPlanTools_def mentions_tool_def Let_def)

lemma buildPlanTools_distinct: "distinct (map tool_name (buildPlanTools h prompt ctx))"
  using dedupe_from_names [of "[]"] by (simp add: buildPlanTools_def dedupeTools_def Let_def)

lemma containsAnyKeyword_append: "containsAnyKeyword v ks \<Longrightarrow> containsAnyKeyword (u @ x # v) ks"
proof -
  assume "containsAnyKeyword v ks"
  then obtain k a b where k: "k \<in> set ks" "v = a @ k @ b"
    by (auto simp: containsAnyKeyword_def list_ex_iff js_includes_iff)
  then have "u @ x # v = (u @ x # a) @ k @ b" by simp
  then show ?thesis
    unfolding containsAnyKeyword_def list_ex_iff js_includes_iff using k(1) by blast
qed

lemma js_trim_environment:
  "o' \<in> set ENVIRONMENT_OPTIONS \<Longrightarrow> js_trim (option_value o') = option_value o'"
  by (auto simp: ENVIRONMENT_OPTIONS_def js_simps)

lemma environment_is_explicit:
  "o' \<in> set ENVIRONMENT_OPTIONS \<Longrightarrow> containsAnyKeyword (option_value o') EXPLICIT_ENVIRONMENTS"
  by (auto simp: ENVIRONMENT_OPTIONS_def EXPLICIT_ENVIRONMENTS_def containsAnyKeyword_def)

lemma offered_answer_settles:
  assumes "o' \<in> set ENVIRONMENT_OPTIONS" and "toLowerCase h (option_value o') = option_value o'"
  shows "\<not> needsEnvironmentQuestionnaire h prompt (Some (option_value o'))"
  using assms containsAnyKeyword_append [OF environment_is_explicit [OF assms(1)]]
  by (simp add: needsEnvironmentQuestionnaire_def js_trim_environment Let_def)

lemma class_intent_cases:
  "class_intent (classifyMessageIntent h prompt answer ctx) = IntentChat \<longleftrightarrow> \<not> mentions_tool h prompt ctx"
  "class_intent (classifyMessageIntent h prompt answer ctx) = IntentQuestion
     \<longleftrightarrow> mentions_tool h prompt ctx \<and> needsEnvironmentQuestionnaire h prompt answer"
  "class_tools (classifyMessageIntent h prompt answer ctx) = buildPlanTools h prompt ctx"
  using buildPlanTools_Nil [of h prompt ctx] by (auto simp: classifyMessageIntent_def Let_def)

text \<open>
  C33: a prompt opens a flow exactly when it names a tool, and the flow never skips the operator: it starts
  with one pending question (when the environment is needed and unknown) or with a plan and a pending
  approval, its messages have different ids, the flow points at the message the operator must answer, and
  its tools are not empty and differ in name. Answering the question with an offered environment settles
  it: the prompt is then classified as an execution of the same tools.
\<close>
theorem pending_flow_asks_operator:
  assumes "createPendingInteractionFlow h hostID prompt sequence nextKey answer ctx = (c, flow, messages)"
    and "o' \<in> set ENVIRONMENT_OPTIONS" and "toLowerCase h (option_value o') = option_value o'"
  shows "(flow = None \<longleftrightarrow> \<not> mentions_tool h prompt ctx) \<and> (flow = None \<longrightarrow> messages = [])
    \<and> (\<forall>f. flow = Some f \<longrightarrow>
         flow_tools f \<noteq> [] \<and> distinct (map tool_name (flow_tools f)) \<and> distinct (map message_id messages)
         \<and> (if needsEnvironmentQuestionnaire h prompt answer
            then \<exists>q. messages = [QuestionnaireView q] \<and> questionnaire_status q = QuestionPending
                 \<and> flow_questionnaireMessageID f = Some (questionnaire_id q) \<and> flow_approvalMessageID f = None
            else \<exists>p a. messages = [PlanView p, ApprovalView a] \<and> approval_status a = ApprovalPending
                 \<and> plan_tools p = flow_tools f \<and> approval_planId a = flow_flowID f
                 \<and> flow_approvalMessageID f = Some (approval_id a) \<and> flow_questionnaireMessageID f = None)
         \<and> classifyMessageIntent h prompt (Some (option_value o')) ctx
             = \<lparr>class_intent = IntentExecution, class_tools = flow_tools f\<rparr>)"
proof -
  have settled: "classifyMessageIntent h prompt (Some (option_value o')) ctx
      = \<lparr>class_intent = IntentExecution, class_tools = buildPlanTools h prompt ctx\<rparr>" if "mentions_tool h prompt ctx"
    using that offered_answer_settles [OF assms(2,3)] buildPlanTools_Nil by (simp add: classifyMessageIntent_def)
  show ?thesis
  proof (cases "class_intent (classifyMessageIntent h prompt answer ctx)")
    case IntentChat
    then show ?thesis using assms(1) class_intent_cases(1) [of h prompt answer ctx]
      by (auto simp: createPendingInteractionFlow_def Let_def)
  next
    case IntentQuestion
    then show ?thesis
      using assms(1) class_intent_cases(2) [of h prompt answer ctx] settled buildPlanTools_distinct
      by (auto simp: createPendingInteractionFlow_def createQuestionnaireMessage_def class_intent_cases(3)
          buildPlanTools_Nil Let_def)
  next
    case IntentExecution
    then show ?thesis
      using assms(1) class_intent_cases(1,2) [of h prompt answer ctx] settled buildPlanTools_distinct
      by (auto simp: createPendingInteractionFlow_def createPlanMessage_def createApprovalMessage_def
          class_intent_cases(3) buildPlanTools_Nil Let_def)
  qed
qed

lemma deploy_prompt:
  "mentions_tool ascii_host (js ''deploy'') False" "needsEnvironmentQuestionnaire ascii_host (js ''deploy'') None"
  "staging = ENVIRONMENT_OPTIONS ! 1 \<Longrightarrow> staging \<in> set ENVIRONMENT_OPTIONS"
  "staging = ENVIRONMENT_OPTIONS ! 1 \<Longrightarrow> toLowerCase ascii_host (option_value staging) = option_value staging"
  by (simp_all add: mentions_tool_def needsEnvironmentQuestionnaire_def containsAnyKeyword_def ascii_host_def ascii_lower_def
      EXECUTION_KEYWORDS_def ENVIRONMENT_HINT_KEYWORDS_def EXPLICIT_ENVIRONMENTS_def ENVIRONMENT_OPTIONS_def Let_def)

theorem pending_flow_asks_operator_witness:
  "\<exists>f q. fst (snd (createPendingInteractionFlow ascii_host (js ''h'') (js ''deploy'') 0 int None False)) = Some f
     \<and> snd (snd (createPendingInteractionFlow ascii_host (js ''h'') (js ''deploy'') 0 int None False)) = [QuestionnaireView q]
     \<and> questionnaire_status q = QuestionPending"
proof -
  obtain c flow messages where
    eq: "createPendingInteractionFlow ascii_host (js ''h'') (js ''deploy'') 0 int None False = (c, flow, messages)"
    by (metis prod_cases3)
  from pending_flow_asks_operator [OF eq deploy_prompt(3) [OF refl] deploy_prompt(4) [OF refl]]
  obtain f where "flow = Some f" using deploy_prompt(1) by (cases flow) auto
  with pending_flow_asks_operator [OF eq deploy_prompt(3) [OF refl] deploy_prompt(4) [OF refl]] deploy_prompt(2)
  show ?thesis unfolding eq by auto
qed

section \<open>The progress of an audit\<close>

text \<open>
  The statuses of an audit under any sequence of updates: finished entries, then failed ones, then at most
  one running entry (only while nothing failed), then pending ones.
\<close>

datatype audit_update = AuditAdvance int | AuditComplete int | AuditFail int

fun apply_audit :: "audit_update \<Rightarrow> AuditEntry list \<Rightarrow> AuditEntry list" where
  "apply_audit (AuditAdvance now) entries = advanceAuditEntries now entries"
| "apply_audit (AuditComplete now) entries = completeAuditEntries now entries"
| "apply_audit (AuditFail now) entries = failAuditEntries now entries"

definition audit_shape :: "nat \<Rightarrow> nat \<Rightarrow> bool \<Rightarrow> nat \<Rightarrow> AuditEntryStatus list" where
  "audit_shape done failed running pending =
     replicate done AuditDone @ replicate failed AuditError @ (if running then [AuditRunning] else [])
       @ replicate pending AuditPending"

definition stamped :: "AuditEntry \<Rightarrow> bool" where
  "stamped entry \<longleftrightarrow> (audit_timestamp entry = None) = (audit_status entry = AuditPending)"

lemma mark_entry_simps [simp]:
  "audit_status (mark_entry now st e) = st" "audit_tool (mark_entry now st e) = audit_tool e"
  "stamped (mark_entry now st e) \<longleftrightarrow> st \<noteq> AuditPending"
  by (simp_all add: mark_entry_def stamped_def)

text \<open>Updating the entry at an index, as the indexed \<open>map\<close> of the source does.\<close>

lemma map_zip_update:
  assumes "i < length xs"
  shows "map (\<lambda>(j, x). if int j = int i then f x else x) (zip [0..<length xs] xs) = xs[i := f (xs ! i)]"
  using assms by (intro nth_equalityI) (auto simp: nth_list_update)

lemma map_zip_update2:
  assumes "i < length xs" and "k < length xs" and "i \<noteq> k"
  shows "map (\<lambda>(j, x). if int j = int i then f x else if int j = int k then g x else x) (zip [0..<length xs] xs)
    = xs[i := f (xs ! i), k := g (xs ! k)]"
  using assms by (intro nth_equalityI) (auto simp: nth_list_update)

lemma js_findIndex_eqI:
  assumes "i < length xs" and "P (xs ! i)" and "\<And>j. j < i \<Longrightarrow> \<not> P (xs ! j)"
  shows "js_findIndex P xs = int i"
proof (rule js_findIndex_cases [of P xs])
  assume "\<forall>x\<in>set xs. \<not> P x"
  then show ?thesis using assms(1,2) nth_mem by blast
next
  fix k assume "js_findIndex P xs = int k" "P (xs ! k)" "\<forall>j<k. \<not> P (xs ! j)"
  then show ?thesis using assms by (metis linorder_neqE_nat)
qed

lemma shape_nth:
  "j < d \<Longrightarrow> audit_shape d f r p ! j = AuditDone"
  "d \<le> j \<Longrightarrow> j < d + f \<Longrightarrow> audit_shape d f r p ! j = AuditError"
  "j = d + f \<Longrightarrow> audit_shape d f True p ! j = AuditRunning"
  "d + f < j \<Longrightarrow> j < Suc (d + f + p) \<Longrightarrow> audit_shape d f True p ! j = AuditPending"
  "d + f \<le> j \<Longrightarrow> j < d + f + p \<Longrightarrow> audit_shape d f False p ! j = AuditPending"
  by (auto simp: audit_shape_def nth_append nth_Cons')

lemma length_shape [simp]: "length (audit_shape d f r p) = d + f + (if r then 1 else 0) + p"
  by (simp add: audit_shape_def)

lemma shape_status:
  "map audit_status entries = audit_shape d f r p \<Longrightarrow> j < length entries
     \<Longrightarrow> audit_status (entries ! j) = audit_shape d f r p ! j"
  by (metis nth_map)

lemma shape_length:
  "map audit_status entries = audit_shape d f r p \<Longrightarrow> length entries = d + f + (if r then 1 else 0) + p"
  by (metis length_map length_shape)

lemma set_shape:
  "set (audit_shape d f r p) = (if d = 0 then {} else {AuditDone}) \<union> (if f = 0 then {} else {AuditError})
     \<union> (if r then {AuditRunning} else {}) \<union> (if p = 0 then {} else {AuditPending})"
  by (auto simp: audit_shape_def)

lemma status_absent:
  assumes "map audit_status entries = audit_shape d f r p" and "st \<notin> set (audit_shape d f r p)"
  shows "\<forall>e\<in>set entries. audit_status e \<noteq> st"
  using assms by (metis image_eqI list.set_map)

lemma advance_shape:
  assumes "map audit_status entries = audit_shape d 0 True (Suc p)"
  shows "advanceAuditEntries now entries
    = entries[d := mark_entry now AuditDone (entries ! d), Suc d := mark_entry now AuditRunning (entries ! Suc d)]"
proof -
  have len: "length entries = Suc (Suc (d + p))" using shape_length [OF assms] by simp
  have st: "audit_status (entries ! j) = audit_shape d 0 True (Suc p) ! j" if "j < length entries" for j
    by (rule shape_status [OF assms that])
  have run: "js_findIndex (\<lambda>e. audit_status e = AuditRunning) entries = int d"
    using len st shape_nth(1) [of _ d 0 True "Suc p"] shape_nth(3) [of d d 0 "Suc p"] by (intro js_findIndex_eqI) auto
  have pend: "js_findIndex (\<lambda>(index, e). int d < int index \<and> audit_status e = AuditPending) (zip [0..<length entries] entries)
      = int (Suc d)"
    using len st [of "Suc d"] shape_nth(4) [of d 0 "Suc d" "Suc p"]
    by (intro js_findIndex_eqI) (auto simp del: upt_Suc)
  show ?thesis
    unfolding advanceAuditEntries_def run Let_def pend
    using map_zip_update2 [of d entries "Suc d" "mark_entry now AuditDone" "mark_entry now AuditRunning"] len
    by simp
qed

lemma advance_stuck:
  assumes "map audit_status entries = audit_shape d f r p" and "\<not> r \<or> p = 0"
  shows "advanceAuditEntries now entries = entries"
proof (cases r)
  case True
  then have "\<forall>e\<in>set entries. audit_status e \<noteq> AuditPending"
    using assms by (intro status_absent [OF assms(1)]) (simp add: set_shape)
  then have "js_findIndex (\<lambda>(index, e). k < int index \<and> audit_status e = AuditPending) (zip [0..<length entries] entries) = -1" for k
    by (auto dest: set_zip_rightD)
  then show ?thesis by (simp add: advanceAuditEntries_def Let_def del: js_findIndex_eq_minus1)
next
  case False
  then have "js_findIndex (\<lambda>e. audit_status e = AuditRunning) entries = -1"
    using status_absent [OF assms(1), of AuditRunning] by (simp add: set_shape)
  then show ?thesis by (simp add: advanceAuditEntries_def del: js_findIndex_eq_minus1)
qed

lemma fail_shape:
  assumes "map audit_status entries = audit_shape d f r p" and "r \<longrightarrow> f = 0"
  shows "failAuditEntries now entries
    = (if r \<or> 0 < p then entries[d + f := mark_entry now AuditError (entries ! (d + f))] else entries)"
proof -
  have len: "length entries = d + f + (if r then 1 else 0) + p" by (rule shape_length [OF assms(1)])
  have st: "audit_status (entries ! j) = audit_shape d f r p ! j" if "j < length entries" for j
    by (rule shape_status [OF assms(1) that])
  have before: "audit_status (entries ! j) \<in> {AuditDone, AuditError}" if "j < d + f" "j < length entries" for j
    using st [OF that(2)] shape_nth(1) [of j d f r p] shape_nth(2) [of d j f r p] that by (cases "j < d") auto
  have update: "map (\<lambda>(index, e). if int index = int (d + f) then mark_entry now AuditError e else e)
      (zip [0..<length entries] entries) = entries[d + f := mark_entry now AuditError (entries ! (d + f))]"
    if "d + f < length entries"
    using map_zip_update [OF that, of "mark_entry now AuditError"] by simp
  show ?thesis
  proof (cases r)
    case True
    then have "js_findIndex (\<lambda>e. audit_status e = AuditRunning) entries = int (d + f)"
      using len st [of "d + f"] shape_nth(3) [of "d + f" d f p] before by (intro js_findIndex_eqI) fastforce+
    then show ?thesis using True len update by (simp add: failAuditEntries_def Let_def)
  next
    case False
    then have none: "js_findIndex (\<lambda>e. audit_status e = AuditRunning) entries = -1"
      using status_absent [OF assms(1), of AuditRunning] by (simp add: set_shape)
    show ?thesis
    proof (cases p)
      case 0
      then have "js_findIndex (\<lambda>e. audit_status e = AuditPending) entries = -1"
        using False status_absent [OF assms(1), of AuditPending] by (simp add: set_shape)
      then show ?thesis using none 0 False by (simp add: failAuditEntries_def Let_def del: js_findIndex_eq_minus1)
    next
      case (Suc q)
      then have "js_findIndex (\<lambda>e. audit_status e = AuditPending) entries = int (d + f)"
        using False len st [of "d + f"] shape_nth(5) [of d f "d + f" p] before by (intro js_findIndex_eqI) fastforce+
      then show ?thesis using none Suc False len update
        by (simp add: failAuditEntries_def Let_def del: js_findIndex_eq_minus1)
    qed
  qed
qed

lemma shape_update:
  "(audit_shape d 0 True (Suc p))[d := AuditDone, Suc d := AuditRunning] = audit_shape (Suc d) 0 True p"
  "(audit_shape d 0 True p)[d := AuditError] = audit_shape d 1 False p"
  "(audit_shape d f False (Suc p))[d + f := AuditError] = audit_shape d (Suc f) False p"
  by (simp_all add: audit_shape_def list_update_append replicate_append_same [symmetric] del: replicate_Suc)
     (simp_all add: replicate_append_same)

definition audit_inv :: "AuditEntry list \<Rightarrow> bool" where
  "audit_inv entries \<longleftrightarrow> list_all stamped entries
     \<and> (\<exists>d f r p. map audit_status entries = audit_shape d f r p \<and> (r \<longrightarrow> f = 0))"

lemma list_all_update: "list_all P xs \<Longrightarrow> P x \<Longrightarrow> list_all P (xs[i := x])"
  using set_update_subset_insert [of xs i x] by (auto simp: list_all_iff)

lemma map_list_update_id: "i < length xs \<Longrightarrow> (map f xs)[i := f (xs ! i)] = map f xs"
  by (metis list_update_id nth_map)

lemma apply_audit_inv:
  assumes "audit_inv entries"
  shows "audit_inv (apply_audit u entries)" and "map audit_tool (apply_audit u entries) = map audit_tool entries"
proof -
  obtain d f r p where shape: "map audit_status entries = audit_shape d f r p" "r \<longrightarrow> f = 0"
    and st: "list_all stamped entries" using assms by (auto simp: audit_inv_def)
  have len: "length entries = d + f + (if r then 1 else 0) + p" by (rule shape_length [OF shape(1)])
  have "audit_inv (apply_audit u entries) \<and> map audit_tool (apply_audit u entries) = map audit_tool entries"
  proof (cases u)
    case (AuditAdvance now)
    show ?thesis
    proof (cases "r \<and> 0 < p")
      case True
      then obtain q where q: "p = Suc q" "map audit_status entries = audit_shape d 0 True (Suc q)"
        using shape by (cases p) auto
      have "map audit_status (advanceAuditEntries now entries) = audit_shape (Suc d) 0 True q"
        unfolding advance_shape [OF q(2)] by (simp add: map_update q(2) shape_update)
      then show ?thesis
        using AuditAdvance st shape_length [OF q(2)] advance_shape [OF q(2), of now]
        by (auto simp: audit_inv_def map_update list_all_update map_list_update_id)
    next
      case False
      then show ?thesis using AuditAdvance assms advance_stuck [OF shape(1), of now] by auto
    qed
  next
    case (AuditComplete now)
    have "map audit_status (completeAuditEntries now entries) = audit_shape (length entries) 0 False 0"
      by (simp add: completeAuditEntries_def audit_shape_def comp_def map_replicate_const)
    then show ?thesis using AuditComplete by (auto simp: audit_inv_def completeAuditEntries_def list_all_iff comp_def)
  next
    case (AuditFail now)
    show ?thesis
    proof (cases "r \<or> 0 < p")
      case True
      have "map audit_status (failAuditEntries now entries) = audit_shape d (Suc f) False (if r then p else p - 1)"
        unfolding fail_shape [OF shape] using True shape
        by (cases r; cases p) (auto simp: map_update shape_update)
      then show ?thesis
        using AuditFail st len True fail_shape [OF shape, of now]
        by (auto simp: audit_inv_def map_update list_all_update map_list_update_id)
    next
      case False
      then show ?thesis using AuditFail assms fail_shape [OF shape, of now] by auto
    qed
  qed
  then show "audit_inv (apply_audit u entries)" and "map audit_tool (apply_audit u entries) = map audit_tool entries"
    by auto
qed

lemma create_audit_shape:
  "map audit_status (audit_entries (createAuditMessage flowID tools now sortKey))
     = audit_shape 0 0 (tools \<noteq> []) (length tools - 1)"
  "list_all stamped (audit_entries (createAuditMessage flowID tools now sortKey))"
  "map audit_tool (audit_entries (createAuditMessage flowID tools now sortKey)) = map tool_name tools"
proof -
  show "map audit_status (audit_entries (createAuditMessage flowID tools now sortKey))
      = audit_shape 0 0 (tools \<noteq> []) (length tools - 1)"
    by (intro nth_equalityI) (auto simp: createAuditMessage_def audit_shape_def nth_Cons' Suc_diff_Suc)
  show "list_all stamped (audit_entries (createAuditMessage flowID tools now sortKey))"
    by (auto simp: createAuditMessage_def list_all_iff stamped_def split: if_splits)
  show "map audit_tool (audit_entries (createAuditMessage flowID tools now sortKey)) = map tool_name tools"
    by (intro nth_equalityI) (auto simp: createAuditMessage_def)
qed

lemma fold_audit_inv:
  "audit_inv entries \<Longrightarrow> audit_inv (fold apply_audit us entries)
     \<and> map audit_tool (fold apply_audit us entries) = map audit_tool entries"
  by (induction us arbitrary: entries) (simp_all add: apply_audit_inv)

lemma advances_shape:
  assumes "map audit_status entries = audit_shape d 0 True p" and "length us \<le> p"
    and "list_all (\<lambda>u. \<exists>now. u = AuditAdvance now) us"
  shows "map audit_status (fold apply_audit us entries) = audit_shape (d + length us) 0 True (p - length us)"
  using assms
proof (induction us arbitrary: entries d p)
  case (Cons u us)
  then obtain now q where u: "u = AuditAdvance now" "p = Suc q" by (cases p) auto
  have "map audit_status (apply_audit u entries) = audit_shape (Suc d) 0 True q"
    using advance_shape [of entries d q now] Cons.prems(1) u by (simp add: map_update shape_update)
  from Cons.IH [OF this] Cons.prems u show ?case by simp
qed simp

text \<open>
  C34: the audit of an approved plan: whatever updates it receives, it keeps the tools of the plan in order,
  and its entries are finished ones, then failed ones, then at most one running entry (none once something
  failed), then pending ones; exactly the entries that left the pending state have a time. While only
  progress is reported, the audit advances through the tools one by one, and completion finishes them all.
\<close>
theorem audit_progress_invariant:
  assumes "list_all (\<lambda>u. \<exists>t. u = AuditAdvance t) steps" and "length steps < length tools"
  shows "let start = audit_entries (createAuditMessage flowID tools now sortKey);
             entries = fold apply_audit updates start
    in map audit_tool entries = map tool_name tools \<and> list_all stamped entries
     \<and> (\<exists>d f r p. map audit_status entries = audit_shape d f r p \<and> (r \<longrightarrow> f = 0))
     \<and> map audit_status (fold apply_audit steps start)
         = audit_shape (length steps) 0 True (length tools - length steps - 1)
     \<and> map audit_status (apply_audit (AuditComplete t) entries) = audit_shape (length tools) 0 False 0"
proof -
  let ?start = "audit_entries (createAuditMessage flowID tools now sortKey)"
  have "audit_inv ?start"
    unfolding audit_inv_def using create_audit_shape(1,2) [of flowID tools now sortKey] by blast
  note inv = fold_audit_inv [OF this, of updates]
  then have "length (fold apply_audit updates ?start) = length tools"
    using create_audit_shape(3) [of flowID tools now sortKey] by (metis length_map)
  then have complete: "map audit_status (apply_audit (AuditComplete t) (fold apply_audit updates ?start))
      = audit_shape (length tools) 0 False 0"
    by (simp add: completeAuditEntries_def audit_shape_def comp_def map_replicate_const)
  have start: "map audit_status ?start = audit_shape 0 0 True (length tools - 1)"
    using create_audit_shape(1) [of flowID tools now sortKey] assms(2) by (cases tools) auto
  have "map audit_status (fold apply_audit steps ?start)
      = audit_shape (length steps) 0 True (length tools - length steps - 1)"
    using advances_shape [OF start _ assms(1)] assms(2) by (simp add: diff_commute)
  with inv complete show ?thesis
    unfolding Let_def audit_inv_def create_audit_shape(3) by blast
qed

theorem audit_progress_invariant_witness:
  "let start = audit_entries (createAuditMessage [] [plan_tool ''a'' [], plan_tool ''b'' []] 0 0)
   in map audit_status (fold apply_audit [AuditAdvance 1] start) = [AuditDone, AuditRunning]
     \<and> map audit_tool (fold apply_audit [AuditFail 1, AuditFail 2] start) = [js ''a'', js ''b'']"
proof -
  have "list_all (\<lambda>u. \<exists>t. u = AuditAdvance t) [AuditAdvance 1]"
    "length [AuditAdvance 1] < length [plan_tool ''a'' [], plan_tool ''b'' []]" by simp_all
  from audit_progress_invariant [OF this, of "[]" 0 0 "[AuditFail 1, AuditFail 2]" 0]
  show ?thesis unfolding Let_def by (simp add: audit_shape_def plan_tool_def)
qed

end
