(* ===== verification/Agent_Conversation.thy ===== *)
theory Agent_Conversation
  imports Agent_Flow Commander_Client
begin

text \<open>
  The conversation of the agent panel, \<^verbatim>\<open>features/agent/model/panel-state.ts\<close> and \<^verbatim>\<open>chat-message-view.ts\<close>: what
  each stream event does to the messages, how streaming messages are closed, and how messages become views.
  \<open>Date.parse\<close> is the argument \<open>dp\<close> (milliseconds, \<open>None\<close> for an invalid date).
\<close>

section \<open>Messages under stream events\<close>

definition upsertConversationMessage ::
    "AgentConversationMessage list \<Rightarrow> AgentConversationMessage \<Rightarrow> AgentConversationMessage list" where
  "upsertConversationMessage messages message =
     (let index = js_findIndex (\<lambda>m. msg_id m = msg_id message) messages in
      if index < 0 then messages @ [message] else messages[nat index := message])"

definition updateConversationMessage ::
    "AgentConversationMessage list \<Rightarrow> jsstring \<Rightarrow> (AgentConversationMessage \<Rightarrow> AgentConversationMessage) \<Rightarrow>
     AgentConversationMessage list" where
  "updateConversationMessage messages messageID update =
     (let index = js_findIndex (\<lambda>m. msg_id m = messageID) messages in
      if index < 0 then messages else messages[nat index := update (messages ! nat index)])"

definition appendConversationReasoning :: "AgentConversationMessage \<Rightarrow> jsstring \<Rightarrow> AgentConversationMessage" where
  "appendConversationReasoning message delta =
     (let trimmedDelta = js_trim delta in
      if trimmedDelta = [] then message
      else
        (let currentReasoning = js_default (map_option js_trim (msg_reasoning message)) [];
             reasoning = (if currentReasoning \<noteq> [] then currentReasoning @ [10, 10] @ trimmedDelta else trimmedDelta)
         in message\<lparr>msg_reasoning := Some reasoning, msg_status := StatusStreaming\<rparr>))"

text \<open>\<open>a?.trim() || b\<close>.\<close>

definition trim_or :: "jsstring option \<Rightarrow> jsstring \<Rightarrow> jsstring" where
  "trim_or a b = (case a of None \<Rightarrow> b | Some s \<Rightarrow> if js_trim s = [] then b else js_trim s)"

definition formatToolCallReasoningLine :: "AgentConversationToolCall \<Rightarrow> jsstring" where
  "formatToolCallReasoningLine toolCall =
     (let status = trim_or (call_status toolCall) (js ''updated'');
          name = trim_or (call_summary toolCall) (trim_or (call_name toolCall) (trim_or (call_kind toolCall) (js ''tool'')));
          output = trim_or (call_output toolCall) [];
          input = trim_or (call_input toolCall) [];
          details = [js ''Tool '' @ status @ js '': '' @ name]
            @ (if output \<noteq> [] then [js ''Output: '' @ output]
               else if input \<noteq> [] then [js ''Input: '' @ input] else [])
            @ (case call_exit_code toolCall of None \<Rightarrow> [] | Some c \<Rightarrow> [js ''Exit code: '' @ js_of_int c])
      in js_join 10 details)"

definition appendAgentConversationMessage ::
    "AgentConversationMessage list \<Rightarrow> AgentConversationMessage \<Rightarrow> AgentConversationMessage list" where
  "appendAgentConversationMessage messages message = messages @ [message]"

definition removeAgentConversationMessage :: "AgentConversationMessage list \<Rightarrow> jsstring \<Rightarrow> AgentConversationMessage list" where
  "removeAgentConversationMessage messages messageID = filter (\<lambda>m. msg_id m \<noteq> messageID) messages"

definition finalize_message :: "jsstring \<Rightarrow> AgentConversationMessage \<Rightarrow> AgentConversationMessage" where
  "finalize_message errorText message =
     (if msg_status message \<noteq> StatusStreaming then message
      else
        (let content = js_trim (msg_content message)
         in message\<lparr>msg_content := (if content \<noteq> [] then content else errorText), msg_status := StatusError\<rparr>))"

definition finalizeAgentConversationStreamingMessages ::
    "AgentConversationMessage list \<Rightarrow> jsstring \<Rightarrow> AgentConversationMessage list" where
  "finalizeAgentConversationStreamingMessages messages errorText = map (finalize_message errorText) messages"

definition append_text :: "jsstring \<Rightarrow> AgentConversationMessage \<Rightarrow> AgentConversationMessage" where
  "append_text delta message =
     message\<lparr>msg_content := msg_content message @ delta, msg_status := StatusStreaming\<rparr>"

fun applyAgentConversationStreamEvent ::
    "AgentConversationMessage list \<Rightarrow> AgentConversationStreamEvent \<Rightarrow> AgentConversationMessage list" where
  "applyAgentConversationStreamEvent messages (MessageStart _ message) = upsertConversationMessage messages message"
| "applyAgentConversationStreamEvent messages (TextDelta messageID delta) =
     updateConversationMessage messages messageID (append_text delta)"
| "applyAgentConversationStreamEvent messages (ReasoningDelta messageID delta) =
     updateConversationMessage messages messageID (\<lambda>m. appendConversationReasoning m delta)"
| "applyAgentConversationStreamEvent messages (ToolCall messageID toolCall) =
     updateConversationMessage messages messageID
       (\<lambda>m. appendConversationReasoning m (formatToolCallReasoningLine toolCall))"
| "applyAgentConversationStreamEvent messages (MessageComplete _ message) = upsertConversationMessage messages message"
| "applyAgentConversationStreamEvent messages (StreamError _ (Some message) _) = upsertConversationMessage messages message"
| "applyAgentConversationStreamEvent messages (StreamError _ None error) =
     finalizeAgentConversationStreamingMessages messages (trim_or error (js ''Agent stream failed.''))"
| "applyAgentConversationStreamEvent messages (OtherEvent _) = messages"

section \<open>Views\<close>

definition capitalizeLabel :: "host \<Rightarrow> jsstring \<Rightarrow> jsstring" where
  "capitalizeLabel h value = (case value of [] \<Rightarrow> [] | c # rest \<Rightarrow> toUpperCase h [c] @ rest)"

definition formatConversationTimestamp :: "(jsstring \<Rightarrow> int option) \<Rightarrow> jsstring \<Rightarrow> jsstring" where
  "formatConversationTimestamp dp timestamp = (case dp timestamp of None \<Rightarrow> [] | Some ms \<Rightarrow> utc_minute (ms div 1000))"

definition createConversationMessageSortKey :: "(jsstring \<Rightarrow> int option) \<Rightarrow> jsstring \<Rightarrow> int \<Rightarrow> ChatMessageSortKey" where
  "createConversationMessageSortKey dp timestamp fallbackIndex =
     (case dp timestamp of None \<Rightarrow> fallbackIndex | Some v \<Rightarrow> v * 1000 + fallbackIndex)"

fun status_label :: "conversation_status \<Rightarrow> jsstring" where
  "status_label StatusStreaming = js ''streaming''"
| "status_label StatusComplete = js ''complete''"
| "status_label StatusError = js ''error''"

fun role_label :: "conversation_role \<Rightarrow> jsstring" where
  "role_label RoleSystem = js ''system''"
| "role_label RoleUser = js ''user''"
| "role_label RoleAssistant = js ''assistant''"

definition when_present :: "'a list option \<Rightarrow> ('a list \<Rightarrow> 'b list) \<Rightarrow> 'b list" where
  "when_present v f = (case v of None \<Rightarrow> [] | Some x \<Rightarrow> if x = [] then [] else f x)"

definition buildFallbackAssistantReasoning :: "(jsstring \<Rightarrow> int option) \<Rightarrow> AgentConversationMessage \<Rightarrow> jsstring" where
  "buildFallbackAssistantReasoning dp message =
     (let createdAt = formatConversationTimestamp dp (msg_created_at message) in
      js_join 10
        ([js ''Status: '' @ status_label (msg_status message)]
         @ (if createdAt \<noteq> [] then [js ''Created: '' @ createdAt] else [])
         @ when_present (msg_provider message) (\<lambda>p. [js ''Provider: '' @ p])
         @ when_present (msg_model message) (\<lambda>m. [js ''Model: '' @ m])
         @ when_present (msg_attachments message)
             (map (\<lambda>a. js ''Attachment: '' @ attachment_name a @ js '' ('' @ attachment_path a @ js '')''))))"

definition buildAssistantReasoning :: "(jsstring \<Rightarrow> int option) \<Rightarrow> AgentConversationMessage \<Rightarrow> jsstring" where
  "buildAssistantReasoning dp message = trim_or (msg_reasoning message) (buildFallbackAssistantReasoning dp message)"

text \<open>\<open>parts.join(' \<cdot> ')\<close>: a middle dot between spaces.\<close>

fun join_dots :: "jsstring list \<Rightarrow> jsstring" where
  "join_dots [] = []"
| "join_dots [p] = p"
| "join_dots (p # q # ps) = p @ [32, 183, 32] @ join_dots (q # ps)"

definition buildAssistantSummary :: "host \<Rightarrow> (jsstring \<Rightarrow> int option) \<Rightarrow> AgentConversationMessage \<Rightarrow> jsstring" where
  "buildAssistantSummary h dp message =
     (let createdAt = formatConversationTimestamp dp (msg_created_at message) in
      join_dots
        ([capitalizeLabel h (role_label (msg_role message)), status_label (msg_status message)]
         @ when_present (msg_provider message) (\<lambda>p. [p])
         @ when_present (msg_model message) (\<lambda>m. [m])
         @ when_present (msg_attachments message)
             (\<lambda>as. [js_of_nat (length as) @ js '' attachment'' @ (if length as = 1 then [] else js ''s'')])
         @ (if createdAt \<noteq> [] then [createdAt] else [])))"

definition buildAssistantMeta ::
    "host \<Rightarrow> (jsstring \<Rightarrow> int option) \<Rightarrow> AgentConversationMessage \<Rightarrow> jsstring option \<Rightarrow> MessageMeta option" where
  "buildAssistantMeta h dp message prompt =
     (let meta = \<lparr>meta_provider = msg_provider message, meta_model = msg_model message,
            meta_status = Some (status_label (msg_status message)),
            meta_reasoning = Some (buildAssistantReasoning dp message), meta_prompt = prompt,
            meta_summary = Some (buildAssistantSummary h dp message)\<rparr>
      in if list_ex js_truthy [meta_status meta, meta_provider meta, meta_model meta, meta_reasoning meta,
              meta_prompt meta, meta_summary meta]
         then Some meta else None)"

definition getMessageContent :: "AgentConversationMessage \<Rightarrow> jsstring" where
  "getMessageContent message =
     (let trimmedContent = js_trim (msg_content message)
      in if trimmedContent \<noteq> [] then trimmedContent else msg_content message)"

definition mapConversationMessageToChatMessageView ::
    "host \<Rightarrow> (jsstring \<Rightarrow> int option) \<Rightarrow> AgentConversationMessage \<Rightarrow> jsstring option \<Rightarrow> int \<Rightarrow> ChatMessageView" where
  "mapConversationMessageToChatMessageView h dp message prompt fallbackIndex =
     ChatView
       \<lparr>chat_id = msg_id message,
        chat_role = (if msg_role message = RoleUser then ChatUser else ChatAssistant),
        chat_content = getMessageContent message,
        chat_attachments = msg_attachments message,
        chat_meta = (if msg_role message = RoleUser then None else buildAssistantMeta h dp message prompt),
        chat_sortKey = Some (createConversationMessageSortKey dp (msg_created_at message) fallbackIndex)\<rparr>"

text \<open>The loop over the reversed messages: the last prompt seen and the map of prompts.\<close>

fun collect_prompts ::
    "AgentConversationMessage list \<Rightarrow> jsstring option \<Rightarrow> (jsstring \<rightharpoonup> jsstring option) \<Rightarrow> (jsstring \<rightharpoonup> jsstring option)" where
  "collect_prompts [] lastUserPrompt prompts = prompts"
| "collect_prompts (message # messages) lastUserPrompt prompts =
     (if msg_role message = RoleUser
      then collect_prompts messages
             (if getMessageContent message = [] then None else Some (getMessageContent message)) prompts
      else collect_prompts messages lastUserPrompt (prompts(msg_id message \<mapsto> lastUserPrompt)))"

definition mapConversationMessagesToChatMessageViews ::
    "host \<Rightarrow> (jsstring \<Rightarrow> int option) \<Rightarrow> AgentConversationMessage list \<Rightarrow> ChatMessageView list" where
  "mapConversationMessagesToChatMessageViews h dp messages =
     (let assistantPrompts = collect_prompts (rev messages) None Map.empty in
      map (\<lambda>(index, message).
          mapConversationMessageToChatMessageView h dp message
            (if msg_role message = RoleAssistant then Option.bind (assistantPrompts (msg_id message)) id else None)
            (int (length messages) - int index))
        (zip [0..<length messages] messages))"

section \<open>The state of the panel\<close>

definition createPanelState :: "ChatMessageView list \<Rightarrow> AiPanelWidgetState" where
  "createPanelState messages =
     \<lparr>panel_title = js ''AI RUNE'', panel_toolbarLabel = js ''TOOL BAR'', panel_activeTool = js ''Chat'',
      panel_messages = messages, panel_composerPlaceholder = js ''Text Area''\<rparr>"

definition createStatusMessage :: "jsstring \<Rightarrow> jsstring \<Rightarrow> MessageMeta option \<Rightarrow> ChatMessageView" where
  "createStatusMessage ident content meta =
     ChatView \<lparr>chat_id = ident, chat_role = ChatAssistant, chat_content = content, chat_attachments = None,
       chat_meta = meta, chat_sortKey = Some 0\<rparr>"

definition status_meta :: "jsstring \<Rightarrow> jsstring \<Rightarrow> MessageMeta option" where
  "status_meta reasoning summary =
     Some \<lparr>meta_provider = None, meta_model = None, meta_status = None, meta_reasoning = Some reasoning,
       meta_prompt = None, meta_summary = Some summary\<rparr>"

definition createAgentPanelLoadingState :: AiPanelWidgetState where
  "createAgentPanelLoadingState =
     createPanelState [createStatusMessage (js ''agent-loading'') (js ''Loading backend conversation.'')
       (status_meta (js ''Route: GET /api/v1/agent/conversation'') (js ''Loading''))]"

definition createAgentPanelErrorState :: "jsstring \<Rightarrow> AiPanelWidgetState" where
  "createAgentPanelErrorState message =
     createPanelState [createStatusMessage (js ''agent-error'') message
       (status_meta (js ''Route: GET /api/v1/agent/conversation'') (js ''Backend error''))]"

definition createAgentPanelStateFromMessages ::
    "host \<Rightarrow> (jsstring \<Rightarrow> int option) \<Rightarrow> AgentConversationMessage list \<Rightarrow> AgentConversationProvider option \<Rightarrow> AiPanelWidgetState" where
  "createAgentPanelStateFromMessages h dp messages provider =
     (if messages = [] then
        (let providerLabel = (case provider of
                None \<Rightarrow> js ''backend''
              | Some p \<Rightarrow> (case provider_model p of
                    None \<Rightarrow> provider_kind p
                  | Some m \<Rightarrow> if m = [] then provider_kind p else join_dots [provider_kind p, m]));
             streaming = (case provider of None \<Rightarrow> False | Some p \<Rightarrow> provider_streaming p)
         in createPanelState [createStatusMessage (js ''agent-empty'') (js ''Backend conversation is empty.'')
              (status_meta
                (js_join 10 [js ''Provider: '' @ providerLabel,
                   js ''Streaming: '' @ (if streaming then js ''enabled'' else js ''disabled'')])
                (js ''Waiting for the first backend message.''))])
      else createPanelState (mapConversationMessagesToChatMessageViews h dp messages))"

definition createAgentPanelStateFromConversation ::
    "host \<Rightarrow> (jsstring \<Rightarrow> int option) \<Rightarrow> AgentConversationSnapshot \<Rightarrow> AiPanelWidgetState" where
  "createAgentPanelStateFromConversation h dp snapshot =
     createAgentPanelStateFromMessages h dp (conversation_messages snapshot) (Some (conversation_provider snapshot))"

definition appendAgentPanelStatusMessage ::
    "AiPanelWidgetState \<Rightarrow> jsstring \<Rightarrow> jsstring \<Rightarrow> MessageMeta option \<Rightarrow> AiPanelWidgetState" where
  "appendAgentPanelStatusMessage panelState ident content meta =
     panelState\<lparr>panel_messages := panel_messages panelState @ [createStatusMessage ident content meta]\<rparr>"

text \<open>What the panel shows, \<^verbatim>\<open>panelState\<close> of \<^verbatim>\<open>use-agent-panel.ts\<close>.\<close>

definition panelState ::
    "host \<Rightarrow> (jsstring \<Rightarrow> int option) \<Rightarrow> AgentConversationMessage list option \<Rightarrow> AgentConversationProvider option \<Rightarrow>
     ChatMessageView list \<Rightarrow> jsstring option \<Rightarrow> jsstring option \<Rightarrow> AiPanelWidgetState" where
  "panelState h dp messages provider interactionMessages loadError submitError =
     (let baseState = (case messages of
              None \<Rightarrow> (if js_truthy loadError then createAgentPanelErrorState (the loadError) else createAgentPanelLoadingState)
            | Some ms \<Rightarrow> createAgentPanelStateFromMessages h dp ms provider);
          shown = (if js_truthy submitError
            then appendAgentPanelStatusMessage baseState (js ''agent-submit-error'') (the submitError)
                   (status_meta (js ''Route: POST /api/v1/agent/conversation/messages/stream'') (js ''Backend error''))
            else baseState)
      in shown\<lparr>panel_messages := sortMessagesBySortKey (interactionMessages @ panel_messages shown)\<rparr>)"

section \<open>Assembling an answer\<close>

abbreviation lookup_message :: "AgentConversationMessage list \<Rightarrow> jsstring \<Rightarrow> AgentConversationMessage option" where
  "lookup_message messages i \<equiv> List.find (\<lambda>m. msg_id m = i) messages"

abbreviation other_messages :: "AgentConversationMessage list \<Rightarrow> jsstring \<Rightarrow> AgentConversationMessage list" where
  "other_messages messages i \<equiv> filter (\<lambda>m. msg_id m \<noteq> i) messages"

lemma find_nth_first:
  assumes "k < length xs" and "P (xs ! k)" and "\<forall>j<k. \<not> P (xs ! j)"
  shows "List.find P xs = Some (xs ! k)"
  using assms by (auto simp: find_Some_iff)

lemma filter_list_update:
  assumes "k < length xs" and "\<not> P (xs ! k)" and "\<not> P y"
  shows "filter P (xs[k := y]) = filter P xs"
proof -
  have "xs = take k xs @ xs ! k # drop (Suc k) xs" using assms(1) by (rule id_take_nth_drop)
  moreover have "xs[k := y] = take k xs @ y # drop (Suc k) xs" using assms(1) by (rule upd_conv_take_nth_drop)
  ultimately show ?thesis using assms(2,3) by (metis (no_types, lifting) filter.simps(2) filter_append)
qed

lemma message_update:
  assumes "\<And>m. msg_id (f m) = msg_id m"
  shows "lookup_message (updateConversationMessage ms i f) i = map_option f (lookup_message ms i)"
    and "other_messages (updateConversationMessage ms i f) i = other_messages ms i"
    and "map msg_id (updateConversationMessage ms i f) = map msg_id ms"
proof -
  have "lookup_message (updateConversationMessage ms i f) i = map_option f (lookup_message ms i)
    \<and> other_messages (updateConversationMessage ms i f) i = other_messages ms i
    \<and> map msg_id (updateConversationMessage ms i f) = map msg_id ms"
  proof (rule js_findIndex_cases [of "\<lambda>m. msg_id m = i" ms])
    assume "js_findIndex (\<lambda>m. msg_id m = i) ms = -1" "\<forall>m\<in>set ms. msg_id m \<noteq> i"
    moreover have "lookup_message ms i = None" using calculation(2) by (auto simp: find_None_iff)
    ultimately show ?thesis by (simp add: updateConversationMessage_def del: js_findIndex_eq_minus1)
  next
    fix k assume k: "js_findIndex (\<lambda>m. msg_id m = i) ms = int k" "k < length ms" "msg_id (ms ! k) = i"
      "\<forall>j<k. msg_id (ms ! j) \<noteq> i"
    have "lookup_message ms i = Some (ms ! k)" using k by (intro find_nth_first) auto
    moreover have "lookup_message (ms[k := f (ms ! k)]) i = Some ((ms[k := f (ms ! k)]) ! k)"
      using k assms by (intro find_nth_first) auto
    moreover have "map msg_id (ms[k := f (ms ! k)]) = map msg_id ms"
      using map_list_update_id [OF k(2), of msg_id] assms by (simp add: map_update)
    ultimately show ?thesis
      using k assms by (simp add: updateConversationMessage_def filter_list_update)
  qed
  then show "lookup_message (updateConversationMessage ms i f) i = map_option f (lookup_message ms i)"
    and "other_messages (updateConversationMessage ms i f) i = other_messages ms i"
    and "map msg_id (updateConversationMessage ms i f) = map msg_id ms" by auto
qed

lemma message_upsert:
  "lookup_message (upsertConversationMessage ms m) (msg_id m) = Some m"
  "other_messages (upsertConversationMessage ms m) (msg_id m) = other_messages ms (msg_id m)"
  "map msg_id (upsertConversationMessage ms m)
     = (if msg_id m \<in> msg_id ` set ms then map msg_id ms else map msg_id ms @ [msg_id m])"
proof -
  have "lookup_message (upsertConversationMessage ms m) (msg_id m) = Some m
    \<and> other_messages (upsertConversationMessage ms m) (msg_id m) = other_messages ms (msg_id m)
    \<and> map msg_id (upsertConversationMessage ms m)
        = (if msg_id m \<in> msg_id ` set ms then map msg_id ms else map msg_id ms @ [msg_id m])"
  proof (rule js_findIndex_cases [of "\<lambda>x. msg_id x = msg_id m" ms])
    assume none: "js_findIndex (\<lambda>x. msg_id x = msg_id m) ms = -1" "\<forall>x\<in>set ms. msg_id x \<noteq> msg_id m"
    then have "lookup_message (ms @ [m]) (msg_id m) = Some ((ms @ [m]) ! length ms)"
      by (intro find_nth_first) (auto simp: nth_append)
    then show ?thesis using none by (auto simp: upsertConversationMessage_def simp del: js_findIndex_eq_minus1)
  next
    fix k assume k: "js_findIndex (\<lambda>x. msg_id x = msg_id m) ms = int k" "k < length ms" "msg_id (ms ! k) = msg_id m"
      "\<forall>j<k. msg_id (ms ! j) \<noteq> msg_id m"
    have "lookup_message (ms[k := m]) (msg_id m) = Some ((ms[k := m]) ! k)" using k by (intro find_nth_first) auto
    moreover have "msg_id m \<in> msg_id ` set ms" using k(2,3) by (metis image_eqI nth_mem)
    moreover have "map msg_id (ms[k := m]) = map msg_id ms"
      using map_list_update_id [OF k(2), of msg_id] k(3) by (simp add: map_update)
    ultimately show ?thesis using k by (simp add: upsertConversationMessage_def filter_list_update)
  qed
  then show "lookup_message (upsertConversationMessage ms m) (msg_id m) = Some m"
    and "other_messages (upsertConversationMessage ms m) (msg_id m) = other_messages ms (msg_id m)"
    and "map msg_id (upsertConversationMessage ms m)
     = (if msg_id m \<in> msg_id ` set ms then map msg_id ms else map msg_id ms @ [msg_id m])" by auto
qed

text \<open>The partial updates of a message, and the text they add.\<close>

fun progress_of :: "jsstring \<Rightarrow> AgentConversationStreamEvent \<Rightarrow> bool" where
  "progress_of i (TextDelta j _) = (i = j)"
| "progress_of i (ReasoningDelta j _) = (i = j)"
| "progress_of i (ToolCall j _) = (i = j)"
| "progress_of i _ = False"

fun delta_text :: "AgentConversationStreamEvent \<Rightarrow> jsstring" where
  "delta_text (TextDelta _ d) = d"
| "delta_text _ = []"

lemma appendConversationReasoning_simps [simp]:
  "msg_id (appendConversationReasoning m d) = msg_id m"
  "msg_content (appendConversationReasoning m d) = msg_content m"
  "msg_role (appendConversationReasoning m d) = msg_role m"
  by (simp_all add: appendConversationReasoning_def Let_def)

lemma append_text_simps [simp]:
  "msg_id (append_text d m) = msg_id m" "msg_content (append_text d m) = msg_content m @ d"
  "msg_role (append_text d m) = msg_role m"
  by (simp_all add: append_text_def)

lemma progress_step:
  assumes "progress_of i ev" and "lookup_message ms i = Some m"
  shows "\<exists>m'. lookup_message (applyAgentConversationStreamEvent ms ev) i = Some m'
      \<and> msg_content m' = msg_content m @ delta_text ev \<and> msg_role m' = msg_role m"
    and "other_messages (applyAgentConversationStreamEvent ms ev) i = other_messages ms i"
    and "map msg_id (applyAgentConversationStreamEvent ms ev) = map msg_id ms"
  using assms by (cases ev; auto simp: message_update)+

lemma progress_steps:
  assumes "list_all (progress_of i) evs" and "lookup_message ms i = Some m"
  shows "(\<exists>m'. lookup_message (foldl applyAgentConversationStreamEvent ms evs) i = Some m'
      \<and> msg_content m' = msg_content m @ concat (map delta_text evs) \<and> msg_role m' = msg_role m)
    \<and> other_messages (foldl applyAgentConversationStreamEvent ms evs) i = other_messages ms i
    \<and> map msg_id (foldl applyAgentConversationStreamEvent ms evs) = map msg_id ms"
  using assms
proof (induction evs arbitrary: ms m)
  case (Cons ev evs)
  then have ev: "progress_of i ev" by simp
  obtain m' where m': "lookup_message (applyAgentConversationStreamEvent ms ev) i = Some m'"
    "msg_content m' = msg_content m @ delta_text ev" "msg_role m' = msg_role m"
    using progress_step(1) [OF ev Cons.prems(2)] by blast
  show ?case
    using Cons.IH [OF _ m'(1)] Cons.prems(1) m'(2,3) progress_step(2,3) [OF ev Cons.prems(2)] by auto
qed simp

lemma lookup_in_ids: "lookup_message ms i = Some m \<Longrightarrow> i \<in> msg_id ` set ms"
  by (auto simp: find_Some_iff)

lemma finalize_none_streaming:
  "list_all (\<lambda>m. msg_status m \<noteq> StatusStreaming) (finalizeAgentConversationStreamingMessages ms e)"
  by (auto simp: finalizeAgentConversationStreamingMessages_def finalize_message_def list_all_iff Let_def)

lemma finalize_ids: "map msg_id (finalizeAgentConversationStreamingMessages ms e) = map msg_id ms"
  by (simp add: finalizeAgentConversationStreamingMessages_def finalize_message_def Let_def)

text \<open>
  C37: a streamed answer is assembled exactly: after its start event and any sequence of text, reasoning and
  tool events for it, the message holds its initial content followed by all text deltas in order, the other
  messages are untouched and keep their places, and at most one message was added, at the end. The completion
  event puts the final message in that place. An error event with a message puts that message in the place of the
  one with its id, and every other message stays as it is, also one that is streaming; an error event without a
  message keeps all messages and leaves none of them streaming.
\<close>
theorem streamed_answer_assembled:
  assumes "list_all (progress_of (msg_id m)) evs" and "msg_id final = msg_id m"
  shows "let ms' = foldl applyAgentConversationStreamEvent ms (MessageStart i m # evs);
             done = applyAgentConversationStreamEvent ms' (MessageComplete i final)
    in (\<exists>m'. lookup_message ms' (msg_id m) = Some m'
          \<and> msg_content m' = msg_content m @ concat (map delta_text evs) \<and> msg_role m' = msg_role m)
     \<and> other_messages ms' (msg_id m) = other_messages ms (msg_id m)
     \<and> map msg_id ms' = (if msg_id m \<in> msg_id ` set ms then map msg_id ms else map msg_id ms @ [msg_id m])
     \<and> lookup_message done (msg_id m) = Some final \<and> map msg_id done = map msg_id ms'
     \<and> other_messages done (msg_id m) = other_messages ms (msg_id m)
     \<and> lookup_message (applyAgentConversationStreamEvent ms' (StreamError s (Some bad) e)) (msg_id bad) = Some bad
     \<and> other_messages (applyAgentConversationStreamEvent ms' (StreamError s (Some bad) e)) (msg_id bad)
         = other_messages ms' (msg_id bad)
     \<and> map msg_id (applyAgentConversationStreamEvent ms' (StreamError s None e)) = map msg_id ms'
     \<and> list_all (\<lambda>x. msg_status x \<noteq> StatusStreaming)
         (applyAgentConversationStreamEvent ms' (StreamError s None e))"
proof -
  let ?ms = "foldl applyAgentConversationStreamEvent (upsertConversationMessage ms m) evs"
  note steps = progress_steps [OF assms(1) message_upsert(1) [of m ms]]
  then have "msg_id m \<in> msg_id ` set ?ms" using lookup_in_ids by blast
  then have "map msg_id (upsertConversationMessage ?ms final) = map msg_id ?ms"
    using message_upsert(3) [where m = final and ms = ?ms] assms(2) by simp
  then show ?thesis
    using steps message_upsert(2,3) [where m = m and ms = ms]
      message_upsert(1,2) [where m = final and ms = ?ms] message_upsert(1,2) [where m = bad and ms = ?ms]
      assms(2) finalize_none_streaming finalize_ids
    by (simp add: Let_def)
qed

definition sample_message :: "string \<Rightarrow> conversation_role \<Rightarrow> string \<Rightarrow> AgentConversationMessage" where
  "sample_message i r c = \<lparr>msg_id = js i, msg_role = r, msg_content = js c, msg_attachments = None,
     msg_status = StatusStreaming, msg_provider = None, msg_model = None, msg_reasoning = None, msg_created_at = []\<rparr>"

theorem streamed_answer_assembled_witness:
  "\<exists>m'. lookup_message (foldl applyAgentConversationStreamEvent [sample_message ''u'' RoleUser ''hi'']
       [MessageStart (js ''a'') (sample_message ''a'' RoleAssistant []), TextDelta (js ''a'') (js ''he''),
        ReasoningDelta (js ''a'') (js ''think''), TextDelta (js ''a'') (js ''llo'')]) (js ''a'') = Some m'
     \<and> msg_content m' = js ''hello''"
proof -
  have "list_all (progress_of (msg_id (sample_message ''a'' RoleAssistant [])))
      [TextDelta (js ''a'') (js ''he''), ReasoningDelta (js ''a'') (js ''think''), TextDelta (js ''a'') (js ''llo'')]"
    by (simp add: sample_message_def)
  from streamed_answer_assembled [OF this refl, of "[sample_message ''u'' RoleUser ''hi'']" "js ''a''"]
  show ?thesis by (auto simp: sample_message_def Let_def)
qed

section \<open>Prompts and order of the views\<close>

text \<open>
  The loop that collects prompts runs over the reversed messages, so an answer is shown with the prompt that
  follows it, and the last answer with none.
\<close>

lemma prompts_follow_the_answer:
  "map (\<lambda>v. case v of ChatView c \<Rightarrow> Option.bind (chat_meta c) meta_prompt | _ \<Rightarrow> None)
     (mapConversationMessagesToChatMessageViews ascii_host (\<lambda>_. None)
       [sample_message ''u1'' RoleUser ''one'', sample_message ''a1'' RoleAssistant ''first'',
        sample_message ''u2'' RoleUser ''two'', sample_message ''a2'' RoleAssistant ''second''])
   = [None, Some (js ''two''), None, None]"
  by (simp add: mapConversationMessagesToChatMessageViews_def mapConversationMessageToChatMessageView_def
      sample_message_def getMessageContent_def buildAssistantMeta_def js_simps Let_def upt_rec)

text \<open>Messages of the same millisecond get decreasing keys, so the panel shows them in reverse.\<close>

lemma same_time_is_reversed:
  "map message_id (panel_messages (panelState ascii_host (\<lambda>_. Some 7)
      (Some [sample_message ''u'' RoleUser ''hi'', sample_message ''a'' RoleAssistant ''hello'']) None [] None None))
   = [js ''a'', js ''u'']"
  by (simp add: panelState_def createAgentPanelStateFromMessages_def createPanelState_def
      mapConversationMessagesToChatMessageViews_def mapConversationMessageToChatMessageView_def
      createConversationMessageSortKey_def sortMessagesBySortKey_def sample_message_def Let_def upt_rec)

end
