(* ===== verification/Agent_Panel.thy ===== *)
theory Agent_Panel
  imports Agent_Conversation
begin

text \<open>
  Submitting a prompt and cancelling it, \<^verbatim>\<open>features/agent/model/agent-panel-streaming.ts\<close>, over the state that
  \<^verbatim>\<open>use-agent-panel.ts\<close> keeps. A submission is an asynchronous task: it opens the stream (after the runtime
  context and the terminal prompt are resolved), receives events, and refreshes the conversation. The code
  between two awaits is one function on the panel; \<open>panel_reach\<close> interleaves the tasks in every order.
\<close>

section \<open>The state of the panel\<close>

record agent_panel =
  ap_messages :: "AgentConversationMessage list option"
  ap_interaction :: "ChatMessageView list"
  ap_pendingFlow :: "PendingInteractionFlow option"
  ap_submissionNonce :: nat
  ap_isSubmitting :: bool
  ap_isResponseCancellable :: bool
  ap_loadError :: "jsstring option"
  ap_submitError :: "jsstring option"
  ap_blocked :: bool
  ap_activeStream :: "nat option"
  ap_activeAbort :: "nat option"
  ap_activeAudit :: "jsstring option"

definition set_messages ::
    "(AgentConversationMessage list \<Rightarrow> AgentConversationMessage list) \<Rightarrow> agent_panel \<Rightarrow> agent_panel" where
  "set_messages update p = p\<lparr>ap_messages := Some (update (js_default (ap_messages p) []))\<rparr>"

definition update_audit :: "jsstring option \<Rightarrow> (AuditEntry list \<Rightarrow> AuditEntry list) \<Rightarrow> agent_panel \<Rightarrow> agent_panel" where
  "update_audit auditMessageID f p =
     (if \<not> js_truthy auditMessageID then p
      else p\<lparr>ap_interaction := updateInteractionMessage (ap_interaction p) (the auditMessageID)
             (\<lambda>m. case m of AuditView a \<Rightarrow> AuditView (a\<lparr>audit_entries := f (audit_entries a)\<rparr>) | _ \<Rightarrow> m)\<rparr>)"

definition applyConversationSnapshot :: "AgentConversationSnapshot \<Rightarrow> agent_panel \<Rightarrow> agent_panel" where
  "applyConversationSnapshot snapshot p = p\<lparr>ap_messages := Some (conversation_messages snapshot)\<rparr>"

section \<open>Submissions\<close>

datatype submission_phase = Opening | Streaming | Refreshing

record submission =
  sub_nonce :: nat
  sub_auditMessageID :: "jsstring option"
  sub_phase :: submission_phase
  sub_auditProgressed :: bool
  sub_streamErrored :: bool

definition isActiveSubmission :: "submission \<Rightarrow> agent_panel \<Rightarrow> bool" where
  "isActiveSubmission sub p \<longleftrightarrow> ap_submissionNonce p = sub_nonce sub"

definition start_submission :: "jsstring option \<Rightarrow> bool \<Rightarrow> agent_panel \<Rightarrow> agent_panel \<times> submission" where
  "start_submission auditMessageID cancellable p =
     (let nonce = ap_submissionNonce p + 1 in
      (p\<lparr>ap_submissionNonce := nonce, ap_isSubmitting := True, ap_isResponseCancellable := cancellable,
         ap_loadError := None, ap_submitError := None, ap_blocked := True, ap_activeAbort := Some nonce,
         ap_activeAudit := auditMessageID\<rparr>,
       \<lparr>sub_nonce = nonce, sub_auditMessageID = auditMessageID, sub_phase = Opening, sub_auditProgressed = False,
        sub_streamErrored = False\<rparr>))"

text \<open>The \<open>finally\<close> block; \<open>connected\<close> says whether the stream had been opened.\<close>

definition finish_submission :: "submission \<Rightarrow> agent_panel \<Rightarrow> agent_panel" where
  "finish_submission sub p =
     (if \<not> isActiveSubmission sub p then p
      else
        (let p1 = (if sub_phase sub \<noteq> Opening then p\<lparr>ap_activeStream := None\<rparr> else p);
             p2 = (if ap_activeAudit p1 = sub_auditMessageID sub then p1\<lparr>ap_activeAudit := None\<rparr> else p1)
         in p2\<lparr>ap_activeAbort := None, ap_blocked := False, ap_isSubmitting := False,
              ap_isResponseCancellable := False\<rparr>))"

text \<open>The \<open>catch\<close> block followed by the \<open>finally\<close> block. \<open>errorText\<close> is the message of the error, if it has one.\<close>

definition fail_submission :: "jsstring \<Rightarrow> int \<Rightarrow> submission \<Rightarrow> jsstring option \<Rightarrow> agent_panel \<Rightarrow> agent_panel" where
  "fail_submission hostId now sub errorText p =
     (if \<not> isActiveSubmission sub p then p
      else
        (let message = (case errorText of
                Some e \<Rightarrow> if js_trim e \<noteq> [] then e
                  else js ''Unable to send backend conversation message for '' @ hostId @ js ''.''
              | None \<Rightarrow> js ''Unable to send backend conversation message for '' @ hostId @ js ''.'');
             p1 = set_messages (\<lambda>ms. finalizeAgentConversationStreamingMessages ms message) p;
             p2 = update_audit (sub_auditMessageID sub) (failAuditEntries now) p1
         in finish_submission sub (p2\<lparr>ap_submitError := Some message\<rparr>)))"

text \<open>The stream is open: a submission that is no longer the active one closes it and returns.\<close>

definition stream_opened :: "submission \<Rightarrow> agent_panel \<Rightarrow> agent_panel \<times> submission option" where
  "stream_opened sub p =
     (if isActiveSubmission sub p
      then (p\<lparr>ap_activeStream := Some (sub_nonce sub)\<rparr>, Some (sub\<lparr>sub_phase := Streaming\<rparr>))
      else (p, None))"

definition stream_event ::
    "int \<Rightarrow> submission \<Rightarrow> AgentConversationStreamEvent \<Rightarrow> agent_panel \<Rightarrow> agent_panel \<times> submission" where
  "stream_event now sub event p =
     (if \<not> isActiveSubmission sub p then (p, sub)
      else
        (let p1 = set_messages (\<lambda>ms. applyAgentConversationStreamEvent ms event) p;
             progresses = ((case event of TextDelta _ _ \<Rightarrow> True | _ \<Rightarrow> False)
               \<and> js_truthy (sub_auditMessageID sub) \<and> \<not> sub_auditProgressed sub);
             p2 = (if progresses then update_audit (sub_auditMessageID sub) (advanceAuditEntries now) p1 else p1);
             sub' = (if progresses then sub\<lparr>sub_auditProgressed := True\<rparr> else sub)
         in case event of
              MessageComplete _ _ \<Rightarrow> (update_audit (sub_auditMessageID sub) (completeAuditEntries now) p2, sub')
            | StreamError _ message error \<Rightarrow>
                (let p3 = update_audit (sub_auditMessageID sub) (failAuditEntries now) p2;
                     text = js_default (map_option js_trim error) []
                 in (if message = None \<and> text \<noteq> [] then p3\<lparr>ap_submitError := Some text\<rparr> else p3,
                     sub'\<lparr>sub_streamErrored := True\<rparr>))
            | _ \<Rightarrow> (p2, sub')))"

definition stream_done :: "submission \<Rightarrow> agent_panel \<Rightarrow> agent_panel \<times> submission option" where
  "stream_done sub p =
     (if isActiveSubmission sub p \<and> \<not> sub_streamErrored sub then (p, Some (sub\<lparr>sub_phase := Refreshing\<rparr>))
      else (finish_submission sub p, None))"

text \<open>The refreshed conversation is applied without asking again whether the submission is the active one.\<close>

definition refresh_done :: "submission \<Rightarrow> AgentConversationSnapshot \<Rightarrow> agent_panel \<Rightarrow> agent_panel" where
  "refresh_done sub snapshot p = finish_submission sub (applyConversationSnapshot snapshot p)"

definition cancelActiveSubmissionForPanel :: "jsstring \<Rightarrow> int \<Rightarrow> jsstring \<Rightarrow> agent_panel \<Rightarrow> agent_panel" where
  "cancelActiveSubmissionForPanel hostId now nowISO p =
     (if \<not> ap_isSubmitting p \<and> ap_activeStream p = None \<and> ap_activeAbort p = None then p
      else
        (let cancellation = js ''Response cancelled by operator.'';
             nonce = ap_submissionNonce p + 1;
             p1 = p\<lparr>ap_submissionNonce := nonce, ap_activeAbort := None, ap_activeStream := None, ap_activeAudit := None\<rparr>;
             p2 = update_audit (ap_activeAudit p) (failAuditEntries now) p1;
             p3 = set_messages (\<lambda>ms.
                 let finalized = finalizeAgentConversationStreamingMessages ms cancellation in
                 if list_ex (\<lambda>m. msg_status m = StatusStreaming) ms then finalized
                 else appendAgentConversationMessage finalized
                   \<lparr>msg_id = js ''agent-local-cancelled-'' @ hostId @ js ''-'' @ js_of_nat nonce,
                    msg_role = RoleAssistant, msg_content = cancellation, msg_attachments = None,
                    msg_status = StatusError, msg_provider = None, msg_model = None, msg_reasoning = None,
                    msg_created_at = nowISO\<rparr>) p2
         in p3\<lparr>ap_submitError := None, ap_isSubmitting := False, ap_isResponseCancellable := False, ap_blocked := False\<rparr>))"

text \<open>\<^verbatim>\<open>resetConversationSubmissionRuntime\<close> of \<^verbatim>\<open>agent-panel-conversations.ts\<close>, before the conversation changes.\<close>

definition resetConversationSubmissionRuntime :: "agent_panel \<Rightarrow> agent_panel" where
  "resetConversationSubmissionRuntime p =
     p\<lparr>ap_submissionNonce := ap_submissionNonce p + 1, ap_activeAbort := None, ap_activeStream := None,
       ap_activeAudit := None\<rparr>"

section \<open>Interleaved submissions\<close>

text \<open>
  The panel and the submissions in progress. A reset happens only when nothing is being submitted, as the
  guards of the conversation commands require.
\<close>

inductive panel_reach :: "jsstring \<Rightarrow> agent_panel \<times> submission list \<Rightarrow> bool" for hostId where
  panel_start: "\<lbrakk>\<not> ap_isSubmitting p; \<not> ap_blocked p; \<not> ap_isResponseCancellable p; ap_activeStream p = None;
      ap_activeAbort p = None; ap_activeAudit p = None\<rbrakk> \<Longrightarrow> panel_reach hostId (p, [])"
| panel_submit: "panel_reach hostId (p, subs) \<Longrightarrow> start_submission audit cancellable p = (p', sub) \<Longrightarrow>
    panel_reach hostId (p', sub # subs)"
| panel_opened: "panel_reach hostId (p, us @ sub # vs) \<Longrightarrow> sub_phase sub = Opening \<Longrightarrow>
    stream_opened sub p = (p', sub') \<Longrightarrow>
    panel_reach hostId (p', us @ (case sub' of None \<Rightarrow> [] | Some s \<Rightarrow> [s]) @ vs)"
| panel_terminal: "panel_reach hostId (p, us @ sub # vs) \<Longrightarrow> sub_phase sub = Opening \<Longrightarrow>
    panel_reach hostId (finish_submission sub p, us @ vs)"
| panel_event: "panel_reach hostId (p, us @ sub # vs) \<Longrightarrow> sub_phase sub \<noteq> Refreshing \<Longrightarrow>
    stream_event now sub event p = (p', sub') \<Longrightarrow> panel_reach hostId (p', us @ sub' # vs)"
| panel_done: "panel_reach hostId (p, us @ sub # vs) \<Longrightarrow> sub_phase sub = Streaming \<Longrightarrow>
    stream_done sub p = (p', sub') \<Longrightarrow>
    panel_reach hostId (p', us @ (case sub' of None \<Rightarrow> [] | Some s \<Rightarrow> [s]) @ vs)"
| panel_refreshed: "panel_reach hostId (p, us @ sub # vs) \<Longrightarrow> sub_phase sub = Refreshing \<Longrightarrow>
    panel_reach hostId (refresh_done sub snapshot p, us @ vs)"
| panel_failed: "panel_reach hostId (p, us @ sub # vs) \<Longrightarrow>
    panel_reach hostId (fail_submission hostId now sub errorText p, us @ vs)"
| panel_cancel: "panel_reach hostId (p, subs) \<Longrightarrow>
    panel_reach hostId (cancelActiveSubmissionForPanel hostId now nowISO p, subs)"
| panel_reset: "panel_reach hostId (p, subs) \<Longrightarrow> \<not> ap_isSubmitting p \<Longrightarrow>
    panel_reach hostId (resetConversationSubmissionRuntime p, subs)"

section \<open>The active submission\<close>

definition panel_busy :: "agent_panel \<Rightarrow> bool" where
  "panel_busy p \<longleftrightarrow> ap_isSubmitting p \<or> ap_blocked p \<or> ap_isResponseCancellable p \<or> ap_activeAbort p \<noteq> None
     \<or> ap_activeAudit p \<noteq> None"

definition panel_inv :: "agent_panel \<times> submission list \<Rightarrow> bool" where
  "panel_inv S \<longleftrightarrow> distinct (map sub_nonce (snd S))
     \<and> (\<forall>s\<in>set (snd S). sub_nonce s \<le> ap_submissionNonce (fst S)
          \<and> (isActiveSubmission s (fst S) \<longrightarrow> ap_activeAudit (fst S) = sub_auditMessageID s))
     \<and> (panel_busy (fst S) \<longrightarrow> (\<exists>s\<in>set (snd S). isActiveSubmission s (fst S)))
     \<and> (ap_blocked (fst S) \<or> ap_isResponseCancellable (fst S) \<longrightarrow> ap_isSubmitting (fst S))"

text \<open>The part of the panel the invariant reads.\<close>

definition control :: "agent_panel \<Rightarrow> nat \<times> bool \<times> bool \<times> bool \<times> nat option \<times> jsstring option" where
  "control p = (ap_submissionNonce p, ap_isSubmitting p, ap_blocked p, ap_isResponseCancellable p, ap_activeAbort p,
     ap_activeAudit p)"

lemma control_busy: "control p = control q \<Longrightarrow> panel_busy p = panel_busy q"
  by (simp add: control_def panel_busy_def)

lemma control_inv:
  assumes "control p = control q"
  shows "panel_inv (p, subs) = panel_inv (q, subs)"
proof -
  have "ap_submissionNonce p = ap_submissionNonce q" "ap_activeAudit p = ap_activeAudit q"
    "ap_blocked p = ap_blocked q" "ap_isSubmitting p = ap_isSubmitting q"
    "ap_isResponseCancellable p = ap_isResponseCancellable q"
    using assms by (simp_all add: control_def)
  then show ?thesis by (simp add: panel_inv_def isActiveSubmission_def control_busy [OF assms])
qed

lemma control_updates [simp]:
  "control (set_messages f p) = control p" "control (update_audit a g p) = control p"
  "control (applyConversationSnapshot snapshot p) = control p"
  "control (p\<lparr>ap_submitError := e\<rparr>) = control p" "control (p\<lparr>ap_activeStream := st\<rparr>) = control p"
  by (simp_all add: control_def set_messages_def update_audit_def applyConversationSnapshot_def)

lemma panel_inv_phase:
  "panel_inv (p, us @ sub # vs) \<Longrightarrow> sub_nonce sub' = sub_nonce sub \<Longrightarrow> sub_auditMessageID sub' = sub_auditMessageID sub
    \<Longrightarrow> panel_inv (p, us @ sub' # vs)"
  by (auto simp: panel_inv_def isActiveSubmission_def)

lemma panel_inv_drop_stale:
  "panel_inv (p, us @ sub # vs) \<Longrightarrow> \<not> isActiveSubmission sub p \<Longrightarrow> panel_inv (p, us @ vs)"
  by (auto simp: panel_inv_def)

lemma finish_control:
  "isActiveSubmission sub p \<Longrightarrow> ap_activeAudit p = sub_auditMessageID sub \<Longrightarrow>
     control (finish_submission sub p) = (ap_submissionNonce p, False, False, False, None, None)"
  by (simp add: finish_submission_def control_def Let_def)

lemma finish_inactive [simp]: "\<not> isActiveSubmission sub p \<Longrightarrow> finish_submission sub p = p"
  by (simp add: finish_submission_def)

lemma isActive_control: "control p = control q \<Longrightarrow> isActiveSubmission s p = isActiveSubmission s q"
  by (simp add: control_def isActiveSubmission_def)

lemma panel_inv_finish:
  assumes "panel_inv (p, us @ sub # vs)"
  shows "panel_inv (finish_submission sub p, us @ vs)"
proof (cases "isActiveSubmission sub p")
  case True
  have audit: "ap_activeAudit p = sub_auditMessageID sub" using assms True by (auto simp: panel_inv_def)
  note fin = finish_control [OF True audit]
  have "\<not> isActiveSubmission s (finish_submission sub p)" if "s \<in> set (us @ vs)" for s
  proof -
    have "sub_nonce sub \<notin> sub_nonce ` set (us @ vs)" using assms by (simp add: panel_inv_def image_Un)
    then have "sub_nonce s \<noteq> sub_nonce sub" using that by (metis image_eqI)
    then show ?thesis using True fin by (auto simp: isActiveSubmission_def control_def)
  qed
  moreover have "\<not> panel_busy (finish_submission sub p)" using fin by (auto simp: panel_busy_def control_def)
  moreover have "ap_submissionNonce (finish_submission sub p) = ap_submissionNonce p" using fin by (simp add: control_def)
  ultimately show ?thesis using assms by (auto simp: panel_inv_def panel_busy_def)
qed (use assms panel_inv_drop_stale in auto)

lemma panel_inv_finish_after:
  "panel_inv (p, us @ sub # vs) \<Longrightarrow> control q = control p \<Longrightarrow> panel_inv (finish_submission sub q, us @ vs)"
  using panel_inv_finish control_inv by blast

lemma stream_event_keeps:
  assumes "stream_event now sub event p = (p', sub')"
  shows "control p' = control p" "sub_nonce sub' = sub_nonce sub" "sub_auditMessageID sub' = sub_auditMessageID sub"
  using assms
  by (auto simp: stream_event_def Let_def split: if_splits AgentConversationStreamEvent.splits)

lemma panel_inv_bump:
  assumes "panel_inv (p, subs)" and "ap_submissionNonce q = ap_submissionNonce p + 1" and "\<not> panel_busy q"
  shows "panel_inv (q, subs)"
  using assms by (auto simp: panel_inv_def isActiveSubmission_def panel_busy_def)

lemma cancel_not_busy:
  assumes "cancelActiveSubmissionForPanel hostId now nowISO p \<noteq> p"
  shows "\<not> panel_busy (cancelActiveSubmissionForPanel hostId now nowISO p)"
    and "ap_submissionNonce (cancelActiveSubmissionForPanel hostId now nowISO p) = ap_submissionNonce p + 1"
  using assms
  by (auto simp: cancelActiveSubmissionForPanel_def Let_def panel_busy_def set_messages_def update_audit_def split: if_splits)

lemma panel_reach_inv: "panel_reach hostId S \<Longrightarrow> panel_inv S"
proof (induction rule: panel_reach.induct)
  case (panel_start p)
  then show ?case by (simp add: panel_inv_def panel_busy_def)
next
  case (panel_submit p subs audit cancellable p' sub)
  have "sub_nonce s \<noteq> Suc (ap_submissionNonce p)" if "s \<in> set subs" for s
    using panel_submit.IH that by (auto simp: panel_inv_def)
  then show ?case
    using panel_submit by (auto simp: panel_inv_def start_submission_def isActiveSubmission_def Let_def intro: le_SucI)
next
  case (panel_opened p us sub vs p' sub')
  show ?case
  proof (cases "isActiveSubmission sub p")
    case True
    then have new: "sub' = Some (sub\<lparr>sub_phase := Streaming\<rparr>)" "p' = p\<lparr>ap_activeStream := Some (sub_nonce sub)\<rparr>"
      using panel_opened.hyps by (auto simp: stream_opened_def)
    have "panel_inv (p', us @ (sub\<lparr>sub_phase := Streaming\<rparr>) # vs)"
      using panel_inv_phase [OF panel_opened.IH, of "sub\<lparr>sub_phase := Streaming\<rparr>"] control_inv [of p p'] new(2) by simp
    then show ?thesis using new(1) by simp
  next
    case False
    then show ?thesis
      using panel_opened.hyps panel_inv_drop_stale [OF panel_opened.IH] by (auto simp: stream_opened_def)
  qed
next
  case (panel_terminal p us sub vs)
  then show ?case by (rule_tac panel_inv_finish)
next
  case (panel_event p us sub vs now event p' sub')
  note keep = stream_event_keeps [OF panel_event.hyps(3)]
  show ?case using panel_inv_phase [OF panel_event.IH keep(2,3)] control_inv [OF keep(1)] by simp
next
  case (panel_done p us sub vs p' sub')
  show ?case
  proof (cases "isActiveSubmission sub p \<and> \<not> sub_streamErrored sub")
    case True
    then show ?thesis
      using panel_done.hyps panel_inv_phase [OF panel_done.IH, of "sub\<lparr>sub_phase := Refreshing\<rparr>"]
      by (auto simp: stream_done_def)
  next
    case False
    then show ?thesis using panel_done.hyps panel_inv_finish [OF panel_done.IH] by (auto simp: stream_done_def)
  qed
next
  case (panel_refreshed p us sub vs snapshot)
  then show ?case unfolding refresh_done_def by (intro panel_inv_finish_after) simp_all
next
  case (panel_failed p us sub vs now errorText)
  then show ?case
    using panel_inv_drop_stale [OF panel_failed.IH]
    by (auto simp: fail_submission_def Let_def intro!: panel_inv_finish_after [OF panel_failed.IH])
next
  case (panel_cancel p subs now nowISO)
  then show ?case using panel_inv_bump [OF panel_cancel.IH] cancel_not_busy [of hostId now nowISO p] by metis
next
  case (panel_reset p subs)
  show ?case
  proof (rule panel_inv_bump [OF panel_reset.IH])
    have "\<not> ap_blocked p" "\<not> ap_isResponseCancellable p"
      using panel_reset by (auto simp: panel_inv_def)
    then show "\<not> panel_busy (resetConversationSubmissionRuntime p)"
      using panel_reset.hyps by (simp add: panel_busy_def resetConversationSubmissionRuntime_def)
  qed (simp add: resetConversationSubmissionRuntime_def)
qed

lemma stale_submission:
  assumes "\<not> isActiveSubmission s p"
  shows "stream_event now s event p = (p, s)" "fail_submission hostId now s e p = p" "finish_submission s p = p"
    "stream_opened s p = (p, None)" "stream_done s p = (p, None)"
  using assms by (simp_all add: stream_event_def fail_submission_def stream_opened_def stream_done_def)

lemma cancel_messages:
  assumes "ap_isSubmitting p"
  shows "\<exists>ms. ap_messages (cancelActiveSubmissionForPanel hostId now nowISO p) = Some ms
    \<and> list_all (\<lambda>m. msg_status m \<noteq> StatusStreaming) ms"
proof -
  have "ap_messages (update_audit a g q) = ap_messages q" for a g q by (simp add: update_audit_def)
  with assms show ?thesis
    using finalize_none_streaming [of "js_default (ap_messages p) []" "js ''Response cancelled by operator.''"]
    by (simp add: cancelActiveSubmissionForPanel_def set_messages_def appendAgentConversationMessage_def Let_def del: js_Cons)
qed

text \<open>
  C38: however submissions, replies, stream events, errors, cancellations and conversation changes interleave:
  the panel is busy (submitting, blocked, cancellable, with an abort handle or an audit in progress) only while
  the submission it waits for is still running, so it never stays locked; everything that still arrives for
  another submission before its refresh changes nothing; and cancelling unlocks the panel, leaves no message streaming
  and disowns every running submission.
\<close>
theorem panel_never_stuck:
  assumes "panel_reach hostId (p, subs)"
  shows "(panel_busy p \<longrightarrow> (\<exists>s\<in>set subs. isActiveSubmission s p))
    \<and> (\<forall>s\<in>set subs. \<not> isActiveSubmission s p \<longrightarrow>
         stream_event now s event p = (p, s) \<and> fail_submission hostId now s e p = p
         \<and> stream_opened s p = (p, None) \<and> stream_done s p = (p, None))
    \<and> (ap_isSubmitting p \<longrightarrow>
         (let q = cancelActiveSubmissionForPanel hostId now nowISO p in
            \<not> panel_busy q \<and> ap_activeStream q = None
            \<and> (\<exists>ms. ap_messages q = Some ms \<and> list_all (\<lambda>m. msg_status m \<noteq> StatusStreaming) ms)
            \<and> (\<forall>s\<in>set subs. \<not> isActiveSubmission s q)))"
proof -
  note inv = panel_reach_inv [OF assms]
  let ?q = "cancelActiveSubmissionForPanel hostId now nowISO p"
  have cancelled: "\<not> panel_busy ?q \<and> ap_activeStream ?q = None \<and> (\<forall>s\<in>set subs. \<not> isActiveSubmission s ?q)"
    if "ap_isSubmitting p"
  proof -
    have "?q \<noteq> p" using that
      by (auto simp: cancelActiveSubmissionForPanel_def Let_def dest: arg_cong [where f = ap_isSubmitting])
    note bump = cancel_not_busy [OF this]
    have "ap_activeStream ?q = None"
      using that by (simp add: cancelActiveSubmissionForPanel_def set_messages_def update_audit_def Let_def)
    moreover have "\<forall>s\<in>set subs. \<not> isActiveSubmission s ?q"
      using inv bump(2) by (auto simp: panel_inv_def isActiveSubmission_def)
    ultimately show ?thesis using bump(1) by blast
  qed
  show ?thesis
    using inv cancelled cancel_messages [of p hostId now nowISO] stale_submission
    by (auto simp: panel_inv_def Let_def)
qed

definition idle_panel :: agent_panel where
  "idle_panel = \<lparr>ap_messages = None, ap_interaction = [], ap_pendingFlow = None, ap_submissionNonce = 0,
     ap_isSubmitting = False, ap_isResponseCancellable = False, ap_loadError = None, ap_submitError = None,
     ap_blocked = False, ap_activeStream = None, ap_activeAbort = None, ap_activeAudit = None\<rparr>"

theorem panel_never_stuck_witness:
  "let (p, s) = start_submission None True idle_panel in
     panel_busy p \<and> (\<exists>x\<in>set [s]. isActiveSubmission x p)
     \<and> \<not> panel_busy (cancelActiveSubmissionForPanel (js ''h'') 0 [] p)"
proof -
  obtain p s where ps: "start_submission None True idle_panel = (p, s)" by (cases "start_submission None True idle_panel")
  have "panel_reach (js ''h'') (idle_panel, [])" by (rule panel_start) (simp_all add: idle_panel_def)
  then have "panel_reach (js ''h'') (p, [s])" by (rule panel_submit [OF _ ps])
  from panel_never_stuck [OF this, where now = 0 and nowISO = "[]"]
  show ?thesis using ps by (auto simp: start_submission_def panel_busy_def Let_def)
qed

text \<open>
  The refresh at the end of a stream is the exception: a submission that was cancelled while its conversation was
  being fetched still replaces the messages, and the cancellation message is lost.
\<close>

lemma stale_refresh_replaces_messages:
  assumes "\<not> isActiveSubmission s p"
  shows "ap_messages (refresh_done s snapshot p) = Some (conversation_messages snapshot)"
  using assms by (simp add: refresh_done_def applyConversationSnapshot_def isActiveSubmission_def)

end
