(* ===== verification/Agent_Context.thy ===== *)
theory Agent_Context
  imports Agent_Conversation "HOL-Library.AList"
begin

text \<open>
  What the agent panel knows of the workspace: the widgets of the context and the list of conversations
  (\<^verbatim>\<open>features/agent/model/agent-panel-context.ts\<close>), the provider and model choice (\<^verbatim>\<open>agent-panel-provider.ts\<close>), the
  terminal helpers (\<^verbatim>\<open>agent-panel-terminal.ts\<close>) and the registry of terminal panels
  (\<^verbatim>\<open>features/terminal/model/panel-registry.ts\<close>), an association list in insertion order.
\<close>

section \<open>Context widgets\<close>

record WorkspaceWidgetSnapshot =
  ww_id :: jsstring
  ww_kind :: jsstring
  ww_title :: "jsstring option"
  ww_connection_id :: "jsstring option"
  ww_path :: "jsstring option"

record AiContextWidgetOption =
  cw_value :: jsstring
  cw_label :: jsstring
  cw_title :: "jsstring option"
  cw_meta :: "jsstring option"
  cw_group :: "jsstring option"

definition deduplicateWidgetIDs :: "jsstring list \<Rightarrow> jsstring list" where
  "deduplicateWidgetIDs widgetIDs =
     foldl (\<lambda>accumulator widgetID.
         let trimmed = js_trim widgetID in
         if trimmed = [] \<or> trimmed \<in> set accumulator then accumulator else accumulator @ [trimmed]) [] widgetIDs"

definition formatContextWidgetLabel :: "WorkspaceWidgetSnapshot \<Rightarrow> jsstring" where
  "formatContextWidgetLabel widget =
     (let title = trim_or (ww_title widget) (ww_id widget);
          extra = (\<lambda>v. let t = trim_or v [] in if t = [] then [] else [t]);
          meta = [ww_kind widget] @ extra (ww_connection_id widget) @ extra (ww_path widget)
      in if title = ww_id widget then title @ [32, 183, 32] @ join_dots meta
         else title @ js '' ('' @ ww_id widget @ js '')'' @ [32, 183, 32] @ join_dots meta)"

definition formatContextWidgetGroup :: "host \<Rightarrow> jsstring \<Rightarrow> jsstring" where
  "formatContextWidgetGroup h widgetKind =
     (let kind = toLowerCase h (js_trim widgetKind) in
      if kind = js ''terminal'' then js ''Terminal widgets''
      else if kind = js ''commander'' then js ''Commander widgets''
      else if kind = js ''ai'' then js ''AI widgets''
      else
        (case js_trim widgetKind of
           [] \<Rightarrow> js ''Other widgets''
         | c # rest \<Rightarrow> toUpperCase h [c] @ rest @ js '' widgets''))"

definition mapContextWidgetOptions :: "host \<Rightarrow> WorkspaceWidgetSnapshot list \<Rightarrow> AiContextWidgetOption list" where
  "mapContextWidgetOptions h widgets =
     map (\<lambda>widget.
         let title = trim_or (ww_title widget) (ww_id widget);
             extra = (\<lambda>v. let t = trim_or v [] in if t = [] then [] else [t]);
             metaParts = (if ww_id widget \<noteq> title then [ww_id widget] else [])
               @ [ww_kind widget] @ extra (ww_connection_id widget) @ extra (ww_path widget)
         in \<lparr>cw_value = ww_id widget, cw_label = formatContextWidgetLabel widget, cw_title = Some title,
             cw_meta = Some (join_dots metaParts), cw_group = Some (formatContextWidgetGroup h (ww_kind widget))\<rparr>) widgets"

definition filterContextWidgetSelection :: "jsstring list \<Rightarrow> AiContextWidgetOption list \<Rightarrow> jsstring list" where
  "filterContextWidgetSelection selectedWidgetIDs widgetOptions =
     filter (\<lambda>i. i \<in> cw_value ` set widgetOptions) (deduplicateWidgetIDs selectedWidgetIDs)"

definition isTerminalWorkspaceWidget :: "host \<Rightarrow> WorkspaceWidgetSnapshot \<Rightarrow> bool" where
  "isTerminalWorkspaceWidget h widget = (toLowerCase h (js_trim (ww_kind widget)) = js ''terminal'')"

text \<open>A JavaScript \<open>Map\<close> built from pairs keeps the last value of a key.\<close>

definition resolveContextTerminalWidget ::
    "host \<Rightarrow> WorkspaceWidgetSnapshot list \<Rightarrow> jsstring list \<Rightarrow> WorkspaceWidgetSnapshot option" where
  "resolveContextTerminalWidget h widgets candidateWidgetIDs =
     (let widgetsByID = map_of (rev (map (\<lambda>w. (ww_id w, w)) widgets)) in
      case List.find (\<lambda>i. case widgetsByID i of None \<Rightarrow> False | Some w \<Rightarrow> isTerminalWorkspaceWidget h w)
             (deduplicateWidgetIDs candidateWidgetIDs) of
        None \<Rightarrow> None
      | Some i \<Rightarrow> widgetsByID i)"

section \<open>Conversations\<close>

definition summaryFromConversationSnapshot :: "AgentConversationSnapshot \<Rightarrow> AgentConversationSummary" where
  "summaryFromConversationSnapshot snapshot =
     \<lparr>summary_id = conversation_id snapshot, summary_title = conversation_title snapshot,
      summary_created_at = conversation_created_at snapshot, summary_updated_at = conversation_updated_at snapshot,
      summary_message_count = length (conversation_messages snapshot),
      summary_archived_at = conversation_archived_at snapshot\<rparr>"

definition isCustomizedContextPreference :: "AgentConversationContextPreferences \<Rightarrow> bool" where
  "isCustomizedContextPreference preferences \<longleftrightarrow>
     \<not> widget_context_enabled preferences \<or> js_default (preferred_widget_ids preferences) [] \<noteq> []"

text \<open>
  The order of the conversation list for valid dates, \<open>time\<close> being \<open>new Date(s).getTime()\<close>: open conversations
  before archived ones, newer before older, then by decreasing id.
\<close>

definition conversation_compare ::
    "host \<Rightarrow> (jsstring \<Rightarrow> int) \<Rightarrow> AgentConversationSummary \<Rightarrow> AgentConversationSummary \<Rightarrow> int" where
  "conversation_compare h time left right =
     (let leftArchivedAt = js_default (map_option js_trim (summary_archived_at left)) [];
          rightArchivedAt = js_default (map_option js_trim (summary_archived_at right)) []
      in if leftArchivedAt = [] \<and> rightArchivedAt \<noteq> [] then -1
         else if leftArchivedAt \<noteq> [] \<and> rightArchivedAt = [] then 1
         else
           (let leftSortKey = (if leftArchivedAt \<noteq> [] then leftArchivedAt else summary_updated_at left);
                rightSortKey = (if rightArchivedAt \<noteq> [] then rightArchivedAt else summary_updated_at right);
                delta = time rightSortKey - time leftSortKey
            in if delta \<noteq> 0 then delta else localeCompare h (summary_id right) (summary_id left)))"

definition sortConversationSummaries ::
    "host \<Rightarrow> (jsstring \<Rightarrow> int) \<Rightarrow> AgentConversationSummary list \<Rightarrow> AgentConversationSummary list" where
  "sortConversationSummaries h time conversations = js_sort (conversation_compare h time) conversations"

definition upsertConversationSummary ::
    "host \<Rightarrow> (jsstring \<Rightarrow> int) \<Rightarrow> AgentConversationSummary list \<Rightarrow> AgentConversationSummary \<Rightarrow> AgentConversationSummary list" where
  "upsertConversationSummary h time conversations nextConversation =
     sortConversationSummaries h time
       (filter (\<lambda>c. summary_id c \<noteq> summary_id nextConversation) conversations @ [nextConversation])"

section \<open>Providers and models\<close>

record provider_settings =
  ps_command :: "jsstring option"
  ps_base_url :: "jsstring option"
  ps_model :: "jsstring option"
  ps_chat_models :: "jsstring list option"

record AgentProviderView =
  pv_id :: jsstring
  pv_kind :: jsstring
  pv_display_name :: jsstring
  pv_enabled :: bool
  pv_codex :: "provider_settings option"
  pv_claude :: "provider_settings option"
  pv_openai_compatible :: "provider_settings option"

definition provider_settings_of :: "AgentProviderView \<Rightarrow> provider_settings option" where
  "provider_settings_of provider =
     (if pv_kind provider = js ''codex'' then pv_codex provider
      else if pv_kind provider = js ''claude'' then pv_claude provider
      else if pv_kind provider = js ''openai-compatible'' then pv_openai_compatible provider
      else None)"

definition directProviderChatModels :: "AgentProviderView option \<Rightarrow> jsstring list" where
  "directProviderChatModels provider =
     js_default (Option.bind (Option.bind provider provider_settings_of) ps_chat_models) []"

definition directProviderDefaultModel :: "AgentProviderView option \<Rightarrow> jsstring" where
  "directProviderDefaultModel provider =
     js_default (map_option js_trim (Option.bind (Option.bind provider provider_settings_of) ps_model)) []"

definition providerOptionLabel :: "AgentProviderView \<Rightarrow> jsstring" where
  "providerOptionLabel provider =
     (if js_trim (pv_display_name provider) \<noteq> [] then js_trim (pv_display_name provider)
      else if pv_kind provider = js ''codex'' then js ''Codex CLI''
      else if pv_kind provider = js ''claude'' then js ''Claude Code CLI''
      else if pv_kind provider = js ''openai-compatible'' then js ''OpenAI-Compatible HTTP''
      else pv_id provider)"

definition providerOptionsFromCatalog :: "AgentProviderView list option \<Rightarrow> (jsstring \<times> jsstring) list" where
  "providerOptionsFromCatalog catalog =
     (case catalog of
        None \<Rightarrow> []
      | Some providers \<Rightarrow> map (\<lambda>p. (pv_id p, providerOptionLabel p)) (filter pv_enabled providers))"

definition providerViewToConversationProvider ::
    "AgentProviderView option \<Rightarrow> AgentConversationProvider option \<Rightarrow> AgentConversationProvider option" where
  "providerViewToConversationProvider provider currentProvider =
     (case provider of
        None \<Rightarrow> currentProvider
      | Some p \<Rightarrow>
          if pv_kind p \<notin> {js ''codex'', js ''claude'', js ''openai-compatible''} then currentProvider
          else
            (let settings = provider_settings_of p;
                 address = Option.bind settings
                   (if pv_kind p = js ''openai-compatible'' then ps_base_url else ps_command)
             in Some \<lparr>provider_kind = pv_kind p,
                  provider_base_url = js_default (js_nullish address (map_option provider_base_url currentProvider)) [],
                  provider_model = js_nullish (Option.bind settings ps_model) (Option.bind currentProvider provider_model),
                  provider_streaming = False\<rparr>))"

definition selectPreferredChatModel :: "jsstring \<Rightarrow> jsstring option \<Rightarrow> jsstring list \<Rightarrow> jsstring" where
  "selectPreferredChatModel currentModel providerModel availableModels =
     (let selectedModel = js_trim currentModel;
          activeProviderModel = js_default (map_option js_trim providerModel) []
      in if selectedModel \<noteq> [] \<and> selectedModel \<in> set availableModels then selectedModel
         else if activeProviderModel \<noteq> [] \<and> activeProviderModel \<in> set availableModels then activeProviderModel
         else js_default (js_nth availableModels 0) [])"

section \<open>Terminal panels\<close>

datatype TerminalPanelPreset = PresetMain | PresetWorkspace

record TerminalPanelBinding =
  binding_hostId :: jsstring
  binding_preset :: TerminalPanelPreset
  binding_runtimeWidgetId :: jsstring

type_synonym TerminalPanelBindings = "(jsstring \<times> TerminalPanelBinding) list"

definition registerTerminalPanelBinding :: "TerminalPanelBindings \<Rightarrow> TerminalPanelBinding \<Rightarrow> TerminalPanelBindings" where
  "registerTerminalPanelBinding bindings binding = AList.update (binding_hostId binding) binding bindings"

definition unregisterTerminalPanelBinding :: "TerminalPanelBindings \<Rightarrow> jsstring \<Rightarrow> TerminalPanelBindings" where
  "unregisterTerminalPanelBinding bindings hostId = AList.delete hostId bindings"

definition resolveTerminalPanelBinding ::
    "TerminalPanelBindings \<Rightarrow> jsstring option \<Rightarrow> TerminalPanelBinding option" where
  "resolveTerminalPanelBinding bindings activeHostId =
     (let active = (if js_truthy activeHostId then map_of bindings (the activeHostId) else None) in
      js_nullish active
        (js_nullish (map_of bindings (js ''terminal''))
          (js_nullish (map_of bindings (js ''terminal-header''))
            (case bindings of [] \<Rightarrow> None | (_, b) # _ \<Rightarrow> Some b))))"

section \<open>Commands and output\<close>

text \<open>\<^verbatim>\<open>/^\/run(?:\s+([\s\S]*))?$/\<close>: the command after \<^verbatim>\<open>/run\<close> and white space, or nothing.\<close>

definition getRunCommand :: "jsstring \<Rightarrow> jsstring option" where
  "getRunCommand prompt =
     (if prompt = js ''/run'' then Some []
      else if js_startsWith prompt (js ''/run'') \<and> js_space (prompt ! 4) then Some (js_trim (drop 4 prompt))
      else None)"

definition targetSessionForConnectionKind :: "jsstring option \<Rightarrow> jsstring" where
  "targetSessionForConnectionKind connectionKind =
     (if connectionKind = Some (js ''ssh'') then js ''remote'' else js ''local'')"

text \<open>
  Polling for output. \<open>fetch k\<close> is the result of the \<open>k\<close>-th request (a failure, or the next sequence number and
  the number of chunks of the snapshot), \<open>aborted k\<close> the reason the \<open>k\<close>-th delay was aborted, if it was, and
  \<open>lag k\<close> the milliseconds the \<open>k\<close>-th request and a late timer take on top of the delay the code asked for.
  \<open>None\<close> means that the loop did not end within the given number of tests; the result carries the number of
  requests made.
\<close>

type_synonym terminal_poll = "int \<times> nat"

definition has_output :: "int \<Rightarrow> terminal_poll \<Rightarrow> bool" where
  "has_output fromSeq snapshot \<longleftrightarrow> \<not> (fst snapshot \<le> fromSeq \<and> snd snapshot = 0)"

definition next_poll_delay :: "nat \<Rightarrow> nat" where
  "next_poll_delay delay = min 500 ((16 * delay + 5) div 10)"

fun wait_loop ::
    "nat \<Rightarrow> (nat \<Rightarrow> nat) \<Rightarrow> (nat \<Rightarrow> jsstring option) \<Rightarrow> (nat \<Rightarrow> jsstring + terminal_poll) \<Rightarrow> int \<Rightarrow> nat \<Rightarrow> nat \<Rightarrow> nat \<Rightarrow> nat
       \<Rightarrow> terminal_poll \<Rightarrow> ((jsstring + terminal_poll) \<times> nat) option" where
  "wait_loop 0 lag aborted fetch fromSeq deadline k now delay latest = None"
| "wait_loop (Suc fuel) lag aborted fetch fromSeq deadline k now delay latest =
     (if \<not> has_output fromSeq latest \<and> now < deadline
      then case aborted k of
          Some reason \<Rightarrow> Some (Inl reason, Suc k)
        | None \<Rightarrow>
            (case fetch (Suc k) of
               Inl e \<Rightarrow> Some (Inl e, Suc (Suc k))
             | Inr snapshot \<Rightarrow>
                 wait_loop fuel lag aborted fetch fromSeq deadline (Suc k) (now + delay + lag (Suc k))
                   (next_poll_delay delay) snapshot)
      else Some (Inr latest, Suc k))"

definition waitForTerminalOutput ::
    "nat \<Rightarrow> (nat \<Rightarrow> nat) \<Rightarrow> (nat \<Rightarrow> jsstring option) \<Rightarrow> (nat \<Rightarrow> jsstring + terminal_poll) \<Rightarrow> int \<Rightarrow> nat
       \<Rightarrow> ((jsstring + terminal_poll) \<times> nat) option" where
  "waitForTerminalOutput fuel lag aborted fetch fromSeq start =
     (case fetch 0 of
        Inl e \<Rightarrow> Some (Inl e, 1)
      | Inr snapshot \<Rightarrow> wait_loop fuel lag aborted fetch fromSeq (start + 1500) 0 (start + lag 0) 100 snapshot)"

section \<open>The context widgets\<close>

lemma remdups_snoc: "remdups (ys @ [x]) = filter (\<lambda>y. y \<noteq> x) (remdups ys) @ [x]"
  by (induction ys) auto

lemma js_unique_Cons: "js_unique (x # xs) = x # filter (\<lambda>y. y \<noteq> x) (js_unique xs)"
  by (simp add: js_unique_def remdups_snoc rev_filter)

lemma deduplicate_fold:
  "foldl (\<lambda>accumulator widgetID.
       let trimmed = js_trim widgetID in
       if trimmed = [] \<or> trimmed \<in> set accumulator then accumulator else accumulator @ [trimmed]) acc ids
     = acc @ filter (\<lambda>i. i \<notin> set acc) (js_unique (filter (\<lambda>i. i \<noteq> []) (map js_trim ids)))"
proof (induction ids arbitrary: acc)
  case (Cons i ids)
  then show ?case
    by (auto simp: Let_def js_unique_Cons intro!: filter_cong)
qed (simp add: js_unique_def)

text \<open>
  The reduction is the set of the trimmed, non-blank ids in the order of their first occurrence.
\<close>

lemma deduplicateWidgetIDs_eq:
  "deduplicateWidgetIDs widgetIDs = js_unique (filter (\<lambda>i. i \<noteq> []) (map js_trim widgetIDs))"
  using deduplicate_fold [of "[]"] by (simp add: deduplicateWidgetIDs_def)

lemma js_unique_distinct: "distinct xs \<Longrightarrow> js_unique xs = xs"
  by (simp add: js_unique_def distinct_remdups_id)

lemma deduplicateWidgetIDs_idem: "deduplicateWidgetIDs (deduplicateWidgetIDs ids) = deduplicateWidgetIDs ids"
proof -
  let ?ids = "deduplicateWidgetIDs ids"
  have "\<forall>i\<in>set ?ids. i \<noteq> [] \<and> js_trim i = i" by (auto simp: deduplicateWidgetIDs_eq)
  then have "filter (\<lambda>i. i \<noteq> []) (map js_trim ?ids) = ?ids"
    by (simp add: map_idI)
  then show ?thesis by (simp add: deduplicateWidgetIDs_eq [of ?ids] js_unique_distinct deduplicateWidgetIDs_eq)
qed

text \<open>A selection holds each offered widget at most once and nothing else.\<close>

lemma filterContextWidgetSelection_subset:
  "distinct (filterContextWidgetSelection ids options)"
  "set (filterContextWidgetSelection ids options) \<subseteq> cw_value ` set options \<inter> js_trim ` set ids"
  by (auto simp: filterContextWidgetSelection_def deduplicateWidgetIDs_eq)

lemma resolved_widget_is_terminal:
  assumes "resolveContextTerminalWidget h widgets ids = Some w"
  shows "w \<in> set widgets \<and> isTerminalWorkspaceWidget h w \<and> ww_id w \<in> js_trim ` set ids"
proof -
  let ?byID = "map_of (rev (map (\<lambda>w. (ww_id w, w)) widgets))"
  let ?ok = "\<lambda>i. case ?byID i of None \<Rightarrow> False | Some w \<Rightarrow> isTerminalWorkspaceWidget h w"
  from assms obtain i where i: "List.find ?ok (deduplicateWidgetIDs ids) = Some i" "?byID i = Some w"
    by (auto simp: resolveContextTerminalWidget_def Let_def split: option.splits)
  then have "i \<in> set (deduplicateWidgetIDs ids)" and "isTerminalWorkspaceWidget h w"
    by (auto simp: find_Some_iff)
  moreover have "ww_id w = i" "w \<in> set widgets" using map_of_SomeD [OF i(2)] by auto
  ultimately show ?thesis by (auto simp: deduplicateWidgetIDs_eq)
qed

section \<open>The conversation list\<close>

lemma conversation_comparator: "js_comparator (conversation_compare h time)"
proof -
  let ?archived = "\<lambda>c. js_default (map_option js_trim (summary_archived_at c)) []"
  let ?rank = "\<lambda>c. if ?archived c = [] then 0 else 1 :: int"
  let ?stamp = "\<lambda>c. time (if ?archived c \<noteq> [] then ?archived c else summary_updated_at c)"
  have "js_comparator (\<lambda>l r. if ?rank l - ?rank r = 0
      then (if ?stamp r - ?stamp l = 0 then localeCompare h (summary_id r) (summary_id l) else ?stamp r - ?stamp l)
      else ?rank l - ?rank r)"
    by (intro js_comparator_lex js_comparator_diff
        js_comparator_swap [OF js_comparator_diff [of ?stamp]]
        js_comparator_swap [OF js_comparator_localeCompare [of h summary_id]])
  also have "(\<lambda>l r. if ?rank l - ?rank r = 0
      then (if ?stamp r - ?stamp l = 0 then localeCompare h (summary_id r) (summary_id l) else ?stamp r - ?stamp l)
      else ?rank l - ?rank r) = conversation_compare h time"
    by (intro ext) (auto simp: conversation_compare_def Let_def)
  finally show ?thesis .
qed

interpretation conversations: js_comparator "conversation_compare h time" for h time
  by (rule conversation_comparator)

lemma upsert_ids_distinct:
  assumes "distinct (map summary_id conversations)"
  shows "distinct (map summary_id (upsertConversationSummary h time conversations c))"
proof -
  let ?xs = "filter (\<lambda>d. summary_id d \<noteq> summary_id c) conversations @ [c]"
  have "distinct (map summary_id ?xs)" using assms by (auto simp: distinct_map_filter)
  moreover have "mset (upsertConversationSummary h time conversations c) = mset ?xs"
    by (simp add: upsertConversationSummary_def sortConversationSummaries_def)
  ultimately show ?thesis by (metis mset_eq_imp_distinct_iff mset_map)
qed

lemma upsert_sorted:
  "sorted_wrt (\<lambda>a b. conversation_compare h time a b \<le> 0) (upsertConversationSummary h time conversations c)"
  by (simp add: upsertConversationSummary_def sortConversationSummaries_def conversations.sorted_sort)

section \<open>Models\<close>

lemma preferred_model_available:
  "availableModels \<noteq> [] \<Longrightarrow> selectPreferredChatModel currentModel providerModel availableModels \<in> set availableModels"
  by (auto simp: selectPreferredChatModel_def Let_def js_nth_def)

section \<open>Terminal panels\<close>

lemma js_nullish_eq_Some: "js_nullish a b = Some x \<longleftrightarrow> a = Some x \<or> a = None \<and> b = Some x"
  by (cases a) auto

lemma registered_binding_found:
  "binding_hostId b \<noteq> [] \<Longrightarrow>
     resolveTerminalPanelBinding (registerTerminalPanelBinding bs b) (Some (binding_hostId b)) = Some b"
  by (simp add: resolveTerminalPanelBinding_def registerTerminalPanelBinding_def update_conv)

lemma resolved_binding_registered:
  "resolveTerminalPanelBinding bs active = Some b \<Longrightarrow> b \<in> snd ` set bs"
  by (auto simp: resolveTerminalPanelBinding_def Let_def js_nullish_eq_Some image_iff simp del: js_Cons
      split: if_splits list.splits dest!: map_of_SomeD intro: rev_bexI)

lemma some_binding_resolved: "bs \<noteq> [] \<Longrightarrow> resolveTerminalPanelBinding bs active \<noteq> None"
  by (auto simp: resolveTerminalPanelBinding_def Let_def split: list.splits)

section \<open>Polling\<close>

text \<open>The delay before the \<open>k\<close>-th retry and the time of the \<open>k\<close>-th test.\<close>

fun poll_delay :: "nat \<Rightarrow> nat" where
  "poll_delay 0 = 100"
| "poll_delay (Suc k) = next_poll_delay (poll_delay k)"

fun poll_time :: "(nat \<Rightarrow> nat) \<Rightarrow> nat \<Rightarrow> nat \<Rightarrow> nat" where
  "poll_time lag start 0 = start + lag 0"
| "poll_time lag start (Suc k) = poll_time lag start k + poll_delay k + lag (Suc k)"

definition poll_empty :: "(nat \<Rightarrow> jsstring + terminal_poll) \<Rightarrow> int \<Rightarrow> nat \<Rightarrow> bool" where
  "poll_empty fetch fromSeq k \<longleftrightarrow> (\<exists>s. fetch k = Inr s \<and> \<not> has_output fromSeq s)"

text \<open>
  What a finished wait of \<open>n\<close> requests means: every request but the last found nothing before the deadline, and
  the last one gave the result, unless the delay before the next one was aborted.
\<close>

definition wait_result ::
    "(nat \<Rightarrow> nat) \<Rightarrow> (nat \<Rightarrow> jsstring option) \<Rightarrow> (nat \<Rightarrow> jsstring + terminal_poll) \<Rightarrow> int \<Rightarrow> nat \<Rightarrow> nat
       \<Rightarrow> jsstring + terminal_poll \<Rightarrow> nat \<Rightarrow> bool" where
  "wait_result lag aborted fetch fromSeq start k result n \<longleftrightarrow>
     k < n \<and> (\<forall>i. k \<le> i \<and> i < n - 1 \<longrightarrow> poll_empty fetch fromSeq i \<and> poll_time lag start i < start + 1500)
     \<and> (case result of
          Inr s \<Rightarrow> fetch (n - 1) = Inr s \<and> (has_output fromSeq s \<or> start + 1500 \<le> poll_time lag start (n - 1))
        | Inl e \<Rightarrow> fetch (n - 1) = Inl e \<or> aborted (n - 1) = Some e)"

lemma wait_result_step:
  assumes "wait_result lag aborted fetch fromSeq start (Suc k) result n"
    and "poll_empty fetch fromSeq k" and "poll_time lag start k < start + 1500"
  shows "wait_result lag aborted fetch fromSeq start k result n"
  using assms unfolding wait_result_def
  by (metis (no_types, lifting) Suc_leI Suc_lessD le_neq_implies_less)

lemma wait_loop_result:
  assumes "0 < fuel" and "fetch k = Inr latest" and "start + 1500 \<le> poll_time lag start (k + fuel - 1)"
  shows "\<exists>result n. wait_loop fuel lag aborted fetch fromSeq (start + 1500) k (poll_time lag start k) (poll_delay k) latest
             = Some (result, n) \<and> n \<le> k + fuel \<and> wait_result lag aborted fetch fromSeq start k result n"
  using assms
proof (induction fuel arbitrary: k latest)
  case (Suc fuel)
  show ?case
  proof (cases "\<not> has_output fromSeq latest \<and> poll_time lag start k < start + 1500")
    case True
    then have fuel: "0 < fuel" using Suc.prems(3) by (cases fuel) auto
    have empty: "poll_empty fetch fromSeq k" using True Suc.prems(2) by (auto simp: poll_empty_def)
    show ?thesis
    proof (cases "aborted k")
      case None
      show ?thesis
      proof (cases "fetch (Suc k)")
        case (Inl e)
        with True None empty fuel show ?thesis
          by (auto simp: wait_result_def less_Suc_eq)
      next
        case (Inr s)
        from Suc.IH [OF fuel Inr] Suc.prems(3) fuel obtain result n where
          "wait_loop fuel lag aborted fetch fromSeq (start + 1500) (Suc k) (poll_time lag start (Suc k)) (poll_delay (Suc k)) s
             = Some (result, n)" "n \<le> Suc k + fuel" "wait_result lag aborted fetch fromSeq start (Suc k) result n"
          by auto
        with True None Inr empty show ?thesis
          using wait_result_step [of lag aborted fetch fromSeq start k result n] by auto
      qed
    qed (use True in \<open>auto simp: wait_result_def\<close>)
  qed (use Suc.prems(2) in \<open>auto simp: wait_result_def\<close>)
qed simp

lemma poll_time_six: "start + 1500 \<le> poll_time lag start 6"
proof -
  have six: "(6 :: nat) = Suc (Suc (Suc (Suc (Suc (Suc 0)))))" by simp
  show ?thesis unfolding six poll_time.simps poll_delay.simps by (simp add: next_poll_delay_def)
qed

text \<open>
  C40: waiting for terminal output ends: with delays of 100, 160, 256, 410, 500 and 500 milliseconds the seventh
  test is past the deadline of 1500 milliseconds, however long the requests take, so that at most seven requests
  are made (seven tests are enough fuel). The returned snapshot is the last one requested; every earlier request
  had answered before the deadline with no output; and an empty snapshot is returned only after the deadline. A
  failed request or an aborted delay ends the wait with that error.
\<close>

theorem waiting_for_output_ends:
  "\<exists>result n. waitForTerminalOutput 7 lag aborted fetch fromSeq start = Some (result, n) \<and> n \<le> 7
     \<and> wait_result lag aborted fetch fromSeq start 0 result n"
proof (cases "fetch 0")
  case (Inl e)
  then show ?thesis by (simp add: waitForTerminalOutput_def wait_result_def)
next
  case (Inr s)
  then show ?thesis
    using wait_loop_result [of 7 fetch 0 s start lag aborted fromSeq] poll_time_six [of start lag]
    by (simp add: waitForTerminalOutput_def)
qed

end
