(* ===== verification/Agent_Tools.thy ===== *)
theory Agent_Tools
  imports Agent_Panel Agent_Context
begin

text \<open>
  The asynchronous code of the agent panel as programs. A value of type \<open>'a prog\<close> is what an \<open>async\<close> function does
  until it returns or throws: updates and reads of the panel, and one constructor for each kind of request the
  panel awaits (the tool, terminal and conversation calls of \<^verbatim>\<open>features/agent/api/client.ts\<close>,
  \<^verbatim>\<open>features/terminal/api/client.ts\<close> and the callbacks of \<^verbatim>\<open>use-agent-panel.ts\<close>), whose continuation takes the
  answer or the error the request failed with. \<open>exec\<close> executes a program in a \<open>world\<close> that answers the requests;
  while a request is awaited, the world may also run any other code of the panel.
\<close>

section \<open>Requests and answers\<close>

text \<open>What a rejected promise carries: the message of an \<open>Error\<close>, or nothing for any other value.\<close>

type_synonym js_error = "jsstring option"

record AgentConversationContext =
  ctx_action_source :: jsstring
  ctx_active_widget_id :: jsstring
  ctx_repo_root :: jsstring
  ctx_target_connection_id :: "jsstring option"
  ctx_target_session :: "jsstring option"

record conversation_context = AgentConversationContext +
  ctx_widget_context_enabled :: bool
  ctx_widget_ids :: "jsstring list option"

datatype tool_input =
    SendInput jsstring jsstring
  | ConfirmApproval jsstring

record tool_request =
  req_approval_token :: "jsstring option"
  req_context :: AgentConversationContext
  req_input :: tool_input
  req_tool_name :: jsstring

record AgentToolPendingApproval =
  pending_id :: jsstring
  pending_summary :: "jsstring option"

text \<open>\<open>res_token\<close> is the \<open>approval_token\<close> of the output, when the output is an object and the token a string.\<close>

record AgentToolExecuteResponse =
  res_error :: "jsstring option"
  res_error_code :: "jsstring option"
  res_required_capabilities :: "jsstring list option"
  res_token :: "jsstring option"
  res_pending_approval :: "AgentToolPendingApproval option"
  res_status :: jsstring
  res_tool_capabilities :: "jsstring list option"

record loaded_context =
  loaded_activeWidgetID :: jsstring
  loaded_options :: "AiContextWidgetOption list"
  loaded_widgets :: "WorkspaceWidgetSnapshot list"

record terminal_baseline =
  baseline_next_seq :: int
  baseline_connection_kind :: "jsstring option"
  baseline_connection_id :: "jsstring option"

record plan_request =
  planned_context :: conversation_context
  planned_model :: "jsstring option"
  planned_prompt :: jsstring
  planned_widget :: jsstring

record explain_request =
  explain_command :: jsstring
  explain_context :: conversation_context
  explain_from_seq :: int
  explain_prompt :: jsstring
  explain_widget :: jsstring

record explain_response =
  explained_conversation :: AgentConversationSnapshot
  explained_provider_error :: "jsstring option"

record backend_prompt =
  backend_prompt_text :: jsstring
  backend_attachments :: "AgentAttachmentReference list option"
  backend_auditMessageID :: "jsstring option"
  backend_cancellable :: bool
  backend_model :: "jsstring option"

section \<open>Programs\<close>

datatype 'a prog =
    Return 'a
  | Throw js_error
  | Update "agent_panel \<Rightarrow> agent_panel" "'a prog"
  | Read "agent_panel \<Rightarrow> 'a prog"
  | ExecuteTool tool_request "js_error + AgentToolExecuteResponse \<Rightarrow> 'a prog"
  | LoadContext "js_error + loaded_context \<Rightarrow> 'a prog"
  | EnsureVisible "jsstring option" jsstring "js_error + jsstring option \<Rightarrow> 'a prog"
  | FetchSnapshot jsstring "js_error + terminal_baseline \<Rightarrow> 'a prog"
  | ResolveRuntime "js_error + jsstring \<Rightarrow> 'a prog"
  | PlanCommand plan_request "js_error + jsstring \<Rightarrow> 'a prog"
  | WaitForOutput jsstring int "js_error + unit \<Rightarrow> 'a prog"
  | ExplainCommand explain_request "js_error + explain_response \<Rightarrow> 'a prog"
  | RefreshList "js_error + unit \<Rightarrow> 'a prog"
  | BackendPrompt backend_prompt "'a prog"

primrec bind :: "'a prog \<Rightarrow> ('a \<Rightarrow> 'b prog) \<Rightarrow> 'b prog" where
  "bind (Return x) f = f x"
| "bind (Throw e) f = Throw e"
| "bind (Update u m) f = Update u (bind m f)"
| "bind (Read k) f = Read (\<lambda>p. bind (k p) f)"
| "bind (ExecuteTool r k) f = ExecuteTool r (\<lambda>a. bind (k a) f)"
| "bind (LoadContext k) f = LoadContext (\<lambda>a. bind (k a) f)"
| "bind (EnsureVisible i t k) f = EnsureVisible i t (\<lambda>a. bind (k a) f)"
| "bind (FetchSnapshot w k) f = FetchSnapshot w (\<lambda>a. bind (k a) f)"
| "bind (ResolveRuntime k) f = ResolveRuntime (\<lambda>a. bind (k a) f)"
| "bind (PlanCommand r k) f = PlanCommand r (\<lambda>a. bind (k a) f)"
| "bind (WaitForOutput w s k) f = WaitForOutput w s (\<lambda>a. bind (k a) f)"
| "bind (ExplainCommand r k) f = ExplainCommand r (\<lambda>a. bind (k a) f)"
| "bind (RefreshList k) f = RefreshList (\<lambda>a. bind (k a) f)"
| "bind (BackendPrompt b m) f = BackendPrompt b (bind m f)"

text \<open>\<open>try { m } catch (e) { h e }\<close>.\<close>

primrec catch :: "'a prog \<Rightarrow> (js_error \<Rightarrow> 'a prog) \<Rightarrow> 'a prog" where
  "catch (Return x) h = Return x"
| "catch (Throw e) h = h e"
| "catch (Update u m) h = Update u (catch m h)"
| "catch (Read k) h = Read (\<lambda>p. catch (k p) h)"
| "catch (ExecuteTool r k) h = ExecuteTool r (\<lambda>a. catch (k a) h)"
| "catch (LoadContext k) h = LoadContext (\<lambda>a. catch (k a) h)"
| "catch (EnsureVisible i t k) h = EnsureVisible i t (\<lambda>a. catch (k a) h)"
| "catch (FetchSnapshot w k) h = FetchSnapshot w (\<lambda>a. catch (k a) h)"
| "catch (ResolveRuntime k) h = ResolveRuntime (\<lambda>a. catch (k a) h)"
| "catch (PlanCommand r k) h = PlanCommand r (\<lambda>a. catch (k a) h)"
| "catch (WaitForOutput w s k) h = WaitForOutput w s (\<lambda>a. catch (k a) h)"
| "catch (ExplainCommand r k) h = ExplainCommand r (\<lambda>a. catch (k a) h)"
| "catch (RefreshList k) h = RefreshList (\<lambda>a. catch (k a) h)"
| "catch (BackendPrompt b m) h = BackendPrompt b (catch m h)"

definition settle :: "js_error + 'a \<Rightarrow> 'a prog" where
  "settle a = (case a of Inl e \<Rightarrow> Throw e | Inr x \<Rightarrow> Return x)"

definition set_panel :: "(agent_panel \<Rightarrow> agent_panel) \<Rightarrow> unit prog" where
  "set_panel f = Update f (Return ())"

definition throw_message :: "jsstring \<Rightarrow> 'a prog" where
  "throw_message text = Throw (Some text)"

section \<open>Execution\<close>

text \<open>
  The calls that matter for approvals, newest first: a tool call when it is sent and when it is answered, and a
  request to explain a command. \<open>interfere n\<close> is what the rest of the panel does to the panel and the log while
  the \<open>n\<close>-th request of the program is awaited.
\<close>

datatype tool_event =
    Sent tool_request
  | Answered tool_request "js_error + AgentToolExecuteResponse"
  | Explained explain_request

type_synonym tool_log = "tool_event list"
type_synonym panel_log = "agent_panel \<times> tool_log"

record world =
  interfere :: "nat \<Rightarrow> panel_log \<Rightarrow> panel_log"
  w_tool :: "nat \<Rightarrow> tool_request \<Rightarrow> js_error + AgentToolExecuteResponse"
  w_context :: "nat \<Rightarrow> js_error + loaded_context"
  w_visible :: "nat \<Rightarrow> jsstring option \<Rightarrow> jsstring \<Rightarrow> js_error + jsstring option"
  w_snapshot :: "nat \<Rightarrow> jsstring \<Rightarrow> js_error + terminal_baseline"
  w_runtime :: "nat \<Rightarrow> js_error + jsstring"
  w_plan :: "nat \<Rightarrow> plan_request \<Rightarrow> js_error + jsstring"
  w_wait :: "nat \<Rightarrow> jsstring \<Rightarrow> int \<Rightarrow> js_error + unit"
  w_explain :: "nat \<Rightarrow> explain_request \<Rightarrow> js_error + explain_response"
  w_refresh :: "nat \<Rightarrow> js_error + unit"

definition log_event :: "tool_event \<Rightarrow> panel_log \<Rightarrow> panel_log" where
  "log_event e S = (fst S, e # snd S)"

primrec exec :: "'a prog \<Rightarrow> world \<Rightarrow> nat \<Rightarrow> panel_log \<Rightarrow> (js_error + 'a) \<times> nat \<times> panel_log" where
  "exec (Return x) w n S = (Inr x, n, S)"
| "exec (Throw e) w n S = (Inl e, n, S)"
| "exec (Update u m) w n S = exec m w n (u (fst S), snd S)"
| "exec (Read k) w n S = exec (k (fst S)) w n S"
| "exec (ExecuteTool r k) w n S =
     (let a = w_tool w n r in exec (k a) w (Suc n) (log_event (Answered r a) (interfere w n (log_event (Sent r) S))))"
| "exec (LoadContext k) w n S = exec (k (w_context w n)) w (Suc n) (interfere w n S)"
| "exec (EnsureVisible i t k) w n S = exec (k (w_visible w n i t)) w (Suc n) (interfere w n S)"
| "exec (FetchSnapshot i k) w n S = exec (k (w_snapshot w n i)) w (Suc n) (interfere w n S)"
| "exec (ResolveRuntime k) w n S = exec (k (w_runtime w n)) w (Suc n) (interfere w n S)"
| "exec (PlanCommand r k) w n S = exec (k (w_plan w n r)) w (Suc n) (interfere w n S)"
| "exec (WaitForOutput i s k) w n S = exec (k (w_wait w n i s)) w (Suc n) (interfere w n S)"
| "exec (ExplainCommand r k) w n S = exec (k (w_explain w n r)) w (Suc n) (interfere w n (log_event (Explained r) S))"
| "exec (RefreshList k) w n S = exec (k (w_refresh w n)) w (Suc n) (interfere w n S)"
| "exec (BackendPrompt b m) w n S = exec m w (Suc n) (interfere w n S)"

lemma exec_bind:
  "exec (bind m f) w n S =
     (case exec m w n S of (Inl e, n', S') \<Rightarrow> (Inl e, n', S') | (Inr x, n', S') \<Rightarrow> exec (f x) w n' S')"
  by (induction m arbitrary: n S) (simp_all add: Let_def)

lemma exec_catch:
  "exec (catch m h) w n S =
     (case exec m w n S of (Inl e, n', S') \<Rightarrow> exec (h e) w n' S' | (Inr x, n', S') \<Rightarrow> (Inr x, n', S'))"
  by (induction m arbitrary: n S) (simp_all add: Let_def)

lemma exec_set_panel [simp]: "exec (set_panel f) w n S = (Inr (), n, (f (fst S), snd S))"
  by (simp add: set_panel_def)

section \<open>Justified calls\<close>

text \<open>
  An approval token may be sent only with the input whose approval was asked for and confirmed: the same input had
  been sent without a token and answered with the id of a pending approval, and the confirmation of that id
  had been answered \<open>ok\<close> with the token. A command may be explained only after its execution was answered \<open>ok\<close>.
\<close>

definition approval_asked :: "tool_event set \<Rightarrow> tool_input \<Rightarrow> jsstring \<Rightarrow> bool" where
  "approval_asked L input approvalID \<longleftrightarrow>
     (\<exists>request response pending. Answered request (Inr response) \<in> L \<and> req_input request = input
        \<and> req_approval_token request = None \<and> res_status response = js ''requires_confirmation''
        \<and> res_pending_approval response = Some pending \<and> pending_id pending = approvalID)"

definition approval_confirmed :: "tool_event set \<Rightarrow> jsstring \<Rightarrow> jsstring \<Rightarrow> bool" where
  "approval_confirmed L approvalID token \<longleftrightarrow>
     (\<exists>request response. Answered request (Inr response) \<in> L \<and> req_input request = ConfirmApproval approvalID
        \<and> res_status response = js ''ok'' \<and> res_token response = Some token)"

definition executed :: "tool_event set \<Rightarrow> tool_input \<Rightarrow> bool" where
  "executed L input \<longleftrightarrow>
     (\<exists>request response. Answered request (Inr response) \<in> L \<and> req_input request = input
        \<and> res_status response = js ''ok'')"

fun justified :: "tool_event set \<Rightarrow> tool_event \<Rightarrow> bool" where
  "justified L (Sent request) \<longleftrightarrow>
     (case req_approval_token request of
        None \<Rightarrow> True
      | Some token \<Rightarrow> \<exists>approvalID. approval_asked L (req_input request) approvalID \<and> approval_confirmed L approvalID token)"
| "justified L (Answered request a) \<longleftrightarrow> Sent request \<in> L"
| "justified L (Explained r) \<longleftrightarrow> executed L (SendInput (explain_command r) (explain_widget r))"

primrec log_ok :: "tool_log \<Rightarrow> bool" where
  "log_ok [] = True"
| "log_ok (e # log) = (justified (set log) e \<and> log_ok log)"

text \<open>The approval a pending \<^verbatim>\<open>/run\<close> waits for is one that was asked for.\<close>

definition run_recorded :: "tool_event set \<Rightarrow> PendingRunApproval option \<Rightarrow> bool" where
  "run_recorded L approval \<longleftrightarrow>
     (case approval of
        None \<Rightarrow> True
      | Some a \<Rightarrow> approval_asked L (SendInput (run_command a) (run_targetWidgetID a)) (run_approvalID a))"

definition flow_recorded :: "tool_event set \<Rightarrow> agent_panel \<Rightarrow> bool" where
  "flow_recorded L p \<longleftrightarrow> run_recorded L (Option.bind (ap_pendingFlow p) flow_runApproval)"

definition log_inv :: "panel_log \<Rightarrow> bool" where
  "log_inv S \<longleftrightarrow> log_ok (snd S) \<and> flow_recorded (set (snd S)) (fst S)"

lemma asked_mono: "approval_asked L i a \<Longrightarrow> L \<subseteq> M \<Longrightarrow> approval_asked M i a"
  unfolding approval_asked_def by blast

lemma confirmed_mono: "approval_confirmed L a t \<Longrightarrow> L \<subseteq> M \<Longrightarrow> approval_confirmed M a t"
  unfolding approval_confirmed_def by blast

lemma executed_mono: "executed L i \<Longrightarrow> L \<subseteq> M \<Longrightarrow> executed M i"
  unfolding executed_def by blast

lemma flow_recorded_mono: "flow_recorded L p \<Longrightarrow> L \<subseteq> M \<Longrightarrow> flow_recorded M p"
  by (auto simp: flow_recorded_def run_recorded_def split: option.splits intro: asked_mono)

lemma justified_mono: "justified L e \<Longrightarrow> L \<subseteq> M \<Longrightarrow> justified M e"
proof (induction L e rule: justified.induct)
  case (1 L request)
  then show ?case by (cases "req_approval_token request") (auto intro: asked_mono confirmed_mono)
qed (auto intro: executed_mono)

lemma log_inv_event:
  assumes "log_inv S" and "justified (set (snd S)) e"
  shows "log_inv (log_event e S)"
  using assms flow_recorded_mono [of "set (snd S)" "fst S" "set (e # snd S)"]
  by (auto simp: log_inv_def log_event_def)

section \<open>Checking a program\<close>

text \<open>
  \<open>safe m L Q\<close> checks a program against the events \<open>L\<close> that are known to be in the log: each call is justified by
  them, each update keeps the pending approval recorded, and \<open>Q\<close> holds of the outcome and the events known then.
  It unfolds along \<open>bind\<close> and \<open>catch\<close>, and \<open>world_rely.exec_safe\<close> shows that it is sound in every world whose
  interference keeps \<open>log_inv\<close> and only adds to the log.
\<close>

primrec safe :: "'a prog \<Rightarrow> tool_event set \<Rightarrow> (js_error + 'a \<Rightarrow> tool_event set \<Rightarrow> bool) \<Rightarrow> bool" where
  "safe (Return x) L Q = Q (Inr x) L"
| "safe (Throw e) L Q = Q (Inl e) L"
| "safe (Update u m) L Q \<longleftrightarrow> (\<forall>p M. L \<subseteq> M \<and> flow_recorded M p \<longrightarrow> flow_recorded M (u p)) \<and> safe m L Q"
| "safe (Read k) L Q \<longleftrightarrow> (\<forall>p M. L \<subseteq> M \<and> flow_recorded M p \<longrightarrow> safe (k p) M Q)"
| "safe (ExecuteTool r k) L Q \<longleftrightarrow>
     justified L (Sent r) \<and> (\<forall>a. safe (k a) ({Sent r, Answered r a} \<union> L) Q)"
| "safe (LoadContext k) L Q \<longleftrightarrow> (\<forall>a. safe (k a) L Q)"
| "safe (EnsureVisible i t k) L Q \<longleftrightarrow> (\<forall>a. safe (k a) L Q)"
| "safe (FetchSnapshot i k) L Q \<longleftrightarrow> (\<forall>a. safe (k a) L Q)"
| "safe (ResolveRuntime k) L Q \<longleftrightarrow> (\<forall>a. safe (k a) L Q)"
| "safe (PlanCommand r k) L Q \<longleftrightarrow> (\<forall>a. safe (k a) L Q)"
| "safe (WaitForOutput i s k) L Q \<longleftrightarrow> (\<forall>a. safe (k a) L Q)"
| "safe (ExplainCommand r k) L Q \<longleftrightarrow> justified L (Explained r) \<and> (\<forall>a. safe (k a) (insert (Explained r) L) Q)"
| "safe (RefreshList k) L Q \<longleftrightarrow> (\<forall>a. safe (k a) L Q)"
| "safe (BackendPrompt b m) L Q \<longleftrightarrow> safe m L Q"

lemma safe_bind [simp]:
  "safe (bind m f) L Q = safe m L (\<lambda>r M. case r of Inl e \<Rightarrow> Q (Inl e) M | Inr x \<Rightarrow> safe (f x) M Q)"
  by (induction m arbitrary: L) simp_all

lemma safe_catch [simp]:
  "safe (catch m h) L Q = safe m L (\<lambda>r M. case r of Inl e \<Rightarrow> safe (h e) M Q | Inr x \<Rightarrow> Q (Inr x) M)"
  by (induction m arbitrary: L) simp_all

lemma safe_conseq: "safe m L Q \<Longrightarrow> (\<And>r M. Q r M \<Longrightarrow> R r M) \<Longrightarrow> safe m L R"
  by (induction m arbitrary: L) auto

lemma all_case_sum [simp]: "All (case_sum f g) \<longleftrightarrow> All f \<and> All g"
  by (metis old.sum.exhaust sum.case)

lemma safe_settle [simp]: "safe (settle a) L Q = Q a L"
  by (cases a) (simp_all add: settle_def)

lemma safe_throw_message [simp]: "safe (throw_message text) L Q = Q (Inl (Some text)) L"
  by (simp add: throw_message_def)

text \<open>An update that leaves the pending flow alone, or clears it, keeps the approval recorded.\<close>

lemma safe_set_panel [simp]:
  "safe (set_panel f) L Q \<longleftrightarrow> (\<forall>p M. L \<subseteq> M \<and> flow_recorded M p \<longrightarrow> flow_recorded M (f p)) \<and> Q (Inr ()) L"
  by (simp add: set_panel_def)

locale world_rely =
  fixes interference :: "nat \<Rightarrow> panel_log \<Rightarrow> panel_log"
  assumes keeps: "log_inv S \<Longrightarrow> log_inv (interference n S)"
    and grows: "log_inv S \<Longrightarrow> set (snd S) \<subseteq> set (snd (interference n S))"
begin

lemma await:
  "log_inv S \<Longrightarrow> L \<subseteq> set (snd S) \<Longrightarrow>
     log_inv (interference n S) \<and> L \<subseteq> set (snd (interference n S)) \<and> set (snd S) \<subseteq> set (snd (interference n S))"
  using keeps grows by blast

lemma await_event:
  assumes "log_inv S" and "L \<subseteq> set (snd S)" and "justified L e"
  shows "log_inv (interference n (log_event e S))" and "insert e L \<subseteq> set (snd (interference n (log_event e S)))"
    and "set (snd S) \<subseteq> set (snd (interference n (log_event e S)))"
proof -
  let ?T = "interference n (log_event e S)"
  have "log_inv (log_event e S)" using assms(1-3) justified_mono log_inv_event by blast
  then show "log_inv ?T" "insert e L \<subseteq> set (snd ?T)" "set (snd S) \<subseteq> set (snd ?T)"
    using assms(2) keeps grows [of "log_event e S" n] by (auto simp: log_event_def)
qed

lemma exec_safe:
  assumes "interfere w = interference" and "safe m L Q" and "log_inv S" and "L \<subseteq> set (snd S)"
    and "exec m w n S = (r, n', S')"
  shows "log_inv S' \<and> set (snd S) \<subseteq> set (snd S') \<and> (\<exists>M. M \<subseteq> set (snd S') \<and> Q r M)"
  using assms(2-5)
proof (induction m arbitrary: L n S)
  case (Update u m)
  have "flow_recorded (set (snd S)) (u (fst S))" using Update.prems by (auto simp: log_inv_def)
  then have "log_inv (u (fst S), snd S)" using Update.prems by (simp add: log_inv_def)
  with Update.IH [of L "(u (fst S), snd S)" n] Update.prems show ?case by simp
next
  case (Read k)
  then have "safe (k (fst S)) (set (snd S)) Q" by (auto simp: log_inv_def)
  then show ?case using Read.IH [of "k (fst S)" "set (snd S)" S n] Read.prems by simp
next
  case (ExecuteTool req k)
  let ?a = "w_tool w n req"
  let ?T = "interference n (log_event (Sent req) S)"
  note T = await_event [OF ExecuteTool.prems(2,3), of "Sent req" n]
  have sent: "justified L (Sent req)" using ExecuteTool.prems by simp
  let ?S = "log_event (Answered req ?a) ?T"
  have "log_inv ?S" using T [OF sent] by (intro log_inv_event) auto
  moreover have "{Sent req, Answered req ?a} \<union> L \<subseteq> set (snd ?S)" "set (snd S) \<subseteq> set (snd ?S)"
    using T [OF sent] by (auto simp: log_event_def)
  ultimately show ?case
    using ExecuteTool.IH [of "k ?a" "{Sent req, Answered req ?a} \<union> L" ?S "Suc n"] ExecuteTool.prems assms(1)
    by (auto simp: Let_def)
next
  case (ExplainCommand req k)
  note T = await_event [OF ExplainCommand.prems(2,3), of "Explained req" n]
  then show ?case
    using ExplainCommand.IH [of "k (w_explain w n req)" "insert (Explained req) L"
        "interference n (log_event (Explained req) S)" "Suc n"] ExplainCommand.prems assms(1)
    by auto
next
  case (LoadContext k)
  with await [OF LoadContext.prems(2,3), of n] assms(1) show ?case
    using LoadContext.IH [of "k (w_context w n)" L "interference n S" "Suc n"] by auto
next
  case (EnsureVisible i t k)
  with await [OF EnsureVisible.prems(2,3), of n] assms(1) show ?case
    using EnsureVisible.IH [of "k (w_visible w n i t)" L "interference n S" "Suc n"] by auto
next
  case (FetchSnapshot i k)
  with await [OF FetchSnapshot.prems(2,3), of n] assms(1) show ?case
    using FetchSnapshot.IH [of "k (w_snapshot w n i)" L "interference n S" "Suc n"] by auto
next
  case (ResolveRuntime k)
  with await [OF ResolveRuntime.prems(2,3), of n] assms(1) show ?case
    using ResolveRuntime.IH [of "k (w_runtime w n)" L "interference n S" "Suc n"] by auto
next
  case (PlanCommand i k)
  with await [OF PlanCommand.prems(2,3), of n] assms(1) show ?case
    using PlanCommand.IH [of "k (w_plan w n i)" L "interference n S" "Suc n"] by auto
next
  case (WaitForOutput i s k)
  with await [OF WaitForOutput.prems(2,3), of n] assms(1) show ?case
    using WaitForOutput.IH [of "k (w_wait w n i s)" L "interference n S" "Suc n"] by auto
next
  case (RefreshList k)
  with await [OF RefreshList.prems(2,3), of n] assms(1) show ?case
    using RefreshList.IH [of "k (w_refresh w n)" L "interference n S" "Suc n"] by auto
next
  case (BackendPrompt b m)
  note T = await [OF BackendPrompt.prems(2,3), of n]
  have "log_inv S' \<and> set (snd (interference n S)) \<subseteq> set (snd S') \<and> (\<exists>M. M \<subseteq> set (snd S') \<and> Q r M)"
    using BackendPrompt.IH [of L "interference n S" "Suc n"] BackendPrompt.prems T assms(1) by simp
  with T show ?case by blast
qed auto

text \<open>A checked program is itself an interference that other programs can rely on.\<close>

lemma exec_rely:
  assumes "interfere w = interference" and "\<And>n. safe (m n) {} (\<lambda>_ _. True)"
  shows "world_rely (\<lambda>n S. snd (snd (exec (m n) w (k n) S)))"
proof
  fix S n assume S: "log_inv S"
  obtain r n' S' where exec: "exec (m n) w (k n) S = (r, n', S')" by (metis prod_cases3)
  note inv = exec_safe [OF assms S _ exec]
  show "log_inv (snd (snd (exec (m n) w (k n) S)))"
    and "set (snd S) \<subseteq> set (snd (snd (snd (exec (m n) w (k n) S))))"
    using inv exec by simp_all
qed

end

interpretation undisturbed: world_rely "\<lambda>_ S. S"
  by unfold_locales auto

end
