(* ===== verification/Agent_Execution.thy ===== *)
theory Agent_Execution
  imports Agent_Tools
begin

text \<open>
  Running commands in a terminal on behalf of the agent: \<^verbatim>\<open>features/agent/model/agent-panel-execution.ts\<close> (which
  terminal, the \<^verbatim>\<open>/run\<close> prompt, an approved \<^verbatim>\<open>/run\<close>, an approved plan) and \<^verbatim>\<open>agent-panel-approval.ts\<close> (the
  operator's answers), with the contexts of \<^verbatim>\<open>use-agent-panel-context-selection.ts\<close> and \<open>cancelPendingPlan\<close> of
  \<^verbatim>\<open>use-agent-panel.ts\<close>.
\<close>

section \<open>Contexts\<close>

record context_selection =
  cs_activeWidgetHostId :: jsstring
  cs_contextWidgetOptions :: "AiContextWidgetOption list"
  cs_isWidgetContextEnabled :: bool
  cs_storedContextWidgetIDs :: "jsstring list"
  cs_terminalPanelBindings :: TerminalPanelBindings
  cs_workspaceActiveWidgetID :: jsstring

definition deriveFallbackContextWidgetIDs :: "context_selection \<Rightarrow> jsstring option \<Rightarrow> jsstring list" where
  "deriveFallbackContextWidgetIDs input nextWorkspaceActiveWidgetID =
     (let terminalBinding = resolveTerminalPanelBinding (cs_terminalPanelBindings input) (Some (cs_activeWidgetHostId input))
      in deduplicateWidgetIDs
           [js_default (map_option binding_runtimeWidgetId terminalBinding) [],
            js_default nextWorkspaceActiveWidgetID (cs_workspaceActiveWidgetID input)])"

definition resolveCurrentContextWidgetID ::
    "context_selection \<Rightarrow> AiContextWidgetOption list \<Rightarrow> jsstring option \<Rightarrow> jsstring" where
  "resolveCurrentContextWidgetID input options nextWorkspaceActiveWidgetID =
     js_default (List.find (\<lambda>widgetID. widgetID \<in> cw_value ` set options)
       (deriveFallbackContextWidgetIDs input nextWorkspaceActiveWidgetID)) []"

definition effectiveContextWidgetIDs :: "context_selection \<Rightarrow> jsstring list" where
  "effectiveContextWidgetIDs input =
     (let filteredSelection =
            (if cs_contextWidgetOptions input \<noteq> []
             then filterContextWidgetSelection (cs_storedContextWidgetIDs input) (cs_contextWidgetOptions input)
             else deduplicateWidgetIDs (cs_storedContextWidgetIDs input))
      in if filteredSelection \<noteq> [] then filteredSelection else deriveFallbackContextWidgetIDs input None)"

record context_request =
  cr_actionSource :: jsstring
  cr_activeWidgetID :: "jsstring option"
  cr_includeActiveWidgetInSelection :: bool
  cr_repoRoot :: jsstring
  cr_targetConnectionID :: "jsstring option"
  cr_targetSession :: "jsstring option"

definition first_or_empty :: "jsstring list \<Rightarrow> jsstring" where
  "first_or_empty xs = (case xs of [] \<Rightarrow> [] | x # _ \<Rightarrow> x)"

definition createConversationContext :: "context_selection \<Rightarrow> context_request \<Rightarrow> conversation_context" where
  "createConversationContext input contextInput =
     (let selectedWidgetIDs = (if cs_isWidgetContextEnabled input then effectiveContextWidgetIDs input else []);
          selectedFirst = first_or_empty selectedWidgetIDs;
          activeWidgetID = trim_or (cr_activeWidgetID contextInput)
            (if selectedFirst \<noteq> [] then selectedFirst else first_or_empty (deriveFallbackContextWidgetIDs input None));
          contextWidgetIDs = (if cs_isWidgetContextEnabled input
            then deduplicateWidgetIDs
              (if cr_includeActiveWidgetInSelection contextInput \<and> activeWidgetID \<noteq> []
               then activeWidgetID # selectedWidgetIDs else selectedWidgetIDs)
            else [])
      in \<lparr>ctx_action_source = cr_actionSource contextInput, ctx_active_widget_id = activeWidgetID,
          ctx_repo_root = cr_repoRoot contextInput, ctx_target_connection_id = cr_targetConnectionID contextInput,
          ctx_target_session = cr_targetSession contextInput,
          ctx_widget_context_enabled = cs_isWidgetContextEnabled input,
          ctx_widget_ids = (if contextWidgetIDs \<noteq> [] then Some contextWidgetIDs else None)\<rparr>)"

definition createToolExecutionContext :: "context_selection \<Rightarrow> context_request \<Rightarrow> AgentConversationContext" where
  "createToolExecutionContext input contextInput =
     (let conversationContext = createConversationContext input contextInput
      in \<lparr>ctx_action_source = ctx_action_source conversationContext,
          ctx_active_widget_id = ctx_active_widget_id conversationContext,
          ctx_repo_root = ctx_repo_root conversationContext,
          ctx_target_connection_id = ctx_target_connection_id conversationContext,
          ctx_target_session = ctx_target_session conversationContext\<rparr>)"

section \<open>Policy and errors\<close>

definition terminalInputPolicyBlockedMessage :: jsstring where
  "terminalInputPolicyBlockedMessage =
     [1050, 1086, 1084, 1072, 1085, 1076, 1072] @ js '' ''
     @ [1079, 1072, 1073, 1083, 1086, 1082, 1080, 1088, 1086, 1074, 1072, 1085, 1072] @ js '' ''
     @ [1087, 1086, 1083, 1080, 1090, 1080, 1082, 1086, 1081] @ js '': ''
     @ [1074, 1099, 1073, 1088, 1072, 1085, 1085, 1072, 1103] @ js '' ''
     @ [1082, 1086, 1084, 1073, 1080, 1085, 1072, 1094, 1080, 1103] @ js '' AI profile/role/mode ''
     @ [1086, 1090, 1082, 1083, 1102, 1095, 1072, 1077, 1090] @ js '' terminal:input. '' @ [1044, 1083, 1103]
     @ js '' '' @ [1079, 1072, 1087, 1091, 1089, 1082, 1072] @ js '' ''
     @ [1074, 1099, 1073, 1077, 1088, 1080, 1090, 1077] @ js '' '' @ [1088, 1077, 1078, 1080, 1084]
     @ js '' Implement, Debug, Ops '' @ [1080, 1083, 1080] @ js '' Incident '' @ [1080] @ js '' ''
     @ [1088, 1086, 1083, 1100] @ js '' '' @ [1073, 1077, 1079] @ js '' read-only ''
     @ [1086, 1075, 1088, 1072, 1085, 1080, 1095, 1077, 1085, 1080, 1103] @ js '', '' @ [1079, 1072, 1090, 1077, 1084]
     @ js '' '' @ [1087, 1086, 1074, 1090, 1086, 1088, 1080, 1090, 1077] @ js '' approve.''"

definition isTerminalInputBlockedByPolicy :: "jsstring list option \<Rightarrow> bool" where
  "isTerminalInputBlockedByPolicy removals =
     (case removals of None \<Rightarrow> False | Some rs \<Rightarrow> js ''terminal:input'' \<in> set rs)"

definition isTerminalInputPolicyDenied :: "AgentToolExecuteResponse \<Rightarrow> bool" where
  "isTerminalInputPolicyDenied response =
     (if res_status response \<noteq> js ''error'' \<or> res_error_code response \<noteq> Some (js ''policy_denied'') then False
      else map_option js_trim (res_error response) = Some (js ''capability_denied'')
        \<and> (js ''terminal:input'' \<in> set (js_default (res_required_capabilities response) [])
           \<or> js ''terminal:input'' \<in> set (js_default (res_tool_capabilities response) [])))"

definition getTerminalExecutionResponseError :: "AgentToolExecuteResponse \<Rightarrow> jsstring \<Rightarrow> jsstring" where
  "getTerminalExecutionResponseError response fallback =
     (if isTerminalInputPolicyDenied response then terminalInputPolicyBlockedMessage
      else if res_error_code response = Some (js ''policy_denied'')
      then
     [1050, 1086, 1084, 1072, 1085, 1076, 1072] @ js '' ''
     @ [1079, 1072, 1073, 1083, 1086, 1082, 1080, 1088, 1086, 1074, 1072, 1085, 1072] @ js '' ''
     @ [1087, 1086, 1083, 1080, 1090, 1080, 1082, 1086, 1081] @ js '': '' @ trim_or (res_error response) (js ''policy_denied'') @ js ''.''
      else trim_or (res_error response) fallback)"

definition getErrorMessage :: "js_error \<Rightarrow> jsstring \<Rightarrow> jsstring" where
  "getErrorMessage error fallback =
     (case error of None \<Rightarrow> fallback | Some message \<Rightarrow> if js_trim message \<noteq> [] then message else fallback)"

definition getApprovalToken :: "AgentToolExecuteResponse \<Rightarrow> jsstring prog" where
  "getApprovalToken response =
     (case res_token response of
        Some token \<Rightarrow> if js_trim token \<noteq> [] then Return token
          else throw_message (js ''Approval confirmation did not return an approval token.'')
      | None \<Rightarrow> throw_message (js ''Approval confirmation did not return an approval token.''))"

definition executeAgentTool :: "tool_request \<Rightarrow> AgentToolExecuteResponse prog" where
  "executeAgentTool request = ExecuteTool request settle"

section \<open>The terminal of an execution\<close>

record TerminalExecutionTarget =
  target_baselineNextSeq :: int
  target_connectionID :: jsstring
  target_session :: jsstring
  target_widgetID :: jsstring

record resolve_input =
  ri_hasLoadedContextWidgets :: bool
  ri_canEnsureVisible :: bool
  ri_selection :: context_selection
  ri_workspaceActiveWidgetID :: jsstring
  ri_workspaceWidgets :: "WorkspaceWidgetSnapshot list"

definition context_terminal_candidates :: "context_selection \<Rightarrow> loaded_context \<Rightarrow> jsstring list" where
  "context_terminal_candidates selection snapshot =
     (let activeContextTerminalID =
            resolveCurrentContextWidgetID selection (loaded_options snapshot) (Some (loaded_activeWidgetID snapshot));
          selectedContextWidgetIDs =
            (if loaded_options snapshot \<noteq> []
             then filterContextWidgetSelection (cs_storedContextWidgetIDs selection) (loaded_options snapshot)
             else deduplicateWidgetIDs (cs_storedContextWidgetIDs selection))
      in if selectedContextWidgetIDs \<noteq> []
         then deduplicateWidgetIDs (selectedContextWidgetIDs
           @ (if activeContextTerminalID \<in> set selectedContextWidgetIDs then [activeContextTerminalID] else []))
         else [activeContextTerminalID])"

definition resolve_context_terminal :: "host \<Rightarrow> resolve_input \<Rightarrow> WorkspaceWidgetSnapshot option prog" where
  "resolve_context_terminal h input =
     (let selection = ri_selection input;
          from_snapshot = (\<lambda>snapshot.
            resolveContextTerminalWidget h (loaded_widgets snapshot) (context_terminal_candidates selection snapshot))
      in if \<not> (cs_isWidgetContextEnabled selection
              \<and> (cs_storedContextWidgetIDs selection \<noteq> [] \<or> ri_hasLoadedContextWidgets input))
         then Return None
         else if ri_hasLoadedContextWidgets input
         then Return (from_snapshot
           \<lparr>loaded_activeWidgetID = ri_workspaceActiveWidgetID input,
            loaded_options = cs_contextWidgetOptions selection, loaded_widgets = ri_workspaceWidgets input\<rparr>)
         else bind (LoadContext settle) (\<lambda>snapshot. Return (from_snapshot snapshot)))"

definition terminal_target :: "jsstring \<Rightarrow> terminal_baseline \<Rightarrow> TerminalExecutionTarget prog" where
  "terminal_target targetWidgetID snapshot =
     (let targetSession = targetSessionForConnectionKind (baseline_connection_kind snapshot);
          targetConnectionID = trim_or (baseline_connection_id snapshot)
            (if targetSession = js ''local'' then js ''local'' else [])
      in if targetConnectionID = []
         then throw_message (js ''Terminal '' @ targetWidgetID @ js '' has no active connection id.'')
         else Return \<lparr>target_baselineNextSeq = baseline_next_seq snapshot, target_connectionID = targetConnectionID,
           target_session = targetSession, target_widgetID = targetWidgetID\<rparr>)"

definition resolveTerminalExecutionTargetForPanel :: "host \<Rightarrow> resolve_input \<Rightarrow> TerminalExecutionTarget prog" where
  "resolveTerminalExecutionTargetForPanel h input =
     bind (resolve_context_terminal h input) (\<lambda>contextTerminal.
       let bindings = cs_terminalPanelBindings (ri_selection input);
           fallbackTerminal = resolveTerminalPanelBinding bindings (Some (cs_activeWidgetHostId (ri_selection input)));
           hasVisibleContextTerminal = (case contextTerminal of None \<Rightarrow> False
             | Some t \<Rightarrow> list_ex (\<lambda>(_, b). binding_runtimeWidgetId b = ww_id t) bindings);
           requestedWidgetTitle = trim_or (Option.bind contextTerminal ww_title)
             (if map_option binding_preset fallbackTerminal = Some PresetMain then js ''Main terminal'' else js ''Workspace shell'');
           targetWidgetID = js_default (js_nullish (map_option ww_id contextTerminal)
             (map_option binding_runtimeWidgetId fallbackTerminal)) [];
           needsVisibleTerminalTarget =
             (targetWidgetID = [] \<or> (contextTerminal \<noteq> None \<and> \<not> hasVisibleContextTerminal))
       in bind (if ri_canEnsureVisible input \<and> needsVisibleTerminalTarget
                then bind (EnsureVisible (if targetWidgetID = [] then None else Some targetWidgetID) requestedWidgetTitle settle)
                  (\<lambda>ensured. Return (trim_or ensured targetWidgetID))
                else Return targetWidgetID) (\<lambda>targetWidgetID.
            if targetWidgetID = [] then throw_message (js ''No terminal widget is available for execution.'')
            else bind (FetchSnapshot targetWidgetID settle) (terminal_target targetWidgetID)))"

section \<open>Running a command\<close>

definition run_context :: "jsstring \<Rightarrow> jsstring \<Rightarrow> jsstring \<Rightarrow> jsstring \<Rightarrow> jsstring \<Rightarrow> AgentConversationContext" where
  "run_context actionSource widgetID root connectionID session =
     \<lparr>ctx_action_source = actionSource, ctx_active_widget_id = widgetID, ctx_repo_root = root,
      ctx_target_connection_id = Some connectionID, ctx_target_session = Some session\<rparr>"

definition target_context_request :: "jsstring \<Rightarrow> jsstring \<Rightarrow> jsstring \<Rightarrow> jsstring \<Rightarrow> jsstring \<Rightarrow> context_request" where
  "target_context_request actionSource widgetID root connectionID session =
     \<lparr>cr_actionSource = actionSource, cr_activeWidgetID = Some widgetID, cr_includeActiveWidgetInSelection = True,
      cr_repoRoot = root, cr_targetConnectionID = Some connectionID, cr_targetSession = Some session\<rparr>"

definition send_input :: "jsstring option \<Rightarrow> AgentConversationContext \<Rightarrow> jsstring \<Rightarrow> jsstring \<Rightarrow> tool_request" where
  "send_input token context command widgetID =
     \<lparr>req_approval_token = token, req_context = context, req_input = SendInput command widgetID,
      req_tool_name = js ''term.send_input''\<rparr>"

definition safety_confirm :: "AgentConversationContext \<Rightarrow> jsstring \<Rightarrow> tool_request" where
  "safety_confirm context approvalID =
     \<lparr>req_approval_token = None, req_context = context, req_input = ConfirmApproval approvalID,
      req_tool_name = js ''safety.confirm''\<rparr>"

text \<open>The end of each execution: wait for output, ask for an explanation, apply and refresh the conversation.\<close>

definition explain_output :: "explain_request \<Rightarrow> unit prog" where
  "explain_output request =
     bind (WaitForOutput (explain_widget request) (explain_from_seq request) settle) (\<lambda>_.
     bind (ExplainCommand request settle) (\<lambda>explainResponse.
     bind (set_panel (applyConversationSnapshot (explained_conversation explainResponse))) (\<lambda>_.
     bind (RefreshList settle) (\<lambda>_.
       let providerError = trim_or (explained_provider_error explainResponse) [] in
       if providerError \<noteq> [] then set_panel (\<lambda>p. p\<lparr>ap_submitError := Some providerError\<rparr>) else Return ()))))"

record run_input =
  in_host :: host
  in_hostId :: jsstring
  in_selection :: context_selection
  in_resolve :: resolve_input
  in_sortKey :: LocalSortKeyGenerator
  in_now :: "nat \<Rightarrow> int"
  in_flowSequence :: nat
  in_hasTerminalExecutionContext :: bool
  in_selectedModel :: jsstring

definition ask_run_approval ::
    "run_input \<Rightarrow> jsstring \<Rightarrow> jsstring \<Rightarrow> jsstring \<Rightarrow> TerminalExecutionTarget \<Rightarrow> AgentToolPendingApproval \<Rightarrow> bool prog" where
  "ask_run_approval input prompt root command target pendingApproval =
     (let flowID = js ''agent-run-'' @ in_hostId input @ js ''-'' @ js_of_nat (in_flowSequence input);
          summary = trim_or (pending_summary pendingApproval) (js ''Run '' @ command);
          tools = [\<lparr>tool_name = js ''term.send_input'', tool_description = Some summary\<rparr>];
          planMessage = createPlanMessage (in_host input) flowID prompt tools (in_sortKey input 0) None;
          approvalMessage = createApprovalMessage flowID (in_sortKey input 1) ApprovalPending;
          runApproval = \<lparr>run_approvalID = pending_id pendingApproval,
            run_baselineNextSeq = target_baselineNextSeq target, run_command = command, run_prompt = prompt,
            run_repoRoot = root, run_targetConnectionID = target_connectionID target,
            run_targetSession = target_session target, run_targetWidgetID = target_widgetID target\<rparr>;
          nextFlow = \<lparr>flow_approvalMessageID = Some (approval_id approvalMessage), flow_attachments = None,
            flow_auditMessageID = None, flow_auditProgressed = False, flow_flowID = flowID, flow_prompt = prompt,
            flow_questionnaireMessageID = None, flow_runApproval = Some runApproval, flow_tools = tools\<rparr>
      in bind (set_panel (\<lambda>p. p\<lparr>ap_pendingFlow := Some nextFlow,
             ap_interaction := sortMessagesBySortKey
               (ap_interaction p @ [PlanView planMessage, ApprovalView approvalMessage])\<rparr>)) (\<lambda>_. Return True))"

definition runTerminalPromptForPanel :: "run_input \<Rightarrow> jsstring \<Rightarrow> jsstring \<Rightarrow> bool prog" where
  "runTerminalPromptForPanel input prompt root =
     (case getRunCommand prompt of
        None \<Rightarrow> Return False
      | Some command \<Rightarrow>
          if command = [] then throw_message (js ''Usage: /run <command>'')
          else
            bind (resolveTerminalExecutionTargetForPanel (in_host input) (in_resolve input)) (\<lambda>target.
            bind (executeAgentTool (send_input None
                (run_context (js ''frontend.ai.sidebar.run'') (target_widgetID target) root
                  (target_connectionID target) (target_session target)) command (target_widgetID target)))
              (\<lambda>executionResponse.
                if res_status executionResponse = js ''requires_confirmation''
                then (case res_pending_approval executionResponse of
                        Some pendingApproval \<Rightarrow>
                          if pending_id pendingApproval \<noteq> []
                          then ask_run_approval input prompt root command target pendingApproval
                          else throw_message
                            (js ''Confirmation required before /run can continue, but no approval id was returned.'')
                      | None \<Rightarrow> throw_message
                          (js ''Confirmation required before /run can continue, but no approval id was returned.''))
                else if res_status executionResponse \<noteq> js ''ok''
                then throw_message (getTerminalExecutionResponseError executionResponse (js ''Unable to execute /run command.''))
                else bind (explain_output
                    \<lparr>explain_command = command,
                     explain_context = createConversationContext (in_selection input)
                       (target_context_request (js ''frontend.ai.sidebar.run'') (target_widgetID target) root
                         (target_connectionID target) (target_session target)),
                     explain_from_seq = target_baselineNextSeq target, explain_prompt = prompt,
                     explain_widget = target_widgetID target\<rparr>) (\<lambda>_. Return True))))"

definition runApprovedTerminalPromptForPanel :: "run_input \<Rightarrow> PendingRunApproval \<Rightarrow> jsstring \<Rightarrow> unit prog" where
  "runApprovedTerminalPromptForPanel input runApproval approvalToken =
     bind (executeAgentTool (send_input (Some approvalToken)
         (run_context (js ''frontend.ai.sidebar.run'') (run_targetWidgetID runApproval) (run_repoRoot runApproval)
           (run_targetConnectionID runApproval) (run_targetSession runApproval))
         (run_command runApproval) (run_targetWidgetID runApproval)))
       (\<lambda>executionResponse.
         if res_status executionResponse = js ''requires_confirmation''
         then throw_message (js ''Confirmed /run execution still requires approval.'')
         else if res_status executionResponse \<noteq> js ''ok''
         then throw_message
           (getTerminalExecutionResponseError executionResponse (js ''Unable to execute approved /run command.''))
         else explain_output
           \<lparr>explain_command = run_command runApproval,
            explain_context = createConversationContext (in_selection input)
              (target_context_request (js ''frontend.ai.sidebar.run'') (run_targetWidgetID runApproval)
                (run_repoRoot runApproval) (run_targetConnectionID runApproval) (run_targetSession runApproval)),
            explain_from_seq = run_baselineNextSeq runApproval, explain_prompt = run_prompt runApproval,
            explain_widget = run_targetWidgetID runApproval\<rparr>)"

text \<open>
  The planned command is sent; when the backend asks for a confirmation, the approval of the plan is used to
  confirm it and the same input is sent again with the token.
\<close>

definition confirm_planned_command ::
    "AgentConversationContext \<Rightarrow> jsstring \<Rightarrow> jsstring \<Rightarrow> AgentToolExecuteResponse \<Rightarrow> AgentToolExecuteResponse prog" where
  "confirm_planned_command executionContext command widgetID executionResponse =
     (if res_status executionResponse \<noteq> js ''requires_confirmation'' then Return executionResponse
      else
        (let missing = throw_message (js ''Approval confirmation did not return a terminal execution approval id.'') in
         case res_pending_approval executionResponse of
           None \<Rightarrow> missing
         | Some pendingApproval \<Rightarrow>
             if pending_id pendingApproval = [] then missing
             else
               bind (executeAgentTool (safety_confirm
                   (executionContext\<lparr>ctx_action_source := js ''frontend.ai.sidebar.execute.confirm''\<rparr>)
                   (pending_id pendingApproval))) (\<lambda>confirmationResponse.
                 if res_status confirmationResponse \<noteq> js ''ok''
                 then throw_message (trim_or (res_error confirmationResponse)
                   (js ''Unable to confirm the planned terminal execution.''))
                 else bind (getApprovalToken confirmationResponse) (\<lambda>approvalToken.
                   executeAgentTool (send_input (Some approvalToken) executionContext command widgetID)))))"

definition runApprovedExecutionPlanForPanel :: "run_input \<Rightarrow> jsstring \<Rightarrow> jsstring \<Rightarrow> jsstring option \<Rightarrow> unit prog" where
  "runApprovedExecutionPlanForPanel input prompt root model =
     bind (resolveTerminalExecutionTargetForPanel (in_host input) (in_resolve input)) (\<lambda>target.
       let widgetID = target_widgetID target;
           contextRequest = target_context_request (js ''frontend.ai.sidebar.execute'') widgetID root
             (target_connectionID target) (target_session target);
           planningContext = createConversationContext (in_selection input) contextRequest;
           executionContext = createToolExecutionContext (in_selection input) contextRequest
       in bind (PlanCommand \<lparr>planned_context = planningContext, planned_model = model, planned_prompt = prompt,
              planned_widget = widgetID\<rparr> settle) (\<lambda>plannedCommand.
            let command = js_trim plannedCommand in
            if command = []
            then throw_message (js ''Terminal command planning did not return a runnable command.'')
            else
              bind (executeAgentTool (send_input None executionContext command widgetID)) (\<lambda>firstResponse.
              bind (confirm_planned_command executionContext command widgetID firstResponse) (\<lambda>executionResponse.
                if res_status executionResponse \<noteq> js ''ok''
                then throw_message (getTerminalExecutionResponseError executionResponse
                  (js ''Unable to execute the approved terminal plan.''))
                else explain_output
                  \<lparr>explain_command = command, explain_context = planningContext,
                   explain_from_seq = target_baselineNextSeq target, explain_prompt = prompt,
                   explain_widget = widgetID\<rparr>))))"

section \<open>The operator's answers\<close>

definition selected_model :: "run_input \<Rightarrow> jsstring option" where
  "selected_model input = (if in_selectedModel input = [] then None else Some (in_selectedModel input))"

definition replace_messages :: "jsstring \<Rightarrow> ChatMessageView list \<Rightarrow> agent_panel \<Rightarrow> agent_panel" where
  "replace_messages messageID messages p =
     p\<lparr>ap_interaction := sortMessagesBySortKey (filter (\<lambda>m. message_id m \<noteq> messageID) (ap_interaction p) @ messages)\<rparr>"

definition answerQuestionnaireForPanel :: "run_input \<Rightarrow> QuestionnaireMessage \<Rightarrow> jsstring \<Rightarrow> unit prog" where
  "answerQuestionnaireForPanel input message answer =
     Read (\<lambda>p. case ap_pendingFlow p of
         None \<Rightarrow> Return ()
       | Some activeFlow \<Rightarrow>
           if flow_questionnaireMessageID activeFlow \<noteq> Some (questionnaire_id message) then Return ()
           else
             (let answeredMessage = updateQuestionnaireMessageAnswer message answer (in_sortKey input 0);
                  classification = classifyMessageIntent (in_host input) (flow_prompt activeFlow) (Some answer)
                    (in_hasTerminalExecutionContext input)
              in if class_intent classification = IntentChat
                 then bind (set_panel (\<lambda>p. (replace_messages (questionnaire_id message)
                          [QuestionnaireView answeredMessage] p)\<lparr>ap_pendingFlow := None\<rparr>)) (\<lambda>_.
                   BackendPrompt \<lparr>backend_prompt_text = flow_prompt activeFlow,
                     backend_attachments = flow_attachments activeFlow, backend_auditMessageID = None,
                     backend_cancellable = True, backend_model = selected_model input\<rparr> (Return ()))
                 else
                   (let planMessage = createPlanMessage (in_host input) (flow_flowID activeFlow) (flow_prompt activeFlow)
                          (class_tools classification) (in_sortKey input 1) (Some answer);
                        approvalMessage = createApprovalMessage (flow_flowID activeFlow) (in_sortKey input 2) ApprovalPending;
                        nextFlow = activeFlow\<lparr>flow_approvalMessageID := Some (approval_id approvalMessage),
                          flow_questionnaireMessageID := None, flow_tools := class_tools classification\<rparr>
                    in set_panel (\<lambda>p. (replace_messages (questionnaire_id message)
                         [QuestionnaireView answeredMessage, PlanView planMessage, ApprovalView approvalMessage] p)
                         \<lparr>ap_pendingFlow := Some nextFlow\<rparr>))))"

definition createApprovedAuditFlow :: "PendingInteractionFlow \<Rightarrow> ApprovalMessage \<Rightarrow> jsstring \<Rightarrow> PendingInteractionFlow" where
  "createApprovedAuditFlow activeFlow message auditMessageID =
     activeFlow\<lparr>flow_approvalMessageID := Some (approval_id message), flow_auditMessageID := Some auditMessageID,
       flow_auditProgressed := False\<rparr>"

definition applyAuditResult :: "jsstring \<Rightarrow> (AuditEntry list \<Rightarrow> AuditEntry list) \<Rightarrow> agent_panel \<Rightarrow> agent_panel" where
  "applyAuditResult auditMessageID updateEntries p =
     p\<lparr>ap_interaction := updateInteractionMessage (ap_interaction p) auditMessageID
         (\<lambda>m. case m of AuditView a \<Rightarrow> AuditView (a\<lparr>audit_entries := updateEntries (audit_entries a)\<rparr>) | _ \<Rightarrow> m)\<rparr>"

definition begin_execution :: "agent_panel \<Rightarrow> agent_panel" where
  "begin_execution p = p\<lparr>ap_isSubmitting := True, ap_isResponseCancellable := False, ap_submitError := None, ap_blocked := True\<rparr>"

definition end_execution :: "agent_panel \<Rightarrow> agent_panel" where
  "end_execution p =
     p\<lparr>ap_pendingFlow := None, ap_blocked := False, ap_isSubmitting := False, ap_isResponseCancellable := False\<rparr>"

text \<open>The shape shared by the two terminal branches: the body between the flags, with \<open>catch\<close> and \<open>finally\<close>.\<close>

definition audited_execution :: "run_input \<Rightarrow> jsstring \<Rightarrow> jsstring \<Rightarrow> unit prog \<Rightarrow> unit prog" where
  "audited_execution input auditMessageID fallback body =
     bind (set_panel begin_execution) (\<lambda>_.
     bind (catch
         (bind body (\<lambda>_. set_panel (applyAuditResult auditMessageID (completeAuditEntries (in_now input 1)))))
         (\<lambda>error. set_panel (\<lambda>p. (applyAuditResult auditMessageID (failAuditEntries (in_now input 1)) p)
            \<lparr>ap_submitError := Some (getErrorMessage error fallback)\<rparr>))) (\<lambda>_.
     set_panel end_execution))"

text \<open>The three branches of \<open>approvePendingPlanForPanel\<close> after the audit message is shown.\<close>

definition run_approved_flow :: "run_input \<Rightarrow> jsstring \<Rightarrow> PendingInteractionFlow \<Rightarrow> unit prog" where
  "run_approved_flow input auditMessageID activeFlow =
     (case flow_runApproval activeFlow of
        Some runApproval \<Rightarrow>
          audited_execution input auditMessageID (js ''Unable to run the approved terminal command.'')
            (bind (executeAgentTool (safety_confirm
                (run_context (js ''frontend.ai.sidebar.run.confirm'') (run_targetWidgetID runApproval)
                  (run_repoRoot runApproval) (run_targetConnectionID runApproval) (run_targetSession runApproval))
                (run_approvalID runApproval))) (\<lambda>confirmationResponse.
              if res_status confirmationResponse \<noteq> js ''ok''
              then throw_message (trim_or (res_error confirmationResponse) (js ''Unable to confirm /run approval.''))
              else bind (getApprovalToken confirmationResponse) (runApprovedTerminalPromptForPanel input runApproval)))
      | None \<Rightarrow>
          if list_ex (\<lambda>tool. tool_name tool = js ''execute_terminal'') (flow_tools activeFlow)
          then audited_execution input auditMessageID (js ''Unable to run the approved terminal plan.'')
            (bind (ResolveRuntime settle) (\<lambda>root.
              runApprovedExecutionPlanForPanel input (flow_prompt activeFlow) root (selected_model input)))
          else bind (set_panel (\<lambda>p. p\<lparr>ap_pendingFlow := None\<rparr>)) (\<lambda>_.
            BackendPrompt \<lparr>backend_prompt_text = flow_prompt activeFlow,
              backend_attachments = flow_attachments activeFlow,
              backend_auditMessageID = Some auditMessageID, backend_cancellable = True,
              backend_model = selected_model input\<rparr> (Return ())))"

definition approvePendingPlanForPanel :: "run_input \<Rightarrow> ApprovalMessage \<Rightarrow> unit prog" where
  "approvePendingPlanForPanel input message =
     Read (\<lambda>p. case ap_pendingFlow p of
         None \<Rightarrow> Return ()
       | Some activeFlow \<Rightarrow>
           if flow_flowID activeFlow \<noteq> approval_planId message then Return ()
           else
             (let approvedMessage = updateApprovalMessageStatus message ApprovalApproved (in_sortKey input 0);
                  auditMessage = createAuditMessage (flow_flowID activeFlow) (flow_tools activeFlow) (in_now input 0)
                    (in_sortKey input 1);
                  nextFlow = createApprovedAuditFlow activeFlow message (audit_id auditMessage)
              in bind (set_panel (\<lambda>p. replace_messages (approval_id message)
                     [ApprovalView approvedMessage, AuditView auditMessage] (p\<lparr>ap_pendingFlow := Some nextFlow\<rparr>)))
                   (\<lambda>_. run_approved_flow input (audit_id auditMessage) activeFlow)))"

definition cancelPendingPlan :: "run_input \<Rightarrow> ApprovalMessage \<Rightarrow> agent_panel \<Rightarrow> agent_panel" where
  "cancelPendingPlan input message p =
     (case ap_pendingFlow p of
        None \<Rightarrow> p
      | Some activeFlow \<Rightarrow>
          if flow_flowID activeFlow \<noteq> approval_planId message then p
          else p\<lparr>ap_interaction := updateInteractionMessage (ap_interaction p) (approval_id message)
                   (\<lambda>m. case m of ApprovalView a \<Rightarrow>
                        ApprovalView (updateApprovalMessageStatus a ApprovalCancelled (in_sortKey input 0)) | _ \<Rightarrow> m),
                 ap_pendingFlow := None\<rparr>)"

section \<open>Submitting a prompt\<close>

text \<open>
  What \<open>submitDraft\<close> reads of the panel's other state: the draft, the flags of its guard, the policy of the selected
  profile and the queued attachments. Its two counters are \<open>in_flowSequence\<close> and \<open>draft_sequence\<close>.
\<close>

record draft_input =
  draft_text :: jsstring
  draft_enabled :: bool
  draft_isConversationPending :: bool
  draft_isTerminalInputBlocked :: bool
  draft_attachments :: "AgentAttachmentReference list"
  draft_sequence :: nat
  draft_nowISO :: jsstring

definition submitDraft :: "run_input \<Rightarrow> draft_input \<Rightarrow> unit prog" where
  "submitDraft input draft =
     Read (\<lambda>p.
       let prompt = js_trim (draft_text draft) in
       if \<not> draft_enabled draft \<or> ap_isSubmitting p \<or> draft_isConversationPending draft \<or> ap_pendingFlow p \<noteq> None
         \<or> prompt = []
       then Return ()
       else
         (let isRunPrompt = (getRunCommand prompt \<noteq> None);
              attachmentsForPrompt = (if isRunPrompt then [] else draft_attachments draft);
              promptAttachments = (if attachmentsForPrompt = [] then None else Some attachmentsForPrompt);
              optimisticUserMessage = createOptimisticUserConversationMessage (in_hostId input) (draft_sequence draft)
                prompt (Some attachmentsForPrompt) (draft_nowISO draft);
              (classification, flow, messages) = createPendingInteractionFlow (in_host input) (in_hostId input) prompt
                (in_flowSequence input) (in_sortKey input) None (in_hasTerminalExecutionContext input);
              show_error = set_panel (\<lambda>p. p\<lparr>ap_submitError := Some terminalInputPolicyBlockedMessage\<rparr>)
          in bind (set_panel (\<lambda>p. set_messages (\<lambda>ms. appendAgentConversationMessage ms optimisticUserMessage)
                   (p\<lparr>ap_loadError := None, ap_submitError := None\<rparr>))) (\<lambda>_.
             if isRunPrompt
             then (if draft_isTerminalInputBlocked draft then show_error
                   else BackendPrompt \<lparr>backend_prompt_text = prompt, backend_attachments = None,
                     backend_auditMessageID = None, backend_cancellable = False, backend_model = None\<rparr> (Return ()))
             else if draft_isTerminalInputBlocked draft
               \<and> list_ex (\<lambda>tool. tool_name tool = js ''execute_terminal'') (class_tools classification)
             then show_error
             else (case flow of
                 None \<Rightarrow> BackendPrompt \<lparr>backend_prompt_text = prompt, backend_attachments = promptAttachments,
                   backend_auditMessageID = None, backend_cancellable = True,
                   backend_model = selected_model input\<rparr> (Return ())
               | Some f \<Rightarrow> set_panel (\<lambda>p. p\<lparr>ap_interaction := sortMessagesBySortKey (ap_interaction p @ messages),
                   ap_pendingFlow := Some (f\<lparr>flow_attachments := promptAttachments\<rparr>)\<rparr>)))))"

section \<open>Every program is safe\<close>

lemma recorded_updates [simp]:
  "flow_recorded M (applyConversationSnapshot c p) = flow_recorded M p"
  "flow_recorded M (p\<lparr>ap_submitError := e\<rparr>) = flow_recorded M p"
  "flow_recorded M (p\<lparr>ap_pendingFlow := None\<rparr>)"
  "flow_recorded M (replace_messages i ms p) = flow_recorded M p"
  "flow_recorded M (applyAuditResult a f p) = flow_recorded M p"
  "flow_recorded M (begin_execution p) = flow_recorded M p"
  "flow_recorded M (end_execution p)"
  "flow_recorded M (set_messages g p) = flow_recorded M p"
  by (simp_all add: flow_recorded_def applyConversationSnapshot_def replace_messages_def applyAuditResult_def
      begin_execution_def end_execution_def set_messages_def run_recorded_def)

lemma recorded_flow [simp]:
  "flow_recorded M (p\<lparr>ap_pendingFlow := Some f\<rparr>) = run_recorded M (flow_runApproval f)"
  by (simp add: flow_recorded_def)

lemma run_recorded_mono: "run_recorded L a \<Longrightarrow> L \<subseteq> M \<Longrightarrow> run_recorded M a"
  by (auto simp: run_recorded_def split: option.splits intro: asked_mono)

lemma safe_execute [simp]:
  "safe (executeAgentTool r) L Q \<longleftrightarrow> justified L (Sent r) \<and> (\<forall>a. Q a ({Sent r, Answered r a} \<union> L))"
  by (simp add: executeAgentTool_def)

lemma safe_context_terminal:
  assumes "\<And>r. Q r L"
  shows "safe (resolve_context_terminal h input) L Q"
  using assms by (simp add: resolve_context_terminal_def Let_def split: sum.split)

lemma safe_terminal_target:
  assumes "\<And>r. Q r L"
  shows "safe (terminal_target widgetID snapshot) L Q"
  using assms by (simp add: terminal_target_def Let_def del: js_Cons)

lemma safe_ensure:
  assumes "\<And>r. Q r L"
  shows "safe (if c then bind (EnsureVisible i t settle) (\<lambda>ensured. Return (f ensured)) else Return x) L Q"
  using assms by (simp split: sum.split)

lemma safe_resolve:
  assumes "\<And>r. Q r L"
  shows "safe (resolveTerminalExecutionTargetForPanel h input) L Q"
  unfolding resolveTerminalExecutionTargetForPanel_def Let_def safe_bind
  by (rule safe_context_terminal)
     (simp add: assms safe_terminal_target safe_ensure split: sum.split del: js_Cons)

lemma safe_explain_output:
  assumes "executed L (SendInput (explain_command r) (explain_widget r))" and "\<And>a M. Q a M"
  shows "safe (explain_output r) L Q"
  using assms by (auto simp: explain_output_def Let_def split: sum.splits)

lemma answered_executed:
  "res_status response = js ''ok'' \<Longrightarrow> Answered (send_input t c command widget) (Inr response) \<in> L \<Longrightarrow>
     executed L (SendInput command widget)"
  unfolding executed_def by (force simp: send_input_def)

lemma answered_asked:
  "res_status response = js ''requires_confirmation'' \<Longrightarrow> res_pending_approval response = Some pending \<Longrightarrow>
     Answered (send_input None c command widget) (Inr response) \<in> L \<Longrightarrow>
     approval_asked L (SendInput command widget) (pending_id pending)"
  unfolding approval_asked_def by (force simp: send_input_def)

lemma answered_confirmed:
  "res_status response = js ''ok'' \<Longrightarrow> res_token response = Some token \<Longrightarrow>
     Answered (safety_confirm c approvalID) (Inr response) \<in> L \<Longrightarrow> approval_confirmed L approvalID token"
  unfolding approval_confirmed_def by (force simp: safety_confirm_def)

lemma justified_plain [simp]:
  "justified L (Sent (send_input None c command widget))" "justified L (Sent (safety_confirm c approvalID))"
  by (simp_all add: send_input_def safety_confirm_def)

lemma justified_token:
  "approval_asked L (SendInput command widget) i \<Longrightarrow> approval_confirmed L i token \<Longrightarrow>
     justified L (Sent (send_input (Some token) c command widget))"
  by (auto simp: send_input_def)

declare justified.simps(1) [simp del]

lemma safe_token:
  assumes "\<And>token. res_token response = Some token \<Longrightarrow> Q (Inr token) L" and "\<And>e. Q (Inl e) L"
  shows "safe (getApprovalToken response) L Q"
  using assms by (auto simp: getApprovalToken_def split: option.splits)

lemma safe_ask_run_approval:
  assumes "approval_asked L (SendInput command (target_widgetID target)) (pending_id pending)" and "\<And>a M. Q a M"
  shows "safe (ask_run_approval input prompt root command target pending) L Q"
  using assms by (auto simp: ask_run_approval_def Let_def flow_recorded_def run_recorded_def intro: asked_mono)

lemma safe_run_prompt:
  assumes "\<And>a M. Q a M"
  shows "safe (runTerminalPromptForPanel input prompt root) L Q"
  using assms
  by (auto simp: runTerminalPromptForPanel_def split: sum.splits option.splits
      intro!: safe_resolve safe_explain_output safe_ask_run_approval intro: answered_executed answered_asked)

lemma safe_run_approved:
  assumes "approval_asked L (SendInput (run_command a) (run_targetWidgetID a)) (run_approvalID a)"
    and "approval_confirmed L (run_approvalID a) token" and "\<And>r M. Q r M"
  shows "safe (runApprovedTerminalPromptForPanel input a token) L Q"
  using assms
  by (auto simp: runApprovedTerminalPromptForPanel_def split: sum.splits
      intro!: safe_explain_output intro: justified_token answered_executed)

text \<open>What the confirmation of a planned command leaves behind: an \<open>ok\<close> answer is the answer to its execution.\<close>

lemma safe_confirm_planned:
  assumes "Answered (send_input None c command widget) (Inr response) \<in> L"
    and Q: "\<And>r M. (\<And>x. r = Inr x \<Longrightarrow> res_status x = js ''ok'' \<Longrightarrow> executed M (SendInput command widget)) \<Longrightarrow> Q r M"
  shows "safe (confirm_planned_command c command widget response) L Q"
proof (cases "res_status response = js ''requires_confirmation''")
  case False
  then show ?thesis using assms(1) by (auto simp: confirm_planned_command_def intro!: Q intro: answered_executed)
next
  case True
  have none: "Q (Inl e) M" for e M by (rule Q) simp
  show ?thesis
  proof (cases "res_pending_approval response")
    case None
    then show ?thesis using True none by (simp add: confirm_planned_command_def del: js_Cons)
  next
    case (Some pending)
    let ?confirm = "safety_confirm (c\<lparr>ctx_action_source := js ''frontend.ai.sidebar.execute.confirm''\<rparr>) (pending_id pending)"
    have asked: "approval_asked M (SendInput command widget) (pending_id pending)" if "L \<subseteq> M" for M
      using answered_asked [OF True Some] assms(1) that by blast
    have "safe (getApprovalToken answer)
        ({Sent ?confirm, Answered ?confirm (Inr answer)} \<union> L)
        (\<lambda>r M. case r of Inl e \<Rightarrow> Q (Inl e) M
          | Inr token \<Rightarrow> safe (executeAgentTool (send_input (Some token) c command widget)) M Q)"
      if "res_status answer = js ''ok''" for answer
      using that none
      by (intro safe_token)
         (auto intro!: justified_token asked answered_confirmed Q simp del: js_Cons
           intro: answered_executed)
    then show ?thesis using True Some none
      by (simp add: confirm_planned_command_def Let_def split: sum.split del: js_Cons)
  qed
qed

lemma safe_run_plan:
  assumes "\<And>a M. Q a M"
  shows "safe (runApprovedExecutionPlanForPanel input prompt root model) L Q"
  using assms
  by (auto simp: runApprovedExecutionPlanForPanel_def Let_def split: sum.splits simp del: js_Cons
      intro!: safe_resolve safe_confirm_planned safe_explain_output)

lemma safe_audited:
  assumes "safe body L (\<lambda>_ _. True)" and "\<And>a M. Q a M"
  shows "safe (audited_execution input a fallback body) L Q"
  using assms
  by (auto simp: audited_execution_def split: sum.splits intro: safe_conseq)

text \<open>The confirmation of a pending \<^verbatim>\<open>/run\<close> and its execution, for an approval that was asked for.\<close>

lemma safe_confirmed_run:
  assumes "approval_asked L (SendInput (run_command a) (run_targetWidgetID a)) (run_approvalID a)"
    and "Answered (safety_confirm c (run_approvalID a)) (Inr answer) \<in> L" and "res_status answer = js ''ok''"
  shows "safe (bind (getApprovalToken answer) (runApprovedTerminalPromptForPanel input a)) L (\<lambda>_ _. True)"
  using assms by (auto intro!: safe_token safe_run_approved answered_confirmed simp del: js_Cons)

lemma safe_approved_flow:
  assumes "run_recorded L (flow_runApproval f)"
  shows "safe (run_approved_flow input auditMessageID f) L (\<lambda>_ _. True)"
proof (cases "flow_runApproval f")
  case None
  then show ?thesis
    by (auto simp: run_approved_flow_def del: js_Cons intro!: safe_audited safe_run_plan split: sum.split)
next
  case (Some a)
  then have asked: "approval_asked L (SendInput (run_command a) (run_targetWidgetID a)) (run_approvalID a)"
    using assms by (simp add: run_recorded_def)
  have "safe (bind (getApprovalToken answer) (runApprovedTerminalPromptForPanel input a))
      ({Sent r, Answered r (Inr answer)} \<union> L) (\<lambda>_ _. True)"
    if "res_status answer = js ''ok''" "r = safety_confirm c (run_approvalID a)" for answer r c
    using that asked_mono [OF asked, of "{Sent r, Answered r (Inr answer)} \<union> L"]
    by (intro safe_confirmed_run [of _ _ c answer]) auto
  then show ?thesis using Some
    by (auto simp: run_approved_flow_def simp del: js_Cons safe_bind [of "getApprovalToken _"] intro!: safe_audited split: sum.split)
qed

lemma flow_recorded_pending: "ap_pendingFlow p = Some f \<Longrightarrow> flow_recorded M p = run_recorded M (flow_runApproval f)"
  by (simp add: flow_recorded_def)

lemma safe_approve: "safe (approvePendingPlanForPanel input message) L (\<lambda>_ _. True)"
  by (auto simp: approvePendingPlanForPanel_def Let_def createApprovedAuditFlow_def flow_recorded_pending
      split: option.split intro: safe_approved_flow run_recorded_mono)

lemma safe_answer: "safe (answerQuestionnaireForPanel input message answer) L (\<lambda>_ _. True)"
  by (auto simp: answerQuestionnaireForPanel_def Let_def flow_recorded_pending
      split: option.split intro: run_recorded_mono)

lemma new_flow_has_no_approval:
  "createPendingInteractionFlow h hostID prompt n nextKey answer ctx = (c, Some f, ms) \<Longrightarrow> flow_runApproval f = None"
  by (auto simp: createPendingInteractionFlow_def Let_def split: MessageIntent.splits)

lemma safe_submit: "safe (submitDraft input draft) L (\<lambda>_ _. True)"
  by (auto simp: submitDraft_def Let_def run_recorded_def flow_recorded_def set_messages_def simp del: js_Cons
      split: option.split prod.split dest!: new_flow_has_no_approval)

section \<open>Approvals\<close>

datatype panel_operation =
    SubmitDraft draft_input
  | RunPrompt jsstring jsstring
  | AnswerQuestionnaire QuestionnaireMessage jsstring
  | ApprovePlan ApprovalMessage
  | CancelPlan ApprovalMessage

fun operation :: "run_input \<Rightarrow> panel_operation \<Rightarrow> unit prog" where
  "operation input (SubmitDraft draft) = submitDraft input draft"
| "operation input (RunPrompt prompt root) = bind (runTerminalPromptForPanel input prompt root) (\<lambda>_. Return ())"
| "operation input (AnswerQuestionnaire message answer) = answerQuestionnaireForPanel input message answer"
| "operation input (ApprovePlan message) = approvePendingPlanForPanel input message"
| "operation input (CancelPlan message) = set_panel (cancelPendingPlan input message)"

text \<open>Operations one after the other, each in the world that answers from its first request on.\<close>

fun exec_operations :: "(run_input \<times> panel_operation) list \<Rightarrow> world \<Rightarrow> nat \<Rightarrow> panel_log \<Rightarrow> panel_log" where
  "exec_operations [] w n S = S"
| "exec_operations ((input, op) # ops) w n S =
     (case exec (operation input op) w n S of (_, n', S') \<Rightarrow> exec_operations ops w n' S')"

lemma safe_operation: "safe (operation input op) L (\<lambda>_ _. True)"
proof (cases op)
  case (CancelPlan message)
  then show ?thesis by (auto simp: cancelPendingPlan_def flow_recorded_def run_recorded_def split: option.splits)
next
  case (RunPrompt prompt root)
  then show ?thesis by (auto intro!: safe_run_prompt split: sum.split)
qed (simp_all add: safe_submit safe_answer safe_approve)

context world_rely
begin

lemma exec_operations_inv:
  assumes "interfere w = interference" and "log_inv S"
  shows "log_inv (exec_operations ops w n S)"
  using assms(2)
proof (induction ops arbitrary: n S)
  case (Cons item ops)
  obtain input op where item: "item = (input, op)" by fastforce
  obtain r n' S' where exec: "exec (operation input op) w n S = (r, n', S')" by (metis prod_cases3)
  have "log_inv S'" using exec_safe [OF assms(1) safe_operation [of _ _ "{}"] Cons.prems _ exec] by simp
  with item exec show ?case by (simp add: Cons.IH)
qed simp

end

text \<open>Other operations of the panel, run while a request is awaited, are such an interference.\<close>

interpretation operations: world_rely "\<lambda>n S. snd (snd (exec (operation (inputs n) (ops n)) (w\<lparr>interfere := \<lambda>_ S. S\<rparr>) (ks n) S))"
  for inputs ops w ks
  by (rule undisturbed.exec_rely) (simp_all add: safe_operation)

lemma log_ok_split: "log_ok (newer @ e # older) \<Longrightarrow> justified (set older) e"
  by (induction newer) auto

text \<open>
  C39: whatever the backend answers and whatever other operations of the panel run while an answer is awaited, a
  tool call is sent with an approval token only when the same input (the same command for the same terminal) had
  been sent without a token and the backend had answered that it needs an approval, and the confirmation of exactly
  that approval had been answered \<open>ok\<close> with that token. This spans the \<^verbatim>\<open>/run\<close> prompt, whose approval is kept in the
  pending flow until the operator approves it, and the planned command.
\<close>

theorem tokens_only_for_confirmed_input:
  assumes "world_rely (interfere w)" and "ap_pendingFlow p = None"
    and "snd (exec_operations ops w n (p, [])) = newer @ Sent request # older"
    and "req_approval_token request = Some token"
  shows "\<exists>approvalID. approval_asked (set older) (req_input request) approvalID
      \<and> approval_confirmed (set older) approvalID token"
proof -
  have "log_inv (p, [])" using assms(2) by (simp add: log_inv_def flow_recorded_def run_recorded_def)
  then have "log_inv (exec_operations ops w n (p, []))"
    using world_rely.exec_operations_inv [OF assms(1) refl] by blast
  then have "log_ok (newer @ Sent request # older)" using assms(3) by (simp add: log_inv_def)
  then have "justified (set older) (Sent request)" by (rule log_ok_split)
  then show ?thesis using assms(4) by (simp add: justified.simps(1))
qed

section \<open>A concrete run\<close>

text \<open>
  A world in which the command needs an approval and the approval \<open>a1\<close> is confirmed with the token \<open>t1\<close>, and a panel
  with one terminal.
\<close>

definition sample_response :: AgentToolExecuteResponse where
  "sample_response = \<lparr>res_error = None, res_error_code = None, res_required_capabilities = None, res_token = None,
     res_pending_approval = None, res_status = js ''ok'', res_tool_capabilities = None\<rparr>"

definition sample_snapshot :: AgentConversationSnapshot where
  "sample_snapshot = \<lparr>conversation_id = js ''c'', conversation_title = js ''C'', conversation_messages = [],
     conversation_provider = \<lparr>provider_kind = js ''codex'', provider_base_url = [], provider_model = None, provider_streaming = False\<rparr>,
     conversation_context_preferences = \<lparr>widget_context_enabled = True, preferred_widget_ids = None\<rparr>,
     conversation_created_at = [], conversation_updated_at = [], conversation_archived_at = None\<rparr>"

definition sample_world :: world where
  "sample_world = \<lparr>interfere = \<lambda>_ S. S,
     w_tool = (\<lambda>_ r. Inr (case req_input r of
        ConfirmApproval _ \<Rightarrow> sample_response\<lparr>res_token := Some (js ''t1'')\<rparr>
      | SendInput _ _ \<Rightarrow> if req_approval_token r = None
          then sample_response\<lparr>res_status := js ''requires_confirmation'',
            res_pending_approval := Some \<lparr>pending_id = js ''a1'', pending_summary = None\<rparr>\<rparr>
          else sample_response)),
     w_context = \<lambda>_. Inl None, w_visible = \<lambda>_ _ _. Inl None,
     w_snapshot = \<lambda>_ _. Inr \<lparr>baseline_next_seq = 3, baseline_connection_kind = None, baseline_connection_id = None\<rparr>,
     w_runtime = \<lambda>_. Inr (js ''/r''), w_plan = \<lambda>_ _. Inl None, w_wait = \<lambda>_ _ _. Inr (),
     w_explain = \<lambda>_ _. Inr \<lparr>explained_conversation = sample_snapshot, explained_provider_error = None\<rparr>,
     w_refresh = \<lambda>_. Inr ()\<rparr>"

definition sample_selection :: context_selection where
  "sample_selection = \<lparr>cs_activeWidgetHostId = js ''terminal'', cs_contextWidgetOptions = [],
     cs_isWidgetContextEnabled = False, cs_storedContextWidgetIDs = [],
     cs_terminalPanelBindings = [(js ''terminal'', \<lparr>binding_hostId = js ''terminal'', binding_preset = PresetMain,
       binding_runtimeWidgetId = js ''w1''\<rparr>)], cs_workspaceActiveWidgetID = []\<rparr>"

definition sample_input :: run_input where
  "sample_input = \<lparr>in_host = ascii_host, in_hostId = js ''h'', in_selection = sample_selection,
     in_resolve = \<lparr>ri_hasLoadedContextWidgets = False, ri_canEnsureVisible = False, ri_selection = sample_selection,
       ri_workspaceActiveWidgetID = [], ri_workspaceWidgets = []\<rparr>,
     in_sortKey = int, in_now = int, in_flowSequence = 0, in_hasTerminalExecutionContext = True, in_selectedModel = []\<rparr>"

definition sample_approval :: ApprovalMessage where
  "sample_approval = createApprovalMessage (js ''agent-run-h-0'') 1 ApprovalPending"

definition sample_operations :: "(run_input \<times> panel_operation) list" where
  "sample_operations = [(sample_input, RunPrompt (js ''/run ls'') (js ''/r'')), (sample_input, ApprovePlan sample_approval)]"

definition sample_request :: "jsstring option \<Rightarrow> tool_request" where
  "sample_request token = send_input token
     (run_context (js ''frontend.ai.sidebar.run'') (js ''w1'') (js ''/r'') (js ''local'') (js ''local'')) (js ''ls'') (js ''w1'')"

definition sample_confirmation :: tool_request where
  "sample_confirmation = safety_confirm
     (run_context (js ''frontend.ai.sidebar.run.confirm'') (js ''w1'') (js ''/r'') (js ''local'') (js ''local'')) (js ''a1'')"

definition sample_log :: "tool_request \<Rightarrow> tool_log" where
  "sample_log r = [Answered r (w_tool sample_world 0 r), Sent r]"

definition sample_run_approval :: PendingRunApproval where
  "sample_run_approval = \<lparr>run_approvalID = js ''a1'', run_baselineNextSeq = 3, run_command = js ''ls'',
     run_prompt = js ''/run ls'', run_repoRoot = js ''/r'', run_targetConnectionID = js ''local'',
     run_targetSession = js ''local'', run_targetWidgetID = js ''w1''\<rparr>"

lemma sample_input_fields:
  "in_host sample_input = ascii_host" "in_hostId sample_input = js ''h''" "in_flowSequence sample_input = 0"
  "in_selection sample_input = sample_selection"
  by (simp_all add: sample_input_def)

lemma sample_statuses:
  "js ''requires_confirmation'' \<noteq> js ''ok''" "js ''ok'' \<noteq> js ''requires_confirmation''" "js ''ls'' \<noteq> []" "js ''a1'' \<noteq> []"
  "js_trim (js ''t1'') \<noteq> []" "js ''agent-run-'' @ js ''h'' @ js ''-'' @ js_of_nat 0 = js ''agent-run-h-0''"
  by (simp_all add: js_string_defs js_of_nat.simps)

lemma sample_answers:
  "interfere sample_world n S = S"
  "w_tool sample_world n (send_input None c command widget) = Inr (sample_response\<lparr>res_status := js ''requires_confirmation'',
      res_pending_approval := Some \<lparr>pending_id = js ''a1'', pending_summary = None\<rparr>\<rparr>)"
  "w_tool sample_world n (send_input (Some token) c command widget) = Inr sample_response"
  "w_tool sample_world n (safety_confirm c i) = Inr (sample_response\<lparr>res_token := Some (js ''t1'')\<rparr>)"
  "w_wait sample_world n widget seq = Inr ()" "w_refresh sample_world n = Inr ()"
  "w_explain sample_world n r = Inr \<lparr>explained_conversation = sample_snapshot, explained_provider_error = None\<rparr>"
  "res_status sample_response = js ''ok''"
  by (simp_all add: sample_world_def send_input_def safety_confirm_def sample_response_def del: js_Cons)

lemma sample_target:
  "exec (resolveTerminalExecutionTargetForPanel ascii_host (in_resolve sample_input)) sample_world n S
     = (Inr \<lparr>target_baselineNextSeq = 3, target_connectionID = js ''local'', target_session = js ''local'',
         target_widgetID = js ''w1''\<rparr>, Suc n, S)"
  by (simp add: resolveTerminalExecutionTargetForPanel_def resolve_context_terminal_def terminal_target_def
      sample_input_def sample_selection_def sample_world_def resolveTerminalPanelBinding_def trim_or_def settle_def
      targetSessionForConnectionKind_def Let_def)

lemma sample_ask:
  "\<exists>p. exec (runTerminalPromptForPanel sample_input (js ''/run ls'') (js ''/r'')) sample_world 0 (idle_panel, [])
       = (Inr True, 2, (p, sample_log (sample_request None)))
     \<and> (\<exists>f. ap_pendingFlow p = Some f \<and> flow_flowID f = js ''agent-run-h-0'' \<and> flow_runApproval f = Some sample_run_approval)"
proof -
  have "getRunCommand (js ''/run ls'') = Some (js ''ls'')" by (simp add: getRunCommand_def js_string_defs)
  then show ?thesis
    by (simp add: runTerminalPromptForPanel_def exec_bind sample_target executeAgentTool_def settle_def ask_run_approval_def
        log_event_def sample_log_def sample_request_def sample_input_fields sample_statuses sample_answers
        sample_run_approval_def Let_def del: js_Cons)
qed

lemma sample_approve:
  assumes "ap_pendingFlow p = Some f" and "flow_flowID f = js ''agent-run-h-0''" and "flow_runApproval f = Some sample_run_approval"
  shows "\<exists>newer. snd (snd (snd (exec (approvePendingPlanForPanel sample_input sample_approval) sample_world n (p, log))))
     = newer @ Sent (sample_request (Some (js ''t1''))) # sample_log sample_confirmation @ log"
  using assms
  by (simp add: approvePendingPlanForPanel_def run_approved_flow_def audited_execution_def exec_bind exec_catch
      executeAgentTool_def settle_def runApprovedTerminalPromptForPanel_def getApprovalToken_def explain_output_def
      log_event_def sample_log_def sample_request_def sample_confirmation_def sample_statuses sample_answers
      sample_run_approval_def sample_approval_def createApprovalMessage_def trim_or_def Let_def del: js_Cons)

theorem tokens_only_for_confirmed_input_witness:
  "\<exists>newer. snd (exec_operations sample_operations sample_world 0 (idle_panel, []))
      = newer @ Sent (sample_request (Some (js ''t1''))) # sample_log sample_confirmation @ sample_log (sample_request None)
    \<and> (\<exists>approvalID. approval_asked (set (sample_log sample_confirmation @ sample_log (sample_request None)))
          (SendInput (js ''ls'') (js ''w1'')) approvalID
        \<and> approval_confirmed (set (sample_log sample_confirmation @ sample_log (sample_request None))) approvalID (js ''t1''))"
proof -
  let ?older = "sample_log sample_confirmation @ sample_log (sample_request None)"
  let ?request = "sample_request (Some (js ''t1''))"
  obtain p f where ask: "exec (runTerminalPromptForPanel sample_input (js ''/run ls'') (js ''/r'')) sample_world 0 (idle_panel, [])
      = (Inr True, 2, (p, sample_log (sample_request None)))" and f: "ap_pendingFlow p = Some f"
    "flow_flowID f = js ''agent-run-h-0''" "flow_runApproval f = Some sample_run_approval"
    using sample_ask by blast
  obtain newer where log: "snd (exec_operations sample_operations sample_world 0 (idle_panel, [])) = newer @ Sent ?request # ?older"
    using sample_approve [OF f, of 2 "sample_log (sample_request None)"] ask
    by (auto simp: sample_operations_def exec_bind case_prod_beta simp del: js_Cons)
  have "world_rely (interfere sample_world)" using undisturbed.world_rely_axioms by (simp add: sample_world_def)
  moreover have "ap_pendingFlow idle_panel = None" by (simp add: idle_panel_def)
  moreover have "req_approval_token ?request = Some (js ''t1'')" "req_input ?request = SendInput (js ''ls'') (js ''w1'')"
    by (simp_all add: sample_request_def send_input_def)
  ultimately show ?thesis using tokens_only_for_confirmed_input [OF _ _ log] log by (metis (no_types))
qed

section \<open>The end of an approved execution\<close>

definition panel_idle :: "agent_panel \<Rightarrow> bool" where
  "panel_idle p \<longleftrightarrow> \<not> ap_isSubmitting p \<and> \<not> ap_isResponseCancellable p \<and> \<not> ap_blocked p \<and> ap_pendingFlow p = None"

lemma exec_audited:
  "\<exists>n' p log'. exec (audited_execution input a fallback body) w n S = (Inr (), n', (end_execution p, log'))"
  by (auto simp: audited_execution_def exec_bind exec_catch split: prod.split sum.split)

lemma panel_idle_end [simp]: "panel_idle (end_execution p)"
  by (simp add: panel_idle_def end_execution_def)

definition runs_in_terminal :: "PendingInteractionFlow \<Rightarrow> bool" where
  "runs_in_terminal f \<longleftrightarrow>
     flow_runApproval f \<noteq> None \<or> list_ex (\<lambda>tool. tool_name tool = js ''execute_terminal'') (flow_tools f)"

lemma approved_flow_audited:
  assumes "runs_in_terminal f"
  obtains fallback body where "run_approved_flow input a f = audited_execution input a fallback body"
  using assms by (cases "flow_runApproval f") (auto simp: runs_in_terminal_def run_approved_flow_def simp del: js_Cons)

text \<open>
  C18: approving a pending plan that runs in a terminal never throws and always gives the panel back: whatever the
  requests answer, fail with or let other code do to the panel meanwhile, in the end the panel is not submitting, the
  response is not cancellable, its widget is unblocked and no flow is pending, so that the operator can go on.
\<close>

theorem approval_gives_panel_back:
  assumes "ap_pendingFlow p = Some f" and "flow_flowID f = approval_planId message" and "runs_in_terminal f"
  shows "\<exists>n' p' log'. exec (approvePendingPlanForPanel input message) w n (p, log) = (Inr (), n', (p', log'))
      \<and> panel_idle p'"
proof -
  let ?a = "audit_id (createAuditMessage (flow_flowID f) (flow_tools f) (in_now input 0) (in_sortKey input 1))"
  obtain fallback body where "run_approved_flow input ?a f = audited_execution input ?a fallback body"
    using approved_flow_audited [OF assms(3)] by blast
  then have "\<exists>n' p' log'. exec (run_approved_flow input ?a f) w n S = (Inr (), n', (p', log')) \<and> panel_idle p'" for S
    using exec_audited [of input ?a fallback body w n S] by auto
  then show ?thesis using assms by (simp add: approvePendingPlanForPanel_def Let_def exec_bind)
qed

definition sample_flow :: PendingInteractionFlow where
  "sample_flow = \<lparr>flow_approvalMessageID = None, flow_attachments = None, flow_auditMessageID = None,
     flow_auditProgressed = False, flow_flowID = js ''agent-run-h-0'', flow_prompt = js ''list the files'',
     flow_questionnaireMessageID = None, flow_runApproval = None,
     flow_tools = [\<lparr>tool_name = js ''execute_terminal'', tool_description = None\<rparr>]\<rparr>"

theorem approval_gives_panel_back_witness:
  "\<exists>n' p' log'. exec (approvePendingPlanForPanel sample_input sample_approval) sample_world 0
      (idle_panel\<lparr>ap_pendingFlow := Some sample_flow\<rparr>, []) = (Inr (), n', (p', log')) \<and> panel_idle p'"
  by (rule approval_gives_panel_back [of _ sample_flow])
     (simp_all add: sample_flow_def sample_approval_def createApprovalMessage_def runs_in_terminal_def)

end
