(* ===== verification/Async.thy ===== *)
theory Async
  imports Prelude
begin

text \<open>
  Asynchronous code over a shared state: a program sets the state, reads it, starts another program beside it and awaits
  requests to its surroundings; a system interleaves renderings, commands and the answers to what waits. What holds of
  every program of a system is shown by passing a property through its combinators (locales \<open>program_basics\<close> and
  \<open>program_property\<close>); two such properties are that every update stays in a relation (\<open>update_property\<close>) and that a flag is
  lowered at the end (\<open>clears\<close>), and with them the invariants and the liveness of the whole system follow
  (\<open>reach_invariant\<close>, \<open>flag_is_lowered\<close>).
\<close>

section \<open>Programs\<close>

datatype ('s, 'c, 'a) async =
    Stop
  | Put "'s \<Rightarrow> 's" "('s, 'c, 'a) async"
  | Look "'s \<Rightarrow> ('s, 'c, 'a) async"
  | Spawn "('s, 'c, 'a) async" "('s, 'c, 'a) async"
  | Call 'c "'a \<Rightarrow> ('s, 'c, 'a) async"

text \<open>An asynchronous function takes what happens when it returns or throws.\<close>

type_synonym ('s, 'c, 'a, 'e, 'x) task = "('e + 'x \<Rightarrow> ('s, 'c, 'a) async) \<Rightarrow> ('s, 'c, 'a) async"

definition ret :: "'x \<Rightarrow> ('s, 'c, 'a, 'e, 'x) task" where
  "ret x k = k (Inr x)"

definition raise :: "'e \<Rightarrow> ('s, 'c, 'a, 'e, 'x) task" where
  "raise e k = k (Inl e)"

definition seq :: "('s, 'c, 'a, 'e, 'x) task \<Rightarrow> ('x \<Rightarrow> ('s, 'c, 'a, 'e, 'y) task) \<Rightarrow> ('s, 'c, 'a, 'e, 'y) task" where
  "seq m f k = m (\<lambda>r. case r of Inl e \<Rightarrow> k (Inl e) | Inr x \<Rightarrow> f x k)"

definition onError :: "('s, 'c, 'a, 'e, 'x) task \<Rightarrow> ('e \<Rightarrow> ('s, 'c, 'a, 'e, 'x) task) \<Rightarrow> ('s, 'c, 'a, 'e, 'x) task" where
  "onError m handler k = m (\<lambda>r. case r of Inl e \<Rightarrow> handler e k | Inr x \<Rightarrow> k (Inr x))"

definition finally_do :: "('s, 'c, 'a, 'e, 'x) task \<Rightarrow> ('s, 'c, 'a, 'e, unit) task \<Rightarrow> ('s, 'c, 'a, 'e, 'x) task" where
  "finally_do m cleanup k = m (\<lambda>r. cleanup (\<lambda>c. case c of Inl e \<Rightarrow> k (Inl e) | Inr _ \<Rightarrow> k r))"

definition put :: "('s \<Rightarrow> 's) \<Rightarrow> ('s, 'c, 'a, 'e, unit) task" where
  "put f k = Put f (k (Inr ()))"

definition look :: "('s \<Rightarrow> 'x) \<Rightarrow> ('s, 'c, 'a, 'e, 'x) task" where
  "look g k = Look (\<lambda>s. k (Inr (g s)))"

text \<open>\<^verbatim>\<open>void f().catch(...)\<close>: the call runs beside its caller.\<close>

definition spawn :: "('s, 'c, 'a, 'e, unit) task \<Rightarrow> ('s, 'c, 'a, 'e, unit) task" where
  "spawn m k = Spawn (m (\<lambda>_. Stop)) (k (Inr ()))"

definition whenever :: "bool \<Rightarrow> ('s, 'c, 'a, 'e, unit) task \<Rightarrow> ('s, 'c, 'a, 'e, unit) task" where
  "whenever b m = (if b then m else ret ())"

text \<open>A request; every kind of request reads its own part of the answer.\<close>

definition request :: "'c \<Rightarrow> ('a \<Rightarrow> 'e + 'x) \<Rightarrow> ('s, 'c, 'a, 'e, 'x) task" where
  "request c part k = Call c (\<lambda>a. k (part a))"

definition program :: "('s, 'c, 'a, 'e, unit) task \<Rightarrow> ('s, 'c, 'a) async" where
  "program m = m (\<lambda>_. Stop)"

section \<open>Running\<close>

text \<open>A program runs until it awaits; the programs that wait then are its continuation and those it started.\<close>

primrec advance :: "('s, 'c, 'a) async \<Rightarrow> 's \<Rightarrow> 's \<times> ('s, 'c, 'a) async list" where
  "advance Stop s = (s, [])"
| "advance (Put f p) s = advance p (f s)"
| "advance (Look k) s = advance (k s) s"
| "advance (Spawn p q) s = (let (s1, ps) = advance p s; (s2, qs) = advance q s1 in (s2, ps @ qs))"
| "advance (Call c k) s = (s, [Call c k])"

fun resume :: "('s, 'c, 'a) async \<Rightarrow> 'a \<Rightarrow> ('s, 'c, 'a) async" where
  "resume (Call c k) a = k a"
| "resume p a = p"

text \<open>A program run to its end, its requests answered one after the other.\<close>

primrec finish :: "('s, 'c, 'a) async \<Rightarrow> (nat \<Rightarrow> 'a) \<Rightarrow> nat \<Rightarrow> 's \<Rightarrow> 's" where
  "finish Stop answers n s = s"
| "finish (Put f p) answers n s = finish p answers n (f s)"
| "finish (Look k) answers n s = finish (k s) answers n s"
| "finish (Spawn p q) answers n s = finish q answers n (finish p answers n s)"
| "finish (Call c k) answers n s = finish (k (answers n)) answers (Suc n) s"

definition run_task :: "('s, 'c, 'a, 'e, unit) task \<Rightarrow> 's \<Rightarrow> 's \<times> ('s, 'c, 'a) async list" where
  "run_task m s = advance (program m) s"

lemmas run_defs = run_task_def program_def seq_def put_def look_def ret_def raise_def onError_def finally_do_def spawn_def
  whenever_def request_def

text \<open>
  The states of a system: the state, the state of the last rendering, and the programs that wait. A command reads the
  state of the last rendering, as a closure does; a rendering may adjust the state.
\<close>

inductive async_reach ::
    "('s \<Rightarrow> bool) \<Rightarrow> ('s \<Rightarrow> 's \<Rightarrow> 's) \<Rightarrow> (('s \<Rightarrow> ('s, 'c, 'a) async) \<Rightarrow> bool) \<Rightarrow> 's \<times> 's \<times> ('s, 'c, 'a) async list \<Rightarrow> bool"
  for init render command where
  reach_start: "init s \<Longrightarrow> async_reach init render command (s, s, [])"
| reach_render: "async_reach init render command (s, seen, ps) \<Longrightarrow>
    async_reach init render command (render seen s, render seen s, ps)"
| reach_command: "async_reach init render command (s, seen, ps) \<Longrightarrow> command c \<Longrightarrow> advance (c seen) s = (s', new) \<Longrightarrow>
    async_reach init render command (s', seen, new @ ps)"
| reach_answer: "async_reach init render command (s, seen, ps @ p # qs) \<Longrightarrow> advance (resume p a) s = (s', new) \<Longrightarrow>
    async_reach init render command (s', seen, ps @ new @ qs)"

section \<open>Properties of programs\<close>

text \<open>An asynchronous function passes a property on from what happens after it.\<close>

definition passes :: "(('s, 'c, 'a) async \<Rightarrow> bool) \<Rightarrow> ('s, 'c, 'a, 'e, 'x) task \<Rightarrow> bool" where
  "passes P m \<longleftrightarrow> (\<forall>k. (\<forall>r. P (k r)) \<longrightarrow> P (m k))"

locale program_basics =
  fixes P :: "('s, 'c, 'a) async \<Rightarrow> bool" and ok :: "('s \<Rightarrow> 's) \<Rightarrow> bool"
  assumes P_put: "ok f \<Longrightarrow> P p \<Longrightarrow> P (Put f p)"
    and P_look: "(\<And>s. P (k s)) \<Longrightarrow> P (Look k)"
    and P_call: "(\<And>a. P (k' a)) \<Longrightarrow> P (Call c k')"
begin

lemma passes_ret: "passes P (ret x)"
  by (simp add: passes_def ret_def)

lemma passes_raise: "passes P (raise e)"
  by (simp add: passes_def raise_def)

lemma passes_put: "ok f \<Longrightarrow> passes P (put f)"
  by (simp add: passes_def put_def P_put)

lemma passes_look: "passes P (look g)"
  by (simp add: passes_def look_def P_look)

lemma passes_request: "passes P (request c part)"
  by (simp add: passes_def request_def P_call)

lemma passes_seq: "passes P m \<Longrightarrow> (\<And>x. passes P (f x)) \<Longrightarrow> passes P (seq m f)"
  by (simp add: passes_def seq_def split: sum.split)

lemma passes_onError: "passes P m \<Longrightarrow> (\<And>e. passes P (h e)) \<Longrightarrow> passes P (onError m h)"
  by (simp add: passes_def onError_def split: sum.split)

lemma passes_finally: "passes P m \<Longrightarrow> passes P c \<Longrightarrow> passes P (finally_do m c)"
  by (simp add: passes_def finally_do_def split: sum.split)

lemma passes_whenever: "passes P m \<Longrightarrow> passes P (whenever b m)"
  by (simp add: whenever_def passes_ret)

lemma passes_if: "passes P m \<Longrightarrow> passes P m' \<Longrightarrow> passes P (if b then m else m')"
  by simp

lemmas passes_control = passes_ret passes_raise passes_look passes_request passes_seq passes_onError passes_finally
  passes_whenever passes_if

end

text \<open>With what a property needs of a call that runs beside its caller, it holds of every function.\<close>

locale program_property = program_basics +
  assumes P_stop: "P Stop" and P_spawn: "P p \<Longrightarrow> P q \<Longrightarrow> P (Spawn p q)"
begin

lemma passes_spawn: "passes P m \<Longrightarrow> passes P (spawn m)"
  by (simp add: passes_def spawn_def P_spawn P_stop)

lemma passes_program: "passes P m \<Longrightarrow> P (program m)"
  by (simp add: passes_def program_def P_stop)

end

section \<open>Updates\<close>

text \<open>Every update a program can make is in a relation, whatever the answers and the state it finds.\<close>

primrec updates :: "('s \<Rightarrow> 's \<Rightarrow> bool) \<Rightarrow> ('s, 'c, 'a) async \<Rightarrow> bool" where
  "updates R Stop \<longleftrightarrow> True"
| "updates R (Put f p) \<longleftrightarrow> (\<forall>s. R s (f s)) \<and> updates R p"
| "updates R (Look k) \<longleftrightarrow> (\<forall>s. updates R (k s))"
| "updates R (Spawn p q) \<longleftrightarrow> updates R p \<and> updates R q"
| "updates R (Call c k) \<longleftrightarrow> (\<forall>a. updates R (k a))"

lemma updates_resume: "updates R p \<Longrightarrow> updates R (resume p a)"
  by (cases p) simp_all

lemma updates_spawned: "passes (updates R) m \<Longrightarrow> updates R (program m)"
  by (simp add: passes_def program_def)

text \<open>A preorder bounds what running a program does.\<close>

locale update_property =
  fixes R :: "'s \<Rightarrow> 's \<Rightarrow> bool"
  assumes R_refl: "R s s" and R_trans: "R s t \<Longrightarrow> R t u \<Longrightarrow> R s u"
begin

lemma advance_updates:
  "updates R p \<Longrightarrow> advance p s = (s', new) \<Longrightarrow> R s s' \<and> (\<forall>q\<in>set new. updates R q)"
proof (induction p arbitrary: s s' new)
  case (Put f p)
  from Put.prems have "R s (f s)" by simp
  moreover from Put.prems have "R (f s) s' \<and> (\<forall>q\<in>set new. updates R q)" by (intro Put.IH) simp_all
  ultimately show ?case using R_trans [of s "f s" s'] by simp
next
  case (Spawn p q)
  obtain s1 ps s2 qs where run: "advance p s = (s1, ps)" "advance q s1 = (s2, qs)" by (metis surj_pair)
  have "R s s1 \<and> (\<forall>r\<in>set ps. updates R r)" using Spawn.prems(1) run(1) by (intro Spawn.IH(1)) simp_all
  moreover have "R s1 s2 \<and> (\<forall>r\<in>set qs. updates R r)" using Spawn.prems(1) run(2) by (intro Spawn.IH(2)) simp_all
  moreover have "s' = s2" "new = ps @ qs" using run Spawn.prems(2) by simp_all
  ultimately show ?case using R_trans [of s s1 s2] by auto
next
  case (Look k)
  from Look.prems show ?case by (intro Look.IH [of "k s"]) simp_all
next
  case (Call c k)
  from Call.prems show ?case by (auto simp: R_refl)
qed (simp add: R_refl)

end

sublocale update_property \<subseteq> programs: program_property "updates R" "\<lambda>f. \<forall>s. R s (f s)"
  by unfold_locales simp_all

text \<open>An invariant that every update keeps holds in every state of a system.\<close>

abbreviation keeps :: "('s \<Rightarrow> bool) \<Rightarrow> 's \<Rightarrow> 's \<Rightarrow> bool" where
  "keeps I s t \<equiv> I s \<longrightarrow> I t"

lemma keeps_preorder: "update_property (keeps I)"
  by unfold_locales auto

lemma reach_invariant:
  assumes "async_reach init render command x" "x = (s, seen, ps)"
    and init: "\<And>s. init s \<Longrightarrow> I s" and render: "\<And>seen s. I s \<Longrightarrow> I (render seen s)"
    and command: "\<And>c seen. command c \<Longrightarrow> updates (keeps I) (c seen)"
  shows "I s \<and> (\<forall>p\<in>set ps. updates (keeps I) p)"
  using assms(1,2)
proof (induction arbitrary: s seen ps rule: async_reach.induct)
  case (reach_start s0)
  then show ?case by (simp add: init)
next
  case (reach_render s0 seen0 ps0)
  then show ?case using render by auto
next
  case (reach_command s0 seen0 ps0 c s1 new)
  from update_property.advance_updates [OF keeps_preorder command [OF reach_command.hyps(2)] reach_command.hyps(3)]
  show ?case using reach_command by auto
next
  case (reach_answer s0 seen0 ps0 p qs0 a s1 new)
  then have "updates (keeps I) (resume p a)" by (simp add: updates_resume)
  from update_property.advance_updates [OF keeps_preorder this reach_answer.hyps(2)]
  show ?case using reach_answer by auto
qed

section \<open>Flags\<close>

text \<open>A program that never raises a flag, and one that lowers it on every path and never raises it again.\<close>

abbreviation quiet :: "('s \<Rightarrow> bool) \<Rightarrow> 's \<Rightarrow> 's \<Rightarrow> bool" where
  "quiet flag \<equiv> keeps (\<lambda>s. \<not> flag s)"

primrec clears :: "('s \<Rightarrow> bool) \<Rightarrow> ('s, 'c, 'a) async \<Rightarrow> bool" where
  "clears flag Stop \<longleftrightarrow> False"
| "clears flag (Put f p) \<longleftrightarrow> (\<forall>s. \<not> flag (f s)) \<and> updates (quiet flag) p \<or> clears flag p"
| "clears flag (Look k) \<longleftrightarrow> (\<forall>s. clears flag (k s))"
| "clears flag (Spawn p q) \<longleftrightarrow> updates (quiet flag) p \<and> clears flag q"
| "clears flag (Call c k) \<longleftrightarrow> (\<forall>a. clears flag (k a))"

interpretation clearing: program_basics "clears flag" "\<lambda>_. True" for flag
  by unfold_locales simp_all

lemma clears_resume: "clears flag p \<Longrightarrow> clears flag (resume p a)"
  by (cases p) simp_all

lemma finish_quiet: "updates (quiet flag) p \<Longrightarrow> \<not> flag s \<Longrightarrow> \<not> flag (finish p answers n s)"
  by (induction p arbitrary: s n) simp_all

lemma finish_clears: "clears flag p \<Longrightarrow> \<not> flag (finish p answers n s)"
  by (induction p arbitrary: s n) (auto simp: finish_quiet)

lemmas advance_quiet = update_property.advance_updates [OF keeps_preorder [of "\<lambda>s. \<not> flag s" for flag]]

lemma advance_clears:
  "clears flag p \<Longrightarrow> advance p s = (s', new) \<Longrightarrow>
    (flag s' \<longrightarrow> (\<exists>q\<in>set new. clears flag q)) \<and> (\<forall>q\<in>set new. clears flag q \<or> updates (quiet flag) q)"
proof (induction p arbitrary: s s' new)
  case (Put f p)
  show ?case
  proof (cases "clears flag p")
    case True
    then show ?thesis using Put.prems by (intro Put.IH) simp_all
  next
    case False
    then have "\<not> flag (f s)" "updates (quiet flag) p" using Put.prems by simp_all
    then show ?thesis using advance_quiet [of flag p "f s" s' new] Put.prems(2) by simp
  qed
next
  case (Look k)
  from Look.prems show ?case by (intro Look.IH [of "k s"]) simp_all
next
  case (Spawn p q)
  obtain s1 ps s2 qs where run: "advance p s = (s1, ps)" "advance q s1 = (s2, qs)" by (metis surj_pair)
  have "\<forall>r\<in>set ps. updates (quiet flag) r" using advance_quiet [OF _ run(1)] Spawn.prems(1) by simp
  moreover have "(flag s2 \<longrightarrow> (\<exists>r\<in>set qs. clears flag r)) \<and> (\<forall>r\<in>set qs. clears flag r \<or> updates (quiet flag) r)"
    using Spawn.prems(1) run(2) by (intro Spawn.IH(2)) simp_all
  moreover have "s' = s2" "new = ps @ qs" using run Spawn.prems(2) by simp_all
  ultimately show ?case by auto
next
  case (Call c k)
  from Call.prems show ?case by auto
qed simp

text \<open>Such programs can be composed from below: what comes before the last update is free.\<close>

lemma clears_finally:
  assumes "passes (clears flag) m" "\<And>s. \<not> flag (f s)"
  shows "clears flag (program (finally_do m (put f)))"
  using assms by (simp add: program_def finally_do_def passes_def put_def split: sum.split)

lemma clears_prefix:
  "clears flag (program (g ())) \<Longrightarrow> clears flag (program (seq (put f) g))"
  "(\<And>x. clears flag (program (g' x))) \<Longrightarrow> clears flag (program (seq (look h) g'))"
  by (simp_all add: program_def seq_def put_def look_def)

lemma clears_spawn: "passes (updates (quiet flag)) m \<Longrightarrow> passes (clears flag) (spawn m)"
  by (simp add: passes_def [of "clears flag"] spawn_def updates_spawned [unfolded program_def])

lemmas clears_intros = clears_prefix clears_finally clearing.passes_control clearing.passes_put [OF TrueI]

text \<open>While a flag is up there is a program that lowers it.\<close>

definition tame :: "('s \<Rightarrow> bool) \<Rightarrow> ('s, 'c, 'a) async \<Rightarrow> bool" where
  "tame flag p \<longleftrightarrow> clears flag p \<or> updates (quiet flag) p"

lemma advance_tame:
  assumes "tame flag p" "advance p s = (s', new)"
  shows "(flag s' \<longrightarrow> (\<exists>q\<in>set new. clears flag q) \<or> flag s \<and> \<not> clears flag p) \<and> (\<forall>q\<in>set new. tame flag q)"
proof (cases "clears flag p")
  case True
  then show ?thesis using advance_clears [OF _ assms(2)] by (simp add: tame_def)
next
  case False
  then have "updates (quiet flag) p" using assms(1) by (simp add: tame_def)
  from advance_quiet [OF this assms(2)] False show ?thesis by (auto simp: tame_def)
qed

lemma tame_resume: "tame flag p \<Longrightarrow> tame flag (resume p a)"
  by (auto simp: tame_def clears_resume updates_resume)

lemma reach_flag:
  assumes "async_reach init render command x" "x = (s, seen, ps)"
    and init: "\<And>s. init s \<Longrightarrow> \<not> flag s" and render: "\<And>seen s. flag (render seen s) \<Longrightarrow> flag s"
    and command: "\<And>c seen. command c \<Longrightarrow> tame flag (c seen)"
  shows "(flag s \<longrightarrow> (\<exists>p\<in>set ps. clears flag p)) \<and> (\<forall>p\<in>set ps. tame flag p)"
  using assms(1,2)
proof (induction arbitrary: s seen ps rule: async_reach.induct)
  case (reach_start s0)
  then show ?case by (simp add: init)
next
  case (reach_render s0 seen0 ps0)
  then show ?case using render by auto
next
  case (reach_command s0 seen0 ps0 c s1 new)
  from advance_tame [OF command [OF reach_command.hyps(2)] reach_command.hyps(3)] show ?case using reach_command by auto
next
  case (reach_answer s0 seen0 ps0 p qs0 a s1 new)
  then have IH: "flag s0 \<longrightarrow> (\<exists>r\<in>set (ps0 @ p # qs0). clears flag r)" "\<forall>r\<in>set (ps0 @ p # qs0). tame flag r"
    by blast+
  then have "tame flag (resume p a)" "clears flag p \<longrightarrow> clears flag (resume p a)"
    by (auto simp: tame_resume clears_resume)
  from advance_tame [OF this(1) reach_answer.hyps(2)] this(2) reach_answer.prems IH show ?case by auto
qed

lemma flag_is_lowered:
  assumes "async_reach init render command (s, seen, ps)" "flag s"
    and "\<And>s. init s \<Longrightarrow> \<not> flag s" "\<And>seen s. flag (render seen s) \<Longrightarrow> flag s" "\<And>c seen. command c \<Longrightarrow> tame flag (c seen)"
  shows "\<exists>p\<in>set ps. \<forall>answers n t. \<not> flag (finish p answers n t)"
proof -
  have "(flag s \<longrightarrow> (\<exists>p\<in>set ps. clears flag p)) \<and> (\<forall>p\<in>set ps. tame flag p)"
    by (rule reach_flag [where flag = flag, OF assms(1) refl]) (fact assms)+
  then obtain p where "p \<in> set ps" "clears flag p" using assms(2) by blast
  then show ?thesis by (intro bexI [of _ p] allI finish_clears)
qed

end
