(* ===== verification/Agent_Library.thy ===== *)
theory Agent_Library
  imports Agent_Execution Async
begin

text \<open>
  The library of the agent panel: its list of conversations and the commands on them
  (\<^verbatim>\<open>agent-panel-conversations.ts\<close>), the context widgets of a conversation (\<^verbatim>\<open>agent-panel-context-runtime.ts\<close> and the
  setters of \<^verbatim>\<open>use-agent-panel-context-selection.ts\<close>), the providers (\<^verbatim>\<open>agent-panel-provider-runtime.ts\<close>) and the start of
  the panel (\<^verbatim>\<open>agent-panel-bootstrap.ts\<close>), over the state of \<^verbatim>\<open>use-agent-panel.ts\<close>. A command reads the state of the
  last rendering, as its closure does; what it sets is in the current state at once; references are read and written
  directly. An asynchronous function is a program that awaits requests, and \<open>library_reach\<close> interleaves the programs.
\<close>

section \<open>Data\<close>

datatype AgentConversationListScope = ScopeRecent | ScopeArchived | ScopeAll

record AgentConversationListCounts =
  count_recent :: nat
  count_archived :: nat
  count_all :: nat

definition defaultConversationListCounts :: AgentConversationListCounts where
  "defaultConversationListCounts = \<lparr>count_recent = 0, count_archived = 0, count_all = 0\<rparr>"

record AgentConversationList =
  list_active_conversation_id :: jsstring
  list_conversations :: "AgentConversationSummary list"
  list_counts :: AgentConversationListCounts

record AgentProviderCatalog =
  catalog_providers :: "AgentProviderView list"
  catalog_active_provider_id :: jsstring

text \<open>Of a route in the gateway and of a run only what the panel reads is kept.\<close>

record AgentProviderGatewayProvider =
  gateway_provider_id :: jsstring
  gateway_active :: bool

record AgentProviderGatewaySnapshot =
  gateway_generated_at :: jsstring
  gateway_providers :: "AgentProviderGatewayProvider list"
  gateway_recent_runs :: "jsstring list"
  gateway_recent_runs_total :: int

record AgentCatalog =
  active_profile_id :: jsstring
  active_role_id :: jsstring
  active_mode_id :: jsstring

record workspace_snapshot =
  workspace_widgets :: "WorkspaceWidgetSnapshot list"
  workspace_active_widget_id :: "jsstring option"

text \<open>What the hook takes from its surroundings.\<close>

record library_env =
  env_host :: host
  env_time :: "jsstring \<Rightarrow> int"
  env_hostId :: jsstring
  env_enabled :: bool
  env_activeWidgetHostId :: jsstring
  env_terminalPanelBindings :: TerminalPanelBindings

section \<open>The state\<close>

text \<open>A name ending in \<open>Ref\<close> is the reference beside the state of that name; the last fields from
  \<open>lib_epoch\<close> on are references only. The three runs count how often an effect has started or been cleaned up, so that
  the run an effect has begun is cancelled when the number has moved on.\<close>

record panel_library =
  lib_panel :: agent_panel
  lib_provider :: "AgentConversationProvider option"
  lib_providerCatalog :: "AgentProviderCatalog option"
  lib_gateway :: "AgentProviderGatewaySnapshot option"
  lib_gatewayError :: "jsstring option"
  lib_gatewayPending :: bool
  lib_historyRuns :: "jsstring list"
  lib_historyTotal :: int
  lib_historyError :: "jsstring option"
  lib_historyPending :: bool
  lib_routeProbing :: bool
  lib_routePreparing :: bool
  lib_agentCatalog :: "AgentCatalog option"
  lib_activeSummary :: "AgentConversationSummary option"
  lib_conversations :: "AgentConversationSummary list"
  lib_counts :: AgentConversationListCounts
  lib_listPending :: bool
  lib_searchQuery :: jsstring
  lib_scope :: AgentConversationListScope
  lib_activeID :: jsstring
  lib_activeIDRef :: jsstring
  lib_messagesRef :: "AgentConversationMessage list option"
  lib_conversationPending :: bool
  lib_selectedProviderID :: jsstring
  lib_availableModels :: "jsstring list"
  lib_selectedModel :: jsstring
  lib_contextEnabled :: bool
  lib_contextEnabledRef :: bool
  lib_contextOptions :: "AiContextWidgetOption list"
  lib_contextOptionsRef :: "AiContextWidgetOption list"
  lib_storedIDs :: "jsstring list"
  lib_storedIDsRef :: "jsstring list"
  lib_missingCount :: nat
  lib_workspaceActive :: jsstring
  lib_workspaceActiveRef :: jsstring
  lib_contextLoadError :: "jsstring option"
  lib_draft :: jsstring
  lib_attachments :: "AgentAttachmentReference list"
  lib_attachmentsPending :: bool
  lib_epoch :: nat
  lib_listNonce :: nat
  lib_contextLoaded :: bool
  lib_customized :: bool
  lib_workspaceWidgets :: "WorkspaceWidgetSnapshot list"
  lib_startRun :: nat
  lib_listRun :: nat
  lib_contextRun :: nat

definition set_submit_error :: "jsstring option \<Rightarrow> panel_library \<Rightarrow> panel_library" where
  "set_submit_error e s = s\<lparr>lib_panel := (lib_panel s)\<lparr>ap_submitError := e\<rparr>\<rparr>"

definition set_load_error :: "jsstring option \<Rightarrow> panel_library \<Rightarrow> panel_library" where
  "set_load_error e s = s\<lparr>lib_panel := (lib_panel s)\<lparr>ap_loadError := e\<rparr>\<rparr>"

definition missing_count :: "jsstring list \<Rightarrow> AiContextWidgetOption list \<Rightarrow> nat" where
  "missing_count widgetIDs options = length widgetIDs - length (filterContextWidgetSelection widgetIDs options)"

definition applyConversationContextPreferences ::
    "AgentConversationContextPreferences option \<Rightarrow> panel_library \<Rightarrow> panel_library" where
  "applyConversationContextPreferences preferences s =
     (let options = lib_contextOptionsRef s;
          normalizedWidgetIDs = deduplicateWidgetIDs (js_default (Option.bind preferences preferred_widget_ids) []);
          enabled = js_default (map_option widget_context_enabled preferences) True;
          normalizedPreferences = \<lparr>widget_context_enabled = enabled, preferred_widget_ids = Some normalizedWidgetIDs\<rparr>
      in s\<lparr>lib_customized := isCustomizedContextPreference normalizedPreferences,
           lib_contextEnabledRef := enabled,
           lib_storedIDsRef := normalizedWidgetIDs,
           lib_contextEnabled := enabled,
           lib_storedIDs := normalizedWidgetIDs,
           lib_missingCount := (if options \<noteq> [] then missing_count normalizedWidgetIDs options else 0)\<rparr>)"

definition apply_snapshot :: "library_env \<Rightarrow> AgentConversationSnapshot \<Rightarrow> panel_library \<Rightarrow> panel_library" where
  "apply_snapshot env snapshot s =
     (let summary = summaryFromConversationSnapshot snapshot;
          s1 = s\<lparr>lib_activeIDRef := conversation_id snapshot,
                 lib_messagesRef := Some (conversation_messages snapshot),
                 lib_panel := applyConversationSnapshot snapshot (lib_panel s),
                 lib_provider := Some (conversation_provider snapshot),
                 lib_activeID := conversation_id snapshot,
                 lib_activeSummary := Some summary\<rparr>;
          s2 = applyConversationContextPreferences (Some (conversation_context_preferences snapshot)) s1
      in s2\<lparr>lib_conversations := upsertConversationSummary (env_host env) (env_time env) (lib_conversations s2) summary\<rparr>)"

definition resetConversationInteractionState :: "panel_library \<Rightarrow> panel_library" where
  "resetConversationInteractionState s =
     s\<lparr>lib_panel := (lib_panel s)\<lparr>ap_pendingFlow := None, ap_interaction := [], ap_submitError := None\<rparr>\<rparr>"

definition beginPanelStateEpoch :: "panel_library \<Rightarrow> panel_library" where
  "beginPanelStateEpoch s = s\<lparr>lib_epoch := lib_epoch s + 1\<rparr>"

text \<open>
  A rendering runs the effects that copy the state into the references: a string or a flag when it differs from the last
  rendering; an array, which is a new object whenever it is set, always (it is set wherever its reference is).
\<close>

definition sync_refs :: "panel_library \<Rightarrow> panel_library \<Rightarrow> panel_library" where
  "sync_refs seen s = s\<lparr>
     lib_activeIDRef := (if lib_activeID s \<noteq> lib_activeID seen then lib_activeID s else lib_activeIDRef s),
     lib_messagesRef := ap_messages (lib_panel s),
     lib_contextOptionsRef := lib_contextOptions s, lib_storedIDsRef := lib_storedIDs s,
     lib_contextEnabledRef :=
       (if lib_contextEnabled s \<noteq> lib_contextEnabled seen then lib_contextEnabled s else lib_contextEnabledRef s),
     lib_workspaceActiveRef :=
       (if lib_workspaceActive s \<noteq> lib_workspaceActive seen then lib_workspaceActive s else lib_workspaceActiveRef s)\<rparr>"

section \<open>Programs\<close>

datatype conversation_call =
    FetchConversation
  | ActivateConversation jsstring
  | CreateConversation
  | RenameConversation jsstring jsstring
  | DeleteConversation jsstring
  | ArchiveConversation jsstring
  | RestoreConversation jsstring
  | UpdateConversationContext jsstring AgentConversationContextPreferences

datatype route_call = PrewarmRoute jsstring | ProbeRoute jsstring | ClearRouteState jsstring

datatype catalog_call = SetProfile jsstring | SetRole jsstring | SetMode jsstring

text \<open>How the five requests of the start settle.\<close>

record bootstrap_results =
  boot_conversation :: "js_error + AgentConversationSnapshot"
  boot_providers :: "js_error + AgentProviderCatalog"
  boot_gateway :: "js_error + AgentProviderGatewaySnapshot"
  boot_catalog :: "js_error + AgentCatalog"
  boot_attachments :: "js_error + AgentAttachmentReference list"

datatype library_call =
    ReqConversation conversation_call
  | ReqList jsstring AgentConversationListScope
  | ReqWorkspace
  | ReqActivateProvider jsstring
  | ReqGateway "jsstring option"
  | ReqRoute route_call
  | ReqCatalog catalog_call
  | ReqAttachments
  | ReqDeleteAttachment jsstring
  | ReqBootstrap

text \<open>The answer to a request; each request reads its own field.\<close>

record library_answer =
  answer_conversation :: "js_error + AgentConversationSnapshot"
  answer_list :: "js_error + AgentConversationList"
  answer_workspace :: "js_error + workspace_snapshot"
  answer_providers :: "js_error + AgentProviderCatalog"
  answer_gateway :: "js_error + AgentProviderGatewaySnapshot"
  answer_unit :: "js_error + unit"
  answer_catalog :: "js_error + AgentCatalog"
  answer_attachments :: "js_error + AgentAttachmentReference list"
  answer_bootstrap :: bootstrap_results

type_synonym 'x library_task = "(panel_library, library_call, library_answer, js_error, 'x) task"

abbreviation CallConversation :: "conversation_call \<Rightarrow> AgentConversationSnapshot library_task" where
  "CallConversation c \<equiv> request (ReqConversation c) answer_conversation"

abbreviation CallList :: "jsstring \<Rightarrow> AgentConversationListScope \<Rightarrow> AgentConversationList library_task" where
  "CallList query scope \<equiv> request (ReqList query scope) answer_list"

abbreviation CallWorkspace :: "workspace_snapshot library_task" where
  "CallWorkspace \<equiv> request ReqWorkspace answer_workspace"

abbreviation CallActivateProvider :: "jsstring \<Rightarrow> AgentProviderCatalog library_task" where
  "CallActivateProvider i \<equiv> request (ReqActivateProvider i) answer_providers"

abbreviation CallGateway :: "jsstring option \<Rightarrow> AgentProviderGatewaySnapshot library_task" where
  "CallGateway i \<equiv> request (ReqGateway i) answer_gateway"

abbreviation CallRoute :: "route_call \<Rightarrow> unit library_task" where
  "CallRoute c \<equiv> request (ReqRoute c) answer_unit"

abbreviation CallCatalog :: "catalog_call \<Rightarrow> AgentCatalog library_task" where
  "CallCatalog c \<equiv> request (ReqCatalog c) answer_catalog"

abbreviation CallAttachments :: "AgentAttachmentReference list library_task" where
  "CallAttachments \<equiv> request ReqAttachments answer_attachments"

abbreviation CallDeleteAttachment :: "jsstring \<Rightarrow> unit library_task" where
  "CallDeleteAttachment i \<equiv> request (ReqDeleteAttachment i) answer_unit"

abbreviation CallBootstrap :: "bootstrap_results library_task" where
  "CallBootstrap \<equiv> request ReqBootstrap (\<lambda>a. Inr (answer_bootstrap a))"

definition report :: "js_error \<Rightarrow> string \<Rightarrow> unit library_task" where
  "report error text = put (set_submit_error (Some (getErrorMessage error (js text))))"

section \<open>Conversations\<close>

definition refreshConversationListForPanel ::
    "library_env \<Rightarrow> jsstring \<Rightarrow> AgentConversationListScope \<Rightarrow> AgentConversationList option library_task" where
  "refreshConversationListForPanel env query scope =
     seq (put (\<lambda>s. s\<lparr>lib_listNonce := lib_listNonce s + 1, lib_listPending := True\<rparr>)) (\<lambda>_.
     seq (look lib_listNonce) (\<lambda>requestNonce.
       finally_do
         (seq (CallList query scope) (\<lambda>conversationList.
          seq (look lib_listNonce) (\<lambda>currentNonce.
            if currentNonce \<noteq> requestNonce then ret None
            else
              seq (put (\<lambda>s. s\<lparr>
                    lib_conversations := sortConversationSummaries (env_host env) (env_time env) (list_conversations conversationList),
                    lib_counts := list_counts conversationList,
                    lib_activeID := (if list_active_conversation_id conversationList \<noteq> []
                      then list_active_conversation_id conversationList else lib_activeID s)\<rparr>))
                (\<lambda>_. ret (Some conversationList)))))
         (put (\<lambda>s. if lib_listNonce s = requestNonce then s\<lparr>lib_listPending := False\<rparr> else s))))"

text \<open>The callback the commands get: the list for the query and the scope of the last rendering.\<close>

definition refresh_list :: "library_env \<Rightarrow> panel_library \<Rightarrow> unit library_task" where
  "refresh_list env seen = seq (refreshConversationListForPanel env (lib_searchQuery seen) (lib_scope seen)) (\<lambda>_. ret ())"

definition list_effect :: "library_env \<Rightarrow> panel_library \<Rightarrow> unit library_task" where
  "list_effect env seen =
     seq (put (\<lambda>s. s\<lparr>lib_listRun := lib_listRun s + 1\<rparr>)) (\<lambda>_.
     seq (look lib_listRun) (\<lambda>run.
       whenever (env_enabled env)
         (onError (refresh_list env seen) (\<lambda>error.
           seq (look lib_listRun) (\<lambda>currentRun.
             whenever (currentRun = run) (report error ''Unable to refresh the conversation list.''))))))"

definition set_conversation_pending :: "bool \<Rightarrow> unit library_task" where
  "set_conversation_pending b = put (\<lambda>s. s\<lparr>lib_conversationPending := b\<rparr>)"

definition reset_submission :: "panel_library \<Rightarrow> panel_library" where
  "reset_submission s = s\<lparr>lib_panel := resetConversationSubmissionRuntime (lib_panel s)\<rparr>"

text \<open>The common shape of switching and creating: a new epoch, the request, and its answer unless the epoch has passed.\<close>

definition conversation_transition ::
    "library_env \<Rightarrow> panel_library \<Rightarrow> conversation_call \<Rightarrow> string \<Rightarrow> unit library_task" where
  "conversation_transition env seen call errorText =
     seq (put reset_submission) (\<lambda>_.
     seq (put beginPanelStateEpoch) (\<lambda>_.
     seq (look lib_epoch) (\<lambda>panelStateEpoch.
     seq (set_conversation_pending True) (\<lambda>_.
       finally_do
         (onError
           (seq (CallConversation call) (\<lambda>snapshot.
            seq (look lib_epoch) (\<lambda>currentEpoch.
              if currentEpoch \<noteq> panelStateEpoch then ret ()
              else
                seq (put (apply_snapshot env snapshot)) (\<lambda>_.
                seq (put resetConversationInteractionState) (\<lambda>_.
                refresh_list env seen)))))
           (\<lambda>error. report error errorText))
         (set_conversation_pending False)))))"

definition switchConversationForPanel :: "library_env \<Rightarrow> panel_library \<Rightarrow> jsstring \<Rightarrow> unit library_task" where
  "switchConversationForPanel env seen conversationID =
     (let nextConversationID = js_trim conversationID in
      if nextConversationID = [] \<or> nextConversationID = lib_activeID seen \<or> ap_isSubmitting (lib_panel seen)
        \<or> lib_conversationPending seen
      then ret ()
      else conversation_transition env seen (ActivateConversation nextConversationID)
             ''Unable to switch the active conversation.'')"

definition createConversationForPanel :: "library_env \<Rightarrow> panel_library \<Rightarrow> unit library_task" where
  "createConversationForPanel env seen =
     (if ap_isSubmitting (lib_panel seen) \<or> lib_conversationPending seen then ret ()
      else conversation_transition env seen CreateConversation ''Unable to create a new conversation.'')"

definition renameConversationForPanel :: "library_env \<Rightarrow> panel_library \<Rightarrow> jsstring \<Rightarrow> jsstring \<Rightarrow> unit library_task" where
  "renameConversationForPanel env seen conversationID title =
     (let nextConversationID = js_trim conversationID in
      if nextConversationID = [] \<or> ap_isSubmitting (lib_panel seen) \<or> lib_conversationPending seen then ret ()
      else
        seq (set_conversation_pending True) (\<lambda>_.
          finally_do
            (onError
              (seq (CallConversation (RenameConversation nextConversationID title)) (\<lambda>snapshot.
               seq (put (apply_snapshot env snapshot)) (\<lambda>_.
               spawn (onError (refresh_list env seen)
                 (\<lambda>error. report error ''Unable to refresh the conversation list.'')))))
              (\<lambda>error. report error ''Unable to rename the conversation.''))
            (set_conversation_pending False)))"

definition mutateConversationCollectionForPanel ::
    "library_env \<Rightarrow> panel_library \<Rightarrow> jsstring \<Rightarrow> (jsstring \<Rightarrow> conversation_call) \<Rightarrow> string \<Rightarrow> unit library_task" where
  "mutateConversationCollectionForPanel env seen conversationID mutateConversation errorText =
     (let nextConversationID = js_trim conversationID in
      if nextConversationID = [] \<or> ap_isSubmitting (lib_panel seen) \<or> lib_conversationPending seen then ret ()
      else
        seq (put reset_submission) (\<lambda>_.
        seq (put beginPanelStateEpoch) (\<lambda>_.
        seq (look lib_epoch) (\<lambda>panelStateEpoch.
        seq (set_conversation_pending True) (\<lambda>_.
          finally_do
            (onError
              (seq (CallConversation (mutateConversation nextConversationID)) (\<lambda>snapshot.
               seq (CallList (lib_searchQuery seen) (lib_scope seen)) (\<lambda>conversationList.
               seq (look lib_epoch) (\<lambda>currentEpoch.
                 if currentEpoch \<noteq> panelStateEpoch then ret ()
                 else
                   seq (whenever (lib_activeID seen = nextConversationID)
                         (seq (put (apply_snapshot env snapshot)) (\<lambda>_. put resetConversationInteractionState)))
                     (\<lambda>_. put (\<lambda>s. s\<lparr>
                       lib_conversations := sortConversationSummaries (env_host env) (env_time env) (list_conversations conversationList),
                       lib_counts := list_counts conversationList,
                       lib_activeID := (if list_active_conversation_id conversationList \<noteq> []
                         then list_active_conversation_id conversationList else conversation_id snapshot)\<rparr>))))))
              (\<lambda>error. report error errorText))
            (set_conversation_pending False))))))"

definition deleteConversationForPanel :: "library_env \<Rightarrow> panel_library \<Rightarrow> jsstring \<Rightarrow> unit library_task" where
  "deleteConversationForPanel env seen conversationID =
     mutateConversationCollectionForPanel env seen conversationID DeleteConversation ''Unable to delete the conversation.''"

definition archiveConversationForPanel :: "library_env \<Rightarrow> panel_library \<Rightarrow> jsstring \<Rightarrow> unit library_task" where
  "archiveConversationForPanel env seen conversationID =
     mutateConversationCollectionForPanel env seen conversationID ArchiveConversation ''Unable to archive the conversation.''"

definition restoreConversationForPanel :: "library_env \<Rightarrow> panel_library \<Rightarrow> jsstring \<Rightarrow> unit library_task" where
  "restoreConversationForPanel env seen conversationID =
     mutateConversationCollectionForPanel env seen conversationID RestoreConversation ''Unable to restore the conversation.''"

section \<open>Context widgets\<close>

definition ensureCurrentConversationSnapshotLoadedForPanel :: "library_env \<Rightarrow> panel_library \<Rightarrow> unit library_task" where
  "ensureCurrentConversationSnapshotLoadedForPanel env seen =
     seq (look (\<lambda>s. js_trim (lib_activeIDRef s) \<noteq> [] \<and> lib_messagesRef s \<noteq> None)) (\<lambda>loaded.
       whenever (\<not> loaded)
         (seq (CallConversation FetchConversation) (\<lambda>snapshot.
          seq (put (apply_snapshot env snapshot)) (\<lambda>_.
          refresh_list env seen))))"

definition update_context :: "library_env \<Rightarrow> panel_library \<Rightarrow> jsstring \<Rightarrow> AgentConversationContextPreferences \<Rightarrow> unit library_task" where
  "update_context env seen conversationID preferences =
     seq (CallConversation (UpdateConversationContext conversationID preferences)) (\<lambda>snapshot.
     seq (put (apply_snapshot env snapshot)) (\<lambda>_.
     refresh_list env seen))"

definition persistConversationContextPreferencesForPanel ::
    "library_env \<Rightarrow> panel_library \<Rightarrow> AgentConversationContextPreferences \<Rightarrow> unit library_task" where
  "persistConversationContextPreferencesForPanel env seen preferences =
     seq (look (\<lambda>s. js_trim (lib_activeIDRef s))) (\<lambda>conversationID.
       if conversationID \<noteq> [] then update_context env seen conversationID preferences
       else
         seq (CallConversation FetchConversation) (\<lambda>currentSnapshot.
         seq (put (apply_snapshot env currentSnapshot)) (\<lambda>_.
         whenever (js_trim (conversation_id currentSnapshot) \<noteq> [])
           (update_context env seen (js_trim (conversation_id currentSnapshot)) preferences))))"

definition persistCleanedContextWidgetSelectionForPanel ::
    "library_env \<Rightarrow> panel_library \<Rightarrow> AiContextWidgetOption list \<Rightarrow> bool library_task" where
  "persistCleanedContextWidgetSelectionForPanel env seen options =
     seq (look id) (\<lambda>s.
       let normalizedSelection = deduplicateWidgetIDs (lib_storedIDsRef s);
           cleanedWidgetIDs = filterContextWidgetSelection normalizedSelection options
       in if \<not> lib_customized s \<or> normalizedSelection = [] \<or> length cleanedWidgetIDs = length normalizedSelection then ret False
          else
            seq (put (\<lambda>s. s\<lparr>lib_storedIDsRef := cleanedWidgetIDs, lib_storedIDs := cleanedWidgetIDs, lib_missingCount := 0\<rparr>)) (\<lambda>_.
            seq (persistConversationContextPreferencesForPanel env seen
                  \<lparr>widget_context_enabled = lib_contextEnabledRef s, preferred_widget_ids = Some cleanedWidgetIDs\<rparr>) (\<lambda>_.
            ret True)))"

definition loadContextWidgetsForPanel :: "library_env \<Rightarrow> loaded_context library_task" where
  "loadContextWidgetsForPanel env =
     seq (look id) (\<lambda>s0.
       seq
         (if \<not> env_enabled env
          then ret \<lparr>loaded_activeWidgetID = [], loaded_options = [], loaded_widgets = []\<rparr>
          else if lib_contextLoaded s0
          then ret \<lparr>loaded_activeWidgetID = lib_workspaceActiveRef s0, loaded_options = lib_contextOptionsRef s0,
                 loaded_widgets = lib_workspaceWidgets s0\<rparr>
          else
            seq CallWorkspace (\<lambda>workspaceSnapshot.
              let options = mapContextWidgetOptions (env_host env) (workspace_widgets workspaceSnapshot);
                  activeWidgetID = js_default (map_option js_trim (workspace_active_widget_id workspaceSnapshot)) []
              in seq (put (\<lambda>s. s\<lparr>lib_workspaceActiveRef := activeWidgetID, lib_workspaceActive := activeWidgetID,
                     lib_contextOptionsRef := options, lib_contextOptions := options, lib_contextLoadError := None,
                     lib_missingCount := (if lib_customized s0
                       then missing_count (deduplicateWidgetIDs (lib_storedIDsRef s0)) options else 0)\<rparr>))
                   (\<lambda>_. ret \<lparr>loaded_activeWidgetID = activeWidgetID, loaded_options = options,
                     loaded_widgets = workspace_widgets workspaceSnapshot\<rparr>)))
         (\<lambda>loaded. seq (put (\<lambda>s. s\<lparr>lib_contextLoaded := True, lib_workspaceWidgets := loaded_widgets loaded\<rparr>))
           (\<lambda>_. ret loaded)))"

definition report_context_error :: "js_error \<Rightarrow> unit library_task" where
  "report_context_error error =
     put (\<lambda>s. s\<lparr>lib_contextLoadError := Some (getErrorMessage error (js ''Unable to load workspace widgets.''))\<rparr>)"

definition context_effect :: "library_env \<Rightarrow> panel_library \<Rightarrow> unit library_task" where
  "context_effect env seen =
     seq (put (\<lambda>s. s\<lparr>lib_contextRun := lib_contextRun s + 1\<rparr>)) (\<lambda>_.
     seq (look lib_contextRun) (\<lambda>run.
     seq (look lib_contextLoaded) (\<lambda>loaded.
       whenever (env_enabled env \<and> \<not> loaded \<and> deduplicateWidgetIDs (lib_storedIDs seen) \<noteq> [])
         (onError (seq (loadContextWidgetsForPanel env) (\<lambda>_. ret ())) (\<lambda>error.
           seq (look lib_contextRun) (\<lambda>currentRun. whenever (currentRun = run) (report_context_error error)))))))"

definition handleContextOptionsOpen :: "library_env \<Rightarrow> panel_library \<Rightarrow> unit library_task" where
  "handleContextOptionsOpen env seen =
     onError
       (seq (ensureCurrentConversationSnapshotLoadedForPanel env seen) (\<lambda>_.
        seq (loadContextWidgetsForPanel env) (\<lambda>snapshot.
        seq (persistCleanedContextWidgetSelectionForPanel env seen (loaded_options snapshot)) (\<lambda>_. ret ()))))
       report_context_error"

text \<open>\<^verbatim>\<open>void persistConversationContextPreferences(...).catch(...)\<close>.\<close>

definition persist_beside ::
    "library_env \<Rightarrow> panel_library \<Rightarrow> bool \<Rightarrow> jsstring list \<Rightarrow> string \<Rightarrow> unit library_task" where
  "persist_beside env seen enabled widgetIDs errorText =
     spawn (onError
       (persistConversationContextPreferencesForPanel env seen
          \<lparr>widget_context_enabled = enabled, preferred_widget_ids = Some widgetIDs\<rparr>)
       (\<lambda>error. report error errorText))"

text \<open>The selection the hook derives from the last rendering.\<close>

definition selection_of :: "library_env \<Rightarrow> panel_library \<Rightarrow> context_selection" where
  "selection_of env seen =
     \<lparr>cs_activeWidgetHostId = env_activeWidgetHostId env, cs_contextWidgetOptions = lib_contextOptions seen,
      cs_isWidgetContextEnabled = lib_contextEnabled seen, cs_storedContextWidgetIDs = lib_storedIDs seen,
      cs_terminalPanelBindings = env_terminalPanelBindings env, cs_workspaceActiveWidgetID = lib_workspaceActive seen\<rparr>"

definition select_widgets :: "library_env \<Rightarrow> panel_library \<Rightarrow> bool \<Rightarrow> jsstring list \<Rightarrow> unit library_task" where
  "select_widgets env seen customized widgetIDs =
     seq (put (\<lambda>s. s\<lparr>lib_customized := customized, lib_contextEnabled := True, lib_storedIDs := widgetIDs,
            lib_contextLoadError := None, lib_missingCount := 0\<rparr>)) (\<lambda>_.
     persist_beside env seen True widgetIDs ''Unable to update the conversation context.'')"

definition useCurrentContextWidget :: "library_env \<Rightarrow> panel_library \<Rightarrow> bool \<Rightarrow> unit library_task" where
  "useCurrentContextWidget env seen replace =
     onError
       (seq (loadContextWidgetsForPanel env) (\<lambda>snapshot.
         let activeWidgetID = resolveCurrentContextWidgetID (selection_of env seen) (loaded_options snapshot)
                (Some (loaded_activeWidgetID snapshot))
         in whenever (activeWidgetID \<noteq> [])
              (select_widgets env seen True
                (if replace then [activeWidgetID]
                 else deduplicateWidgetIDs (effectiveContextWidgetIDs (selection_of env seen) @ [activeWidgetID])))))
       report_context_error"

definition useAllContextWidgets :: "library_env \<Rightarrow> panel_library \<Rightarrow> unit library_task" where
  "useAllContextWidgets env seen =
     onError
       (seq (loadContextWidgetsForPanel env) (\<lambda>snapshot.
         select_widgets env seen True (deduplicateWidgetIDs (map cw_value (loaded_options snapshot)))))
       report_context_error"

definition resetContextWidgetSelection :: "library_env \<Rightarrow> panel_library \<Rightarrow> unit library_task" where
  "resetContextWidgetSelection env seen =
     onError
       (seq (loadContextWidgetsForPanel env) (\<lambda>_. select_widgets env seen False []))
       report_context_error"

definition updateSelectedContextWidgetIDs :: "library_env \<Rightarrow> panel_library \<Rightarrow> jsstring list \<Rightarrow> unit library_task" where
  "updateSelectedContextWidgetIDs env seen widgetIDs =
     (let normalizedWidgetIDs = deduplicateWidgetIDs widgetIDs in
      seq (put (\<lambda>s. s\<lparr>lib_customized := True, lib_storedIDs := normalizedWidgetIDs, lib_contextEnabled := True,
             lib_missingCount := 0\<rparr>)) (\<lambda>_.
      persist_beside env seen True normalizedWidgetIDs ''Unable to update the conversation context.''))"

definition updateWidgetContextEnabled :: "library_env \<Rightarrow> panel_library \<Rightarrow> bool \<Rightarrow> unit library_task" where
  "updateWidgetContextEnabled env seen nextValue =
     (let widgetIDs = deduplicateWidgetIDs (effectiveContextWidgetIDs (selection_of env seen)) in
      seq (put (\<lambda>s. s\<lparr>lib_contextEnabled := nextValue, lib_missingCount := 0,
             lib_customized := (\<not> nextValue \<or> widgetIDs \<noteq> [])\<rparr>)) (\<lambda>_.
      persist_beside env seen nextValue widgetIDs ''Unable to update the conversation context.''))"

definition repairMissingContextWidgets :: "library_env \<Rightarrow> panel_library \<Rightarrow> unit library_task" where
  "repairMissingContextWidgets env seen =
     (let nextWidgetIDs = deduplicateWidgetIDs (effectiveContextWidgetIDs (selection_of env seen)) in
      seq (put (\<lambda>s. s\<lparr>lib_customized := (nextWidgetIDs \<noteq> [] \<or> \<not> lib_contextEnabled seen),
             lib_storedIDs := nextWidgetIDs, lib_missingCount := 0\<rparr>)) (\<lambda>_.
      persist_beside env seen (lib_contextEnabled seen) nextWidgetIDs ''Unable to save the cleaned conversation context.''))"

definition resolvedMissingContextWidgetCount :: "panel_library \<Rightarrow> nat" where
  "resolvedMissingContextWidgetCount s =
     (if lib_contextOptions s = [] then lib_missingCount s
      else missing_count (deduplicateWidgetIDs (lib_storedIDs s)) (lib_contextOptions s))"

section \<open>Providers and the agent catalogue\<close>

definition findActiveProviderView :: "AgentProviderCatalog option \<Rightarrow> AgentProviderView option" where
  "findActiveProviderView providerCatalog =
     (case providerCatalog of
        None \<Rightarrow> None
      | Some catalog \<Rightarrow> List.find (\<lambda>p. pv_id p = catalog_active_provider_id catalog) (catalog_providers catalog))"

definition activeProviderID :: "panel_library \<Rightarrow> jsstring" where
  "activeProviderID s = js_trim (if lib_selectedProviderID s \<noteq> [] then lib_selectedProviderID s
     else js_default (map_option catalog_active_provider_id (lib_providerCatalog s)) [])"

definition resolveActiveProviderGateway ::
    "AgentProviderGatewaySnapshot option \<Rightarrow> jsstring \<Rightarrow> AgentProviderGatewayProvider option" where
  "resolveActiveProviderGateway providerGateway providerID =
     (case providerGateway of
        None \<Rightarrow> None
      | Some gateway \<Rightarrow>
          if providerID = [] then List.find gateway_active (gateway_providers gateway)
          else List.find (\<lambda>p. gateway_provider_id p = providerID) (gateway_providers gateway))"

definition set_gateway_error :: "jsstring option \<Rightarrow> unit library_task" where
  "set_gateway_error e = put (\<lambda>s. s\<lparr>lib_gatewayError := e\<rparr>)"

definition refreshProviderGatewaySnapshotForPanel :: "bool \<Rightarrow> AgentProviderGatewaySnapshot option library_task" where
  "refreshProviderGatewaySnapshotForPanel suppressError =
     seq (put (\<lambda>s. s\<lparr>lib_gatewayPending := True\<rparr>)) (\<lambda>_.
       finally_do
         (onError
           (seq (CallGateway None) (\<lambda>snapshot.
            seq (put (\<lambda>s. s\<lparr>lib_gateway := Some snapshot, lib_gatewayError := None\<rparr>)) (\<lambda>_. ret (Some snapshot))))
           (\<lambda>error. seq (whenever (\<not> suppressError)
                 (set_gateway_error (Some (getErrorMessage error (js ''Unable to load provider gateway telemetry.'')))))
               (\<lambda>_. ret None)))
         (put (\<lambda>s. s\<lparr>lib_gatewayPending := False\<rparr>)))"

definition refreshActiveProviderHistoryForPanel :: "panel_library \<Rightarrow> jsstring option \<Rightarrow> bool \<Rightarrow> unit library_task" where
  "refreshActiveProviderHistoryForPanel seen requested suppressError =
     (let providerID = js_trim (js_default requested (activeProviderID seen)) in
      if providerID = []
      then put (\<lambda>s. s\<lparr>lib_historyRuns := [], lib_historyTotal := 0, lib_historyError := None, lib_historyPending := False\<rparr>)
      else
        seq (put (\<lambda>s. s\<lparr>lib_historyPending := True\<rparr>)) (\<lambda>_.
          finally_do
            (onError
              (seq (CallGateway (Some providerID)) (\<lambda>snapshot.
                put (\<lambda>s. s\<lparr>lib_historyRuns := gateway_recent_runs snapshot,
                  lib_historyTotal := gateway_recent_runs_total snapshot, lib_historyError := None\<rparr>)))
              (\<lambda>error. seq (put (\<lambda>s. s\<lparr>lib_historyRuns := [], lib_historyTotal := 0\<rparr>)) (\<lambda>_.
                whenever (\<not> suppressError)
                  (put (\<lambda>s. s\<lparr>lib_historyError := Some (getErrorMessage error
                    (js ''Unable to load the recent route activity for the active provider.''))\<rparr>)))))
            (put (\<lambda>s. s\<lparr>lib_historyPending := False\<rparr>))))"

definition selectProviderForPanel :: "panel_library \<Rightarrow> jsstring \<Rightarrow> unit library_task" where
  "selectProviderForPanel seen providerID =
     (let nextProviderID = js_trim providerID in
      if nextProviderID = [] \<or> nextProviderID = lib_selectedProviderID seen then ret ()
      else
        seq (put beginPanelStateEpoch) (\<lambda>_.
        seq (look lib_epoch) (\<lambda>panelStateEpoch.
          onError
            (seq (put (\<lambda>s. set_submit_error None (set_load_error None s))) (\<lambda>_.
             seq (CallActivateProvider nextProviderID) (\<lambda>nextCatalog.
             seq (look lib_epoch) (\<lambda>currentEpoch.
               if currentEpoch \<noteq> panelStateEpoch then ret ()
               else
                 (let nextProvider = findActiveProviderView (Some nextCatalog);
                      nextModels = directProviderChatModels nextProvider
                  in seq (put (\<lambda>s. s\<lparr>lib_providerCatalog := Some nextCatalog,
                           lib_selectedProviderID := (case nextProvider of Some p \<Rightarrow> pv_id p | None \<Rightarrow> nextProviderID),
                           lib_availableModels := nextModels,
                           lib_selectedModel := selectPreferredChatModel [] (Some (directProviderDefaultModel nextProvider)) nextModels,
                           lib_provider := providerViewToConversationProvider nextProvider (lib_provider seen)\<rparr>)) (\<lambda>_.
                     seq (refreshProviderGatewaySnapshotForPanel True) (\<lambda>_. ret ())))))))
            (\<lambda>error. report error ''Unable to switch the active AI provider.''))))"

definition route_action ::
    "route_call \<Rightarrow> (panel_library \<Rightarrow> panel_library) \<Rightarrow> (panel_library \<Rightarrow> panel_library) \<Rightarrow> string \<Rightarrow> unit library_task" where
  "route_action call start stop errorText =
     seq (put (\<lambda>s. start (s\<lparr>lib_gatewayError := None\<rparr>))) (\<lambda>_.
       finally_do
         (onError
           (seq (CallRoute call) (\<lambda>_. seq (refreshProviderGatewaySnapshotForPanel True) (\<lambda>_. ret ())))
           (\<lambda>error. set_gateway_error (Some (getErrorMessage error (js errorText)))))
         (put stop))"

definition prewarmActiveProviderRouteForPanel :: "panel_library \<Rightarrow> unit library_task" where
  "prewarmActiveProviderRouteForPanel seen =
     (if activeProviderID seen = [] \<or> lib_routePreparing seen then ret ()
      else route_action (PrewarmRoute (activeProviderID seen)) (\<lambda>s. s\<lparr>lib_routePreparing := True\<rparr>)
             (\<lambda>s. s\<lparr>lib_routePreparing := False\<rparr>) ''Unable to prepare the active provider route.'')"

definition probeActiveProviderRouteForPanel :: "panel_library \<Rightarrow> unit library_task" where
  "probeActiveProviderRouteForPanel seen =
     (if activeProviderID seen = [] \<or> lib_routeProbing seen then ret ()
      else route_action (ProbeRoute (activeProviderID seen)) (\<lambda>s. s\<lparr>lib_routeProbing := True\<rparr>)
             (\<lambda>s. s\<lparr>lib_routeProbing := False\<rparr>) ''Unable to probe the active provider route.'')"

definition clearActiveProviderRouteStateForPanel :: "panel_library \<Rightarrow> unit library_task" where
  "clearActiveProviderRouteStateForPanel seen =
     (if activeProviderID seen = [] \<or> lib_gatewayPending seen \<or> lib_routePreparing seen \<or> lib_routeProbing seen then ret ()
      else route_action (ClearRouteState (activeProviderID seen)) (\<lambda>s. s) (\<lambda>s. s)
             ''Unable to clear the active provider route state.'')"

text \<open>\<open>selectProfile\<close>, \<open>selectRole\<close> and \<open>selectMode\<close>.\<close>

definition select_in_catalog ::
    "panel_library \<Rightarrow> jsstring \<Rightarrow> (AgentCatalog \<Rightarrow> jsstring) \<Rightarrow> (jsstring \<Rightarrow> catalog_call) \<Rightarrow> string \<Rightarrow> unit library_task" where
  "select_in_catalog seen requested active call errorText =
     (let nextID = js_trim requested in
      if nextID = [] \<or> Some nextID = map_option active (lib_agentCatalog seen) then ret ()
      else
        onError
          (seq (put (set_submit_error None)) (\<lambda>_.
           seq (CallCatalog (call nextID)) (\<lambda>catalog. put (\<lambda>s. s\<lparr>lib_agentCatalog := Some catalog\<rparr>))))
          (\<lambda>error. report error errorText))"

definition refreshAttachmentLibrary :: "unit library_task" where
  "refreshAttachmentLibrary =
     seq (put (\<lambda>s. s\<lparr>lib_attachmentsPending := True\<rparr>)) (\<lambda>_.
       finally_do
         (seq CallAttachments (\<lambda>attachments. put (\<lambda>s. s\<lparr>lib_attachments := attachments\<rparr>)))
         (put (\<lambda>s. s\<lparr>lib_attachmentsPending := False\<rparr>)))"

definition deleteStoredAttachmentReference :: "jsstring \<Rightarrow> unit library_task" where
  "deleteStoredAttachmentReference attachmentID =
     seq (CallDeleteAttachment attachmentID) (\<lambda>_.
       put (\<lambda>s. s\<lparr>lib_attachments := filter (\<lambda>a. attachment_id a \<noteq> attachmentID) (lib_attachments s)\<rparr>))"

section \<open>The start of the panel\<close>

definition resetAgentPanelRuntime :: "panel_library \<Rightarrow> panel_library" where
  "resetAgentPanelRuntime s =
     s\<lparr>lib_panel := (lib_panel s)\<lparr>ap_submissionNonce := ap_submissionNonce (lib_panel s) + 1, ap_activeStream := None,
         ap_activeAbort := None, ap_activeAudit := None, ap_pendingFlow := None, ap_isResponseCancellable := False,
         ap_blocked := False\<rparr>,
       lib_contextLoaded := False, lib_customized := False, lib_workspaceWidgets := []\<rparr>"

definition resetAgentPanelBootstrapState :: "panel_library \<Rightarrow> panel_library" where
  "resetAgentPanelBootstrapState s =
     s\<lparr>lib_panel := (lib_panel s)\<lparr>ap_messages := None, ap_interaction := [], ap_pendingFlow := None, ap_loadError := None,
         ap_submitError := None, ap_isSubmitting := False\<rparr>,
       lib_provider := None, lib_providerCatalog := None, lib_gateway := None, lib_historyRuns := [], lib_historyTotal := 0,
       lib_historyError := None, lib_agentCatalog := None, lib_activeSummary := None, lib_conversations := [],
       lib_counts := defaultConversationListCounts, lib_listPending := True, lib_scope := ScopeRecent, lib_activeID := [],
       lib_selectedProviderID := [], lib_availableModels := [], lib_selectedModel := [], lib_contextEnabled := True,
       lib_contextOptions := [], lib_storedIDs := [], lib_missingCount := 0, lib_workspaceActive := [],
       lib_contextLoadError := None, lib_attachmentsPending := False, lib_gatewayPending := True, lib_historyPending := False,
       lib_routeProbing := False, lib_routePreparing := False, lib_attachments := [], lib_gatewayError := None,
       lib_conversationPending := False, lib_draft := []\<rparr>"

definition boot_conversation_step :: "library_env \<Rightarrow> bootstrap_results \<Rightarrow> panel_library \<Rightarrow> panel_library" where
  "boot_conversation_step env results s =
     (case boot_conversation results of
        Inl e \<Rightarrow> set_load_error (Some (getErrorMessage e
          (js ''Unable to load backend conversation for '' @ env_hostId env @ js ''.''))) s
      | Inr snapshot \<Rightarrow> apply_snapshot env snapshot s)"

definition boot_provider_step :: "bootstrap_results \<Rightarrow> panel_library \<Rightarrow> panel_library" where
  "boot_provider_step results s =
     (case boot_providers results of
        Inl e \<Rightarrow> s
      | Inr catalog \<Rightarrow>
          (let activeProvider = findActiveProviderView (Some catalog);
               chatModels = directProviderChatModels activeProvider;
               providerModel =
                 (if directProviderDefaultModel activeProvider \<noteq> [] then Some (directProviderDefaultModel activeProvider)
                  else case boot_conversation results of
                      Inl _ \<Rightarrow> None | Inr snapshot \<Rightarrow> provider_model (conversation_provider snapshot))
           in s\<lparr>lib_providerCatalog := Some catalog,
                lib_selectedProviderID := js_default (map_option pv_id activeProvider) [],
                lib_availableModels := chatModels,
                lib_selectedModel := selectPreferredChatModel (lib_selectedModel s) providerModel chatModels\<rparr>))"

definition boot_gateway_step :: "bootstrap_results \<Rightarrow> panel_library \<Rightarrow> panel_library" where
  "boot_gateway_step results s =
     (case boot_gateway results of
        Inl e \<Rightarrow> s\<lparr>lib_gatewayError := Some (getErrorMessage e (js ''Unable to load provider gateway telemetry.''))\<rparr>
      | Inr snapshot \<Rightarrow> s\<lparr>lib_gateway := Some snapshot, lib_gatewayError := None\<rparr>)"

definition boot_catalog_step :: "bootstrap_results \<Rightarrow> panel_library \<Rightarrow> panel_library" where
  "boot_catalog_step results s =
     (let s1 = (case boot_catalog results of Inl _ \<Rightarrow> s | Inr catalog \<Rightarrow> s\<lparr>lib_agentCatalog := Some catalog\<rparr>)
      in case boot_attachments results of Inl _ \<Rightarrow> s1 | Inr attachments \<Rightarrow> s1\<lparr>lib_attachments := attachments\<rparr>)"

definition start_panel :: "panel_library \<Rightarrow> panel_library" where
  "start_panel s = (resetAgentPanelBootstrapState (resetAgentPanelRuntime s))
     \<lparr>lib_searchQuery := [], lib_activeIDRef := [], lib_messagesRef := None, lib_startRun := lib_startRun s + 1\<rparr>"

definition stop_panel :: "panel_library \<Rightarrow> panel_library" where
  "stop_panel s = (resetAgentPanelRuntime s)\<lparr>lib_startRun := lib_startRun s + 1\<rparr>"

text \<open>The effect that starts the panel, with the \<open>finally\<close> of its caller; a start that was superseded changes nothing.\<close>

definition bootstrapAgentPanel :: "library_env \<Rightarrow> unit library_task" where
  "bootstrapAgentPanel env =
     whenever (env_enabled env)
       (seq (put beginPanelStateEpoch) (\<lambda>_.
        seq (look lib_epoch) (\<lambda>panelStateEpoch.
        seq (put start_panel) (\<lambda>_.
        seq (look lib_startRun) (\<lambda>run.
        seq CallBootstrap (\<lambda>results.
        seq (look lib_epoch) (\<lambda>currentEpoch.
          whenever (currentEpoch = panelStateEpoch)
            (seq (put (\<lambda>s. boot_catalog_step results (boot_gateway_step results (boot_provider_step results
                (boot_conversation_step env results s))))) (\<lambda>_.
             put (\<lambda>s. if lib_startRun s = run then s\<lparr>lib_gatewayPending := False\<rparr> else s))))))))))"

text \<open>The effect that keeps the selected model among the available ones.\<close>

definition model_effect :: "panel_library \<Rightarrow> panel_library" where
  "model_effect s = s\<lparr>lib_selectedModel := selectPreferredChatModel (lib_selectedModel s)
     (Option.bind (lib_provider s) provider_model) (lib_availableModels s)\<rparr>"

section \<open>Interleavings\<close>

datatype library_command =
    StartPanel
  | StopPanel
  | ListEffect
  | ContextEffect
  | ModelEffect
  | SetSearchQuery jsstring
  | SetScope AgentConversationListScope
  | SetDraft jsstring
  | SwitchConversation jsstring
  | NewConversation
  | RenameTo jsstring jsstring
  | Delete jsstring
  | Archive jsstring
  | Restore jsstring
  | OpenContextOptions
  | UseCurrentWidget bool
  | UseAllWidgets
  | ResetWidgets
  | SelectWidgets "jsstring list"
  | EnableContext bool
  | RepairWidgets
  | SelectProvider jsstring
  | PrewarmProvider
  | ProbeProvider
  | ClearProvider
  | RefreshGateway bool
  | RefreshHistory "jsstring option" bool
  | SelectProfile jsstring
  | SelectRole jsstring
  | SelectMode jsstring
  | RefreshAttachments
  | DeleteAttachment jsstring
  | PanelStep "agent_panel \<Rightarrow> agent_panel"

text \<open>\<open>PanelStep\<close> is whatever the submissions of the panel do to its part of the state.\<close>

fun command_task :: "library_env \<Rightarrow> panel_library \<Rightarrow> library_command \<Rightarrow> unit library_task" where
  "command_task env seen StartPanel = bootstrapAgentPanel env"
| "command_task env seen StopPanel = put stop_panel"
| "command_task env seen ListEffect = list_effect env seen"
| "command_task env seen ContextEffect = context_effect env seen"
| "command_task env seen ModelEffect = put model_effect"
| "command_task env seen (SetSearchQuery q) = put (\<lambda>s. s\<lparr>lib_searchQuery := q\<rparr>)"
| "command_task env seen (SetScope sc) = put (\<lambda>s. s\<lparr>lib_scope := sc\<rparr>)"
| "command_task env seen (SetDraft d) = put (\<lambda>s. s\<lparr>lib_draft := d\<rparr>)"
| "command_task env seen (SwitchConversation i) = switchConversationForPanel env seen i"
| "command_task env seen NewConversation = createConversationForPanel env seen"
| "command_task env seen (RenameTo i t) = renameConversationForPanel env seen i t"
| "command_task env seen (Delete i) = deleteConversationForPanel env seen i"
| "command_task env seen (Archive i) = archiveConversationForPanel env seen i"
| "command_task env seen (Restore i) = restoreConversationForPanel env seen i"
| "command_task env seen OpenContextOptions = handleContextOptionsOpen env seen"
| "command_task env seen (UseCurrentWidget r) = useCurrentContextWidget env seen r"
| "command_task env seen UseAllWidgets = useAllContextWidgets env seen"
| "command_task env seen ResetWidgets = resetContextWidgetSelection env seen"
| "command_task env seen (SelectWidgets ws) = updateSelectedContextWidgetIDs env seen ws"
| "command_task env seen (EnableContext b) = updateWidgetContextEnabled env seen b"
| "command_task env seen RepairWidgets = repairMissingContextWidgets env seen"
| "command_task env seen (SelectProvider i) = selectProviderForPanel seen i"
| "command_task env seen PrewarmProvider = prewarmActiveProviderRouteForPanel seen"
| "command_task env seen ProbeProvider = probeActiveProviderRouteForPanel seen"
| "command_task env seen ClearProvider = clearActiveProviderRouteStateForPanel seen"
| "command_task env seen (RefreshGateway b) = seq (refreshProviderGatewaySnapshotForPanel b) (\<lambda>_. ret ())"
| "command_task env seen (RefreshHistory i b) = refreshActiveProviderHistoryForPanel seen i b"
| "command_task env seen (SelectProfile i) = select_in_catalog seen i active_profile_id SetProfile
     ''Unable to switch the active AI prompt profile.''"
| "command_task env seen (SelectRole i) = select_in_catalog seen i active_role_id SetRole
     ''Unable to switch the active AI role.''"
| "command_task env seen (SelectMode i) = select_in_catalog seen i active_mode_id SetMode
     ''Unable to switch the active AI mode.''"
| "command_task env seen RefreshAttachments = refreshAttachmentLibrary"
| "command_task env seen (DeleteAttachment i) = deleteStoredAttachmentReference i"
| "command_task env seen (PanelStep f) = put (\<lambda>s. s\<lparr>lib_panel := f (lib_panel s)\<rparr>)"

definition initial_library :: "agent_panel \<Rightarrow> panel_library" where
  "initial_library p =
     \<lparr>lib_panel = p, lib_provider = None, lib_providerCatalog = None, lib_gateway = None, lib_gatewayError = None,
      lib_gatewayPending = False, lib_historyRuns = [], lib_historyTotal = 0, lib_historyError = None,
      lib_historyPending = False, lib_routeProbing = False, lib_routePreparing = False, lib_agentCatalog = None,
      lib_activeSummary = None, lib_conversations = [], lib_counts = defaultConversationListCounts,
      lib_listPending = False, lib_searchQuery = [], lib_scope = ScopeRecent, lib_activeID = [], lib_activeIDRef = [],
      lib_messagesRef = None, lib_conversationPending = False, lib_selectedProviderID = [], lib_availableModels = [],
      lib_selectedModel = [], lib_contextEnabled = True, lib_contextEnabledRef = True, lib_contextOptions = [],
      lib_contextOptionsRef = [], lib_storedIDs = [], lib_storedIDsRef = [], lib_missingCount = 0,
      lib_workspaceActive = [], lib_workspaceActiveRef = [], lib_contextLoadError = None, lib_draft = [],
      lib_attachments = [], lib_attachmentsPending = False, lib_epoch = 0, lib_listNonce = 0, lib_contextLoaded = False,
      lib_customized = False, lib_workspaceWidgets = [], lib_startRun = 0, lib_listRun = 0,
      lib_contextRun = 0\<rparr>"

text \<open>Every interleaving of renderings, commands in any surroundings and answers.\<close>

definition library_reach :: "panel_library \<times> panel_library \<times> (panel_library, library_call, library_answer) async list \<Rightarrow> bool" where
  "library_reach = async_reach (\<lambda>s. \<exists>p. s = initial_library p) sync_refs
     (\<lambda>c. \<exists>env command. c = (\<lambda>seen. program (command_task env seen command)))"

end
