(* ===== verification/Agent_Library_Safety.thy ===== *)
theory Agent_Library_Safety
  imports Agent_Library
begin

text \<open>
  What holds of the library of the agent panel whatever the order of commands, answers and renderings: the stored
  selection is clean, a conversation command always ends, and a superseded one changes nothing. A property of programs
  is shown once for every asynchronous function of the library in a locale, and used for three of them.
\<close>

section \<open>Properties of programs\<close>

definition clean_ids :: "jsstring list \<Rightarrow> bool" where
  "clean_ids ids \<longleftrightarrow> deduplicateWidgetIDs ids = ids"

text \<open>An update that leaves the pending flag alone and the stored selection clean or as it was.\<close>

definition tidy :: "(panel_library \<Rightarrow> panel_library) \<Rightarrow> bool" where
  "tidy f \<longleftrightarrow> (\<forall>s. lib_conversationPending (f s) = lib_conversationPending s
     \<and> (lib_storedIDs (f s) = lib_storedIDs s \<or> clean_ids (lib_storedIDs (f s)))
     \<and> (lib_storedIDsRef (f s) = lib_storedIDsRef s \<or> clean_ids (lib_storedIDsRef (f s))))"

definition set_pending :: "bool \<Rightarrow> panel_library \<Rightarrow> panel_library" where
  "set_pending b s = s\<lparr>lib_conversationPending := b\<rparr>"

fun sets_pending :: "library_command \<Rightarrow> bool" where
  "sets_pending (SwitchConversation i) = True"
| "sets_pending NewConversation = True"
| "sets_pending (RenameTo i t) = True"
| "sets_pending (Delete i) = True"
| "sets_pending (Archive i) = True"
| "sets_pending (Restore i) = True"
| "sets_pending _ = False"

text \<open>A clean selection has no blank, no padded and no repeated id.\<close>

lemma clean_ids_iff: "clean_ids ids \<longleftrightarrow> distinct ids \<and> (\<forall>x\<in>set ids. js_trim x = x \<and> x \<noteq> [])"
proof
  assume "clean_ids ids"
  then have ids: "ids = js_unique (filter (\<lambda>i. i \<noteq> []) (map js_trim ids))" (is "_ = ?u")
    by (simp add: clean_ids_def deduplicateWidgetIDs_eq)
  have "distinct ?u" and "\<forall>x\<in>set ?u. js_trim x = x \<and> x \<noteq> []" by auto
  then show "distinct ids \<and> (\<forall>x\<in>set ids. js_trim x = x \<and> x \<noteq> [])" using ids by metis
next
  assume ids: "distinct ids \<and> (\<forall>x\<in>set ids. js_trim x = x \<and> x \<noteq> [])"
  then have "map js_trim ids = ids" by (simp add: map_idI)
  moreover have "filter (\<lambda>i. i \<noteq> []) ids = ids" using ids by simp
  ultimately show "clean_ids ids" using ids by (simp add: clean_ids_def deduplicateWidgetIDs_eq js_unique_distinct)
qed

lemma clean_dedup [simp]: "clean_ids (deduplicateWidgetIDs ids)"
  by (simp add: clean_ids_def deduplicateWidgetIDs_idem)

lemma clean_filter [simp]: "clean_ids (filterContextWidgetSelection ids options)"
  using clean_dedup [of ids] by (auto simp: clean_ids_iff filterContextWidgetSelection_def)

lemma clean_empty [simp]: "clean_ids []"
  by (simp add: clean_ids_iff)

lemma clean_current:
  assumes "resolveCurrentContextWidgetID input options active \<noteq> []"
  shows "clean_ids [resolveCurrentContextWidgetID input options active]"
proof -
  have "x \<in> set (deriveFallbackContextWidgetIDs input active) \<Longrightarrow> clean_ids [x]" for x
    using clean_dedup by (fastforce simp: clean_ids_iff deriveFallbackContextWidgetIDs_def Let_def)
  moreover obtain x where x: "List.find (\<lambda>i. i \<in> cw_value ` set options) (deriveFallbackContextWidgetIDs input active) = Some x"
    using assms by (cases "List.find (\<lambda>i. i \<in> cw_value ` set options) (deriveFallbackContextWidgetIDs input active)")
      (simp_all add: resolveCurrentContextWidgetID_def)
  moreover have "x \<in> set (deriveFallbackContextWidgetIDs input active)" using x
    by (metis find_Some_iff nth_mem)
  ultimately show ?thesis by (simp add: resolveCurrentContextWidgetID_def)
qed

lemma tidy_apply: "tidy (apply_snapshot env snapshot)"
  by (simp add: tidy_def apply_snapshot_def applyConversationContextPreferences_def Let_def)

lemma tidy_reset: "tidy resetConversationInteractionState" "tidy reset_submission" "tidy beginPanelStateEpoch"
  by (simp_all add: tidy_def resetConversationInteractionState_def reset_submission_def beginPanelStateEpoch_def)

lemma tidy_comp: "tidy f \<Longrightarrow> tidy g \<Longrightarrow> tidy (\<lambda>s. f (g s))"
  unfolding tidy_def by metis

lemma tidy_boot_steps:
  "tidy (boot_conversation_step env results)" "tidy (boot_provider_step results)" "tidy (boot_gateway_step results)"
  "tidy (boot_catalog_step results)"
  using tidy_apply [of env]
  by (simp_all add: tidy_def boot_conversation_step_def boot_provider_step_def boot_gateway_step_def boot_catalog_step_def
      set_load_error_def Let_def split: sum.split)

lemma tidy_booted:
  "tidy (\<lambda>s. boot_catalog_step results (boot_gateway_step results (boot_provider_step results
     (boot_conversation_step env results s))))"
  using tidy_comp [OF tidy_boot_steps(4) tidy_comp [OF tidy_boot_steps(3)
    tidy_comp [OF tidy_boot_steps(2) tidy_boot_steps(1)]]] .

lemma tidy_cleared:
  assumes "tidy start"
  shows "tidy (\<lambda>s. start (s\<lparr>lib_gatewayError := None\<rparr>))"
  unfolding tidy_def
proof (rule allI)
  fix s
  show "lib_conversationPending (start (s\<lparr>lib_gatewayError := None\<rparr>)) = lib_conversationPending s
     \<and> (lib_storedIDs (start (s\<lparr>lib_gatewayError := None\<rparr>)) = lib_storedIDs s
          \<or> clean_ids (lib_storedIDs (start (s\<lparr>lib_gatewayError := None\<rparr>))))
     \<and> (lib_storedIDsRef (start (s\<lparr>lib_gatewayError := None\<rparr>)) = lib_storedIDsRef s
          \<or> clean_ids (lib_storedIDsRef (start (s\<lparr>lib_gatewayError := None\<rparr>))))"
    using assms [unfolded tidy_def, rule_format, of "s\<lparr>lib_gatewayError := None\<rparr>"] by simp
qed

locale library_basics = program_basics P ok
  for P :: "(panel_library, library_call, library_answer) async \<Rightarrow> bool" and ok +
  assumes ok_tidy: "tidy f \<Longrightarrow> ok f"
begin

lemmas passes_tidy_control = passes_control passes_put [OF ok_tidy]

lemma passes_report: "passes P (report error text)"
  unfolding report_def by (rule passes_put [OF ok_tidy]) (simp add: tidy_def set_submit_error_def)

lemma passes_list: "passes P (refreshConversationListForPanel env query scope)"
  unfolding refreshConversationListForPanel_def by (intro passes_tidy_control) (simp_all add: tidy_def)

lemma passes_refresh: "passes P (refresh_list env seen)"
  unfolding refresh_list_def by (intro passes_tidy_control passes_list)

lemmas passes_snapshot = passes_put [OF ok_tidy [OF tidy_apply]]

end

text \<open>With what a property needs of a call that runs beside its caller, it holds of every function of the panel.\<close>

locale library_property = library_basics P ok + program_property P ok for P ok
begin

lemmas passes_basic = passes_tidy_control passes_spawn

lemma passes_list_effect: "passes P (list_effect env seen)"
  unfolding list_effect_def by (intro passes_basic passes_refresh passes_report) (simp add: tidy_def)

lemma passes_update_context: "passes P (update_context env seen i preferences)"
  unfolding update_context_def by (intro passes_seq passes_request passes_snapshot passes_refresh)

lemma passes_ensure: "passes P (ensureCurrentConversationSnapshotLoadedForPanel env seen)"
  unfolding ensureCurrentConversationSnapshotLoadedForPanel_def
  by (intro passes_seq passes_look passes_whenever passes_request passes_snapshot passes_refresh)

lemma passes_persist: "passes P (persistConversationContextPreferencesForPanel env seen preferences)"
  unfolding persistConversationContextPreferencesForPanel_def
  by (intro passes_seq passes_look passes_if passes_whenever passes_request passes_snapshot passes_update_context)

lemma passes_cleaned: "passes P (persistCleanedContextWidgetSelectionForPanel env seen options)"
  unfolding persistCleanedContextWidgetSelectionForPanel_def Let_def
  by (intro passes_basic passes_persist) (simp add: tidy_def)

lemma passes_load: "passes P (loadContextWidgetsForPanel env)"
  unfolding loadContextWidgetsForPanel_def Let_def by (intro passes_basic) (simp_all add: tidy_def)

lemma passes_context_error: "passes P (report_context_error error)"
  unfolding report_context_error_def by (rule passes_put [OF ok_tidy]) (simp add: tidy_def)

lemma passes_context_effect: "passes P (context_effect env seen)"
  unfolding context_effect_def by (intro passes_basic passes_load passes_context_error) (simp add: tidy_def)

lemma passes_open: "passes P (handleContextOptionsOpen env seen)"
  unfolding handleContextOptionsOpen_def
  by (intro passes_basic passes_load passes_context_error passes_ensure passes_cleaned)

lemma passes_beside: "passes P (persist_beside env seen b ids text)"
  unfolding persist_beside_def by (intro passes_basic passes_persist passes_report)

lemma passes_select: "clean_ids ids \<Longrightarrow> passes P (select_widgets env seen b ids)"
  unfolding select_widgets_def by (intro passes_basic passes_beside) (simp add: tidy_def)

lemma passes_current: "passes P (useCurrentContextWidget env seen replace)"
  unfolding useCurrentContextWidget_def Let_def whenever_def
  by (auto intro!: passes_onError passes_seq passes_load passes_context_error passes_ret passes_select simp: clean_current)

lemma passes_all: "passes P (useAllContextWidgets env seen)"
  unfolding useAllContextWidgets_def by (intro passes_basic passes_load passes_context_error passes_select clean_dedup)

lemma passes_reset: "passes P (resetContextWidgetSelection env seen)"
  unfolding resetContextWidgetSelection_def by (intro passes_basic passes_load passes_context_error passes_select clean_empty)

lemma passes_setters:
  "passes P (updateSelectedContextWidgetIDs env seen ids)" "passes P (updateWidgetContextEnabled env seen b)"
  "passes P (repairMissingContextWidgets env seen)"
  unfolding updateSelectedContextWidgetIDs_def updateWidgetContextEnabled_def repairMissingContextWidgets_def Let_def
  by (intro passes_basic passes_beside; simp add: tidy_def)+

lemma passes_gateway: "passes P (refreshProviderGatewaySnapshotForPanel b)"
  unfolding refreshProviderGatewaySnapshotForPanel_def set_gateway_error_def by (intro passes_basic) (simp_all add: tidy_def)

lemma passes_history: "passes P (refreshActiveProviderHistoryForPanel seen i b)"
  unfolding refreshActiveProviderHistoryForPanel_def Let_def by (intro passes_basic) (simp_all add: tidy_def)

lemma passes_select_provider: "passes P (selectProviderForPanel seen i)"
  unfolding selectProviderForPanel_def Let_def
  by (intro passes_basic passes_gateway passes_report tidy_reset)
    (simp_all add: tidy_def set_submit_error_def set_load_error_def)

lemma passes_route_action:
  assumes "tidy start" "tidy stop"
  shows "passes P (route_action call start stop text)"
proof -
  have "passes P (put (\<lambda>s. s\<lparr>lib_gatewayError := Some e\<rparr>))" for e by (rule passes_put [OF ok_tidy]) (simp add: tidy_def)
  moreover have "passes P (put stop)" "passes P (put (\<lambda>s. start (s\<lparr>lib_gatewayError := None\<rparr>)))"
    using assms by (auto intro: passes_put ok_tidy tidy_cleared)
  ultimately show ?thesis
    unfolding route_action_def set_gateway_error_def
    by (intro passes_seq passes_finally passes_onError passes_request passes_gateway passes_ret)
qed

lemma passes_routes:
  "passes P (prewarmActiveProviderRouteForPanel seen)" "passes P (probeActiveProviderRouteForPanel seen)"
  "passes P (clearActiveProviderRouteStateForPanel seen)"
  unfolding prewarmActiveProviderRouteForPanel_def probeActiveProviderRouteForPanel_def clearActiveProviderRouteStateForPanel_def
  by (intro passes_if passes_ret passes_route_action; simp add: tidy_def)+

lemma passes_catalog: "passes P (select_in_catalog seen i active call text)"
  unfolding select_in_catalog_def Let_def by (intro passes_basic passes_report) (simp_all add: tidy_def set_submit_error_def)

lemma passes_attachments: "passes P refreshAttachmentLibrary" "passes P (deleteStoredAttachmentReference i)"
  unfolding refreshAttachmentLibrary_def deleteStoredAttachmentReference_def by (intro passes_basic; simp add: tidy_def)+

lemmas passes_tidy = tidy_reset [THEN ok_tidy, THEN passes_put] passes_put [OF ok_tidy [OF tidy_booted]] passes_snapshot

lemma passes_gateway_off: "passes P (put (\<lambda>s. if lib_startRun s = run then s\<lparr>lib_gatewayPending := False\<rparr> else s))"
  by (rule passes_put [OF ok_tidy]) (simp add: tidy_def)

lemma passes_bootstrap: "ok start_panel \<Longrightarrow> passes P (bootstrapAgentPanel env)"
  unfolding bootstrapAgentPanel_def
  by (intro passes_whenever passes_seq passes_look passes_request passes_tidy passes_gateway_off; erule passes_put)

lemma passes_pending: "ok (set_pending b) \<Longrightarrow> passes P (set_conversation_pending b)"
  by (simp add: set_conversation_pending_def set_pending_def [abs_def] passes_put)

lemma passes_transition:
  "(\<And>b. ok (set_pending b)) \<Longrightarrow> passes P (conversation_transition env seen call text)"
  unfolding conversation_transition_def
  by (intro passes_seq passes_look passes_finally passes_onError passes_if passes_ret passes_request passes_refresh passes_report
      passes_tidy passes_pending)

lemma passes_rename:
  "(\<And>b. ok (set_pending b)) \<Longrightarrow> passes P (renameConversationForPanel env seen i text)"
  unfolding renameConversationForPanel_def Let_def
  by (intro passes_seq passes_spawn passes_finally passes_onError passes_if passes_ret passes_request passes_refresh passes_report
      passes_tidy passes_pending)

lemma passes_mutate:
  "(\<And>b. ok (set_pending b)) \<Longrightarrow> passes P (mutateConversationCollectionForPanel env seen i call text)"
  unfolding mutateConversationCollectionForPanel_def Let_def
  by (intro passes_seq passes_look passes_finally passes_onError passes_if passes_whenever passes_ret passes_request
      passes_report passes_tidy passes_pending passes_put [OF ok_tidy]) (simp_all add: tidy_def)

lemma passes_command:
  assumes "\<forall>b. sets_pending c \<longrightarrow> ok (set_pending b)" "ok start_panel"
  shows "passes P (command_task env seen c)"
  using assms
  by (cases c) (auto simp: switchConversationForPanel_def createConversationForPanel_def deleteConversationForPanel_def
    archiveConversationForPanel_def restoreConversationForPanel_def Let_def tidy_def model_effect_def
    resetAgentPanelRuntime_def stop_panel_def
    intro!: passes_bootstrap passes_put [OF ok_tidy] passes_list_effect passes_context_effect passes_transition passes_rename
    passes_mutate passes_ret passes_open passes_current passes_all passes_reset passes_setters passes_select_provider
    passes_routes passes_seq passes_gateway passes_history passes_catalog passes_attachments)

end

section \<open>Updates\<close>

text \<open>A preorder that contains the tidy updates is such a property.\<close>

locale tidy_updates = update_property R for R :: "panel_library \<Rightarrow> panel_library \<Rightarrow> bool" +
  assumes R_tidy: "tidy f \<Longrightarrow> \<forall>s. R s (f s)"

sublocale tidy_updates \<subseteq> library: library_property "updates R" "\<lambda>f. \<forall>s. R s (f s)"
  by unfold_locales (simp_all add: R_tidy)

definition clean_selection :: "panel_library \<Rightarrow> bool" where
  "clean_selection s \<longleftrightarrow> clean_ids (lib_storedIDs s) \<and> clean_ids (lib_storedIDsRef s)"

interpretation quiet_updates: tidy_updates "quiet lib_conversationPending"
  by unfold_locales (auto simp: tidy_def)

interpretation clean_updates: tidy_updates "keeps clean_selection"
  by unfold_locales (auto simp: clean_selection_def tidy_def, metis+)

interpretation library_clearing: library_basics "clears lib_conversationPending" "\<lambda>_. True"
  by unfold_locales simp

lemmas panel_resets = start_panel_def resetAgentPanelBootstrapState_def resetAgentPanelRuntime_def

lemma clean_command: "updates (keeps clean_selection) (program (command_task env seen c))"
  by (rule clean_updates.programs.passes_program, rule clean_updates.library.passes_command)
    (simp_all add: clean_selection_def set_pending_def panel_resets)

lemma quiet_command: "\<not> sets_pending c \<Longrightarrow> updates (quiet lib_conversationPending) (program (command_task env seen c))"
  by (rule quiet_updates.programs.passes_program, rule quiet_updates.library.passes_command) (simp_all add: panel_resets)

lemma reach_clean:
  assumes "library_reach (s, seen, ps)"
  shows "clean_selection s"
proof -
  have "clean_selection s \<and> (\<forall>p\<in>set ps. updates (keeps clean_selection) p)"
    by (rule reach_invariant [OF assms [unfolded library_reach_def] refl])
      (auto simp: clean_command, simp_all add: initial_library_def clean_selection_def sync_refs_def)
  then show ?thesis ..
qed

section \<open>Commands that end\<close>

text \<open>The commands on conversations, past their guards.\<close>

lemmas library_clears = clears_intros library_clearing.passes_refresh library_clearing.passes_report

lemma tame_transition: "tame lib_conversationPending (program (conversation_transition env seen call text))"
  unfolding tame_def conversation_transition_def set_conversation_pending_def
  by (rule disjI1) (intro library_clears; simp)

lemma tame_command: "tame lib_conversationPending (program (command_task env seen c))"
proof (cases "sets_pending c")
  case True
  have stop: "tame lib_conversationPending (program (ret ()))" by (simp add: tame_def program_def ret_def)
  have mutate: "tame lib_conversationPending (program (mutateConversationCollectionForPanel env seen i call msg))" for i call msg
    unfolding mutateConversationCollectionForPanel_def Let_def set_conversation_pending_def
    by (simp add: stop) (simp add: tame_def, intro impI disjI1 library_clears; simp)
  have rename: "tame lib_conversationPending (program (renameConversationForPanel env seen i msg))" for i msg
    unfolding renameConversationForPanel_def Let_def set_conversation_pending_def
    by (simp add: stop) (simp add: tame_def, intro impI disjI1 library_clears clears_spawn quiet_updates.programs.passes_onError
        quiet_updates.library.passes_refresh quiet_updates.library.passes_report; simp)
  from True show ?thesis
    by (cases c) (simp_all add: switchConversationForPanel_def createConversationForPanel_def deleteConversationForPanel_def
        archiveConversationForPanel_def restoreConversationForPanel_def Let_def stop tame_transition mutate rename)
qed (simp add: tame_def quiet_command)

section \<open>What the panel shows\<close>

text \<open>Running a command up to its first request and on from its answer.\<close>

lemmas library_runs = run_defs set_conversation_pending_def report_def

lemma refresh_list_runs:
  "\<exists>k'. advance (refresh_list env seen k) s =
    (s\<lparr>lib_listNonce := lib_listNonce s + 1, lib_listPending := True\<rparr>, [Call (ReqList (lib_searchQuery seen) (lib_scope seen)) k'])"
  by (simp add: refresh_list_def refreshConversationListForPanel_def library_runs)

lemma transition_runs:
  assumes "run_task (conversation_transition env seen call msg) s = (s1, [p])"
  shows "s1 = set_pending True (beginPanelStateEpoch (reset_submission s))"
    and "resume p a = onError
           (seq (\<lambda>k. k (answer_conversation a)) (\<lambda>snapshot. seq (look lib_epoch) (\<lambda>currentEpoch.
              if currentEpoch \<noteq> lib_epoch s1 then ret ()
              else seq (put (apply_snapshot env snapshot)) (\<lambda>_.
                seq (put resetConversationInteractionState) (\<lambda>_. refresh_list env seen)))))
           (\<lambda>error. report error msg)
           (\<lambda>r. set_conversation_pending False (\<lambda>_. Stop))"
  using assms by (auto simp: conversation_transition_def set_pending_def library_runs split: sum.splits intro!: ext)

lemma switch_is_transition:
  assumes "run_task (switchConversationForPanel env seen i) s = (s1, [p])"
  shows "run_task (conversation_transition env seen (ActivateConversation (js_trim i))
    ''Unable to switch the active conversation.'') s = (s1, [p])"
  using assms by (auto simp: switchConversationForPanel_def Let_def run_task_def program_def ret_def split: if_splits)

lemma superseded_transition:
  assumes run: "run_task (conversation_transition env seen call msg) s = (s1, [p])" and "lib_epoch s2 \<noteq> lib_epoch s1"
    and "answer_conversation a = Inr snapshot"
  shows "advance (resume p a) s2 = (s2\<lparr>lib_conversationPending := False\<rparr>, [])"
  using assms(2,3) unfolding transition_runs(2) [OF run] by (simp add: library_runs)

lemma failed_transition:
  assumes run: "run_task (conversation_transition env seen call msg) s = (s1, [p])" and "answer_conversation a = Inl e"
  shows "advance (resume p a) s2 = ((set_submit_error (Some (getErrorMessage e (js msg))) s2)\<lparr>lib_conversationPending := False\<rparr>, [])"
  using assms(2) unfolding transition_runs(2) [OF run] by (simp add: report_def library_runs)

lemma apply_snapshot_shows:
  "ap_messages (lib_panel (apply_snapshot env snapshot s)) = Some (conversation_messages snapshot)"
  "lib_activeID (apply_snapshot env snapshot s) = conversation_id snapshot"
  "lib_activeSummary (apply_snapshot env snapshot s) = Some (summaryFromConversationSnapshot snapshot)"
  "lib_storedIDs (apply_snapshot env snapshot s) =
     deduplicateWidgetIDs (js_default (preferred_widget_ids (conversation_context_preferences snapshot)) [])"
  "lib_contextEnabled (apply_snapshot env snapshot s) = widget_context_enabled (conversation_context_preferences snapshot)"
  by (simp_all add: apply_snapshot_def applyConversationContextPreferences_def applyConversationSnapshot_def Let_def)

lemma apply_snapshot_keeps:
  "ap_loadError (lib_panel (apply_snapshot env snapshot s)) = ap_loadError (lib_panel s)"
  "lib_providerCatalog (apply_snapshot env snapshot s) = lib_providerCatalog s"
  "lib_gateway (apply_snapshot env snapshot s) = lib_gateway s"
  "lib_agentCatalog (apply_snapshot env snapshot s) = lib_agentCatalog s"
  "lib_attachments (apply_snapshot env snapshot s) = lib_attachments s"
  "lib_listNonce (apply_snapshot env snapshot s) = lib_listNonce s"
  "lib_startRun (apply_snapshot env snapshot s) = lib_startRun s"
  "lib_gatewayPending (apply_snapshot env snapshot s) = lib_gatewayPending s"
  by (simp_all add: apply_snapshot_def applyConversationContextPreferences_def applyConversationSnapshot_def Let_def)

lemma transition_shows:
  assumes run: "run_task (conversation_transition env seen call msg) s = (s1, [p])" and "lib_epoch s2 = lib_epoch s1"
    and "answer_conversation a = Inr snapshot"
  shows "\<exists>k. advance (resume p a) s2 =
    ((resetConversationInteractionState (apply_snapshot env snapshot s2))
      \<lparr>lib_listNonce := lib_listNonce s2 + 1, lib_listPending := True\<rparr>,
     [Call (ReqList (lib_searchQuery seen) (lib_scope seen)) k])"
proof -
  let ?t = "resetConversationInteractionState (apply_snapshot env snapshot s2)"
  have nonce: "lib_listNonce ?t = lib_listNonce s2"
    by (simp add: resetConversationInteractionState_def apply_snapshot_def applyConversationContextPreferences_def Let_def)
  show ?thesis
    using assms(2,3) refresh_list_runs [of env seen _ ?t]
    unfolding transition_runs(2) [OF run] nonce
    by (simp add: onError_def seq_def [of "\<lambda>k. k _"] seq_def [of "look _"] seq_def [of "put _"] put_def look_def)
qed

text \<open>A stale answer of the conversation list changes nothing.\<close>

lemma stale_list_dropped:
  assumes "run_task (refresh_list env seen) s = (s1, [p])" "lib_listNonce s2 \<noteq> lib_listNonce s1"
  shows "advance (resume p a) s2 = (s2, [])"
  using assms by (auto simp: refresh_list_def refreshConversationListForPanel_def library_runs split: sum.splits)

lemma start_panel_epoch [simp]: "lib_epoch (start_panel s) = lib_epoch s"
  by (simp add: panel_resets)

text \<open>The start: each of its requests counts for itself.\<close>

lemma bootstrap_answer:
  assumes "run_task (bootstrapAgentPanel env) s = (s1, [p])" "lib_epoch s2 = lib_epoch s1"
  shows "advance (resume p a) s2 = (let t = boot_catalog_step (answer_bootstrap a) (boot_gateway_step (answer_bootstrap a)
      (boot_provider_step (answer_bootstrap a) (boot_conversation_step env (answer_bootstrap a) s2)))
    in (t\<lparr>lib_gatewayPending := lib_gatewayPending t \<and> lib_startRun s2 \<noteq> lib_startRun s1\<rparr>, []))"
proof -
  have "lib_startRun (boot_catalog_step r (boot_gateway_step r (boot_provider_step r (boot_conversation_step env r s2)))) = lib_startRun s2" for r
    by (simp add: boot_catalog_step_def boot_gateway_step_def boot_provider_step_def boot_conversation_step_def apply_snapshot_keeps
        set_load_error_def Let_def split: sum.split)
  then show ?thesis using assms by (auto simp: bootstrapAgentPanel_def library_runs Let_def split: if_splits)
qed

lemma superseded_bootstrap:
  assumes "run_task (bootstrapAgentPanel env) s = (s1, [p])" "lib_epoch s2 \<noteq> lib_epoch s1"
  shows "advance (resume p a) s2 = (s2, [])"
  using assms by (auto simp: bootstrapAgentPanel_def library_runs split: if_splits)

lemma select_stores:
  "lib_storedIDs (fst (run_task (command_task env seen (SelectWidgets ids)) s)) = deduplicateWidgetIDs ids"
  by (simp add: updateSelectedContextWidgetIDs_def persist_beside_def persistConversationContextPreferencesForPanel_def
      update_context_def library_runs Let_def)

lemma switch_waits:
  assumes "js_trim i \<noteq> []" "js_trim i \<noteq> lib_activeID seen" "\<not> ap_isSubmitting (lib_panel seen)"
    "\<not> lib_conversationPending seen"
  shows "\<exists>p. snd (run_task (switchConversationForPanel env seen i) s) = [p]"
  using assms by (simp add: switchConversationForPanel_def conversation_transition_def library_runs)

lemma bootstrap_waits: "env_enabled env \<Longrightarrow> \<exists>p. snd (run_task (bootstrapAgentPanel env) s) = [p]"
  by (simp add: bootstrapAgentPanel_def library_runs)

lemma create_is_transition:
  assumes "run_task (createConversationForPanel env seen) s = (s1, [p])"
  shows "run_task (conversation_transition env seen CreateConversation ''Unable to create a new conversation.'') s = (s1, [p])"
  using assms by (auto simp: createConversationForPanel_def run_task_def program_def ret_def split: if_splits)

section \<open>Properties\<close>

definition example_env :: library_env where
  "example_env = \<lparr>env_host = ascii_host, env_time = (\<lambda>_. 0), env_hostId = js ''ai'', env_enabled = True,
     env_activeWidgetHostId = [], env_terminalPanelBindings = []\<rparr>"

definition example_snapshot :: AgentConversationSnapshot where
  "example_snapshot = \<lparr>conversation_id = js ''c2'', conversation_title = js ''Two'', conversation_messages = [],
     conversation_provider = \<lparr>provider_kind = js ''k'', provider_base_url = [], provider_model = None, provider_streaming = True\<rparr>,
     conversation_context_preferences = \<lparr>widget_context_enabled = True, preferred_widget_ids = Some [js ''w'']\<rparr>,
     conversation_created_at = [], conversation_updated_at = [], conversation_archived_at = None\<rparr>"

definition example_answer :: library_answer where
  "example_answer = \<lparr>answer_conversation = Inr example_snapshot, answer_list = Inl None, answer_workspace = Inl None,
     answer_providers = Inl None, answer_gateway = Inl None, answer_unit = Inl None, answer_catalog = Inl None,
     answer_attachments = Inl None, answer_bootstrap = \<lparr>boot_conversation = Inl None, boot_providers = Inl None,
       boot_gateway = Inl (Some (js ''down'')), boot_catalog = Inl None, boot_attachments = Inr []\<rparr>\<rparr>"

lemma reach_first_command:
  "library_reach (fst (run_task (command_task env (initial_library p) c) (initial_library p)), initial_library p,
     snd (run_task (command_task env (initial_library p) c) (initial_library p)) @ [])"
  unfolding library_reach_def
proof (rule reach_command [OF reach_start])
  show "advance (program (command_task env (initial_library p) c)) (initial_library p) =
      (fst (run_task (command_task env (initial_library p) c) (initial_library p)),
       snd (run_task (command_task env (initial_library p) c) (initial_library p)))"
    by (simp add: run_task_def)
qed auto

text \<open>
  C12: in every state the panel can reach, whatever the order of commands, renderings and answers of the backend, and
  whatever widget ids the backend or the user gave, the stored selection of context widgets and its reference have no
  repeated id, no blank id and no id with surrounding blanks.
\<close>

theorem stored_selection_clean:
  assumes "library_reach (s, seen, ps)"
  shows "distinct (lib_storedIDs s) \<and> distinct (lib_storedIDsRef s)
    \<and> (\<forall>x \<in> set (lib_storedIDs s) \<union> set (lib_storedIDsRef s). js_trim x = x \<and> x \<noteq> [])"
  using reach_clean [OF assms] by (auto simp: clean_selection_def clean_ids_iff)

theorem stored_selection_clean_witness:
  "let s = fst (run_task (command_task example_env (initial_library idle_panel) (SelectWidgets [js '' a '', js ''a'', js '' '']))
     (initial_library idle_panel))
   in lib_storedIDs s = [js ''a''] \<and> distinct (lib_storedIDs s) \<and> (\<forall>x \<in> set (lib_storedIDs s). js_trim x = x)"
proof -
  let ?r = "run_task (command_task example_env (initial_library idle_panel) (SelectWidgets [js '' a '', js ''a'', js '' '']))
     (initial_library idle_panel)"
  have "library_reach (fst ?r, initial_library idle_panel, snd ?r @ [])"
    by (rule reach_first_command)
  note clean = stored_selection_clean [OF this]
  have "lib_storedIDs (fst ?r) = deduplicateWidgetIDs [js '' a '', js ''a'', js '' '']"
    by (rule select_stores)
  moreover have "deduplicateWidgetIDs [js '' a '', js ''a'', js '' ''] = [js ''a'']"
    by (simp add: deduplicateWidgetIDs_eq js_simps)
  ultimately show ?thesis using clean by (simp add: Let_def del: js_Cons)
qed

text \<open>
  C15: whenever a conversation command marks the panel as pending, in whatever interleaving, some waiting program
  lowers the mark: from whatever state it is resumed, and whatever the backend answers to its requests, errors included,
  the panel is no longer pending when it has run to its end.
\<close>

theorem conversation_command_ends:
  assumes "library_reach (s, seen, ps)" "lib_conversationPending s"
  shows "\<exists>p\<in>set ps. \<forall>answers n t. \<not> lib_conversationPending (finish p answers n t)"
proof (rule flag_is_lowered [where flag = lib_conversationPending, OF assms(1) [unfolded library_reach_def] assms(2)])
qed (auto simp: initial_library_def sync_refs_def tame_command)

theorem conversation_command_ends_witness:
  "let (s, ps) = run_task (command_task example_env (initial_library idle_panel) NewConversation) (initial_library idle_panel)
   in lib_conversationPending s \<and> (\<exists>p\<in>set ps. \<not> lib_conversationPending (finish p (\<lambda>_. example_answer) 0 s))"
proof -
  let ?r = "run_task (command_task example_env (initial_library idle_panel) NewConversation) (initial_library idle_panel)"
  have "library_reach (fst ?r, initial_library idle_panel, snd ?r @ [])"
    by (rule reach_first_command)
  moreover have "lib_conversationPending (fst ?r)"
    by (simp add: createConversationForPanel_def conversation_transition_def initial_library_def idle_panel_def library_runs)
  ultimately show ?thesis using conversation_command_ends by (fastforce simp: case_prod_beta Let_def)
qed

text \<open>
  C20: a successful answer to a switch of the conversation is shown exactly when no later command has begun a new epoch:
  then the panel shows the messages, the summary and the context selection of the new conversation, with the flow, the
  local messages and the error of the old one gone, and asks for the list with the query and scope the command saw;
  otherwise only the pending mark changes and nothing is asked. A failed switch, superseded or not, shows its error and
  lowers the mark and changes nothing else.
\<close>

theorem switch_conversation_answer:
  assumes "run_task (switchConversationForPanel env seen i) s = (s1, [p])" and "advance (resume p a) s2 = (s3, qs)"
  shows "case answer_conversation a of
    Inl e \<Rightarrow> s3 = (set_submit_error (Some (getErrorMessage e (js ''Unable to switch the active conversation.''))) s2)
        \<lparr>lib_conversationPending := False\<rparr> \<and> qs = []
  | Inr snapshot \<Rightarrow>
      if lib_epoch s2 = lib_epoch s1
      then ap_messages (lib_panel s3) = Some (conversation_messages snapshot) \<and> lib_activeID s3 = conversation_id snapshot
        \<and> lib_activeSummary s3 = Some (summaryFromConversationSnapshot snapshot)
        \<and> lib_storedIDs s3 = deduplicateWidgetIDs (js_default (preferred_widget_ids (conversation_context_preferences snapshot)) [])
        \<and> ap_pendingFlow (lib_panel s3) = None \<and> ap_interaction (lib_panel s3) = [] \<and> ap_submitError (lib_panel s3) = None
        \<and> (\<exists>k. qs = [Call (ReqList (lib_searchQuery seen) (lib_scope seen)) k])
      else s3 = s2\<lparr>lib_conversationPending := False\<rparr> \<and> qs = []"
proof (cases "answer_conversation a")
  case (Inl e)
  from failed_transition [OF switch_is_transition [OF assms(1)] Inl] assms(2) Inl show ?thesis by simp
next
  case (Inr snapshot)
  show ?thesis
  proof (cases "lib_epoch s2 = lib_epoch s1")
    case True
    from transition_shows [OF switch_is_transition [OF assms(1)] this Inr] assms(2) obtain k where
      "s3 = (resetConversationInteractionState (apply_snapshot env snapshot s2))
        \<lparr>lib_listNonce := lib_listNonce s2 + 1, lib_listPending := True\<rparr>"
      "qs = [Call (ReqList (lib_searchQuery seen) (lib_scope seen)) k]" by auto
    then show ?thesis using True Inr by (simp add: resetConversationInteractionState_def apply_snapshot_shows)
  next
    case False
    from superseded_transition [OF switch_is_transition [OF assms(1)] this Inr] assms(2) False Inr show ?thesis by simp
  qed
qed

theorem switch_conversation_answer_witness:
  "let (s1, ps) = run_task (switchConversationForPanel example_env (initial_library idle_panel) (js ''c2'')) (initial_library idle_panel);
       (s3, qs) = advance (resume (hd ps) example_answer) s1
   in lib_activeID s3 = js ''c2'' \<and> lib_storedIDs s3 = [js ''w''] \<and> length qs = 1"
proof -
  let ?r = "run_task (switchConversationForPanel example_env (initial_library idle_panel) (js ''c2'')) (initial_library idle_panel)"
  have "js_trim (js ''c2'') \<noteq> []" by (simp add: js_simps)
  then obtain p where p: "snd ?r = [p]"
    using switch_waits [of "js ''c2''" "initial_library idle_panel"] by (auto simp: initial_library_def idle_panel_def)
  then have r: "?r = (fst ?r, [p])" by (metis prod.collapse)
  have "answer_conversation example_answer = Inr example_snapshot" by (simp add: example_answer_def)
  moreover note switch_conversation_answer [where ?s2.0 = "fst ?r", OF r prod.collapse [symmetric], of example_answer]
  ultimately
  have "lib_activeID (fst (advance (resume p example_answer) (fst ?r))) = js ''c2''"
    "lib_storedIDs (fst (advance (resume p example_answer) (fst ?r))) = deduplicateWidgetIDs [js ''w'']"
    "length (snd (advance (resume p example_answer) (fst ?r))) = 1"
    by (auto simp: example_snapshot_def simp del: js_Cons)
  moreover have "deduplicateWidgetIDs [js ''w''] = [js ''w'']"
    by (simp add: deduplicateWidgetIDs_eq js_simps)
  ultimately show ?thesis using p by (simp add: case_prod_beta Let_def del: js_Cons)
qed

text \<open>
  C24: the five requests of the start count each for itself, unless a later command has begun a new epoch: then all the
  answers are dropped and nothing changes. Otherwise every request that succeeded is shown and every one that failed
  leaves its part as it was, a failed conversation with a load error that names the panel and a failed gateway with an
  error of its own, the others silently; and unless the panel has been started again or stopped in between the gateway is
  no longer pending.
\<close>

theorem bootstrap_settles:
  assumes "run_task (bootstrapAgentPanel env) s = (s1, [p])" and "advance (resume p a) s2 = (s3, qs)"
  shows "qs = [] \<and> (if lib_epoch s2 \<noteq> lib_epoch s1 then s3 = s2
    else lib_gatewayPending s3 = (lib_gatewayPending s2 \<and> lib_startRun s2 \<noteq> lib_startRun s1)
    \<and> (case boot_conversation (answer_bootstrap a) of
         Inl e \<Rightarrow> ap_loadError (lib_panel s3) = Some (getErrorMessage e
             (js ''Unable to load backend conversation for '' @ env_hostId env @ js ''.''))
           \<and> ap_messages (lib_panel s3) = ap_messages (lib_panel s2) \<and> lib_activeID s3 = lib_activeID s2
       | Inr snapshot \<Rightarrow> ap_loadError (lib_panel s3) = ap_loadError (lib_panel s2)
           \<and> ap_messages (lib_panel s3) = Some (conversation_messages snapshot) \<and> lib_activeID s3 = conversation_id snapshot)
    \<and> lib_providerCatalog s3 = case_sum (\<lambda>_. lib_providerCatalog s2) Some (boot_providers (answer_bootstrap a))
    \<and> lib_gateway s3 = case_sum (\<lambda>_. lib_gateway s2) Some (boot_gateway (answer_bootstrap a))
    \<and> lib_gatewayError s3 = case_sum (\<lambda>e. Some (getErrorMessage e (js ''Unable to load provider gateway telemetry.'')))
         (\<lambda>_. None) (boot_gateway (answer_bootstrap a))
    \<and> lib_agentCatalog s3 = case_sum (\<lambda>_. lib_agentCatalog s2) Some (boot_catalog (answer_bootstrap a))
    \<and> lib_attachments s3 = case_sum (\<lambda>_. lib_attachments s2) (\<lambda>x. x) (boot_attachments (answer_bootstrap a)))"
proof (cases "lib_epoch s2 = lib_epoch s1")
  case True
  have kept: "lib_gatewayPending (boot_catalog_step r (boot_gateway_step r (boot_provider_step r (boot_conversation_step env r s2))))
      = lib_gatewayPending s2" for r
    by (simp add: boot_catalog_step_def boot_gateway_step_def boot_provider_step_def boot_conversation_step_def apply_snapshot_keeps
        set_load_error_def Let_def split: sum.split)
  have "s3 = (let t = boot_catalog_step (answer_bootstrap a) (boot_gateway_step (answer_bootstrap a)
      (boot_provider_step (answer_bootstrap a) (boot_conversation_step env (answer_bootstrap a) s2)))
    in t\<lparr>lib_gatewayPending := lib_gatewayPending s2 \<and> lib_startRun s2 \<noteq> lib_startRun s1\<rparr>)" "qs = []"
    using bootstrap_answer [OF assms(1) True] assms(2) kept by (simp_all add: Let_def)
  then show ?thesis using True
    by (simp add: boot_conversation_step_def boot_provider_step_def boot_gateway_step_def boot_catalog_step_def
        set_load_error_def apply_snapshot_shows apply_snapshot_keeps Let_def split: sum.split del: js_Cons)
next
  case False
  then show ?thesis using superseded_bootstrap [OF assms(1) False] assms(2) by simp
qed

theorem bootstrap_settles_witness:
  "let (s1, ps) = run_task (bootstrapAgentPanel example_env) (initial_library idle_panel);
       (s3, qs) = advance (resume (hd ps) example_answer) s1
   in \<not> lib_gatewayPending s3 \<and> lib_gatewayError s3 = Some (js ''down'') \<and> lib_attachments s3 = []
     \<and> ap_loadError (lib_panel s3) = Some (js ''Unable to load backend conversation for ai.'')"
proof -
  let ?r = "run_task (bootstrapAgentPanel example_env) (initial_library idle_panel)"
  obtain p where p: "snd ?r = [p]" using bootstrap_waits [of example_env] by (auto simp: example_env_def)
  then have r: "?r = (fst ?r, [p])" by (metis prod.collapse)
  from bootstrap_settles [where ?s2.0 = "fst ?r", OF r prod.collapse [symmetric], of example_answer]
  show ?thesis using p
    by (simp add: case_prod_beta Let_def example_answer_def example_env_def getErrorMessage_def js_simps)
qed

section \<open>Departures\<close>

text \<open>
  A conversation command while the panel starts begins a new epoch, and the answers of the whole start are dropped: the
  providers, the agent catalogue and the attachments are not loaded and the gateway stays pending.
\<close>

lemma new_conversation_drops_start:
  assumes "run_task (bootstrapAgentPanel env) s = (s1, [p])"
    and "run_task (createConversationForPanel env seen) s1 = (s2, [q])"
  shows "advance (resume p a) s2 = (s2, []) \<and> lib_gatewayPending s2 \<and> lib_providerCatalog s2 = None
    \<and> lib_agentCatalog s2 = None"
proof -
  have s2: "s2 = set_pending True (beginPanelStateEpoch (reset_submission s1))"
    using transition_runs(1) create_is_transition [OF assms(2)] by blast
  then have "lib_epoch s2 \<noteq> lib_epoch s1" by (simp add: set_pending_def beginPanelStateEpoch_def reset_submission_def)
  moreover have "lib_gatewayPending s1" "lib_providerCatalog s1 = None" "lib_agentCatalog s1 = None"
    using assms(1) by (auto simp: bootstrapAgentPanel_def panel_resets library_runs split: if_splits)
  ultimately show ?thesis
    using superseded_bootstrap [OF assms(1)] s2 by (simp add: set_pending_def beginPanelStateEpoch_def reset_submission_def)
qed

text \<open>
  Selecting a provider begins an epoch too: a switch that is under way is dropped, although the backend has activated
  the new conversation, and the panel goes on showing the old one.
\<close>

lemma provider_drops_switch:
  assumes "run_task (switchConversationForPanel env seen i) s = (s1, [p])"
    and "run_task (selectProviderForPanel seen' j) s1 = (s2, [q])" and "answer_conversation a = Inr snapshot"
  shows "advance (resume p a) s2 = (s2\<lparr>lib_conversationPending := False\<rparr>, [])
    \<and> ap_messages (lib_panel s2) = ap_messages (lib_panel s) \<and> lib_activeID s2 = lib_activeID s"
proof -
  have s1: "s1 = set_pending True (beginPanelStateEpoch (reset_submission s))"
    using transition_runs(1) switch_is_transition [OF assms(1)] by blast
  have s2: "s2 = set_submit_error None (set_load_error None (beginPanelStateEpoch s1))"
    using assms(2) by (auto simp: selectProviderForPanel_def Let_def library_runs split: if_splits)
  then have "lib_epoch s2 \<noteq> lib_epoch s1" by (simp add: set_submit_error_def set_load_error_def beginPanelStateEpoch_def)
  from superseded_transition [OF switch_is_transition [OF assms(1)] this assms(3)] show ?thesis
    using s1 s2 by (simp add: set_pending_def set_submit_error_def set_load_error_def beginPanelStateEpoch_def
        reset_submission_def resetConversationSubmissionRuntime_def)
qed

text \<open>
  The answer to a context update is shown whatever has happened in between: the panel goes back to the conversation it
  was about.
\<close>

lemma stale_context_update_shown:
  assumes "run_task (update_context env seen i preferences) s = (s1, [p])" "answer_conversation a = Inr snapshot"
  shows "lib_activeID (fst (advance (resume p a) s2)) = conversation_id snapshot
    \<and> ap_messages (lib_panel (fst (advance (resume p a) s2))) = Some (conversation_messages snapshot)"
proof -
  have "resume p a = Put (apply_snapshot env snapshot) (refresh_list env seen (\<lambda>_. Stop))"
    using assms by (auto simp: update_context_def run_task_def program_def request_def seq_def put_def split: sum.splits)
  then show ?thesis
    using refresh_list_runs [of env seen "\<lambda>_. Stop" "apply_snapshot env snapshot s2"] by (auto simp: apply_snapshot_shows)
qed

end
