(* ===== verification/Js_Number.thy ===== *)
theory Js_Number
  imports Complex_Main Prelude
begin

text \<open>
  The numbers that settings hold: finite ones as exact rationals, beside \<open>NaN\<close> and the infinities, with \<open>Math.round\<close> and
  \<open>Math.trunc\<close>.
\<close>

datatype js_number = Finite rat | NaN | PlusInfinity | MinusInfinity

text \<open>\<open>Math.round\<close>: halves are rounded up.\<close>

definition math_round :: "rat \<Rightarrow> rat" where
  "math_round x = of_int \<lfloor>x + 1 / 2\<rfloor>"

definition math_trunc :: "rat \<Rightarrow> rat" where
  "math_trunc x = (if 0 \<le> x then of_int \<lfloor>x\<rfloor> else of_int \<lceil>x\<rceil>)"

definition whole :: "rat \<Rightarrow> bool" where
  "whole x \<longleftrightarrow> (\<exists>i. x = of_int i)"

lemma whole_round [simp]: "whole (math_round x)"
  by (auto simp: whole_def math_round_def)

lemma whole_trunc [simp]: "whole (math_trunc x)"
  by (auto simp: whole_def math_trunc_def)

lemma whole_numeral [simp]: "whole (numeral n)" "whole 0"
  by (auto simp: whole_def intro: exI [of _ "numeral n"] exI [of _ 0])

lemma whole_min_max: "whole x \<Longrightarrow> whole y \<Longrightarrow> whole (min x y)" "whole x \<Longrightarrow> whole y \<Longrightarrow> whole (max x y)"
  by (simp_all add: min_def max_def)

lemma round_whole: "whole x \<Longrightarrow> math_round x = x"
  by (auto simp: whole_def math_round_def floor_eq_iff)

lemma trunc_whole: "whole x \<Longrightarrow> math_trunc x = x"
  by (auto simp: whole_def math_trunc_def)

lemma round_between:
  assumes "of_int a \<le> x" "x \<le> of_int b"
  shows "of_int a \<le> math_round x" "math_round x \<le> of_int b"
proof -
  have "a \<le> \<lfloor>x + 1 / 2\<rfloor>" using assms(1) by (simp add: le_floor_iff)
  then show "of_int a \<le> math_round x" by (simp add: math_round_def)
  have "\<lfloor>x + 1 / 2\<rfloor> \<le> b" using assms(2) by (simp add: floor_le_iff)
  then show "math_round x \<le> of_int b" by (simp add: math_round_def)
qed

end
