(* ===== verification/Uri.thy ===== *)
theory Uri
  imports Prelude
begin

text \<open>
  The function \<open>encodeURIComponent\<close> of the language, which every client uses to put an id into a path: the code points of
  the string, their UTF-8 bytes, and the escapes of the bytes. It throws on a lone surrogate (\<open>None\<close>). The lemmas show
  that it is injective and that its result holds no character that separates the parts of a path. \<open>sent_path\<close> is what the
  URL parser behind \<open>fetch\<close> makes of a path: segments that are dots, also escaped ones, are removed.
\<close>

section \<open>The encoding\<close>

fun code_points :: "jsstring \<Rightarrow> nat list option" where
  "code_points [] = Some []"
| "code_points (u # s) =
     (if 0xD800 \<le> u \<and> u < 0xDC00
      then (case s of
              [] \<Rightarrow> None
            | l # t \<Rightarrow>
                if 0xDC00 \<le> l \<and> l < 0xE000
                then map_option ((#) (0x10000 + (u - 0xD800) * 0x400 + (l - 0xDC00))) (code_points t) else None)
      else if 0xDC00 \<le> u \<and> u < 0xE000 then None
      else map_option ((#) u) (code_points s))"

definition utf8 :: "nat \<Rightarrow> nat list" where
  "utf8 p =
     (if p < 0x80 then [p]
      else if p < 0x800 then [0xC0 + p div 64, 0x80 + p mod 64]
      else if p < 0x10000 then [0xE0 + p div 4096, 0x80 + p div 64 mod 64, 0x80 + p mod 64]
      else [0xF0 + p div 262144, 0x80 + p div 4096 mod 64, 0x80 + p div 64 mod 64, 0x80 + p mod 64])"

definition unreserved :: "nat \<Rightarrow> bool" where
  "unreserved c \<longleftrightarrow> js_ascii_letter c \<or> js_digit c \<or> c \<in> set (js ''-_.!~*'') \<or> c = 39 \<or> c = 40 \<or> c = 41"

definition hex_digit :: "nat \<Rightarrow> nat" where
  "hex_digit d = (if d < 10 then 48 + d else 55 + d)"

definition percent :: "nat \<Rightarrow> jsstring" where
  "percent b = [37, hex_digit (b div 16), hex_digit (b mod 16)]"

definition encode_point :: "nat \<Rightarrow> jsstring" where
  "encode_point p = (if unreserved p then [p] else concat (map percent (utf8 p)))"

definition encodeURIComponent :: "jsstring \<Rightarrow> jsstring option" where
  "encodeURIComponent s = map_option (\<lambda>ps. concat (map encode_point ps)) (code_points s)"

section \<open>Decoding\<close>

definition code_units :: "nat \<Rightarrow> jsstring" where
  "code_units p = (if p < 0x10000 then [p] else [0xD800 + (p - 0x10000) div 0x400, 0xDC00 + (p - 0x10000) mod 0x400])"

fun utf8_points :: "nat list \<Rightarrow> nat list" where
  "utf8_points [] = []"
| "utf8_points (a # s) =
     (if a < 0xC0 then a # utf8_points s
      else case s of
          [] \<Rightarrow> []
        | b # t \<Rightarrow>
            if a < 0xE0 then ((a - 0xC0) * 64 + (b - 0x80)) # utf8_points t
            else case t of
                [] \<Rightarrow> []
              | c # u \<Rightarrow>
                  if a < 0xF0 then ((a - 0xE0) * 4096 + (b - 0x80) * 64 + (c - 0x80)) # utf8_points u
                  else case u of
                      [] \<Rightarrow> []
                    | d # v \<Rightarrow> ((a - 0xF0) * 262144 + (b - 0x80) * 4096 + (c - 0x80) * 64 + (d - 0x80)) # utf8_points v)"

definition hex_value :: "nat \<Rightarrow> nat" where
  "hex_value c = (if c < 58 then c - 48 else c - 55)"

fun unpercent :: "jsstring \<Rightarrow> nat list" where
  "unpercent (c # a # b # s) = (if c = 37 then (16 * hex_value a + hex_value b) # unpercent s else c # unpercent (a # b # s))"
| "unpercent s = s"

text \<open>The units of a string of the language have sixteen bits.\<close>

abbreviation js_units :: "jsstring \<Rightarrow> bool" where
  "js_units s \<equiv> \<forall>u\<in>set s. u < 0x10000"

lemma code_points_units:
  "code_points s = Some ps \<Longrightarrow> js_units s \<Longrightarrow> concat (map code_units ps) = s"
proof (induction s arbitrary: ps rule: code_points.induct)
  case (2 u s)
  show ?case
  proof (cases "0xD800 \<le> u \<and> u < 0xDC00")
    case True
    then obtain l t qs where s: "s = l # t" "0xDC00 \<le> l" "l < 0xE000" "code_points t = Some qs"
        "ps = (0x10000 + (u - 0xD800) * 0x400 + (l - 0xDC00)) # qs"
      using "2.prems" by (auto split: list.splits if_splits)
    let ?h = "u - 0xD800" and ?l = "l - 0xDC00"
    have "?l < 0x400" using s by simp
    then have "(?h * 0x400 + ?l) div 0x400 = ?h" "(?h * 0x400 + ?l) mod 0x400 = ?l" by simp_all
    then have "code_units (0x10000 + ?h * 0x400 + ?l) = [0xD800 + ?h, 0xDC00 + ?l]"
      unfolding code_units_def by (simp del: mult.commute)
    then show ?thesis using True s "2.IH"(1) [OF True s(1)] "2.prems"(2) by simp
  next
    case False
    with "2.prems" obtain qs where "code_points s = Some qs" "ps = u # qs" by (auto split: if_splits)
    then show ?thesis using "2.IH"(2) [OF False] "2.prems" False by (auto simp: code_units_def split: if_splits)
  qed
qed simp

lemma code_points_bound: "code_points s = Some ps \<Longrightarrow> js_units s \<Longrightarrow> \<forall>p\<in>set ps. p < 0x110000"
proof (induction s arbitrary: ps rule: code_points.induct)
  case (2 u s)
  show ?case
  proof (cases "0xD800 \<le> u \<and> u < 0xDC00")
    case True
    then obtain l t qs where s: "s = l # t" "0xDC00 \<le> l" "l < 0xE000" "code_points t = Some qs"
        "ps = (0x10000 + (u - 0xD800) * 0x400 + (l - 0xDC00)) # qs"
      using "2.prems" by (auto split: list.splits if_splits)
    have "(u - 0xD800) * 0x400 \<le> 0x3FF * 0x400" using True by (intro mult_right_mono) auto
    then have "0x10000 + (u - 0xD800) * 0x400 + (l - 0xDC00) < 0x110000" using s(2,3) by linarith
    then show ?thesis using True s(1,4,5) "2.IH"(1) [OF True s(1)] "2.prems"(2) s(2,3) by (simp del: mult.commute)
  next
    case False
    with "2.prems" obtain qs where "code_points s = Some qs" "ps = u # qs" by (auto split: if_splits)
    then show ?thesis using "2.IH"(2) [OF False] "2.prems" False by (auto split: if_splits)
  qed
qed simp

lemma digits64:
  fixes p :: nat
  shows "p div 64 * 64 + p mod 64 = p" "p div 4096 * 4096 + p div 64 mod 64 * 64 + p mod 64 = p"
    "p div 262144 * 262144 + p div 4096 mod 64 * 4096 + p div 64 mod 64 * 64 + p mod 64 = p"
proof -
  have 1: "q div 64 * 64 + q mod 64 = q" for q :: nat by simp
  have "p div 64 div 64 = p div 4096" "p div 4096 div 64 = p div 262144" by (simp_all add: div_mult2_eq [symmetric])
  with 1 [of p] 1 [of "p div 64"] 1 [of "p div 4096"]
  show "p div 64 * 64 + p mod 64 = p" "p div 4096 * 4096 + p div 64 mod 64 * 64 + p mod 64 = p"
    "p div 262144 * 262144 + p div 4096 mod 64 * 4096 + p div 64 mod 64 * 64 + p mod 64 = p" by linarith+
qed

lemma utf8_points_one:
  assumes "p < 0x110000"
  shows "utf8_points (utf8 p @ s) = p # utf8_points s"
proof -
  define a b c d where "a = p div 262144" "b = p div 4096 mod 64" "c = p div 64 mod 64" "d = p mod 64"
  define a2 a3 where "a2 = p div 64" "a3 = p div 4096"
  note defs = a_b_c_d_def a2_a3_def
  consider "p < 0x80" | "0x80 \<le> p" "p < 0x800" | "0x800 \<le> p" "p < 0x10000" | "0x10000 \<le> p" by linarith
  then show ?thesis
  proof cases
    case 2
    then have "a2 < 32" "p = a2 * 64 + d" "utf8 p = [0xC0 + a2, 0x80 + d]"
      using digits64(1) [of p] by (simp_all add: utf8_def defs)
    then show ?thesis by simp
  next
    case 3
    then have "a3 < 16" "p = a3 * 4096 + c * 64 + d" "utf8 p = [0xE0 + a3, 0x80 + c, 0x80 + d]"
      using digits64(2) [of p] by (simp_all add: utf8_def defs)
    then show ?thesis by simp
  next
    case 4
    then have "p = a * 262144 + b * 4096 + c * 64 + d" "utf8 p = [0xF0 + a, 0x80 + b, 0x80 + c, 0x80 + d]"
      using digits64(3) [of p] by (simp_all add: utf8_def defs)
    then show ?thesis by simp
  qed (simp add: utf8_def)
qed

lemma utf8_points_all: "\<forall>p\<in>set ps. p < 0x110000 \<Longrightarrow> utf8_points (concat (map utf8 ps)) = ps"
  by (induction ps) (simp_all add: utf8_points_one)

lemma hex_value_digit [simp]: "d < 16 \<Longrightarrow> hex_value (hex_digit d) = d"
  by (simp add: hex_value_def hex_digit_def)

lemma unpercent_percent: "b < 256 \<Longrightarrow> unpercent (percent b @ s) = b # unpercent s"
  by (simp add: percent_def)

lemma utf8_bytes: "p < 0x110000 \<Longrightarrow> \<forall>b\<in>set (utf8 p). b < 256"
  by (auto simp: utf8_def)

lemma unpercent_bytes: "\<forall>b\<in>set bs. b < 256 \<Longrightarrow> unpercent (concat (map percent bs) @ s) = bs @ unpercent s"
  by (induction bs) (simp_all add: unpercent_percent)

lemma unpercent_other: "c \<noteq> 37 \<Longrightarrow> unpercent (c # s) = c # unpercent s"
  by (cases s; cases "tl s") auto

lemma unreserved_utf8: "unreserved p \<Longrightarrow> utf8 p = [p] \<and> p \<noteq> 37"
  by (auto simp: unreserved_def utf8_def js_ascii_letter_def js_digit_def)

lemma unpercent_points:
  "\<forall>p\<in>set ps. p < 0x110000 \<Longrightarrow> unpercent (concat (map encode_point ps)) = concat (map utf8 ps)"
proof (induction ps)
  case (Cons p ps)
  then have "p < 0x110000" by simp
  then show ?case
    using Cons unpercent_bytes [OF utf8_bytes, of p] unreserved_utf8 [of p]
    by (simp add: encode_point_def unpercent_other)
qed simp

section \<open>Injectivity\<close>

lemma encodeURIComponent_inject:
  assumes "encodeURIComponent s = Some e" and "encodeURIComponent t = Some e" and "js_units s" and "js_units t"
  shows "s = t"
proof -
  obtain ps where ps: "code_points s = Some ps" "e = concat (map encode_point ps)"
    using assms(1) by (auto simp: encodeURIComponent_def)
  obtain qs where qs: "code_points t = Some qs" "e = concat (map encode_point qs)"
    using assms(2) by (auto simp: encodeURIComponent_def)
  note bounds = code_points_bound [OF ps(1) assms(3)] code_points_bound [OF qs(1) assms(4)]
  have "concat (map utf8 ps) = concat (map utf8 qs)"
    using unpercent_points [OF bounds(1)] unpercent_points [OF bounds(2)] ps(2) qs(2) by simp
  then have "ps = qs" using utf8_points_all [OF bounds(1)] utf8_points_all [OF bounds(2)] by metis
  then show ?thesis using code_points_units [OF ps(1) assms(3)] code_points_units [OF qs(1) assms(4)] by simp
qed

lemma hex_digit_range: "d < 16 \<Longrightarrow> unreserved (hex_digit d)"
  by (auto simp: unreserved_def hex_digit_def js_ascii_letter_def js_digit_def)

lemma encode_point_chars: "p < 0x110000 \<Longrightarrow> c \<in> set (encode_point p) \<Longrightarrow> unreserved c \<or> c = 37"
  using utf8_bytes [of p] by (auto simp: encode_point_def percent_def split: if_splits intro!: hex_digit_range)

text \<open>An encoded id has no slash, question mark or hash: it is one segment of a path.\<close>

lemma encodeURIComponent_segment:
  assumes "encodeURIComponent s = Some e" and "js_units s"
  shows "slash \<notin> set e" and "63 \<notin> set e" and "35 \<notin> set e"
proof -
  obtain ps where ps: "code_points s = Some ps" "e = concat (map encode_point ps)"
    using assms(1) by (auto simp: encodeURIComponent_def)
  have "unreserved c \<or> c = 37" if "c \<in> set e" for c
    using that ps(2) encode_point_chars code_points_bound [OF ps(1) assms(2)] by auto
  then show "slash \<notin> set e" "63 \<notin> set e" "35 \<notin> set e"
    by (force simp: unreserved_def js_ascii_letter_def js_digit_def)+
qed

lemma encodeURIComponent_plain: "\<forall>c\<in>set s. unreserved c \<Longrightarrow> encodeURIComponent s = Some s"
proof (induction s)
  case (Cons c s)
  then have "unreserved c" "c < 0x80" by (auto simp: unreserved_def js_ascii_letter_def js_digit_def)
  then have "code_points (c # s) = map_option ((#) c) (code_points s)" "encode_point c = [c]"
    by (simp_all add: encode_point_def)
  with Cons show ?case by (auto simp: encodeURIComponent_def simp del: code_points.simps)
qed (simp add: encodeURIComponent_def)

section \<open>The path that is sent\<close>

text \<open>The path state of the URL standard: \<open>%2e\<close> counts as a dot, and a last segment of dots leaves an empty one.\<close>

fun undot :: "jsstring \<Rightarrow> jsstring" where
  "undot (a # b # c # s) = (if a = 37 \<and> b = 50 \<and> (c = 69 \<or> c = 101) then dot # undot s else a # undot (b # c # s))"
| "undot s = s"

definition dot_segment :: "jsstring \<Rightarrow> bool" where
  "dot_segment s \<longleftrightarrow> undot s = [dot] \<or> undot s = [dot, dot]"

fun remove_dots :: "jsstring list \<Rightarrow> jsstring list \<Rightarrow> jsstring list" where
  "remove_dots acc [] = rev acc"
| "remove_dots acc (s # ss) =
     (if undot s = [dot, dot] then remove_dots (if ss = [] then [] # tl acc else tl acc) ss
      else if undot s = [dot] then remove_dots (if ss = [] then [] # acc else acc) ss
      else remove_dots (s # acc) ss)"

definition sent_path :: "jsstring \<Rightarrow> jsstring" where
  "sent_path p =
     (let path = takeWhile (\<lambda>c. c \<noteq> 63) p; query = dropWhile (\<lambda>c. c \<noteq> 63) p
      in slash # js_join slash (remove_dots [] (js_split slash (tl path))) @ query)"

lemma remove_dots_id: "\<forall>s\<in>set ss. \<not> dot_segment s \<Longrightarrow> remove_dots acc ss = rev acc @ ss"
proof (induction ss arbitrary: acc)
  case (Cons s ss)
  have "remove_dots acc (s # ss) = remove_dots (s # acc) ss" using Cons.prems by (simp add: dot_segment_def)
  also have "\<dots> = rev acc @ s # ss" using Cons.IH [of "s # acc"] Cons.prems by simp
  finally show ?case .
qed simp

lemma sent_path_id:
  assumes "\<forall>s\<in>set (js_split slash p). \<not> dot_segment s" "63 \<notin> set p" "q = [] \<or> hd q = 63"
  shows "sent_path (slash # p @ q) = slash # p @ q"
proof -
  have p: "c \<noteq> 63" if "c \<in> set (slash # p)" for c using assms(2) that by auto
  have "takeWhile (\<lambda>c. c \<noteq> 63) q = []" "dropWhile (\<lambda>c. c \<noteq> 63) q = q"
    using assms(3) by (cases q; simp)+
  then have "takeWhile (\<lambda>c. c \<noteq> 63) (slash # p @ q) = slash # p" "dropWhile (\<lambda>c. c \<noteq> 63) (slash # p @ q) = q"
    using takeWhile_append2 [of "slash # p" "\<lambda>c. c \<noteq> 63" q] dropWhile_append2 [of "slash # p" "\<lambda>c. c \<noteq> 63" q] p by simp_all
  then show ?thesis using remove_dots_id [OF assms(1), of "[]"] by (simp add: sent_path_def)
qed

lemma undot_other: "a \<noteq> 37 \<Longrightarrow> undot (a # s) = a # undot s"
  by (cases s; cases "tl s") auto

lemma undot_percent:
  assumes "b < 256" "b \<noteq> 46"
  shows "undot (percent b @ s) = percent b @ undot s"
proof -
  have digits: "hex_digit (b div 16) \<noteq> 37" "hex_digit (b mod 16) \<noteq> 37" by (simp_all add: hex_digit_def)
  have "\<not> (hex_digit (b div 16) = 50 \<and> (hex_digit (b mod 16) = 69 \<or> hex_digit (b mod 16) = 101))"
  proof
    assume "hex_digit (b div 16) = 50 \<and> (hex_digit (b mod 16) = 69 \<or> hex_digit (b mod 16) = 101)"
    moreover have "b mod 16 < 16" by simp
    ultimately have "b div 16 = 2" "b mod 16 = 14" by (auto simp: hex_digit_def split: if_splits)
    then show False using assms(2) div_mult_mod_eq [of b 16] by simp
  qed
  then show ?thesis using digits by (auto simp: percent_def undot_other)
qed

lemma undot_bytes: "\<forall>b\<in>set bs. b < 256 \<and> b \<noteq> 46 \<Longrightarrow> undot (concat (map percent bs) @ s) = concat (map percent bs) @ undot s"
  by (induction bs) (simp_all add: undot_percent)

lemma undot_point:
  assumes "p < 0x110000"
  shows "undot (encode_point p @ s) = encode_point p @ undot s"
proof (cases "unreserved p")
  case True
  then show ?thesis using unreserved_utf8 [OF True] by (simp add: encode_point_def undot_other)
next
  case False
  then have "p \<noteq> 46" by (auto simp: unreserved_def)
  then have "\<forall>b\<in>set (utf8 p). b < 256 \<and> b \<noteq> 46" using utf8_bytes [OF assms] by (auto simp: utf8_def)
  then show ?thesis using False undot_bytes by (simp add: encode_point_def)
qed

text \<open>An encoded id is a segment of dots only when the id is one or two dots.\<close>

lemma encoded_dots:
  assumes "encodeURIComponent s = Some e" and "js_units s" and "s \<noteq> [dot]" and "s \<noteq> [dot, dot]"
  shows "\<not> dot_segment e"
proof -
  obtain ps where ps: "code_points s = Some ps" "e = concat (map encode_point ps)"
    using assms(1) by (auto simp: encodeURIComponent_def)
  have "\<forall>p\<in>set ps. p < 0x110000 \<Longrightarrow> undot (concat (map encode_point ps)) = concat (map encode_point ps)" for ps
    by (induction ps) (simp_all add: undot_point)
  then have "undot e = e" using ps code_points_bound [OF ps(1) assms(2)] by blast
  moreover have "e \<noteq> t" if "t = [dot] \<or> t = [dot, dot]" for t
  proof
    assume "e = t"
    moreover have "encodeURIComponent t = Some t" "js_units t"
      using that by (auto intro!: encodeURIComponent_plain simp: unreserved_def)
    ultimately have "s = t" using encodeURIComponent_inject [of s e t] assms(1,2) by simp
    then show False using that assms(3,4) by blast
  qed
  ultimately show ?thesis unfolding dot_segment_def by metis
qed

end
