(* ===== verification/Provider_Client.thy ===== *)
theory Provider_Client
  imports Js_Number Async Agent_Tools Uri
begin

text \<open>
  The client of the providers (\<^verbatim>\<open>features/agent/api/provider-client.ts\<close>): its types, what it makes of the replies of the
  backend, and its requests; and the actions the gateway offers (\<^verbatim>\<open>provider-gateway-actions.ts\<close>). A reply may lack any part
  that the code tests for; of a route only what the code reads is kept, and a run is kept as its id.
\<close>

section \<open>Types\<close>

record AgentProviderActor =
  actor_username :: jsstring
  actor_home_dir :: "jsstring option"

record AgentProviderAccessPolicy =
  owner_username :: jsstring
  access_visibility :: "jsstring option"
  allowed_users :: "jsstring list option"

record AgentProviderRoutePolicy =
  prewarm_policy :: "jsstring option"
  warm_ttl_seconds :: "js_number option"

record AgentProviderDetails = AgentProviderView +
  pv_active :: bool
  pv_access :: "AgentProviderAccessPolicy option"
  pv_created_by :: "AgentProviderActor option"
  pv_updated_by :: "AgentProviderActor option"
  pv_route_policy :: "AgentProviderRoutePolicy option"
  pv_created_at :: jsstring
  pv_updated_at :: jsstring

text \<open>The catalogue as it comes, and as the code uses it.\<close>

record catalog_reply =
  reply_current_actor :: "AgentProviderActor option"
  reply_providers :: "AgentProviderDetails list option"
  reply_active_provider_id :: jsstring
  reply_supported_kinds :: "jsstring list option"

record ProviderCatalog =
  current_actor :: AgentProviderActor
  providers :: "AgentProviderDetails list"
  active_provider_id :: jsstring
  supported_kinds :: "jsstring list"

record GatewayProvider =
  route_provider_id :: jsstring
  route_enabled :: bool
  route_status_state :: "jsstring option"
  route_prepared :: bool
  route_prepare_state :: "jsstring option"
  last_error_code :: "jsstring option"

record gateway_reply =
  reply_generated_at :: jsstring
  reply_routes :: "GatewayProvider list option"
  reply_recent_runs :: "jsstring list option"
  reply_runs_total :: "js_number option"
  reply_runs_offset :: "js_number option"
  reply_runs_limit :: "js_number option"
  reply_runs_has_more :: bool

record GatewaySnapshot =
  generated_at :: jsstring
  routes :: "GatewayProvider list"
  recent_runs :: "jsstring list"
  recent_runs_total :: rat
  recent_runs_offset :: rat
  recent_runs_limit :: rat
  recent_runs_has_more :: bool

record AgentProviderGatewaySnapshotQuery =
  query_providerID :: "jsstring option"
  query_status :: "jsstring option"
  query_query :: "jsstring option"
  query_offset :: "js_number option"
  query_limit :: "js_number option"

record DiscoverAgentProviderModelsPayload =
  discover_provider_id :: "jsstring option"
  discover_kind :: "jsstring option"
  discover_codex :: "provider_settings option"
  discover_claude :: "provider_settings option"
  discover_openai_compatible :: "provider_settings option"

record access_payload =
  payload_owner_username :: jsstring
  payload_visibility :: jsstring
  payload_allowed_users :: "jsstring list"

record route_policy_payload =
  payload_prewarm_policy :: jsstring
  payload_warm_ttl_seconds :: js_number

text \<open>An update leaves out what it does not change; \<open>None\<close> as the kind marks an update.\<close>

record provider_payload =
  payload_kind :: "jsstring option"
  payload_display_name :: "jsstring option"
  payload_enabled :: "bool option"
  payload_access :: "access_payload option"
  payload_route_policy :: "route_policy_payload option"
  payload_codex :: "provider_settings option"
  payload_claude :: "provider_settings option"
  payload_openai_compatible :: "provider_settings option"

section \<open>Replies\<close>

definition normalizeChatModels :: "jsstring list option \<Rightarrow> jsstring list" where
  "normalizeChatModels models = js_default models []"

definition trimmed :: "jsstring option \<Rightarrow> jsstring option" where
  "trimmed v = (if js_truthy (map_option js_trim v) then map_option js_trim v else None)"

definition normalizeActor :: "AgentProviderActor option \<Rightarrow> AgentProviderActor" where
  "normalizeActor actor =
     \<lparr>actor_username = trim_or (map_option actor_username actor) (js ''unknown''),
      actor_home_dir = trimmed (Option.bind actor actor_home_dir)\<rparr>"

definition normalizeAccessPolicy :: "AgentProviderAccessPolicy option \<Rightarrow> AgentProviderActor \<Rightarrow> AgentProviderAccessPolicy" where
  "normalizeAccessPolicy access owner =
     \<lparr>owner_username = trim_or (map_option owner_username access) (actor_username owner),
      access_visibility = trimmed (Option.bind access access_visibility),
      allowed_users = Some (case Option.bind access allowed_users of
          None \<Rightarrow> [] | Some users \<Rightarrow> filter (\<lambda>u. u \<noteq> []) (map js_trim users))\<rparr>"

text \<open>\<open>Math.max(0, Math.trunc(value))\<close> of a finite number.\<close>

definition seconds :: "rat \<Rightarrow> rat" where
  "seconds x = max 0 (math_trunc x)"

definition normalizeRoutePolicy :: "AgentProviderRoutePolicy option \<Rightarrow> AgentProviderRoutePolicy" where
  "normalizeRoutePolicy policy =
     (let prewarmPolicy = map_option js_trim (Option.bind policy prewarm_policy) in
      \<lparr>prewarm_policy = (if prewarmPolicy = Some (js ''on_activate'') \<or> prewarmPolicy = Some (js ''on_startup'')
          then prewarmPolicy else Some (js ''manual'')),
       warm_ttl_seconds = Some (case Option.bind policy warm_ttl_seconds of
          Some (Finite x) \<Rightarrow> Finite (seconds x) | _ \<Rightarrow> Finite 900)\<rparr>)"

definition normalize_settings :: "provider_settings \<Rightarrow> provider_settings" where
  "normalize_settings s = s\<lparr>ps_chat_models := Some (normalizeChatModels (ps_chat_models s))\<rparr>"

definition normalizeProviderView :: "AgentProviderDetails \<Rightarrow> AgentProviderDetails" where
  "normalizeProviderView provider =
     (let createdBy = normalizeActor (pv_created_by provider);
          updatedBy = normalizeActor (pv_updated_by provider);
          base = provider\<lparr>pv_access := Some (normalizeAccessPolicy (pv_access provider) createdBy), pv_created_by := Some createdBy,
            pv_updated_by := Some updatedBy, pv_route_policy := Some (normalizeRoutePolicy (pv_route_policy provider))\<rparr>
      in if pv_kind provider = js ''codex'' then base\<lparr>pv_codex := map_option normalize_settings (pv_codex provider)\<rparr>
         else if pv_kind provider = js ''claude'' then base\<lparr>pv_claude := map_option normalize_settings (pv_claude provider)\<rparr>
         else if pv_kind provider = js ''openai-compatible''
         then base\<lparr>pv_openai_compatible := map_option normalize_settings (pv_openai_compatible provider)\<rparr>
         else base)"

definition normalizeProviderCatalog :: "catalog_reply \<Rightarrow> ProviderCatalog" where
  "normalizeProviderCatalog catalog =
     \<lparr>current_actor = normalizeActor (reply_current_actor catalog),
      providers = map normalizeProviderView (js_default (reply_providers catalog) []),
      active_provider_id = reply_active_provider_id catalog,
      supported_kinds = filter (\<lambda>k. k \<in> {js ''codex'', js ''claude'', js ''openai-compatible''})
        (js_default (reply_supported_kinds catalog) [])\<rparr>"

definition finite_or_zero :: "js_number option \<Rightarrow> rat" where
  "finite_or_zero v = (case v of Some (Finite x) \<Rightarrow> x | _ \<Rightarrow> 0)"

definition normalizeProviderGatewaySnapshot :: "gateway_reply \<Rightarrow> GatewaySnapshot" where
  "normalizeProviderGatewaySnapshot snapshot =
     \<lparr>generated_at = reply_generated_at snapshot, routes = js_default (reply_routes snapshot) [],
      recent_runs = js_default (reply_recent_runs snapshot) [],
      recent_runs_total = finite_or_zero (reply_runs_total snapshot),
      recent_runs_offset = finite_or_zero (reply_runs_offset snapshot),
      recent_runs_limit = finite_or_zero (reply_runs_limit snapshot),
      recent_runs_has_more = reply_runs_has_more snapshot\<rparr>"

text \<open>A reply is missing, an error status with what its envelope says, or a body.\<close>

datatype 'x provider_reply = NoProviderReply js_error | ProviderStatus int "jsstring option" | ProviderBody 'x

fun fetchProviderRuntimeJSON :: "'x provider_reply \<Rightarrow> js_error + 'x" where
  "fetchProviderRuntimeJSON (NoProviderReply e) = Inl e"
| "fetchProviderRuntimeJSON (ProviderStatus status message) =
     Inl (Some (js_default message (js ''Agent provider request failed ('' @ js_of_int status @ js '')'')))"
| "fetchProviderRuntimeJSON (ProviderBody body) = Inr body"

section \<open>Requests\<close>

datatype provider_call =
    GetCatalog
  | GetGateway "(string \<times> jsstring) list"
  | PostProbe jsstring
  | PostPrewarm jsstring
  | PostClearRoute jsstring
  | PostProvider provider_payload
  | PostModels DiscoverAgentProviderModelsPayload
  | PatchProvider jsstring provider_payload
  | PutActive jsstring
  | DeleteProvider jsstring

text \<open>The path of a request; \<open>None\<close> where the id cannot be encoded, and then the call is answered by a \<open>NoProviderReply\<close> with the
  error of the encoding. Updates and deletions put the id as it is.\<close>

definition encoded_path :: "jsstring \<Rightarrow> string \<Rightarrow> jsstring option" where
  "encoded_path providerID suffix =
     map_option (\<lambda>i. js ''/api/v1/agent/providers/'' @ i @ js suffix) (encodeURIComponent providerID)"

fun provider_path :: "provider_call \<Rightarrow> jsstring option" where
  "provider_path GetCatalog = Some (js ''/api/v1/agent/providers'')"
| "provider_path (GetGateway parameters) = Some (js ''/api/v1/agent/providers/gateway'')"
| "provider_path (PostProbe i) = encoded_path i ''/probe''"
| "provider_path (PostPrewarm i) = encoded_path i ''/prewarm''"
| "provider_path (PostClearRoute i) = encoded_path i ''/route-state/clear''"
| "provider_path (PostProvider p) = Some (js ''/api/v1/agent/providers'')"
| "provider_path (PostModels p) = Some (js ''/api/v1/agent/providers/models'')"
| "provider_path (PatchProvider i p) = Some (js ''/api/v1/agent/providers/'' @ i)"
| "provider_path (PutActive i) = Some (js ''/api/v1/agent/providers/active'')"
| "provider_path (DeleteProvider i) = Some (js ''/api/v1/agent/providers/'' @ i)"

text \<open>The parameters of a gateway query: blank texts and numbers that are not positive are left out.\<close>

definition text_parameter :: "string \<Rightarrow> jsstring option \<Rightarrow> (string \<times> jsstring) list" where
  "text_parameter name v = (case trimmed v of None \<Rightarrow> [] | Some t \<Rightarrow> [(name, t)])"

definition number_parameter :: "string \<Rightarrow> js_number option \<Rightarrow> (string \<times> jsstring) list" where
  "number_parameter name v =
     (case v of Some (Finite x) \<Rightarrow> if x > 0 then [(name, js_of_int \<lfloor>x\<rfloor>)] else [] | _ \<Rightarrow> [])"

definition gateway_parameters :: "AgentProviderGatewaySnapshotQuery option \<Rightarrow> (string \<times> jsstring) list" where
  "gateway_parameters query =
     text_parameter ''provider_id'' (Option.bind query query_providerID) @ text_parameter ''status'' (Option.bind query query_status)
     @ text_parameter ''query'' (Option.bind query query_query) @ number_parameter ''offset'' (Option.bind query query_offset)
     @ number_parameter ''limit'' (Option.bind query query_limit)"

record mutation_reply =
  reply_provider :: AgentProviderDetails
  reply_catalog :: catalog_reply

text \<open>Each request reads its part of the answer. A probe and a preparation name the route they were about.\<close>

record provider_answer =
  got_catalog :: "catalog_reply provider_reply"
  got_gateway :: "gateway_reply provider_reply"
  got_route :: "(jsstring option \<times> jsstring) provider_reply"
  got_mutation :: "mutation_reply provider_reply"
  got_models :: "jsstring list option provider_reply"

definition catalog_of :: "provider_answer \<Rightarrow> js_error + ProviderCatalog" where
  "catalog_of a = map_sum id normalizeProviderCatalog (fetchProviderRuntimeJSON (got_catalog a))"

definition gateway_of :: "provider_answer \<Rightarrow> js_error + GatewaySnapshot" where
  "gateway_of a = map_sum id normalizeProviderGatewaySnapshot (fetchProviderRuntimeJSON (got_gateway a))"

definition normalizeProviderMutationResponse :: "mutation_reply \<Rightarrow> AgentProviderDetails \<times> ProviderCatalog" where
  "normalizeProviderMutationResponse response =
     (normalizeProviderView (reply_provider response), normalizeProviderCatalog (reply_catalog response))"

definition mutation_of :: "provider_answer \<Rightarrow> js_error + AgentProviderDetails \<times> ProviderCatalog" where
  "mutation_of a = map_sum id normalizeProviderMutationResponse (fetchProviderRuntimeJSON (got_mutation a))"

definition models_of :: "provider_answer \<Rightarrow> js_error + jsstring list" where
  "models_of a = map_sum id normalizeChatModels (fetchProviderRuntimeJSON (got_models a))"

definition route_of :: "provider_answer \<Rightarrow> js_error + jsstring option \<times> jsstring" where
  "route_of a = fetchProviderRuntimeJSON (got_route a)"

section \<open>Actions of the gateway\<close>

datatype recovery_kind = ProbeKind | PrepareKind

definition getProviderGatewayRecoveryAction :: "GatewayProvider option \<Rightarrow> (recovery_kind \<times> jsstring) option" where
  "getProviderGatewayRecoveryAction route =
     (case route of
        None \<Rightarrow> None
      | Some p \<Rightarrow>
          if \<not> route_enabled p then None
          else
            (let status = map_option js_trim (route_status_state p);
                 code = map_option js_trim (last_error_code p)
             in if status \<in> {Some [], Some (js ''unchecked'')} then Some (ProbeKind, js ''Probe route'')
                else if status = Some (js ''missing'') then Some (ProbeKind, js ''Re-check binary'')
                else if status = Some (js ''auth-required'') then Some (ProbeKind, js ''Re-check auth'')
                else if status = Some (js ''unreachable'') then Some (ProbeKind, js ''Retry route probe'')
                else if status = Some (js ''model-unavailable'') then Some (ProbeKind, js ''Re-check models'')
                else if code \<in> {Some (js ''timeout''), Some (js ''unreachable''), Some (js ''upstream_rejected'')}
                then Some (PrepareKind, js ''Retry route prepare'')
                else if code = Some (js ''missing_binary'') then Some (ProbeKind, js ''Re-check binary'')
                else if code = Some (js ''auth_required'') then Some (ProbeKind, js ''Re-check auth'')
                else if code = Some (js ''model_unavailable'') then Some (ProbeKind, js ''Re-check models'')
                else if code = Some (js ''invalid_config'') then Some (ProbeKind, js ''Re-check route'')
                else if \<not> route_prepared p \<or> map_option js_trim (route_prepare_state p) \<noteq> Some (js ''prepared'')
                then Some (PrepareKind, js ''Prepare route'')
                else Some (PrepareKind, js ''Refresh route'')))"

definition error_code_labels :: "(jsstring \<times> jsstring) list" where
  "error_code_labels =
     [(js ''missing_binary'', js ''Binary missing''), (js ''auth_required'', js ''Auth required''),
      (js ''timeout'', js ''Timed out''), (js ''unreachable'', js ''Route unreachable''),
      (js ''model_unavailable'', js ''Model unavailable''), (js ''invalid_config'', js ''Invalid config''),
      (js ''upstream_rejected'', js ''Upstream rejected request''), (js ''stream_cancelled'', js ''Cancelled''),
      (js ''provider_error'', js ''Provider error'')]"

definition formatProviderGatewayErrorCode :: "jsstring option \<Rightarrow> jsstring" where
  "formatProviderGatewayErrorCode errorCode = js_default (map_of error_code_labels (js_trim (js_default errorCode []))) []"

section \<open>Normal replies\<close>

text \<open>Normalising is done once: a provider from a catalogue is left alone by a second pass.\<close>

lemma trimmed_idem [simp]: "trimmed (trimmed v) = trimmed v"
  by (cases v) (auto simp: trimmed_def js_truthy_def)

lemma trim_or_idem: "js_trim b = b \<Longrightarrow> trim_or (Some (trim_or a b)) c = (if trim_or a b = [] then c else trim_or a b)"
  by (cases a) (auto simp: trim_or_def)

lemma trim_or_not_Nil: "b \<noteq> [] \<Longrightarrow> trim_or a b \<noteq> []"
  by (cases a) (auto simp: trim_or_def)

lemma unknown_trim [simp]: "js_trim (js ''unknown'') = js ''unknown''"
  by (simp add: js_simps)

lemma normalizeActor_name: "actor_username (normalizeActor a) \<noteq> []" "js_trim (actor_username (normalizeActor a)) = actor_username (normalizeActor a)"
proof -
  have "js ''unknown'' \<noteq> []" by simp
  then show "actor_username (normalizeActor a) \<noteq> []" by (simp add: normalizeActor_def trim_or_not_Nil del: js_Cons)
  show "js_trim (actor_username (normalizeActor a)) = actor_username (normalizeActor a)"
    by (cases a) (simp_all add: normalizeActor_def trim_or_def del: js_Cons)
qed

lemma seconds_idem: "seconds (seconds x) = seconds x" "whole (seconds x)" "0 \<le> seconds x"
proof -
  show "whole (seconds x)" by (simp add: seconds_def whole_min_max)
  show "0 \<le> seconds x" by (simp add: seconds_def)
  with \<open>whole (seconds x)\<close> show "seconds (seconds x) = seconds x" by (simp add: seconds_def [of "seconds x"] trunc_whole)
qed

lemma normalizeRoutePolicy_values:
  "\<exists>mode. prewarm_policy (normalizeRoutePolicy policy) = Some mode \<and> mode \<in> {js ''manual'', js ''on_activate'', js ''on_startup''}"
  "\<exists>x. warm_ttl_seconds (normalizeRoutePolicy policy) = Some (Finite x) \<and> 0 \<le> x \<and> whole x"
  by (auto simp: normalizeRoutePolicy_def Let_def seconds_idem split: option.split js_number.split simp del: js_Cons)

end
