(* ===== verification/Provider_Settings.thy ===== *)
theory Provider_Settings
  imports Provider_Client
begin

text \<open>
  The settings of the providers: the draft that is edited and the payloads it is sent as
  (\<^verbatim>\<open>features/agent/model/provider-settings-draft.ts\<close>) and the hook around it (\<^verbatim>\<open>use-agent-provider-settings.ts\<close>), whose
  asynchronous functions are programs of \<open>Async\<close> over the state of the hook.
\<close>

section \<open>Drafts\<close>

definition DEFAULT_CODEX_COMMAND :: jsstring where "DEFAULT_CODEX_COMMAND = js ''codex''"
definition DEFAULT_CODEX_MODEL :: jsstring where "DEFAULT_CODEX_MODEL = js ''gpt-5.4''"
definition DEFAULT_CLAUDE_COMMAND :: jsstring where "DEFAULT_CLAUDE_COMMAND = js ''claude''"
definition DEFAULT_CLAUDE_MODEL :: jsstring where "DEFAULT_CLAUDE_MODEL = js ''sonnet''"
definition DEFAULT_OPENAI_COMPATIBLE_BASE_URL :: jsstring where "DEFAULT_OPENAI_COMPATIBLE_BASE_URL = js ''http://127.0.0.1:8317''"
definition DEFAULT_OPENAI_COMPATIBLE_MODEL :: jsstring where "DEFAULT_OPENAI_COMPATIBLE_MODEL = js ''gpt-5.4''"

definition requireText :: "jsstring \<Rightarrow> string \<Rightarrow> jsstring + jsstring" where
  "requireText v label =
     (let normalized = js_trim v in if normalized = [] then Inl (js label @ js '' is required.'') else Inr normalized)"

datatype AgentProviderDraftMode = ExistingDraft | NewDraft

record AgentProviderDraft =
  draft_mode :: AgentProviderDraftMode
  draft_id :: "jsstring option"
  draft_kind :: jsstring
  draft_displayName :: jsstring
  draft_enabled :: bool
  draft_ownerUsername :: jsstring
  draft_visibility :: jsstring
  draft_allowedUsers :: jsstring
  draft_prewarmPolicy :: jsstring
  draft_warmTTLSeconds :: js_number
  draft_codexCommand :: jsstring
  draft_codexModel :: jsstring
  draft_claudeCommand :: jsstring
  draft_claudeModel :: jsstring
  draft_baseURL :: jsstring
  draft_sourceModel :: jsstring

definition createEmptyProviderDraft :: "jsstring \<Rightarrow> AgentProviderDraft" where
  "createEmptyProviderDraft kind =
     \<lparr>draft_mode = NewDraft, draft_id = None, draft_kind = kind, draft_displayName = [], draft_enabled = True,
      draft_ownerUsername = [], draft_visibility = js ''private'', draft_allowedUsers = [],
      draft_prewarmPolicy = js ''manual'', draft_warmTTLSeconds = Finite 900,
      draft_codexCommand = DEFAULT_CODEX_COMMAND, draft_codexModel = DEFAULT_CODEX_MODEL,
      draft_claudeCommand = DEFAULT_CLAUDE_COMMAND, draft_claudeModel = DEFAULT_CLAUDE_MODEL,
      draft_baseURL = DEFAULT_OPENAI_COMPATIBLE_BASE_URL, draft_sourceModel = DEFAULT_OPENAI_COMPATIBLE_MODEL\<rparr>"

text \<open>\<open>users.join(', ')\<close>.\<close>

fun join_users :: "jsstring list \<Rightarrow> jsstring" where
  "join_users [] = []"
| "join_users [u] = u"
| "join_users (u # v # us) = u @ js '', '' @ join_users (v # us)"

definition createProviderDraftFromView :: "AgentProviderDetails \<Rightarrow> AgentProviderDraft" where
  "createProviderDraftFromView provider =
     (let access = js_default (pv_access provider)
            \<lparr>owner_username = js_default (map_option actor_username (pv_created_by provider)) [],
             access_visibility = Some (js ''private''), allowed_users = Some []\<rparr>;
          routePolicy = js_default (pv_route_policy provider)
            \<lparr>prewarm_policy = Some (js ''manual''), warm_ttl_seconds = Some (Finite 900)\<rparr>
      in \<lparr>draft_mode = ExistingDraft, draft_id = Some (pv_id provider), draft_kind = pv_kind provider,
          draft_displayName = pv_display_name provider, draft_enabled = pv_enabled provider,
          draft_ownerUsername = owner_username access,
          draft_visibility = js_default (access_visibility access) (js ''private''),
          draft_allowedUsers = join_users (js_default (allowed_users access) []),
          draft_prewarmPolicy = js_default (prewarm_policy routePolicy) (js ''manual''),
          draft_warmTTLSeconds = js_default (warm_ttl_seconds routePolicy) (Finite 900),
          draft_codexCommand = js_default (Option.bind (pv_codex provider) ps_command) DEFAULT_CODEX_COMMAND,
          draft_codexModel = js_default (Option.bind (pv_codex provider) ps_model) DEFAULT_CODEX_MODEL,
          draft_claudeCommand = js_default (Option.bind (pv_claude provider) ps_command) DEFAULT_CLAUDE_COMMAND,
          draft_claudeModel = js_default (Option.bind (pv_claude provider) ps_model) DEFAULT_CLAUDE_MODEL,
          draft_baseURL = js_default (Option.bind (pv_openai_compatible provider) ps_base_url) DEFAULT_OPENAI_COMPATIBLE_BASE_URL,
          draft_sourceModel = js_default (Option.bind (pv_openai_compatible provider) ps_model) DEFAULT_OPENAI_COMPATIBLE_MODEL\<rparr>)"

text \<open>\<open>Math.max(0, Math.trunc(value || 0))\<close>.\<close>

fun ttl_payload :: "js_number \<Rightarrow> js_number" where
  "ttl_payload (Finite x) = Finite (seconds x)"
| "ttl_payload PlusInfinity = PlusInfinity"
| "ttl_payload _ = Finite 0"

definition split_users :: "jsstring \<Rightarrow> jsstring list" where
  "split_users users = filter (\<lambda>u. u \<noteq> []) (map js_trim (js_split 44 users))"

definition common_payload :: "AgentProviderDraft \<Rightarrow> provider_payload" where
  "common_payload draft =
     \<lparr>payload_kind = None, payload_display_name = Some (js_trim (draft_displayName draft)), payload_enabled = Some (draft_enabled draft),
      payload_access = Some \<lparr>payload_owner_username = js_trim (draft_ownerUsername draft),
        payload_visibility = js_trim (draft_visibility draft), payload_allowed_users = split_users (draft_allowedUsers draft)\<rparr>,
      payload_route_policy = Some \<lparr>payload_prewarm_policy = draft_prewarmPolicy draft,
        payload_warm_ttl_seconds = ttl_payload (draft_warmTTLSeconds draft)\<rparr>,
      payload_codex = None, payload_claude = None, payload_openai_compatible = None\<rparr>"

definition command_settings :: "jsstring \<Rightarrow> jsstring \<Rightarrow> provider_settings" where
  "command_settings command model =
     \<lparr>ps_command = Some command, ps_base_url = None, ps_model = Some model, ps_chat_models = None\<rparr>"

definition source_settings :: "jsstring \<Rightarrow> jsstring \<Rightarrow> provider_settings" where
  "source_settings url model =
     \<lparr>ps_command = None, ps_base_url = Some url, ps_model = Some model, ps_chat_models = None\<rparr>"

definition with_texts :: "jsstring \<Rightarrow> string \<Rightarrow> jsstring \<Rightarrow> string \<Rightarrow> (jsstring \<Rightarrow> jsstring \<Rightarrow> 'x) \<Rightarrow> jsstring + 'x" where
  "with_texts v1 label1 v2 label2 f =
     (case requireText v1 label1 of Inl e \<Rightarrow> Inl e | Inr t1 \<Rightarrow>
       (case requireText v2 label2 of Inl e \<Rightarrow> Inl e | Inr t2 \<Rightarrow> Inr (f t1 t2)))"

definition kind_payload :: "AgentProviderDraft \<Rightarrow> provider_payload \<Rightarrow> jsstring + provider_payload" where
  "kind_payload draft payload =
     (if draft_kind draft = js ''codex'' then
        with_texts (draft_codexCommand draft) ''Codex command'' (draft_codexModel draft) ''Codex model''
          (\<lambda>c m. payload\<lparr>payload_codex := Some (command_settings c m)\<rparr>)
      else if draft_kind draft = js ''claude'' then
        with_texts (draft_claudeCommand draft) ''Claude command'' (draft_claudeModel draft) ''Claude model''
          (\<lambda>c m. payload\<lparr>payload_claude := Some (command_settings c m)\<rparr>)
      else if draft_kind draft = js ''openai-compatible'' then
        with_texts (draft_baseURL draft) ''Source URL'' (draft_sourceModel draft) ''Source model''
          (\<lambda>u m. payload\<lparr>payload_openai_compatible := Some (source_settings u m)\<rparr>)
      else Inl (js ''Unsupported provider kind: '' @ draft_kind draft))"

definition buildCreateProviderPayload :: "AgentProviderDraft \<Rightarrow> jsstring + provider_payload" where
  "buildCreateProviderPayload draft = kind_payload draft ((common_payload draft)\<lparr>payload_kind := Some (draft_kind draft)\<rparr>)"

definition buildUpdateProviderPayload :: "AgentProviderDraft \<Rightarrow> jsstring + provider_payload" where
  "buildUpdateProviderPayload draft =
     (if \<not> js_truthy (draft_id draft) then Inl (js ''Existing provider id is required.'')
      else kind_payload draft (common_payload draft))"

section \<open>The state of the hook\<close>

datatype ProviderHistoryStatusFilter = StatusAll | StatusFailed | StatusSucceeded | StatusCancelled

datatype ProviderHistoryScopeFilter = ScopeSelected | ScopeAllProviders

definition providerGatewayHistoryLimit :: rat where "providerGatewayHistoryLimit = 20"

record provider_panel =
  pp_catalog :: "ProviderCatalog option"
  pp_gateway :: "GatewaySnapshot option"
  pp_gatewayErrorMessage :: "jsstring option"
  pp_historyRuns :: "jsstring list"
  pp_historyErrorMessage :: "jsstring option"
  pp_draft :: "AgentProviderDraft option"
  pp_selectedProviderID :: "jsstring option"
  pp_isLoading :: bool
  pp_isSaving :: bool
  pp_errorMessage :: "jsstring option"
  pp_statusMessage :: "jsstring option"
  pp_availableModels :: "jsstring list"
  pp_isLoadingModels :: bool
  pp_modelErrorMessage :: "jsstring option"
  pp_probeErrorMessage :: "jsstring option"
  pp_isProbing :: bool
  pp_isPreparing :: bool
  pp_historyQuery :: jsstring
  pp_historyStatus :: ProviderHistoryStatusFilter
  pp_historyScope :: ProviderHistoryScopeFilter
  pp_historyLimit :: rat
  pp_historyOffset :: rat
  pp_historyTotal :: rat
  pp_historyHasMore :: bool
  pp_isHistoryLoading :: bool

definition initial_provider_panel :: provider_panel where
  "initial_provider_panel =
     \<lparr>pp_catalog = None, pp_gateway = None, pp_gatewayErrorMessage = None, pp_historyRuns = [], pp_historyErrorMessage = None,
      pp_draft = None, pp_selectedProviderID = None, pp_isLoading = True, pp_isSaving = False, pp_errorMessage = None,
      pp_statusMessage = None, pp_availableModels = [], pp_isLoadingModels = False, pp_modelErrorMessage = None,
      pp_probeErrorMessage = None, pp_isProbing = False, pp_isPreparing = False, pp_historyQuery = [],
      pp_historyStatus = StatusAll, pp_historyScope = ScopeSelected, pp_historyLimit = providerGatewayHistoryLimit,
      pp_historyOffset = 0, pp_historyTotal = 0, pp_historyHasMore = False, pp_isHistoryLoading = False\<rparr>"

type_synonym 'x provider_task = "(provider_panel, provider_call, provider_answer, js_error, 'x) task"

definition settings_error :: "js_error \<Rightarrow> jsstring" where
  "settings_error error =
     (case error of Some message \<Rightarrow> if js_trim message \<noteq> [] then message else js ''Unable to update provider settings.''
      | None \<Rightarrow> js ''Unable to update provider settings.'')"

definition getPreferredProvider :: "ProviderCatalog \<Rightarrow> jsstring option \<Rightarrow> AgentProviderDetails option" where
  "getPreferredProvider catalog preferredID =
     (case (if js_truthy preferredID then List.find (\<lambda>p. Some (pv_id p) = preferredID) (providers catalog) else None) of
        Some p \<Rightarrow> Some p
      | None \<Rightarrow>
          (case List.find (\<lambda>p. pv_id p = active_provider_id catalog) (providers catalog) of
             Some p \<Rightarrow> Some p
           | None \<Rightarrow> js_nth (providers catalog) 0))"

definition getDraftModelValue :: "AgentProviderDraft option \<Rightarrow> jsstring" where
  "getDraftModelValue draft =
     (case draft of
        None \<Rightarrow> []
      | Some d \<Rightarrow>
          if draft_kind d = js ''codex'' then draft_codexModel d
          else if draft_kind d = js ''claude'' then draft_claudeModel d
          else if draft_kind d = js ''openai-compatible'' then draft_sourceModel d
          else [])"

definition uniqueModels :: "jsstring list \<Rightarrow> jsstring list" where
  "uniqueModels models =
     foldl (\<lambda>deduped raw. let model = js_trim raw in if model = [] \<or> model \<in> set deduped then deduped else deduped @ [model])
       [] models"

definition empty_update :: provider_payload where
  "empty_update = \<lparr>payload_kind = None, payload_display_name = None, payload_enabled = None, payload_access = None,
     payload_route_policy = None, payload_codex = None, payload_claude = None, payload_openai_compatible = None\<rparr>"

definition chat_models_only :: "jsstring list \<Rightarrow> provider_settings" where
  "chat_models_only models = \<lparr>ps_command = None, ps_base_url = None, ps_model = None, ps_chat_models = Some models\<rparr>"

definition buildChatModelsUpdatePayload :: "AgentProviderDetails \<Rightarrow> jsstring list \<Rightarrow> jsstring + provider_payload" where
  "buildChatModelsUpdatePayload provider chatModels =
     (if pv_kind provider = js ''codex'' then Inr (empty_update\<lparr>payload_codex := Some (chat_models_only chatModels)\<rparr>)
      else if pv_kind provider = js ''claude'' then Inr (empty_update\<lparr>payload_claude := Some (chat_models_only chatModels)\<rparr>)
      else if pv_kind provider = js ''openai-compatible''
      then Inr (empty_update\<lparr>payload_openai_compatible := Some (chat_models_only chatModels)\<rparr>)
      else Inl (js ''Provider kind '' @ pv_kind provider @ js '' does not support chat model availability.''))"

section \<open>The functions of the hook\<close>

definition reloadGateway :: "unit provider_task" where
  "reloadGateway =
     onError
       (seq (request (GetGateway []) gateway_of) (\<lambda>nextGateway.
          put (\<lambda>s. s\<lparr>pp_gateway := Some nextGateway, pp_gatewayErrorMessage := None\<rparr>)))
       (\<lambda>error. put (\<lambda>s. s\<lparr>pp_gateway := None, pp_gatewayErrorMessage := Some (settings_error error)\<rparr>))"

fun status_parameter :: "ProviderHistoryStatusFilter \<Rightarrow> jsstring option" where
  "status_parameter StatusAll = None"
| "status_parameter StatusFailed = Some (js ''failed'')"
| "status_parameter StatusSucceeded = Some (js ''succeeded'')"
| "status_parameter StatusCancelled = Some (js ''cancelled'')"

definition history_query :: "provider_panel \<Rightarrow> AgentProviderGatewaySnapshotQuery" where
  "history_query seen =
     \<lparr>query_providerID = (if pp_historyScope seen = ScopeSelected then pp_selectedProviderID seen else None),
      query_status = status_parameter (pp_historyStatus seen), query_query = Some (pp_historyQuery seen),
      query_offset = Some (Finite (pp_historyOffset seen)), query_limit = Some (Finite (pp_historyLimit seen))\<rparr>"

definition reloadHistory :: "provider_panel \<Rightarrow> unit provider_task" where
  "reloadHistory seen =
     (if pp_catalog seen = None \<or> (pp_historyScope seen = ScopeSelected \<and> \<not> js_truthy (pp_selectedProviderID seen))
      then put (\<lambda>s. s\<lparr>pp_historyRuns := [], pp_historyErrorMessage := None, pp_isHistoryLoading := False\<rparr>)
      else
        seq (put (\<lambda>s. s\<lparr>pp_isHistoryLoading := True\<rparr>)) (\<lambda>_.
          finally_do
            (onError
              (seq (request (GetGateway (gateway_parameters (Some (history_query seen)))) gateway_of) (\<lambda>snapshot.
                put (\<lambda>s. s\<lparr>pp_historyRuns :=
                    (if pp_historyOffset seen > 0 then pp_historyRuns s @ recent_runs snapshot else recent_runs snapshot),
                  pp_historyTotal := recent_runs_total snapshot, pp_historyHasMore := recent_runs_has_more snapshot,
                  pp_historyErrorMessage := None\<rparr>)))
              (\<lambda>error. put (\<lambda>s. s\<lparr>pp_historyRuns := [], pp_historyTotal := 0, pp_historyHasMore := False,
                  pp_historyErrorMessage := Some (settings_error error)\<rparr>)))
            (put (\<lambda>s. s\<lparr>pp_isHistoryLoading := False\<rparr>))))"

definition selectProviderFromCatalog :: "ProviderCatalog \<Rightarrow> jsstring option \<Rightarrow> provider_panel \<Rightarrow> provider_panel" where
  "selectProviderFromCatalog nextCatalog providerID s =
     (let provider = getPreferredProvider nextCatalog providerID in
      s\<lparr>pp_catalog := Some nextCatalog, pp_selectedProviderID := map_option pv_id provider,
        pp_draft := map_option createProviderDraftFromView provider, pp_probeErrorMessage := None\<rparr>)"

definition show_error :: "js_error \<Rightarrow> unit provider_task" where
  "show_error error = put (\<lambda>s. s\<lparr>pp_errorMessage := Some (settings_error error)\<rparr>)"

definition set_status :: "jsstring \<Rightarrow> unit provider_task" where
  "set_status message = put (\<lambda>s. s\<lparr>pp_statusMessage := Some message\<rparr>)"

definition reloadCatalog :: "jsstring option \<Rightarrow> unit provider_task" where
  "reloadCatalog preferredProviderID =
     seq (put (\<lambda>s. s\<lparr>pp_isLoading := True, pp_errorMessage := None\<rparr>)) (\<lambda>_.
       finally_do
         (onError
           (seq (request GetCatalog catalog_of) (\<lambda>nextCatalog.
            seq (put (selectProviderFromCatalog nextCatalog preferredProviderID)) (\<lambda>_. reloadGateway)))
           show_error)
         (put (\<lambda>s. s\<lparr>pp_isLoading := False\<rparr>)))"

definition nonblank :: "jsstring \<Rightarrow> jsstring option" where
  "nonblank v = (if v = [] then None else Some v)"

definition models_payload :: "AgentProviderDraft \<Rightarrow> DiscoverAgentProviderModelsPayload" where
  "models_payload d =
     (let existing = (draft_mode d = ExistingDraft \<and> js_truthy (draft_id d));
          base = \<lparr>discover_provider_id = (if existing then draft_id d else None),
            discover_kind = (if existing then None else Some (if draft_kind d \<in> {js ''codex'', js ''claude''}
              then draft_kind d else js ''openai-compatible'')),
            discover_codex = None, discover_claude = None, discover_openai_compatible = None\<rparr>
      in if draft_kind d = js ''codex'' then base\<lparr>discover_codex := Some
             \<lparr>ps_command = nonblank (draft_codexCommand d), ps_base_url = None, ps_model = nonblank (draft_codexModel d), ps_chat_models = None\<rparr>\<rparr>
         else if draft_kind d = js ''claude'' then base\<lparr>discover_claude := Some
             \<lparr>ps_command = nonblank (draft_claudeCommand d), ps_base_url = None, ps_model = nonblank (draft_claudeModel d), ps_chat_models = None\<rparr>\<rparr>
         else base\<lparr>discover_openai_compatible := Some
             \<lparr>ps_command = None, ps_base_url = nonblank (draft_baseURL d), ps_model = nonblank (draft_sourceModel d), ps_chat_models = None\<rparr>\<rparr>)"

definition set_draft_model :: "jsstring \<Rightarrow> jsstring \<Rightarrow> AgentProviderDraft \<Rightarrow> AgentProviderDraft" where
  "set_draft_model kind model d =
     (if draft_kind d \<noteq> kind then d
      else if kind = js ''codex'' then d\<lparr>draft_codexModel := model\<rparr>
      else if kind = js ''claude'' then d\<lparr>draft_claudeModel := model\<rparr>
      else if kind = js ''openai-compatible'' then d\<lparr>draft_sourceModel := model\<rparr>
      else d)"

definition refreshAvailableModels :: "AgentProviderDraft option \<Rightarrow> unit provider_task" where
  "refreshAvailableModels nextDraft =
     (let currentModel = getDraftModelValue nextDraft;
          fallback = (if currentModel \<noteq> [] then [currentModel] else [])
      in case nextDraft of
           None \<Rightarrow> put (\<lambda>s. s\<lparr>pp_availableModels := fallback, pp_modelErrorMessage := None, pp_isLoadingModels := False\<rparr>)
         | Some d \<Rightarrow>
             seq (put (\<lambda>s. s\<lparr>pp_isLoadingModels := True, pp_modelErrorMessage := None\<rparr>)) (\<lambda>_.
               finally_do
                 (onError
                   (seq (request (PostModels (models_payload d)) models_of) (\<lambda>models.
                     let nextModels = uniqueModels (models @ [currentModel]) in
                     put (\<lambda>s. s\<lparr>pp_availableModels := nextModels, pp_draft :=
                       (if currentModel = [] \<and> nextModels \<noteq> []
                        then map_option (set_draft_model (draft_kind d) (hd nextModels)) (pp_draft s) else pp_draft s)\<rparr>)))
                   (\<lambda>error. put (\<lambda>s. s\<lparr>pp_availableModels := fallback, pp_modelErrorMessage := Some (settings_error error)\<rparr>)))
                 (put (\<lambda>s. s\<lparr>pp_isLoadingModels := False\<rparr>))))"

definition clear_messages :: "provider_panel \<Rightarrow> provider_panel" where
  "clear_messages s = s\<lparr>pp_errorMessage := None, pp_statusMessage := None, pp_probeErrorMessage := None\<rparr>"

definition selectProvider :: "provider_panel \<Rightarrow> jsstring \<Rightarrow> provider_panel \<Rightarrow> provider_panel" where
  "selectProvider seen providerID s =
     (case Option.bind (pp_catalog seen) (\<lambda>catalog. List.find (\<lambda>p. pv_id p = providerID) (providers catalog)) of
        None \<Rightarrow> s
      | Some p \<Rightarrow> clear_messages (s\<lparr>pp_selectedProviderID := Some (pv_id p), pp_draft := Some (createProviderDraftFromView p)\<rparr>))"

definition startCreateProvider :: "jsstring \<Rightarrow> provider_panel \<Rightarrow> provider_panel" where
  "startCreateProvider kind s =
     clear_messages (s\<lparr>pp_selectedProviderID := None, pp_draft := Some (createEmptyProviderDraft kind)\<rparr>)"

definition resetDraft :: "provider_panel \<Rightarrow> provider_panel \<Rightarrow> provider_panel" where
  "resetDraft seen s =
     (case pp_draft seen of
        None \<Rightarrow> s
      | Some d \<Rightarrow>
          if draft_mode d = NewDraft then clear_messages (s\<lparr>pp_draft := Some (createEmptyProviderDraft (draft_kind d))\<rparr>)
          else
            (case Option.bind (pp_catalog seen) (\<lambda>catalog. List.find (\<lambda>p. Some (pv_id p) = draft_id d) (providers catalog)) of
               None \<Rightarrow> s
             | Some p \<Rightarrow> clear_messages (s\<lparr>pp_draft := Some (createProviderDraftFromView p)\<rparr>)))"

text \<open>The frame of the commands that save: the mark, the messages, the errors.\<close>

definition saving :: "unit provider_task \<Rightarrow> unit provider_task" where
  "saving body =
     seq (put (\<lambda>s. s\<lparr>pp_isSaving := True, pp_errorMessage := None, pp_statusMessage := None\<rparr>)) (\<lambda>_.
       finally_do (onError body show_error) (put (\<lambda>s. s\<lparr>pp_isSaving := False\<rparr>)))"

definition built :: "jsstring + 'x \<Rightarrow> 'x provider_task" where
  "built payload = (case payload of Inl message \<Rightarrow> raise (Some message) | Inr x \<Rightarrow> ret x)"

definition provider_label :: "AgentProviderDetails \<Rightarrow> jsstring" where
  "provider_label p = (if pv_display_name p \<noteq> [] then pv_display_name p else pv_kind p)"

definition saveDraft :: "provider_panel \<Rightarrow> unit provider_task" where
  "saveDraft seen =
     (case pp_draft seen of
        None \<Rightarrow> ret ()
      | Some d \<Rightarrow> saving
          (if draft_mode d = NewDraft
           then
             seq (built (buildCreateProviderPayload d)) (\<lambda>payload.
             seq (request (PostProvider payload) mutation_of) (\<lambda>(provider, catalog).
             seq (put (selectProviderFromCatalog catalog (Some (pv_id provider)))) (\<lambda>_.
             seq reloadGateway (\<lambda>_.
             set_status (js ''Created '' @ provider_label provider @ js '' provider.'')))))
           else
             seq (built (buildUpdateProviderPayload d)) (\<lambda>payload.
             seq (request (PatchProvider (js_default (draft_id d) []) payload) mutation_of) (\<lambda>(provider, catalog).
             seq (put (selectProviderFromCatalog catalog (Some (pv_id provider)))) (\<lambda>_.
             seq reloadGateway (\<lambda>_.
             seq (reloadHistory seen) (\<lambda>_.
             set_status (js ''Saved '' @ provider_label provider @ js '' provider.''))))))))"

definition activateSelectedProvider :: "provider_panel \<Rightarrow> unit provider_task" where
  "activateSelectedProvider seen =
     (case pp_selectedProviderID seen of
        None \<Rightarrow> ret ()
      | Some i \<Rightarrow>
          if i = [] then ret ()
          else saving
            (seq (request (PutActive i) catalog_of) (\<lambda>nextCatalog.
             seq (put (selectProviderFromCatalog nextCatalog (Some i))) (\<lambda>_.
             seq reloadGateway (\<lambda>_.
             seq (reloadHistory seen) (\<lambda>_.
             let label = js_default (map_option provider_label (List.find (\<lambda>p. pv_id p = i) (providers nextCatalog))) [] in
             set_status (js ''Activated '' @ (if label \<noteq> [] then label else js ''provider'') @ js ''.'')))))))"

definition removeSelectedProvider :: "provider_panel \<Rightarrow> unit provider_task" where
  "removeSelectedProvider seen =
     (case pp_draft seen of
        None \<Rightarrow> ret ()
      | Some d \<Rightarrow>
          if draft_mode d \<noteq> ExistingDraft \<or> \<not> js_truthy (draft_id d) then ret ()
          else saving
            (seq (request (DeleteProvider (the (draft_id d))) catalog_of) (\<lambda>nextCatalog.
             seq (put (selectProviderFromCatalog nextCatalog (map_option pv_id (getPreferredProvider nextCatalog None)))) (\<lambda>_.
             seq reloadGateway (\<lambda>_.
             set_status (js ''Deleted '' @ (if draft_displayName d \<noteq> [] then draft_displayName d else draft_kind d)
               @ js '' provider.''))))))"

definition updateProviderChatModels :: "provider_panel \<Rightarrow> AgentProviderDetails \<Rightarrow> jsstring list \<Rightarrow> unit provider_task" where
  "updateProviderChatModels seen provider chatModels = saving
     (seq (built (buildChatModelsUpdatePayload provider (uniqueModels chatModels))) (\<lambda>payload.
      seq (request (PatchProvider (pv_id provider) payload) mutation_of) (\<lambda>(saved, catalog).
      seq (put (selectProviderFromCatalog catalog (Some (pv_id saved)))) (\<lambda>_.
      seq reloadGateway (\<lambda>_.
      seq (reloadHistory seen) (\<lambda>_.
      set_status (js ''Updated chat model availability for '' @ provider_label saved @ js ''.'')))))))"

text \<open>The frame of the commands on a route.\<close>

definition on_route ::
    "provider_panel \<Rightarrow> (jsstring \<Rightarrow> provider_call) \<Rightarrow> (bool \<Rightarrow> provider_panel \<Rightarrow> provider_panel)
      \<Rightarrow> (jsstring option \<times> jsstring \<Rightarrow> jsstring) \<Rightarrow> unit provider_task" where
  "on_route seen call mark text =
     (case pp_selectedProviderID seen of
        None \<Rightarrow> ret ()
      | Some i \<Rightarrow>
          if i = [] then ret ()
          else
            seq (put (\<lambda>s. mark True (s\<lparr>pp_probeErrorMessage := None\<rparr>))) (\<lambda>_.
              finally_do
                (onError
                  (seq (request (call i) route_of) (\<lambda>result.
                   seq reloadGateway (\<lambda>_.
                   seq (reloadHistory seen) (\<lambda>_. set_status (text result)))))
                  (\<lambda>error. put (\<lambda>s. s\<lparr>pp_probeErrorMessage := Some (settings_error error)\<rparr>)))
                (put (mark False))))"

definition route_label :: "jsstring option \<times> jsstring \<Rightarrow> jsstring" where
  "route_label result = (if js_truthy (fst result) then the (fst result) else snd result)"

definition mark_probing :: "bool \<Rightarrow> provider_panel \<Rightarrow> provider_panel" where
  "mark_probing b s = s\<lparr>pp_isProbing := b\<rparr>"

definition mark_preparing :: "bool \<Rightarrow> provider_panel \<Rightarrow> provider_panel" where
  "mark_preparing b s = s\<lparr>pp_isPreparing := b\<rparr>"

definition probeSelectedProvider :: "provider_panel \<Rightarrow> unit provider_task" where
  "probeSelectedProvider seen = on_route seen PostProbe mark_probing (\<lambda>r. js ''Probed '' @ route_label r @ js '' provider.'')"

definition prewarmSelectedProvider :: "provider_panel \<Rightarrow> unit provider_task" where
  "prewarmSelectedProvider seen = on_route seen PostPrewarm mark_preparing (\<lambda>r. js ''Prepared '' @ route_label r @ js '' route.'')"

definition clearSelectedProviderRouteState :: "provider_panel \<Rightarrow> unit provider_task" where
  "clearSelectedProviderRouteState seen =
     on_route seen PostClearRoute mark_preparing (\<lambda>r. js ''Cleared stored route state for the selected provider.'')"

definition loadMoreHistory :: "provider_panel \<Rightarrow> provider_panel \<Rightarrow> provider_panel" where
  "loadMoreHistory seen s =
     (if \<not> pp_historyHasMore seen \<or> pp_isHistoryLoading seen then s
      else s\<lparr>pp_historyOffset := pp_historyOffset s + pp_historyLimit seen\<rparr>)"

text \<open>The effects: the first load, the return to the first page, the timers of the history and of the models.\<close>

definition models_effect :: "provider_panel \<Rightarrow> unit provider_task" where
  "models_effect seen =
     (case pp_draft seen of
        None \<Rightarrow> put (\<lambda>s. s\<lparr>pp_availableModels := [], pp_isLoadingModels := False, pp_modelErrorMessage := None\<rparr>)
      | Some d \<Rightarrow> refreshAvailableModels (Some d))"

datatype provider_command =
    ReloadCatalog "jsstring option"
  | FirstPage
  | HistoryTimer
  | ModelsTimer
  | RefreshModels "AgentProviderDraft option"
  | SelectProviderCommand jsstring
  | StartCreate jsstring
  | ResetDraft
  | EditDraft "AgentProviderDraft option"
  | SaveDraft
  | ActivateSelected
  | RemoveSelected
  | UpdateChatModels AgentProviderDetails "jsstring list"
  | ProbeSelected
  | PrewarmSelected
  | ClearSelected
  | LoadMore
  | SetHistoryQuery jsstring
  | SetHistoryStatus ProviderHistoryStatusFilter
  | SetHistoryScope ProviderHistoryScopeFilter
  | SetHistoryLimit rat

fun useAgentProviderSettings :: "provider_panel \<Rightarrow> provider_command \<Rightarrow> unit provider_task" where
  "useAgentProviderSettings seen (ReloadCatalog i) = reloadCatalog i"
| "useAgentProviderSettings seen FirstPage = put (\<lambda>s. s\<lparr>pp_historyOffset := 0\<rparr>)"
| "useAgentProviderSettings seen HistoryTimer = reloadHistory seen"
| "useAgentProviderSettings seen ModelsTimer = models_effect seen"
| "useAgentProviderSettings seen (RefreshModels d) = refreshAvailableModels (js_nullish d (pp_draft seen))"
| "useAgentProviderSettings seen (SelectProviderCommand i) = put (selectProvider seen i)"
| "useAgentProviderSettings seen (StartCreate k) = put (startCreateProvider k)"
| "useAgentProviderSettings seen ResetDraft = put (resetDraft seen)"
| "useAgentProviderSettings seen (EditDraft d) = put (\<lambda>s. s\<lparr>pp_draft := d\<rparr>)"
| "useAgentProviderSettings seen SaveDraft = saveDraft seen"
| "useAgentProviderSettings seen ActivateSelected = activateSelectedProvider seen"
| "useAgentProviderSettings seen RemoveSelected = removeSelectedProvider seen"
| "useAgentProviderSettings seen (UpdateChatModels p ms) = updateProviderChatModels seen p ms"
| "useAgentProviderSettings seen ProbeSelected = probeSelectedProvider seen"
| "useAgentProviderSettings seen PrewarmSelected = prewarmSelectedProvider seen"
| "useAgentProviderSettings seen ClearSelected = clearSelectedProviderRouteState seen"
| "useAgentProviderSettings seen LoadMore = put (loadMoreHistory seen)"
| "useAgentProviderSettings seen (SetHistoryQuery q) = put (\<lambda>s. s\<lparr>pp_historyQuery := q\<rparr>)"
| "useAgentProviderSettings seen (SetHistoryStatus f) = put (\<lambda>s. s\<lparr>pp_historyStatus := f\<rparr>)"
| "useAgentProviderSettings seen (SetHistoryScope f) = put (\<lambda>s. s\<lparr>pp_historyScope := f\<rparr>)"
| "useAgentProviderSettings seen (SetHistoryLimit n) = put (\<lambda>s. s\<lparr>pp_historyLimit := n\<rparr>)"

definition provider_reach ::
    "provider_panel \<times> provider_panel \<times> (provider_panel, provider_call, provider_answer) async list \<Rightarrow> bool" where
  "provider_reach = async_reach (\<lambda>s. s = initial_provider_panel) (\<lambda>seen s. s)
     (\<lambda>c. \<exists>command. c = (\<lambda>seen. program (useAgentProviderSettings seen command)))"

section \<open>Drafts and payloads\<close>

lemma trim_leading_blank: "js_trim (32 # s) = js_trim s"
  by (simp add: js_trim_def js_space_def)

lemma split_users_blank: "split_users (32 # s) = split_users s"
  by (cases "js_split 44 s") (simp_all add: split_users_def trim_leading_blank)

lemma split_users_append: "44 \<notin> set u \<Longrightarrow> split_users (u @ 44 # s) = filter (\<lambda>u. u \<noteq> []) [js_trim u] @ split_users s"
  by (simp add: split_users_def js_split_append_sep js_split_single)

lemma split_join_users:
  "\<forall>u\<in>set us. 44 \<notin> set u \<and> js_trim u = u \<and> u \<noteq> [] \<Longrightarrow> split_users (join_users us) = us"
proof (induction us rule: join_users.induct)
  case 1
  show ?case by (simp add: split_users_def js_trim_def js_dropWhileEnd_def)
next
  case (2 u)
  then show ?case by (simp add: split_users_def js_split_single)
next
  case (3 u v us)
  have "split_users (join_users (u # v # us)) = u # split_users (join_users (v # us))"
    using 3(2) split_users_append [of u "32 # join_users (v # us)"] by (simp add: split_users_blank)
  then show ?case using 3 by simp
qed

lemma ttl_normal: "warm_ttl_seconds (normalizeRoutePolicy policy) = Some t \<Longrightarrow> ttl_payload t = t"
  using normalizeRoutePolicy_values(2) [of policy] by (auto simp: seconds_def trunc_whole max_def)

lemma trimmed_values: "trimmed v = Some t \<Longrightarrow> js_trim t = t"
  by (cases v) (auto simp: trimmed_def js_truthy_def split: if_splits)

lemma normal_owner: "js_trim (owner_username (normalizeAccessPolicy a (normalizeActor c))) = owner_username (normalizeAccessPolicy a (normalizeActor c))"
  using normalizeActor_name(2) [of c] by (cases a) (auto simp: normalizeAccessPolicy_def trim_or_def)

lemma normal_visibility:
  "js_trim (js_default (access_visibility (normalizeAccessPolicy a c)) (js ''private'')) =
     js_default (access_visibility (normalizeAccessPolicy a c)) (js ''private'')"
proof (cases "access_visibility (normalizeAccessPolicy a c)")
  case None
  then show ?thesis by (simp add: js_simps)
next
  case (Some t)
  then have "js_trim t = t" using trimmed_values by (simp add: normalizeAccessPolicy_def)
  then show ?thesis using Some by simp
qed

lemma normal_users:
  assumes "\<forall>u\<in>set (js_default (Option.bind a allowed_users) []). 44 \<notin> set u"
  shows "\<exists>us. allowed_users (normalizeAccessPolicy a c) = Some us \<and> split_users (join_users us) = us"
proof -
  obtain us where us: "allowed_users (normalizeAccessPolicy a c) = Some us" by (simp add: normalizeAccessPolicy_def)
  have "\<forall>u\<in>set us. 44 \<notin> set u \<and> js_trim u = u \<and> u \<noteq> []"
    using us assms set_js_trim by (fastforce simp: normalizeAccessPolicy_def split: option.splits)
  then show ?thesis using us split_join_users by blast
qed

lemma normal_access: "pv_access (normalizeProviderView raw) = Some (normalizeAccessPolicy (pv_access raw) (normalizeActor (pv_created_by raw)))"
  "pv_route_policy (normalizeProviderView raw) = Some (normalizeRoutePolicy (pv_route_policy raw))"
  by (simp_all add: normalizeProviderView_def Let_def)

lemma kind_payload_keeps:
  assumes "kind_payload d p = Inr q"
  shows "payload_display_name q = payload_display_name p" "payload_enabled q = payload_enabled p"
    "payload_access q = payload_access p" "payload_route_policy q = payload_route_policy p" "payload_kind q = payload_kind p"
  using assms by (auto simp: kind_payload_def with_texts_def split: if_splits sum.splits)

lemma kind_payload_settings:
  assumes "kind_payload d p = Inr q" "payload_codex p = None" "payload_claude p = None" "payload_openai_compatible p = None"
  shows "payload_codex q = (if draft_kind d = js ''codex''
      then Some (command_settings (js_trim (draft_codexCommand d)) (js_trim (draft_codexModel d))) else None)"
    "payload_claude q = (if draft_kind d = js ''claude''
      then Some (command_settings (js_trim (draft_claudeCommand d)) (js_trim (draft_claudeModel d))) else None)"
    "payload_openai_compatible q = (if draft_kind d = js ''openai-compatible''
      then Some (source_settings (js_trim (draft_baseURL d)) (js_trim (draft_sourceModel d))) else None)"
  using assms by (auto simp: kind_payload_def with_texts_def requireText_def Let_def split: if_splits sum.splits)

section \<open>Frames\<close>

text \<open>An update that leaves the marks of the commands alone.\<close>

definition plain :: "(provider_panel \<Rightarrow> provider_panel) \<Rightarrow> bool" where
  "plain f \<longleftrightarrow> (\<forall>s. pp_isSaving (f s) = pp_isSaving s \<and> pp_isProbing (f s) = pp_isProbing s \<and> pp_isPreparing (f s) = pp_isPreparing s)"

text \<open>A command that saves does nothing, or what it has to do inside the frame.\<close>

fun marking :: "provider_command \<Rightarrow> bool" where
  "marking (UpdateChatModels p ms) \<longleftrightarrow> True"
| "marking command \<longleftrightarrow> command \<in> {SaveDraft, ActivateSelected, RemoveSelected, ProbeSelected, PrewarmSelected, ClearSelected}"

definition saves :: "((provider_panel, provider_call, provider_answer) async \<Rightarrow> bool) \<Rightarrow> unit provider_task \<Rightarrow> bool" where
  "saves P m \<longleftrightarrow> m = ret () \<or> (\<exists>body. m = saving body \<and> passes P body)"

locale provider_basics = program_basics P ok
  for P :: "(provider_panel, provider_call, provider_answer) async \<Rightarrow> bool" and ok +
  assumes ok_plain: "plain f \<Longrightarrow> ok f"
begin

lemmas passes_plain = passes_control passes_put [OF ok_plain]

lemma passes_gateway: "passes P reloadGateway"
  unfolding reloadGateway_def by (intro passes_plain) (simp_all add: plain_def)

lemma passes_history: "passes P (reloadHistory seen)"
  unfolding reloadHistory_def by (intro passes_plain) (simp_all add: plain_def)

lemma passes_messages: "passes P (show_error e)" "passes P (set_status t)"
  unfolding show_error_def set_status_def by (intro passes_plain; simp add: plain_def)+

lemma passes_choose: "passes P (put (selectProviderFromCatalog catalog i))"
  by (intro passes_plain) (simp add: plain_def selectProviderFromCatalog_def Let_def)

lemma passes_built: "passes P (built x)"
  unfolding built_def by (cases x) (simp_all add: passes_raise passes_ret)

lemma passes_pair: "(\<And>x y. passes P (f x y)) \<Longrightarrow> passes P (case z of (x, y) \<Rightarrow> f x y)"
  by (cases z) simp

lemma passes_option: "passes P m \<Longrightarrow> (\<And>x. passes P (f x)) \<Longrightarrow> passes P (case v of None \<Rightarrow> m | Some x \<Rightarrow> f x)"
  by (cases v) simp_all

lemmas passes_parts = passes_pair passes_gateway passes_history passes_messages passes_choose passes_built

lemma passes_models: "passes P (refreshAvailableModels d)"
  unfolding refreshAvailableModels_def Let_def
  by (intro passes_option passes_plain) (simp_all add: plain_def)

lemma passes_models_effect: "passes P (models_effect seen)"
  unfolding models_effect_def by (intro passes_option passes_models passes_plain) (simp add: plain_def)

lemma passes_reload: "passes P (reloadCatalog i)"
  unfolding reloadCatalog_def by (intro passes_parts passes_plain) (simp_all add: plain_def selectProviderFromCatalog_def Let_def)

text \<open>What the commands do between their marks.\<close>

lemma passes_save_body:
  "passes P (seq (built payload) (\<lambda>payload. seq (request (call payload) mutation_of) (\<lambda>(provider, catalog).
     seq (put (selectProviderFromCatalog catalog (Some (pv_id provider)))) (\<lambda>_. seq reloadGateway (\<lambda>_.
     set_status (text provider))))))"
  "passes P (seq (built payload) (\<lambda>payload. seq (request (call payload) mutation_of) (\<lambda>(provider, catalog).
     seq (put (selectProviderFromCatalog catalog (Some (pv_id provider)))) (\<lambda>_. seq reloadGateway (\<lambda>_.
     seq (reloadHistory seen) (\<lambda>_. set_status (text provider)))))))"
  by (intro passes_seq passes_request passes_parts)+

lemma passes_activate_body:
  "passes P (seq (request call catalog_of) (\<lambda>catalog. seq (put (selectProviderFromCatalog catalog (i catalog))) (\<lambda>_.
     seq reloadGateway (\<lambda>_. seq (reloadHistory seen) (\<lambda>_. set_status (text catalog))))))"
  "passes P (seq (request call catalog_of) (\<lambda>catalog. seq (put (selectProviderFromCatalog catalog (i catalog))) (\<lambda>_.
     seq reloadGateway (\<lambda>_. set_status (text catalog)))))"
  by (intro passes_seq passes_request passes_parts)+

lemma passes_route_body:
  "passes P (onError (seq (request call route_of) (\<lambda>result. seq reloadGateway (\<lambda>_. seq (reloadHistory seen) (\<lambda>_.
     set_status (text result))))) (\<lambda>error. put (\<lambda>s. s\<lparr>pp_probeErrorMessage := Some (settings_error error)\<rparr>)))"
  by (intro passes_onError passes_seq passes_request passes_parts passes_put ok_plain) (simp add: plain_def)

lemmas passes_bodies = passes_save_body passes_activate_body

lemma saving_shape:
  "saves P (saveDraft seen)" "saves P (activateSelectedProvider seen)" "saves P (removeSelectedProvider seen)"
  "saves P (updateProviderChatModels seen provider chatModels)"
  unfolding saveDraft_def activateSelectedProvider_def removeSelectedProvider_def updateProviderChatModels_def Let_def saves_def
  by (auto split: option.split intro!: exI passes_bodies simp del: js_Cons)

lemma passes_put_commands:
  "passes P (put (selectProvider seen i))" "passes P (put (startCreateProvider kind))" "passes P (put (resetDraft seen))"
  "passes P (put (loadMoreHistory seen))"
  by (intro passes_plain; simp add: plain_def selectProvider_def startCreateProvider_def resetDraft_def loadMoreHistory_def
      clear_messages_def split: option.split)+

lemma passes_unmarked_command:
  "\<not> marking command \<Longrightarrow> passes P (useAgentProviderSettings seen command)"
  by (cases command) (auto intro!: passes_reload passes_history passes_models_effect passes_models passes_put_commands passes_put
      ok_plain simp: plain_def)

lemma passes_saving:
  "(\<And>b. ok (\<lambda>s. s\<lparr>pp_isSaving := b, pp_errorMessage := None, pp_statusMessage := None\<rparr>)) \<Longrightarrow> (\<And>b. ok (\<lambda>s. s\<lparr>pp_isSaving := b\<rparr>)) \<Longrightarrow>
    passes P body \<Longrightarrow> passes P (saving body)"
  unfolding saving_def by (intro passes_seq passes_finally passes_onError passes_messages) (simp_all add: passes_put)

lemma passes_on_route:
  "(\<And>b. ok (\<lambda>s. mark b (s\<lparr>pp_probeErrorMessage := None\<rparr>))) \<Longrightarrow> (\<And>b. ok (mark b)) \<Longrightarrow> passes P (on_route seen call mark text)"
  unfolding on_route_def
  by (intro passes_option passes_if passes_ret passes_seq passes_finally passes_route_body) (simp_all add: passes_put)

end

text \<open>A property of updates.\<close>

locale plain_updates = update_property R for R :: "provider_panel \<Rightarrow> provider_panel \<Rightarrow> bool" +
  assumes R_plain: "plain f \<Longrightarrow> \<forall>s. R s (f s)"

sublocale plain_updates \<subseteq> settings: provider_basics "updates R" "\<lambda>f. \<forall>s. R s (f s)"
  by unfold_locales (simp_all add: R_plain)

interpretation saving_mark: plain_updates "quiet pp_isSaving" by unfold_locales (auto simp: plain_def)
interpretation probing_mark: plain_updates "quiet pp_isProbing" by unfold_locales (auto simp: plain_def)
interpretation preparing_mark: plain_updates "quiet pp_isPreparing" by unfold_locales (auto simp: plain_def)
interpretation settings_clearing: provider_basics "clears flag" "\<lambda>_. True" for flag by unfold_locales simp

text \<open>The marks of the commands, each with the programs that leave it alone or lower it.\<close>

lemma quiet_saving:
  "passes (updates (quiet pp_isProbing)) body \<Longrightarrow> passes (updates (quiet pp_isProbing)) (saving body)"
  "passes (updates (quiet pp_isPreparing)) body \<Longrightarrow> passes (updates (quiet pp_isPreparing)) (saving body)"
  by (rule probing_mark.settings.passes_saving preparing_mark.settings.passes_saving; simp)+

lemma quiet_route:
  "(\<And>b s. pp_isSaving (mark b s) = pp_isSaving s) \<Longrightarrow> passes (updates (quiet pp_isSaving)) (on_route seen call mark text)"
  "(\<And>b s. pp_isProbing (mark b s) = pp_isProbing s) \<Longrightarrow> passes (updates (quiet pp_isProbing)) (on_route seen call mark text)"
  "(\<And>b s. pp_isPreparing (mark b s) = pp_isPreparing s) \<Longrightarrow> passes (updates (quiet pp_isPreparing)) (on_route seen call mark text)"
  by (rule saving_mark.settings.passes_on_route probing_mark.settings.passes_on_route preparing_mark.settings.passes_on_route; simp)+

lemma saving_clears:
  "passes (clears pp_isSaving) body \<Longrightarrow> clears pp_isSaving (program (saving body))"
  unfolding saving_def by (intro clears_intros settings_clearing.passes_messages) (simp_all add: settings_clearing.passes_messages)

lemma on_route_tame:
  assumes "\<And>s. \<not> flag (mark False s)"
  shows "tame flag (program (on_route seen call mark text))"
proof (cases "js_truthy (pp_selectedProviderID seen)")
  case True
  then have "clears flag (program (on_route seen call mark text))"
    using assms unfolding on_route_def
    by (auto simp: js_truthy_def split: option.splits intro!: clears_prefix clears_finally settings_clearing.passes_route_body)
  then show ?thesis by (simp add: tame_def)
next
  case False
  then show ?thesis by (auto simp: tame_def on_route_def js_truthy_def program_def ret_def split: option.splits)
qed

lemma saves_tame:
  "saves (clears pp_isSaving) m \<Longrightarrow> tame pp_isSaving (program m)"
  "saves (updates (quiet pp_isProbing)) m \<Longrightarrow> tame pp_isProbing (program m)"
  "saves (updates (quiet pp_isPreparing)) m \<Longrightarrow> tame pp_isPreparing (program m)"
proof -
  have ret: "tame flag (program (ret () :: unit provider_task))" for flag by (simp add: tame_def program_def ret_def)
  show "saves (clears pp_isSaving) m \<Longrightarrow> tame pp_isSaving (program m)"
    using ret saving_clears by (auto simp: saves_def tame_def)
  show "saves (updates (quiet pp_isProbing)) m \<Longrightarrow> tame pp_isProbing (program m)"
    using ret [of pp_isProbing] updates_spawned [OF quiet_saving(1)] by (auto simp: saves_def tame_def)
  show "saves (updates (quiet pp_isPreparing)) m \<Longrightarrow> tame pp_isPreparing (program m)"
    using ret [of pp_isPreparing] updates_spawned [OF quiet_saving(2)] by (auto simp: saves_def tame_def)
qed

lemma quiet_tame: "passes (updates (quiet flag)) m \<Longrightarrow> tame flag (program m)"
  by (simp add: tame_def updates_spawned)

lemmas route_defs = probeSelectedProvider_def prewarmSelectedProvider_def clearSelectedProviderRouteState_def

lemma saving_commands_tame:
  assumes "flag \<in> {pp_isSaving, pp_isProbing, pp_isPreparing}"
  shows "tame flag (program (saveDraft seen))" "tame flag (program (activateSelectedProvider seen))"
    "tame flag (program (removeSelectedProvider seen))" "tame flag (program (updateProviderChatModels seen p ms))"
  using assms settings_clearing.saving_shape [where flag = pp_isSaving] probing_mark.settings.saving_shape
    preparing_mark.settings.saving_shape by (auto intro: saves_tame)

lemma route_tame:
  assumes "flag \<in> {pp_isSaving, pp_isProbing, pp_isPreparing}"
  shows "tame flag (program (on_route seen call mark_probing text))" "tame flag (program (on_route seen call mark_preparing text))"
proof -
  have "flag = pp_isProbing \<or> tame flag (program (on_route seen call mark_probing text))"
    using assms quiet_tame [OF quiet_route(1)] quiet_tame [OF quiet_route(3)] by (auto simp: mark_probing_def)
  then show "tame flag (program (on_route seen call mark_probing text))" by (auto simp: mark_probing_def intro: on_route_tame)
  have "flag = pp_isPreparing \<or> tame flag (program (on_route seen call mark_preparing text))"
    using assms quiet_tame [OF quiet_route(1)] quiet_tame [OF quiet_route(2)] by (auto simp: mark_preparing_def)
  then show "tame flag (program (on_route seen call mark_preparing text))" by (auto simp: mark_preparing_def intro: on_route_tame)
qed

lemma unmarked_tame:
  assumes "flag \<in> {pp_isSaving, pp_isProbing, pp_isPreparing}" "\<not> marking command"
  shows "tame flag (program (useAgentProviderSettings seen command))"
  using assms(1) quiet_tame [OF saving_mark.settings.passes_unmarked_command [OF assms(2)]]
    quiet_tame [OF probing_mark.settings.passes_unmarked_command [OF assms(2)]]
    quiet_tame [OF preparing_mark.settings.passes_unmarked_command [OF assms(2)]] by auto

lemma command_tame:
  assumes "flag \<in> {pp_isSaving, pp_isProbing, pp_isPreparing}"
  shows "tame flag (program (useAgentProviderSettings seen command))"
proof (cases "marking command")
  case True
  then show ?thesis
    using saving_commands_tame [OF assms] route_tame [OF assms] by (cases command) (simp_all add: route_defs del: js_Cons)
qed (rule unmarked_tame [OF assms])

section \<open>Properties\<close>

lemma first_settings_command:
  "provider_reach (fst (run_task (useAgentProviderSettings initial_provider_panel c) initial_provider_panel), initial_provider_panel,
     snd (run_task (useAgentProviderSettings initial_provider_panel c) initial_provider_panel) @ [])"
  unfolding provider_reach_def
proof (rule reach_command [OF reach_start])
  show "advance (program (useAgentProviderSettings initial_provider_panel c)) initial_provider_panel =
      (fst (run_task (useAgentProviderSettings initial_provider_panel c) initial_provider_panel),
       snd (run_task (useAgentProviderSettings initial_provider_panel c) initial_provider_panel))"
    by (simp add: run_task_def)
qed auto

definition example_details :: AgentProviderDetails where
  "example_details =
     \<lparr>pv_id = js ''p1'', pv_kind = js ''codex'', pv_display_name = js ''Codex'', pv_enabled = True,
      pv_codex = Some \<lparr>ps_command = Some (js ''codex''), ps_base_url = None, ps_model = Some (js '' m ''), ps_chat_models = None\<rparr>,
      pv_claude = None, pv_openai_compatible = None, pv_active = True,
      pv_access = Some \<lparr>owner_username = js ''ann '', access_visibility = None, allowed_users = Some [js ''bob'', js '' eve'']\<rparr>,
      pv_created_by = None, pv_updated_by = None,
      pv_route_policy = Some \<lparr>prewarm_policy = Some (js ''on_startup''), warm_ttl_seconds = Some (Finite 60)\<rparr>,
      pv_created_at = [], pv_updated_at = []\<rparr>"

text \<open>
  C11: a mark of the settings always ends: while a save, a probe or a preparation is marked as under way, in whatever
  interleaving of commands, timers and answers, a program waits that lowers the mark whatever the backend answers.
\<close>

theorem provider_marks_end:
  assumes "provider_reach (s, seen, ps)" "flag \<in> {pp_isSaving, pp_isProbing, pp_isPreparing}" "flag s"
  shows "\<exists>p\<in>set ps. \<forall>answers n t. \<not> flag (finish p answers n t)"
proof (rule flag_is_lowered [where flag = flag, OF assms(1) [unfolded provider_reach_def] assms(3)])
  show "\<And>s. s = initial_provider_panel \<Longrightarrow> \<not> flag s" using assms(2) by (auto simp: initial_provider_panel_def)
qed (use command_tame [OF assms(2)] in auto)

theorem provider_marks_end_witness:
  "\<exists>p\<in>set (snd (run_task (useAgentProviderSettings initial_provider_panel (UpdateChatModels example_details [])) initial_provider_panel)).
     \<forall>answers n t. \<not> pp_isSaving (finish p answers n t)"
proof -
  let ?r = "run_task (useAgentProviderSettings initial_provider_panel (UpdateChatModels example_details [])) initial_provider_panel"
  have "pp_isSaving (fst ?r)"
    by (simp add: updateProviderChatModels_def saving_def built_def buildChatModelsUpdatePayload_def example_details_def run_defs del: js_Cons)
  with provider_marks_end [where flag = pp_isSaving, OF first_settings_command [of "UpdateChatModels example_details []"]]
  show ?thesis by (simp del: useAgentProviderSettings.simps)
qed

text \<open>
  C16: what a draft that was not edited sends. For a provider as the client reads it from the backend, whose allowed
  users have no comma in their names, an update that can be built carries the provider's enabling, the owner, the
  allowed users and the visibility of its access policy, its route policy, and the settings of its own kind only. The
  display name, the command or address and the model are sent without blanks at their ends, and what is missing is sent
  as the default of the form: the default command, address or model of the kind, a private visibility, manual
  prewarming, 900 seconds. The list of chat models is not sent.
\<close>

theorem unchanged_draft_keeps_settings:
  assumes "p = normalizeProviderView raw" "\<forall>u\<in>set (js_default (Option.bind (pv_access raw) allowed_users) []). 44 \<notin> set u"
    and "buildUpdateProviderPayload (createProviderDraftFromView p) = Inr q"
  shows "payload_display_name q = Some (js_trim (pv_display_name p)) \<and> payload_enabled q = Some (pv_enabled p)
    \<and> payload_access q = map_option (\<lambda>access. \<lparr>payload_owner_username = owner_username access,
        payload_visibility = js_default (access_visibility access) (js ''private''),
        payload_allowed_users = js_default (allowed_users access) []\<rparr>) (pv_access p)
    \<and> payload_route_policy q = map_option (\<lambda>policy. \<lparr>payload_prewarm_policy = js_default (prewarm_policy policy) (js ''manual''),
        payload_warm_ttl_seconds = js_default (warm_ttl_seconds policy) (Finite 900)\<rparr>) (pv_route_policy p)
    \<and> payload_codex q = (if pv_kind p = js ''codex'' then Some (command_settings
        (js_trim (js_default (Option.bind (pv_codex p) ps_command) DEFAULT_CODEX_COMMAND))
        (js_trim (js_default (Option.bind (pv_codex p) ps_model) DEFAULT_CODEX_MODEL))) else None)
    \<and> payload_claude q = (if pv_kind p = js ''claude'' then Some (command_settings
        (js_trim (js_default (Option.bind (pv_claude p) ps_command) DEFAULT_CLAUDE_COMMAND))
        (js_trim (js_default (Option.bind (pv_claude p) ps_model) DEFAULT_CLAUDE_MODEL))) else None)
    \<and> payload_openai_compatible q = (if pv_kind p = js ''openai-compatible'' then Some (source_settings
        (js_trim (js_default (Option.bind (pv_openai_compatible p) ps_base_url) DEFAULT_OPENAI_COMPATIBLE_BASE_URL))
        (js_trim (js_default (Option.bind (pv_openai_compatible p) ps_model) DEFAULT_OPENAI_COMPATIBLE_MODEL))) else None)"
  proof -
  let ?a = "normalizeAccessPolicy (pv_access raw) (normalizeActor (pv_created_by raw))"
  let ?r = "normalizeRoutePolicy (pv_route_policy raw)"
  obtain us where us: "allowed_users ?a = Some us" "split_users (join_users us) = us" using normal_users [OF assms(2)] by blast
  obtain t where t: "warm_ttl_seconds ?r = Some t" using normalizeRoutePolicy_values(2) by blast
  have access: "pv_access p = Some ?a" "pv_route_policy p = Some ?r" using assms(1) normal_access by simp_all
  have built: "kind_payload (createProviderDraftFromView p) (common_payload (createProviderDraftFromView p)) = Inr q"
    using assms(3) by (simp add: buildUpdateProviderPayload_def split: if_splits)
  from kind_payload_keeps [OF built] kind_payload_settings [OF built] show ?thesis
    using us t ttl_normal [OF t] normal_owner normal_visibility access
    by (simp add: common_payload_def createProviderDraftFromView_def Let_def del: js_Cons)
qed

theorem unchanged_draft_keeps_settings_witness:
  "\<exists>q. buildUpdateProviderPayload (createProviderDraftFromView (normalizeProviderView example_details)) = Inr q
     \<and> payload_access q = Some \<lparr>payload_owner_username = js ''ann'', payload_visibility = js ''private'',
         payload_allowed_users = [js ''bob'', js ''eve'']\<rparr>
     \<and> payload_codex q = Some (command_settings (js ''codex'') (js ''m''))"
proof -
  obtain q where q: "buildUpdateProviderPayload (createProviderDraftFromView (normalizeProviderView example_details)) = Inr q"
    by (simp add: buildUpdateProviderPayload_def kind_payload_def with_texts_def requireText_def createProviderDraftFromView_def
        normalizeProviderView_def example_details_def Let_def js_simps normalize_settings_def)
  have "\<forall>u\<in>set (js_default (Option.bind (pv_access example_details) allowed_users) []). 44 \<notin> set u"
    by (simp add: example_details_def js_simps)
  from unchanged_draft_keeps_settings [OF refl this q] q show ?thesis
    by (simp add: normalizeProviderView_def example_details_def Let_def normalizeAccessPolicy_def trim_or_def trimmed_def
        normalize_settings_def js_simps)
qed

text \<open>A draft that lacks a text is not sent: the save ends at once with the error and without its mark.\<close>

theorem invalid_draft_not_sent:
  assumes "pp_draft seen = Some d"
    and "(if draft_mode d = NewDraft then buildCreateProviderPayload d else buildUpdateProviderPayload d) = Inl message"
  shows "run_task (saveDraft seen) s =
    (s\<lparr>pp_isSaving := False, pp_errorMessage := Some (settings_error (Some message)), pp_statusMessage := None\<rparr>, [])"
  using assms by (simp add: saveDraft_def saving_def built_def show_error_def run_defs split: if_splits)

text \<open>The answer to a save selects the provider the backend returned, with a draft of its settings.\<close>

theorem created_provider_selected:
  assumes "run_task (saveDraft seen) s = (s1, [w])" "pp_draft seen = Some d" "draft_mode d = NewDraft"
    and "mutation_of a = Inr (provider, catalog)" "pv_id provider \<noteq> []"
    and "List.find (\<lambda>p. pv_id p = pv_id provider) (providers catalog) = Some stored"
  shows "pp_selectedProviderID (fst (advance (resume w a) s2)) = Some (pv_id stored)
    \<and> pp_draft (fst (advance (resume w a) s2)) = Some (createProviderDraftFromView stored)
    \<and> (\<exists>k. snd (advance (resume w a) s2) = [Call (GetGateway []) k])"
proof -
  obtain payload where "buildCreateProviderPayload d = Inr payload"
    using assms(1-3) by (cases "buildCreateProviderPayload d") (auto simp: saveDraft_def saving_def built_def show_error_def run_defs)
  then show ?thesis
    using assms by (auto simp: saveDraft_def saving_def built_def run_defs reloadGateway_def selectProviderFromCatalog_def
        getPreferredProvider_def js_truthy_def Let_def)
qed

section \<open>Departures\<close>

text \<open>
  Below the first page, the history is appended to what is shown: reloading it after a save, an activation, a probe or a
  preparation shows its last page twice.
\<close>

lemma reload_repeats_page:
  assumes "run_task (reloadHistory seen) s = (s1, [p])" "pp_historyOffset seen > 0" "gateway_of a = Inr snapshot"
  shows "pp_historyRuns (fst (advance (resume p a) s2)) = pp_historyRuns s2 @ recent_runs snapshot"
  using assms by (auto simp: reloadHistory_def run_defs split: if_splits)

text \<open>A user with a comma in the name becomes two.\<close>

lemma comma_splits_user: "split_users (join_users [js ''a,b'']) = [js ''a'', js ''b'']"
  by (simp add: split_users_def js_simps)

text \<open>
  Updates and deletions put the id of the provider into the path as it is, where the requests about its route encode it:
  an id with a slash names another resource.
\<close>

lemma unencoded_id_leaves_resource:
  "provider_path (PatchProvider (js ''p/probe'') payload) = provider_path (PostProbe (js ''p''))"
  by (simp add: encoded_path_def encodeURIComponent_def encode_point_def unreserved_def js_simps)

end
