(* ===== verification/Terminal_Types.thy ===== *)
theory Terminal_Types
  imports Agent_Conversation
begin

text \<open>
  The data of a terminal: the types of \<^verbatim>\<open>features/terminal/api/client.ts\<close> and \<^verbatim>\<open>model/types.ts\<close>, the state a terminal
  session keeps and the view the hook \<^verbatim>\<open>use-terminal-session.ts\<close> derives from it (lines 39 to 262), and the display
  names of \<^verbatim>\<open>model/display-widget-id.ts\<close>. Fields that no function reads (\<open>pid\<close>, \<open>exit_code\<close>, \<open>restored\<close>) are kept: the
  view passes the whole runtime state on.
\<close>

section \<open>Runtime data\<close>

record TerminalRuntimeState =
  rt_widget_id :: jsstring
  rt_session_id :: jsstring
  rt_shell :: jsstring
  rt_restored :: "bool option"
  rt_status_detail :: "jsstring option"
  rt_connection_id :: "jsstring option"
  rt_connection_name :: "jsstring option"
  rt_connection_kind :: "jsstring option"
  rt_remote_launch_mode :: "jsstring option"
  rt_remote_session_name :: "jsstring option"
  rt_pid :: int
  rt_status :: jsstring
  rt_started_at :: jsstring
  rt_last_output_at :: "jsstring option"
  rt_exit_code :: "int option"
  rt_can_send_input :: bool
  rt_can_interrupt :: bool
  rt_working_dir :: "jsstring option"

record TerminalOutputChunk =
  chunk_seq :: int
  chunk_data :: jsstring
  chunk_timestamp :: jsstring

record TerminalSnapshot =
  snap_state :: TerminalRuntimeState
  snap_chunks :: "TerminalOutputChunk list"
  snap_next_seq :: int
  snap_active_session_id :: "jsstring option"
  snap_sessions :: "TerminalRuntimeState list option"

record TerminalShellOption =
  shell_path :: jsstring
  shell_name :: jsstring
  shell_default :: "bool option"

record TerminalSessionRecordState =
  commandInputVersion :: nat
  ts_error :: "jsstring option"
  isCreatingSession :: bool
  isRecoveringStream :: bool
  isInterrupting :: bool
  ts_isLoading :: bool
  isLoadingShells :: bool
  isRestarting :: bool
  isSwitchingShell :: bool
  ts_snapshot :: "TerminalSnapshot option"
  shellOptions :: "TerminalShellOption list"
  shellOptionsLoaded :: bool
  streamRetryCount :: nat

definition initial_terminal_state :: TerminalSessionRecordState where
  "initial_terminal_state =
     \<lparr>commandInputVersion = 0, ts_error = None, isCreatingSession = False, isRecoveringStream = False,
      isInterrupting = False, ts_isLoading = False, isLoadingShells = False, isRestarting = False,
      isSwitchingShell = False, ts_snapshot = None, shellOptions = [], shellOptionsLoaded = False,
      streamRetryCount = 0\<rparr>"

section \<open>The view\<close>

datatype TerminalDisplayConnectionKind = DisplayLocal | DisplaySsh

datatype TerminalDisplaySessionState =
  SessionRunning | SessionIdle | SessionStarting | SessionExited | SessionFailed | SessionDisconnected

record TerminalSessionSeed =
  seed_runtimeWidgetId :: jsstring
  seed_title :: jsstring

record TerminalSessionListEntry =
  list_sessionId :: jsstring
  list_shellLabel :: jsstring
  list_connectionKind :: TerminalDisplayConnectionKind
  list_connectionName :: "jsstring option"
  list_remoteLaunchMode :: "jsstring option"
  list_remoteSessionName :: "jsstring option"
  list_sessionState :: TerminalDisplaySessionState
  list_statusDetail :: "jsstring option"
  list_cwd :: jsstring
  list_isActive :: bool
  list_runtimeState :: TerminalRuntimeState

record TerminalSessionView =
  view_runtimeWidgetId :: jsstring
  view_sessionKey :: jsstring
  view_commandInputVersion :: nat
  view_activeSessionId :: "jsstring option"
  view_cwd :: jsstring
  view_shellLabel :: jsstring
  view_connectionKind :: TerminalDisplayConnectionKind
  view_sessionState :: TerminalDisplaySessionState
  view_sessions :: "TerminalSessionListEntry list"
  view_canSendInput :: bool
  view_canInterrupt :: bool
  view_isCreatingSession :: bool
  view_isRecoveringStream :: bool
  view_isLoading :: bool
  view_isInterrupting :: bool
  view_isLoadingShells :: bool
  view_isRestarting :: bool
  view_isSwitchingShell :: bool
  view_error :: "jsstring option"
  view_statusDetail :: "jsstring option"
  view_outputChunks :: "TerminalOutputChunk list"
  view_runtimeState :: "TerminalRuntimeState option"
  view_shellOptions :: "TerminalShellOption list"

definition toTerminalErrorMessage :: "jsstring option \<Rightarrow> jsstring \<Rightarrow> jsstring" where
  "toTerminalErrorMessage error fallback =
     (case error of Some message \<Rightarrow> if js_trim message \<noteq> [] then message else fallback | None \<Rightarrow> fallback)"

definition shouldAutoRecoverStream :: "TerminalSnapshot option \<Rightarrow> bool" where
  "shouldAutoRecoverStream snapshot =
     (case snapshot of
        None \<Rightarrow> False
      | Some s \<Rightarrow> rt_status (snap_state s) = js ''running'' \<or> rt_status (snap_state s) = js ''starting'')"

definition mapConnectionKind :: "jsstring option \<Rightarrow> TerminalDisplayConnectionKind" where
  "mapConnectionKind connectionKind = (if connectionKind = Some (js ''ssh'') then DisplaySsh else DisplayLocal)"

text \<open>\<^verbatim>\<open>split(/[\\/]/).filter(Boolean)\<close> and its last element.\<close>

definition formatShellLabel :: "jsstring option \<Rightarrow> jsstring option \<Rightarrow> jsstring" where
  "formatShellLabel shell connectionKind =
     (let trimmedShell = js_default (map_option js_trim shell) [] in
      if trimmedShell = [] then (if connectionKind = Some (js ''ssh'') then js ''ssh'' else js ''shell'')
      else
        (let shellSegments = filter (\<lambda>s. s \<noteq> [])
               (js_split slash (map (\<lambda>c. if c = backslash then slash else c) trimmedShell))
         in if shellSegments = [] then trimmedShell else last shellSegments))"

definition mapSessionState :: "jsstring option \<Rightarrow> bool \<Rightarrow> bool \<Rightarrow> TerminalDisplaySessionState" where
  "mapSessionState status loading hasSnapshot =
     (if \<not> hasSnapshot then (if loading then SessionStarting else SessionFailed)
      else if status = Some (js ''starting'') then SessionStarting
      else if status = Some (js ''exited'') then SessionExited
      else if status = Some (js ''failed'') then SessionFailed
      else if status = Some (js ''disconnected'') then SessionDisconnected
      else SessionRunning)"

definition getTerminalWorkingLabel :: "TerminalSessionSeed \<Rightarrow> TerminalRuntimeState option \<Rightarrow> jsstring" where
  "getTerminalWorkingLabel seed state =
     (case state of
        None \<Rightarrow> seed_title seed
      | Some s \<Rightarrow>
          trim_or (rt_working_dir s)
            (if rt_connection_kind s = Some (js ''ssh'') then trim_or (rt_connection_name s) (seed_title seed)
             else seed_title seed))"

text \<open>\<open>a?.trim() || null\<close>.\<close>

definition trim_or_null :: "jsstring option \<Rightarrow> jsstring option" where
  "trim_or_null a = (case a of None \<Rightarrow> None | Some s \<Rightarrow> if js_trim s = [] then None else Some (js_trim s))"

definition active_session :: "TerminalSnapshot \<Rightarrow> jsstring" where
  "active_session snapshot = js_default (snap_active_session_id snapshot) (rt_session_id (snap_state snapshot))"

definition buildTerminalSessionList ::
    "TerminalSessionSeed \<Rightarrow> TerminalSnapshot option \<Rightarrow> TerminalSessionListEntry list" where
  "buildTerminalSessionList seed snapshot =
     (case snapshot of
        None \<Rightarrow> []
      | Some snap \<Rightarrow>
          map (\<lambda>runtimeState.
              \<lparr>list_sessionId = rt_session_id runtimeState,
               list_shellLabel = formatShellLabel (Some (rt_shell runtimeState)) (rt_connection_kind runtimeState),
               list_connectionKind = mapConnectionKind (rt_connection_kind runtimeState),
               list_connectionName = trim_or_null (rt_connection_name runtimeState),
               list_remoteLaunchMode = trim_or_null (rt_remote_launch_mode runtimeState),
               list_remoteSessionName = trim_or_null (rt_remote_session_name runtimeState),
               list_sessionState = mapSessionState (Some (rt_status runtimeState)) False True,
               list_statusDetail = map_option js_trim (rt_status_detail runtimeState),
               list_cwd = getTerminalWorkingLabel seed (Some runtimeState),
               list_isActive = (rt_session_id runtimeState = active_session snap),
               list_runtimeState = runtimeState\<rparr>)
            (js_default (snap_sessions snap) []))"

definition reconnecting_text :: jsstring where
  "reconnecting_text = js ''Reconnecting live terminal stream'' @ [8230]"

definition buildTerminalSessionView ::
    "TerminalSessionSeed \<Rightarrow> TerminalSessionRecordState \<Rightarrow> TerminalSessionView" where
  "buildTerminalSessionView seed state =
     (let runtimeState = map_option snap_state (ts_snapshot state);
          error = ts_error state;
          hasSnapshot = (runtimeState \<noteq> None)
      in \<lparr>view_runtimeWidgetId = seed_runtimeWidgetId seed,
          view_sessionKey = (case runtimeState of
              Some s \<Rightarrow> rt_session_id s @ [colon] @ rt_started_at s
            | None \<Rightarrow> seed_runtimeWidgetId seed @ js '':pending''),
          view_commandInputVersion = commandInputVersion state,
          view_activeSessionId = map_option active_session (ts_snapshot state),
          view_cwd = getTerminalWorkingLabel seed runtimeState,
          view_shellLabel = formatShellLabel (map_option rt_shell runtimeState) (Option.bind runtimeState rt_connection_kind),
          view_connectionKind = mapConnectionKind (Option.bind runtimeState rt_connection_kind),
          view_sessionState = (if js_truthy error \<and> \<not> hasSnapshot then SessionFailed
            else mapSessionState (map_option rt_status runtimeState) (ts_isLoading state) hasSnapshot),
          view_sessions = buildTerminalSessionList seed (ts_snapshot state),
          view_canSendInput = js_default (map_option rt_can_send_input runtimeState) False,
          view_canInterrupt = js_default (map_option rt_can_interrupt runtimeState) False,
          view_isCreatingSession = isCreatingSession state,
          view_isRecoveringStream = isRecoveringStream state,
          view_isLoading = ts_isLoading state,
          view_isInterrupting = isInterrupting state,
          view_isLoadingShells = isLoadingShells state,
          view_isRestarting = isRestarting state,
          view_isSwitchingShell = isSwitchingShell state,
          view_error = error,
          view_statusDetail = (if isRecoveringStream state then Some reconnecting_text
            else js_nullish error (map_option js_trim (Option.bind runtimeState rt_status_detail))),
          view_outputChunks = js_default (map_option snap_chunks (ts_snapshot state)) [],
          view_runtimeState = runtimeState,
          view_shellOptions = shellOptions state\<rparr>)"

section \<open>Display names\<close>

record display_registry =
  displayIds :: "jsstring \<Rightarrow> jsstring option"
  nextOrdinal :: nat

definition resolveTerminalDisplayWidgetId ::
    "jsstring \<Rightarrow> display_registry \<Rightarrow> jsstring \<times> display_registry" where
  "resolveTerminalDisplayWidgetId runtimeWidgetId r =
     (let normalizedWidgetId = js_trim runtimeWidgetId in
      if normalizedWidgetId = [] then (js ''term_?'', r)
      else case displayIds r normalizedWidgetId of
          Some existing \<Rightarrow> (existing, r)
        | None \<Rightarrow>
            (let nextDisplayId = js ''term_'' @ js_of_nat (nextOrdinal r)
             in (nextDisplayId, \<lparr>displayIds = (displayIds r)(normalizedWidgetId \<mapsto> nextDisplayId),
                  nextOrdinal = nextOrdinal r + 1\<rparr>)))"

section \<open>Facts about the view\<close>

text \<open>At most one listed session is marked active when their ids differ, and it is the one the view names.\<close>

lemma listed_active_session:
  assumes "e \<in> set (view_sessions (buildTerminalSessionView seed state))" and "list_isActive e"
  shows "view_activeSessionId (buildTerminalSessionView seed state) = Some (list_sessionId e)"
  using assms
  by (cases "ts_snapshot state") (auto simp: buildTerminalSessionView_def buildTerminalSessionList_def Let_def)

lemma view_failed_without_snapshot:
  "ts_snapshot state = None \<Longrightarrow> view_sessionState (buildTerminalSessionView seed state)
     = (if ts_isLoading state \<and> \<not> js_truthy (ts_error state) then SessionStarting else SessionFailed)"
  by (simp add: buildTerminalSessionView_def mapSessionState_def Let_def)

lemma formatShellLabel_not_blank: "formatShellLabel shell kind \<noteq> []"
  by (auto simp: formatShellLabel_def Let_def dest: last_in_set)

section \<open>Display names are stable and different\<close>

definition display_inv :: "display_registry \<Rightarrow> bool" where
  "display_inv r \<longleftrightarrow> inj_on (displayIds r) (dom (displayIds r))
     \<and> (\<forall>w d. displayIds r w = Some d \<longrightarrow> (\<exists>n < nextOrdinal r. d = js ''term_'' @ js_of_nat n))"

lemma display_inv_step:
  assumes "display_inv r" and "resolveTerminalDisplayWidgetId w r = (d, r')"
  shows "display_inv r'" and "displayIds r v = Some e \<Longrightarrow> displayIds r' v = Some e"
    and "js_trim w \<noteq> [] \<Longrightarrow> displayIds r' (js_trim w) = Some d"
proof -
  let ?new = "js ''term_'' @ js_of_nat (nextOrdinal r)"
  have fresh: "displayIds r v \<noteq> Some ?new" for v
    using assms(1) unfolding display_inv_def by (metis append_same_eq js_of_nat_inject less_irrefl same_append_eq)
  have inj: "inj_on ((displayIds r)(k \<mapsto> ?new)) (dom ((displayIds r)(k \<mapsto> ?new)))" for k
    using assms(1) fresh unfolding display_inv_def inj_on_def by (auto split: if_splits)
  show "display_inv r'"
  proof (cases "js_trim w = [] \<or> displayIds r (js_trim w) \<noteq> None")
    case True
    then have "r' = r" using assms(2) by (auto simp: resolveTerminalDisplayWidgetId_def Let_def split: if_splits)
    with assms(1) show ?thesis by simp
  next
    case False
    then have r': "r' = \<lparr>displayIds = (displayIds r)(js_trim w \<mapsto> ?new), nextOrdinal = nextOrdinal r + 1\<rparr>"
      using assms(2) by (auto simp: resolveTerminalDisplayWidgetId_def Let_def)
    have "\<exists>n < nextOrdinal r + 1. e = js ''term_'' @ js_of_nat n" if "displayIds r' v = Some e" for v e
    proof (cases "v = js_trim w")
      case False
      then have "\<exists>n < nextOrdinal r. e = js ''term_'' @ js_of_nat n" using that assms(1) r' by (simp add: display_inv_def del: js_Cons)
      then show ?thesis using less_SucI by auto
    qed (use that r' in \<open>auto simp del: js_Cons\<close>)
    with inj r' show ?thesis by (simp add: display_inv_def del: js_Cons)
  qed
  show "displayIds r v = Some e \<Longrightarrow> displayIds r' v = Some e"
    and "js_trim w \<noteq> [] \<Longrightarrow> displayIds r' (js_trim w) = Some d"
    using assms(2) by (auto simp: resolveTerminalDisplayWidgetId_def Let_def split: if_splits option.splits)
qed

end
