(* ===== verification/Terminal_Session.thy ===== *)
theory Terminal_Session
  imports Terminal_Types
begin

text \<open>
  The terminal sessions of \<^verbatim>\<open>features/terminal/model/use-terminal-session.ts\<close>: a table from widgets to shared
  records, kept in a store with addresses because the code compares records by identity, and the asynchronous
  functions that load, follow, restart and switch a session. A call that awaits is a task; the code between two
  awaits is one function of the store. Notifying listeners has no effect on the store.
\<close>

section \<open>Records and streams\<close>

text \<open>
  \<open>tr_loading\<close>: \<open>loadPromise\<close> is set. \<open>tr_streamClose\<close>: the stream the close function closes.
  \<open>tr_reconnectTimer\<close>: the delay of the timer that is set.
\<close>

record TerminalSessionRecord =
  tr_loading :: bool
  tr_retainers :: nat
  tr_state :: TerminalSessionRecordState
  tr_streamClose :: "nat option"
  tr_reconnectTimer :: "nat option"
  tr_widgetId :: jsstring

text \<open>A connected stream; once closed or ended it calls nothing back.\<close>

record terminal_stream =
  stream_widget :: jsstring
  stream_from :: int
  stream_live :: bool

record terminal_store =
  store_heap :: "nat \<Rightarrow> TerminalSessionRecord"
  store_table :: "jsstring \<Rightarrow> nat option"
  store_next :: nat
  store_streams :: "nat \<Rightarrow> terminal_stream"
  store_nextStream :: nat

definition createTerminalSessionRecord :: "jsstring \<Rightarrow> TerminalSessionRecord" where
  "createTerminalSessionRecord widget =
     \<lparr>tr_loading = False, tr_retainers = 0, tr_state = initial_terminal_state, tr_streamClose = None,
      tr_reconnectTimer = None, tr_widgetId = widget\<rparr>"

definition getTerminalSessionRecord :: "jsstring \<Rightarrow> terminal_store \<Rightarrow> nat \<times> terminal_store" where
  "getTerminalSessionRecord widget st =
     (case store_table st widget of
        Some a \<Rightarrow> (a, st)
      | None \<Rightarrow>
          (let a = store_next st
           in (a, st\<lparr>store_heap := (store_heap st)(a := createTerminalSessionRecord widget),
                store_table := (store_table st)(widget \<mapsto> a), store_next := a + 1\<rparr>)))"

definition isActiveTerminalSessionRecord :: "nat \<Rightarrow> terminal_store \<Rightarrow> bool" where
  "isActiveTerminalSessionRecord a st \<longleftrightarrow> store_table st (tr_widgetId (store_heap st a)) = Some a"

definition update_record :: "nat \<Rightarrow> (TerminalSessionRecord \<Rightarrow> TerminalSessionRecord) \<Rightarrow> terminal_store \<Rightarrow> terminal_store" where
  "update_record a f st = st\<lparr>store_heap := (store_heap st)(a := f (store_heap st a))\<rparr>"

definition update_state ::
    "nat \<Rightarrow> (TerminalSessionRecordState \<Rightarrow> TerminalSessionRecordState) \<Rightarrow> terminal_store \<Rightarrow> terminal_store" where
  "update_state a f = update_record a (\<lambda>r. r\<lparr>tr_state := f (tr_state r)\<rparr>)"

abbreviation state_of :: "terminal_store \<Rightarrow> nat \<Rightarrow> TerminalSessionRecordState" where
  "state_of st a \<equiv> tr_state (store_heap st a)"

definition appendTerminalChunk :: "TerminalOutputChunk \<Rightarrow> TerminalSessionRecordState \<Rightarrow> TerminalSessionRecordState" where
  "appendTerminalChunk chunk s =
     (case ts_snapshot s of
        None \<Rightarrow> s
      | Some snapshot \<Rightarrow>
          s\<lparr>ts_snapshot := Some (snapshot
              \<lparr>snap_state := (snap_state snapshot)\<lparr>rt_last_output_at := Some (chunk_timestamp chunk)\<rparr>,
               snap_chunks := snap_chunks snapshot @ [chunk],
               snap_next_seq := max (snap_next_seq snapshot) (chunk_seq chunk + 1)\<rparr>)\<rparr>)"

definition clearTerminalStreamReconnectTimer :: "nat \<Rightarrow> terminal_store \<Rightarrow> terminal_store" where
  "clearTerminalStreamReconnectTimer a = update_record a (\<lambda>r. r\<lparr>tr_reconnectTimer := None\<rparr>)"

definition close_stream :: "nat \<Rightarrow> terminal_store \<Rightarrow> terminal_store" where
  "close_stream i st = st\<lparr>store_streams := (store_streams st)(i := (store_streams st i)\<lparr>stream_live := False\<rparr>)\<rparr>"

definition clearTerminalStreamConnection :: "nat \<Rightarrow> terminal_store \<Rightarrow> terminal_store" where
  "clearTerminalStreamConnection a st =
     (let st1 = (case tr_streamClose (store_heap st a) of None \<Rightarrow> st | Some i \<Rightarrow> close_stream i st)
      in update_record a (\<lambda>r. r\<lparr>tr_streamClose := None\<rparr>) st1)"

definition scheduleTerminalStreamReconnect :: "nat \<Rightarrow> jsstring option \<Rightarrow> terminal_store \<Rightarrow> terminal_store" where
  "scheduleTerminalStreamReconnect a error st =
     (let r = store_heap st a; s = tr_state r in
      if \<not> isActiveTerminalSessionRecord a st \<or> tr_retainers r = 0 then st
      else if \<not> shouldAutoRecoverStream (ts_snapshot s)
      then update_state a (\<lambda>s. s\<lparr>ts_error := Some (toTerminalErrorMessage error
             (js ''Unable to follow terminal stream for '' @ tr_widgetId r @ js ''.'')), isRecoveringStream := False\<rparr>) st
      else
        (let nextRetryCount = streamRetryCount s + 1;
             reconnectDelay = min 4000 (500 * nextRetryCount)
         in update_record a (\<lambda>r. r\<lparr>tr_reconnectTimer := Some reconnectDelay\<rparr>)
              (update_state a (\<lambda>s. s\<lparr>ts_error := None, isRecoveringStream := True, streamRetryCount := nextRetryCount\<rparr>)
                (clearTerminalStreamReconnectTimer a st))))"

section \<open>Tasks\<close>

record reload_options =
  preserveRecoveryState :: bool
  silent :: bool

definition plain_reload :: reload_options where
  "plain_reload = \<lparr>preserveRecoveryState = False, silent = False\<rparr>"

definition recovery_reload :: reload_options where
  "recovery_reload = \<lparr>preserveRecoveryState = True, silent = True\<rparr>"

datatype terminal_request =
    RestartRequest
  | SwitchRequest jsstring
  | CreateRequest
  | FocusRequest jsstring
  | CloseRequest jsstring

text \<open>A reload carries what its caller does after it: nothing (\<open>None\<close>), or the end of the given request.\<close>

datatype terminal_task =
    AwaitRequest nat terminal_request
  | AwaitSnapshot nat reload_options "terminal_request option"
  | AwaitStream nat reload_options "terminal_request option" int
  | AwaitFirstSnapshot nat
  | AwaitFirstStream nat int
  | AwaitShells nat
  | AwaitInterrupt jsstring
  | AwaitInput jsstring jsstring

type_synonym terminal_step = "terminal_store \<times> terminal_task list"

subsection \<open>Reloading\<close>

definition reloadTerminalSessionRecord ::
    "nat \<Rightarrow> reload_options \<Rightarrow> terminal_request option \<Rightarrow> terminal_store \<Rightarrow> terminal_step" where
  "reloadTerminalSessionRecord a options k st =
     (let st1 = clearTerminalStreamConnection a (clearTerminalStreamReconnectTimer a st);
          st2 = (if silent options then st1 else update_state a (\<lambda>s. s\<lparr>ts_error := None, ts_isLoading := True\<rparr>) st1)
      in (st2, [AwaitSnapshot a options k]))"

text \<open>What the caller of a reload does when it returns.\<close>

definition end_request :: "nat \<Rightarrow> terminal_request option \<Rightarrow> terminal_store \<Rightarrow> terminal_store" where
  "end_request a k st =
     (if \<not> isActiveTerminalSessionRecord a st then st
      else case k of
          Some RestartRequest \<Rightarrow> update_state a (\<lambda>s. s\<lparr>isInterrupting := False, isRestarting := False\<rparr>) st
        | Some (SwitchRequest _) \<Rightarrow>
            update_state a (\<lambda>s. s\<lparr>isInterrupting := False, isRestarting := False, isSwitchingShell := False\<rparr>) st
        | Some CreateRequest \<Rightarrow> update_state a (\<lambda>s. s\<lparr>isCreatingSession := False\<rparr>) st
        | _ \<Rightarrow> st)"

definition reload_failed :: "nat \<Rightarrow> reload_options \<Rightarrow> jsstring option \<Rightarrow> terminal_store \<Rightarrow> terminal_store" where
  "reload_failed a options error st =
     (if \<not> isActiveTerminalSessionRecord a st then st
      else if preserveRecoveryState options \<and> shouldAutoRecoverStream (ts_snapshot (state_of st a))
      then scheduleTerminalStreamReconnect a error st
      else update_state a (\<lambda>s. s\<lparr>ts_error := Some (toTerminalErrorMessage error
             (js ''Unable to load terminal snapshot for '' @ tr_widgetId (store_heap st a) @ js ''.'')),
             ts_isLoading := False\<rparr>) st)"

definition reload_snapshot ::
    "nat \<Rightarrow> reload_options \<Rightarrow> terminal_request option \<Rightarrow> jsstring option + TerminalSnapshot \<Rightarrow> terminal_store \<Rightarrow> terminal_step" where
  "reload_snapshot a options k reply st =
     (case reply of
        Inl error \<Rightarrow> (end_request a k (reload_failed a options error st), [])
      | Inr snapshot \<Rightarrow>
          if \<not> isActiveTerminalSessionRecord a st then (st, [])
          else
            (update_state a (\<lambda>s. s\<lparr>ts_error := None, ts_isLoading := False,
                isRecoveringStream := (if preserveRecoveryState options then isRecoveringStream s else False),
                ts_snapshot := Some snapshot,
                streamRetryCount := (if preserveRecoveryState options then streamRetryCount s else 0)\<rparr>) st,
             [AwaitStream a options k (snap_next_seq snapshot)]))"

text \<open>
  \<open>attachTerminalStream\<close> once connected: a record that is no longer the active one closes the stream; otherwise
  the close function of the record is replaced (without closing what it closed before).
\<close>

definition attachTerminalStream :: "nat \<Rightarrow> int \<Rightarrow> terminal_store \<Rightarrow> terminal_store" where
  "attachTerminalStream a nextSeq st =
     (if \<not> isActiveTerminalSessionRecord a st then st
      else
        (let i = store_nextStream st in
         update_record a (\<lambda>r. r\<lparr>tr_streamClose := Some i\<rparr>)
           (st\<lparr>store_streams := (store_streams st)
                 (i := \<lparr>stream_widget = tr_widgetId (store_heap st a), stream_from = nextSeq, stream_live = True\<rparr>),
              store_nextStream := i + 1\<rparr>)))"

definition reload_stream ::
    "nat \<Rightarrow> reload_options \<Rightarrow> terminal_request option \<Rightarrow> int \<Rightarrow> jsstring option + unit \<Rightarrow> terminal_store \<Rightarrow> terminal_store" where
  "reload_stream a options k nextSeq reply st =
     (case reply of
        Inl error \<Rightarrow> end_request a k (reload_failed a options error st)
      | Inr _ \<Rightarrow>
          if \<not> isActiveTerminalSessionRecord a st then st
          else
            (let st1 = attachTerminalStream a nextSeq st; s = state_of st1 a
             in end_request a k
                  (if isRecoveringStream s \<or> streamRetryCount s > 0
                   then update_state a (\<lambda>s. s\<lparr>isRecoveringStream := False, streamRetryCount := 0\<rparr>) st1 else st1)))"

subsection \<open>The callbacks of a stream and the timer\<close>

definition stream_output :: "nat \<Rightarrow> TerminalOutputChunk \<Rightarrow> terminal_store \<Rightarrow> terminal_store" where
  "stream_output i chunk st =
     (if \<not> stream_live (store_streams st i) then st
      else case store_table st (stream_widget (store_streams st i)) of
          None \<Rightarrow> st
        | Some a \<Rightarrow>
            update_state a (\<lambda>s.
              let s1 = appendTerminalChunk chunk s in
              if isRecoveringStream s1 \<or> streamRetryCount s1 > 0
              then s1\<lparr>ts_error := None, isRecoveringStream := False, streamRetryCount := 0\<rparr> else s1) st)"

definition stream_ended :: "nat \<Rightarrow> jsstring option \<Rightarrow> terminal_store \<Rightarrow> terminal_store" where
  "stream_ended i error st =
     (if \<not> stream_live (store_streams st i) then st
      else
        (let st1 = close_stream i st in
         case store_table st (stream_widget (store_streams st i)) of
           None \<Rightarrow> st1
         | Some a \<Rightarrow> scheduleTerminalStreamReconnect a error st1))"

definition timer_fired :: "nat \<Rightarrow> terminal_store \<Rightarrow> terminal_step" where
  "timer_fired a st =
     (if tr_reconnectTimer (store_heap st a) = None then (st, [])
      else
        (let st1 = clearTerminalStreamReconnectTimer a st in
         if \<not> isActiveTerminalSessionRecord a st1 \<or> tr_retainers (store_heap st1 a) = 0 then (st1, [])
         else reloadTerminalSessionRecord a recovery_reload None st1))"

subsection \<open>The first load\<close>

definition ensureTerminalSession :: "nat \<Rightarrow> terminal_store \<Rightarrow> terminal_step" where
  "ensureTerminalSession a st =
     (if tr_loading (store_heap st a) then (st, [])
      else
        (update_record a (\<lambda>r. r\<lparr>tr_loading := True\<rparr>)
           (update_state a (\<lambda>s. s\<lparr>ts_isLoading := True, isCreatingSession := False, isInterrupting := False,
              isRestarting := False, ts_error := None\<rparr>) st),
         [AwaitFirstSnapshot a]))"

definition first_load_done :: "nat \<Rightarrow> terminal_store \<Rightarrow> terminal_store" where
  "first_load_done a = update_record a (\<lambda>r. r\<lparr>tr_loading := False\<rparr>)"

definition first_load_failed :: "nat \<Rightarrow> jsstring option \<Rightarrow> terminal_store \<Rightarrow> terminal_store" where
  "first_load_failed a error st =
     first_load_done a
       (if \<not> isActiveTerminalSessionRecord a st then st
        else update_state a (\<lambda>s. s\<lparr>ts_error := Some (toTerminalErrorMessage error
               (js ''Unable to load terminal snapshot for '' @ tr_widgetId (store_heap st a) @ js ''.'')),
               isCreatingSession := False, isInterrupting := False, isRecoveringStream := False, ts_isLoading := False,
               isRestarting := False\<rparr>) st)"

definition first_snapshot :: "nat \<Rightarrow> jsstring option + TerminalSnapshot \<Rightarrow> terminal_store \<Rightarrow> terminal_step" where
  "first_snapshot a reply st =
     (case reply of
        Inl error \<Rightarrow> (first_load_failed a error st, [])
      | Inr snapshot \<Rightarrow>
          if \<not> isActiveTerminalSessionRecord a st then (first_load_done a st, [])
          else
            (update_state a (\<lambda>s.
               \<lparr>commandInputVersion = commandInputVersion s, ts_error = None, isCreatingSession = False,
                isRecoveringStream = False, isInterrupting = False, ts_isLoading = False,
                isLoadingShells = isLoadingShells s, isRestarting = False, isSwitchingShell = False,
                ts_snapshot = Some snapshot, shellOptions = shellOptions s, shellOptionsLoaded = shellOptionsLoaded s,
                streamRetryCount = 0\<rparr>) st,
             [AwaitFirstStream a (snap_next_seq snapshot)]))"

definition first_stream :: "nat \<Rightarrow> int \<Rightarrow> jsstring option + unit \<Rightarrow> terminal_store \<Rightarrow> terminal_store" where
  "first_stream a nextSeq reply st =
     (case reply of
        Inl error \<Rightarrow> first_load_failed a error st
      | Inr _ \<Rightarrow> first_load_done a (attachTerminalStream a nextSeq st))"

subsection \<open>Mounting and unmounting\<close>

definition retainTerminalSession :: "jsstring \<Rightarrow> terminal_store \<Rightarrow> nat \<times> terminal_store" where
  "retainTerminalSession widget st =
     (let (a, st1) = getTerminalSessionRecord widget st
      in (a, update_record a (\<lambda>r. r\<lparr>tr_retainers := tr_retainers r + 1\<rparr>) st1))"

definition mount_terminal :: "jsstring \<Rightarrow> terminal_store \<Rightarrow> terminal_step" where
  "mount_terminal widget st = (let (a, st1) = retainTerminalSession widget st in ensureTerminalSession a st1)"

definition releaseTerminalSession :: "jsstring \<Rightarrow> terminal_store \<Rightarrow> terminal_store" where
  "releaseTerminalSession widget st =
     (case store_table st widget of
        None \<Rightarrow> st
      | Some a \<Rightarrow>
          (let st1 = update_record a (\<lambda>r. r\<lparr>tr_retainers := tr_retainers r - 1\<rparr>) st in
           if tr_retainers (store_heap st1 a) > 0 then st1
           else
             (let st2 = clearTerminalStreamConnection a (clearTerminalStreamReconnectTimer a st1)
              in st2\<lparr>store_table := (store_table st2)(widget := None)\<rparr>)))"

subsection \<open>Operations\<close>

definition has_line_end :: "jsstring \<Rightarrow> bool" where
  "has_line_end text \<longleftrightarrow> 13 \<in> set text \<or> 10 \<in> set text"

definition sendInputChunk :: "jsstring \<Rightarrow> jsstring \<Rightarrow> terminal_store \<Rightarrow> terminal_step" where
  "sendInputChunk widget text st = (if text = [] then (st, []) else (st, [AwaitInput widget text]))"

definition input_sent :: "jsstring \<Rightarrow> jsstring \<Rightarrow> jsstring option + unit \<Rightarrow> terminal_store \<Rightarrow> terminal_store" where
  "input_sent widget text reply st =
     (case reply of
        Inr _ \<Rightarrow>
          (case store_table st widget of
             None \<Rightarrow> st
           | Some a \<Rightarrow>
               (let s = state_of st a;
                    version = commandInputVersion s + (if has_line_end text then 1 else 0)
                in if ts_snapshot s = None \<or> ts_error s = None
                   then (if has_line_end text then update_state a (\<lambda>s. s\<lparr>commandInputVersion := version\<rparr>) st else st)
                   else update_state a (\<lambda>s. s\<lparr>commandInputVersion := version, ts_error := None\<rparr>) st))
      | Inl error \<Rightarrow>
          (let (a, st1) = getTerminalSessionRecord widget st
           in update_state a (\<lambda>s. s\<lparr>ts_error := Some (toTerminalErrorMessage error
                (js ''Unable to send terminal input for '' @ widget @ js ''.''))\<rparr>) st1))"

definition restartSession :: "jsstring \<Rightarrow> terminal_store \<Rightarrow> terminal_step" where
  "restartSession widget st =
     (let (a, st1) = getTerminalSessionRecord widget st; s = state_of st1 a in
      if isInterrupting s \<or> isRestarting s then (st1, [])
      else (update_state a (\<lambda>s. s\<lparr>ts_error := None, isCreatingSession := False, isInterrupting := False,
              isRestarting := True\<rparr>) st1, [AwaitRequest a RestartRequest]))"

definition loadShellOptions :: "jsstring \<Rightarrow> terminal_store \<Rightarrow> terminal_step" where
  "loadShellOptions widget st =
     (let (a, st1) = getTerminalSessionRecord widget st; s = state_of st1 a;
          connectionKind = mapConnectionKind (Option.bind (ts_snapshot s) (\<lambda>snap. rt_connection_kind (snap_state snap)))
      in if connectionKind \<noteq> DisplayLocal \<or> shellOptionsLoaded s \<or> isLoadingShells s then (st1, [])
         else (update_state a (\<lambda>s. s\<lparr>ts_error := None, isLoadingShells := True\<rparr>) st1, [AwaitShells a]))"

definition shells_loaded :: "nat \<Rightarrow> jsstring option + TerminalShellOption list \<Rightarrow> terminal_store \<Rightarrow> terminal_store" where
  "shells_loaded a reply st =
     (if \<not> isActiveTerminalSessionRecord a st then st
      else case reply of
          Inr options \<Rightarrow> update_state a (\<lambda>s. s\<lparr>ts_error := None, isLoadingShells := False, shellOptions := options,
            shellOptionsLoaded := True\<rparr>) st
        | Inl error \<Rightarrow> update_state a (\<lambda>s. s\<lparr>ts_error := Some (toTerminalErrorMessage error (js ''Unable to load local shells.'')),
            isLoadingShells := False\<rparr>) st)"

definition switchShell :: "jsstring \<Rightarrow> jsstring \<Rightarrow> terminal_store \<Rightarrow> terminal_step" where
  "switchShell widget shellPath st =
     (let (a, st1) = getTerminalSessionRecord widget st; s = state_of st1 a;
          requestedShell = js_trim shellPath;
          currentShell = js_default (map_option (\<lambda>snap. js_trim (rt_shell (snap_state snap))) (ts_snapshot s)) [];
          connectionKind = mapConnectionKind (Option.bind (ts_snapshot s) (\<lambda>snap. rt_connection_kind (snap_state snap)))
      in if requestedShell = [] \<or> requestedShell = currentShell \<or> connectionKind \<noteq> DisplayLocal \<or> isCreatingSession s
           \<or> isInterrupting s \<or> isRestarting s \<or> isSwitchingShell s then (st1, [])
         else (update_state a (\<lambda>s. s\<lparr>ts_error := None, isCreatingSession := False, isInterrupting := False,
                 isRestarting := True, isSwitchingShell := True\<rparr>) st1, [AwaitRequest a (SwitchRequest requestedShell)]))"

definition recoverSession :: "jsstring \<Rightarrow> terminal_store \<Rightarrow> terminal_step" where
  "recoverSession widget st =
     (let (a, st1) = getTerminalSessionRecord widget st; s = state_of st1 a;
          runtimeStatus = map_option (\<lambda>snap. rt_status (snap_state snap)) (ts_snapshot s)
      in if isCreatingSession s \<or> isInterrupting s \<or> ts_isLoading s \<or> isRestarting s then (st1, [])
         else if runtimeStatus \<in> {Some (js ''exited''), Some (js ''failed''), Some (js ''disconnected'')}
         then restartSession widget st1
         else reloadTerminalSessionRecord a recovery_reload None
                (update_state a (\<lambda>s. s\<lparr>ts_error := None, isRecoveringStream := True, streamRetryCount := 0\<rparr>) st1))"

definition interruptSession :: "jsstring \<Rightarrow> terminal_store \<Rightarrow> terminal_step" where
  "interruptSession widget st =
     (let (a, st1) = getTerminalSessionRecord widget st; s = state_of st1 a in
      if isInterrupting s \<or> isRestarting s
        \<or> map_option (\<lambda>snap. rt_can_interrupt (snap_state snap)) (ts_snapshot s) \<noteq> Some True then (st1, [])
      else (update_state a (\<lambda>s. s\<lparr>ts_error := None, isCreatingSession := False, isInterrupting := True\<rparr>) st1,
            [AwaitInterrupt widget]))"

definition interrupted :: "jsstring \<Rightarrow> jsstring option + TerminalRuntimeState \<Rightarrow> terminal_store \<Rightarrow> terminal_store" where
  "interrupted widget reply st =
     (case store_table st widget of
        None \<Rightarrow> st
      | Some a \<Rightarrow>
          if \<not> isActiveTerminalSessionRecord a st then st
          else case reply of
              Inr nextState \<Rightarrow> update_state a (\<lambda>s. s\<lparr>ts_error := None, isCreatingSession := False, isInterrupting := False,
                ts_snapshot := map_option (\<lambda>snap. snap\<lparr>snap_state := nextState\<rparr>) (ts_snapshot s)\<rparr>) st
            | Inl error \<Rightarrow> update_state a (\<lambda>s. s\<lparr>ts_error := Some (toTerminalErrorMessage error
                (js ''Unable to interrupt terminal session for '' @ widget @ js ''.'')), isCreatingSession := False,
                isInterrupting := False\<rparr>) st)"

definition createSessionForWidget :: "jsstring \<Rightarrow> terminal_store \<Rightarrow> terminal_step" where
  "createSessionForWidget widget st =
     (let (a, st1) = getTerminalSessionRecord widget st; s = state_of st1 a in
      if isCreatingSession s \<or> isInterrupting s \<or> isRestarting s then (st1, [])
      else (update_state a (\<lambda>s. s\<lparr>ts_error := None, isCreatingSession := True\<rparr>) st1, [AwaitRequest a CreateRequest]))"

definition focusSession :: "jsstring \<Rightarrow> jsstring \<Rightarrow> terminal_store \<Rightarrow> terminal_step" where
  "focusSession widget sessionID st =
     (let (a, st1) = getTerminalSessionRecord widget st; s = state_of st1 a in
      if js_trim sessionID = [] \<or> Some sessionID = map_option active_session (ts_snapshot s) \<or> isCreatingSession s
        \<or> isInterrupting s \<or> isRestarting s then (st1, [])
      else (update_state a (\<lambda>s. s\<lparr>ts_error := None, ts_isLoading := True\<rparr>) st1, [AwaitRequest a (FocusRequest sessionID)]))"

definition closeSessionForWidget :: "jsstring \<Rightarrow> jsstring \<Rightarrow> terminal_store \<Rightarrow> terminal_step" where
  "closeSessionForWidget widget sessionID st =
     (let (a, st1) = getTerminalSessionRecord widget st; s = state_of st1 a;
          sessionCount = length (js_default (Option.bind (ts_snapshot s) snap_sessions) [])
      in if js_trim sessionID = [] \<or> sessionCount \<le> 1 \<or> isCreatingSession s \<or> isInterrupting s \<or> isRestarting s
         then (st1, [])
         else (update_state a (\<lambda>s. s\<lparr>ts_error := None, ts_isLoading := True\<rparr>) st1, [AwaitRequest a (CloseRequest sessionID)]))"

text \<open>The reply to the request of an operation: a reload, or the flags reset and the error shown.\<close>

definition request_error_text :: "jsstring \<Rightarrow> terminal_request \<Rightarrow> jsstring" where
  "request_error_text widget request =
     (case request of
        RestartRequest \<Rightarrow> js ''Unable to restart terminal session for '' @ widget @ js ''.''
      | SwitchRequest _ \<Rightarrow> js ''Unable to switch terminal shell for '' @ widget @ js ''.''
      | CreateRequest \<Rightarrow> js ''Unable to create a terminal session for '' @ widget @ js ''.''
      | FocusRequest sessionID \<Rightarrow> js ''Unable to focus terminal session '' @ sessionID @ js ''.''
      | CloseRequest sessionID \<Rightarrow> js ''Unable to close terminal session '' @ sessionID @ js ''.'')"

definition request_failed :: "jsstring \<Rightarrow> terminal_request \<Rightarrow> TerminalSessionRecordState \<Rightarrow> TerminalSessionRecordState" where
  "request_failed text request s =
     (case request of
        RestartRequest \<Rightarrow> s\<lparr>ts_error := Some text, isCreatingSession := False, isInterrupting := False,
          isRestarting := False\<rparr>
      | SwitchRequest _ \<Rightarrow> s\<lparr>ts_error := Some text, isCreatingSession := False, isInterrupting := False,
          isRestarting := False, isSwitchingShell := False\<rparr>
      | CreateRequest \<Rightarrow> s\<lparr>ts_error := Some text, isCreatingSession := False\<rparr>
      | FocusRequest _ \<Rightarrow> s\<lparr>ts_error := Some text, ts_isLoading := False\<rparr>
      | CloseRequest _ \<Rightarrow> s\<lparr>ts_error := Some text, ts_isLoading := False\<rparr>)"

definition request_done :: "nat \<Rightarrow> terminal_request \<Rightarrow> jsstring option + unit \<Rightarrow> terminal_store \<Rightarrow> terminal_step" where
  "request_done a request reply st =
     (case reply of
        Inr _ \<Rightarrow> reloadTerminalSessionRecord a plain_reload (Some request) st
      | Inl error \<Rightarrow>
          if \<not> isActiveTerminalSessionRecord a st then (st, [])
          else
            (let text = toTerminalErrorMessage error (request_error_text (tr_widgetId (store_heap st a)) request)
             in (update_state a (request_failed text request) st, [])))"

section \<open>Interleavings\<close>

datatype terminal_command =
    Mount jsstring
  | Unmount jsstring
  | Peek jsstring
  | SendText jsstring jsstring
  | Restart jsstring
  | LoadShells jsstring
  | SwitchShell jsstring jsstring
  | Recover jsstring
  | Interrupt jsstring
  | CreateSession jsstring
  | FocusSession jsstring jsstring
  | CloseSession jsstring jsstring

fun command_step :: "terminal_command \<Rightarrow> terminal_store \<Rightarrow> terminal_step" where
  "command_step (Mount widget) st = mount_terminal widget st"
| "command_step (Unmount widget) st = (releaseTerminalSession widget st, [])"
| "command_step (Peek widget) st = (snd (getTerminalSessionRecord widget st), [])"
| "command_step (SendText widget text) st = sendInputChunk widget text st"
| "command_step (Restart widget) st = restartSession widget st"
| "command_step (LoadShells widget) st = loadShellOptions widget st"
| "command_step (SwitchShell widget shell) st = switchShell widget shell st"
| "command_step (Recover widget) st = recoverSession widget st"
| "command_step (Interrupt widget) st = interruptSession widget st"
| "command_step (CreateSession widget) st = createSessionForWidget widget st"
| "command_step (FocusSession widget sessionID) st = focusSession widget sessionID st"
| "command_step (CloseSession widget sessionID) st = closeSessionForWidget widget sessionID st"

text \<open>The reply a task is resumed with; each task reads the field of its request.\<close>

record terminal_reply =
  reply_unit :: "jsstring option + unit"
  reply_snapshot :: "jsstring option + TerminalSnapshot"
  reply_state :: "jsstring option + TerminalRuntimeState"
  reply_shells :: "jsstring option + TerminalShellOption list"

fun task_step :: "terminal_task \<Rightarrow> terminal_reply \<Rightarrow> terminal_store \<Rightarrow> terminal_step" where
  "task_step (AwaitRequest a request) r st = request_done a request (reply_unit r) st"
| "task_step (AwaitSnapshot a options k) r st = reload_snapshot a options k (reply_snapshot r) st"
| "task_step (AwaitStream a options k nextSeq) r st = (reload_stream a options k nextSeq (reply_unit r) st, [])"
| "task_step (AwaitFirstSnapshot a) r st = first_snapshot a (reply_snapshot r) st"
| "task_step (AwaitFirstStream a nextSeq) r st = (first_stream a nextSeq (reply_unit r) st, [])"
| "task_step (AwaitShells a) r st = (shells_loaded a (reply_shells r) st, [])"
| "task_step (AwaitInterrupt widget) r st = (interrupted widget (reply_state r) st, [])"
| "task_step (AwaitInput widget text) r st = (input_sent widget text (reply_unit r) st, [])"

definition empty_store :: terminal_store where
  "empty_store = \<lparr>store_heap = \<lambda>_. createTerminalSessionRecord [], store_table = \<lambda>_. None, store_next = 0,
     store_streams = \<lambda>_. \<lparr>stream_widget = [], stream_from = 0, stream_live = False\<rparr>, store_nextStream = 0\<rparr>"

inductive terminal_reach :: "terminal_step \<Rightarrow> bool" where
  terminal_start: "terminal_reach (empty_store, [])"
| terminal_command: "terminal_reach (st, tasks) \<Longrightarrow> command_step c st = (st', new) \<Longrightarrow> terminal_reach (st', new @ tasks)"
| terminal_reply: "terminal_reach (st, us @ t # vs) \<Longrightarrow> task_step t r st = (st', new) \<Longrightarrow> terminal_reach (st', us @ new @ vs)"
| terminal_output: "terminal_reach (st, tasks) \<Longrightarrow> terminal_reach (stream_output i chunk st, tasks)"
| terminal_ended: "terminal_reach (st, tasks) \<Longrightarrow> terminal_reach (stream_ended i error st, tasks)"
| terminal_timer: "terminal_reach (st, tasks) \<Longrightarrow> timer_fired a st = (st', new) \<Longrightarrow> terminal_reach (st', new @ tasks)"

section \<open>No operation stays marked as running\<close>

datatype terminal_flag = FLoading | FCreating | FInterrupting | FRestarting | FSwitching | FShells

fun flag :: "terminal_flag \<Rightarrow> TerminalSessionRecordState \<Rightarrow> bool" where
  "flag FLoading s = ts_isLoading s"
| "flag FCreating s = isCreatingSession s"
| "flag FInterrupting s = isInterrupting s"
| "flag FRestarting s = isRestarting s"
| "flag FSwitching s = isSwitchingShell s"
| "flag FShells s = isLoadingShells s"

text \<open>The flags the end of a request resets, and those a task will have reset when it has run to its end.\<close>

fun end_flags :: "terminal_request option \<Rightarrow> terminal_flag set" where
  "end_flags (Some RestartRequest) = {FRestarting}"
| "end_flags (Some (SwitchRequest _)) = {FRestarting, FSwitching}"
| "end_flags (Some CreateRequest) = {FCreating}"
| "end_flags _ = {}"

fun request_flags :: "terminal_request \<Rightarrow> terminal_flag set" where
  "request_flags (FocusRequest _) = {FLoading}"
| "request_flags (CloseRequest _) = {FLoading}"
| "request_flags request = end_flags (Some request)"

fun resets :: "terminal_task \<Rightarrow> jsstring \<Rightarrow> nat \<Rightarrow> terminal_flag \<Rightarrow> bool" where
  "resets (AwaitRequest a request) widget b F \<longleftrightarrow> a = b \<and> F \<in> request_flags request"
| "resets (AwaitSnapshot a options k) widget b F \<longleftrightarrow>
     a = b \<and> (F \<in> end_flags k \<or> F = FLoading \<and> \<not> preserveRecoveryState options)"
| "resets (AwaitStream a options k nextSeq) widget b F \<longleftrightarrow> a = b \<and> F \<in> end_flags k"
| "resets (AwaitFirstSnapshot a) widget b F \<longleftrightarrow> a = b \<and> F = FLoading"
| "resets (AwaitFirstStream a nextSeq) widget b F \<longleftrightarrow> False"
| "resets (AwaitShells a) widget b F \<longleftrightarrow> a = b \<and> F = FShells"
| "resets (AwaitInterrupt w) widget b F \<longleftrightarrow> w = widget \<and> F = FInterrupting"
| "resets (AwaitInput w text) widget b F \<longleftrightarrow> False"

text \<open>The replies a task waits for at most.\<close>

fun task_rank :: "terminal_task \<Rightarrow> nat" where
  "task_rank (AwaitRequest _ _) = 3"
| "task_rank (AwaitSnapshot _ _ _) = 2"
| "task_rank (AwaitFirstSnapshot _) = 2"
| "task_rank _ = 1"

definition table_wf :: "terminal_store \<Rightarrow> bool" where
  "table_wf st \<longleftrightarrow> (\<forall>w a. store_table st w = Some a \<longrightarrow> a < store_next st \<and> tr_widgetId (store_heap st a) = w)"

text \<open>
  A step is accountable when each flag that is set after it, on a record in the table, is one that a new task
  resets, or one that was set before and that the task that was resumed does not reset.
\<close>

definition accountable ::
    "(jsstring \<Rightarrow> nat \<Rightarrow> terminal_flag \<Rightarrow> bool) \<Rightarrow> terminal_store \<Rightarrow> terminal_step \<Rightarrow> bool" where
  "accountable consumed st S \<longleftrightarrow> table_wf (fst S)
     \<and> (\<forall>w a F. store_table (fst S) w = Some a \<and> flag F (state_of (fst S) a) \<longrightarrow>
          (\<exists>t\<in>set (snd S). resets t w a F) \<or> store_table st w = Some a \<and> flag F (state_of st a) \<and> \<not> consumed w a F)"

lemma update_record_simps [simp]:
  "store_heap (update_record a f st) b = (if b = a then f (store_heap st a) else store_heap st b)"
  "store_table (update_record a f st) = store_table st" "store_next (update_record a f st) = store_next st"
  "store_streams (update_record a f st) = store_streams st" "store_nextStream (update_record a f st) = store_nextStream st"
  by (simp_all add: update_record_def)

lemma update_state_simps [simp]:
  "state_of (update_state a f st) b = (if b = a then f (state_of st a) else state_of st b)"
  "store_table (update_state a f st) = store_table st" "store_next (update_state a f st) = store_next st"
  "tr_widgetId (store_heap (update_state a f st) b) = tr_widgetId (store_heap st b)"
  "tr_retainers (store_heap (update_state a f st) b) = tr_retainers (store_heap st b)"
  "tr_streamClose (store_heap (update_state a f st) b) = tr_streamClose (store_heap st b)"
  "tr_reconnectTimer (store_heap (update_state a f st) b) = tr_reconnectTimer (store_heap st b)"
  "store_streams (update_state a f st) = store_streams st" "store_nextStream (update_state a f st) = store_nextStream st"
  by (simp_all add: update_state_def)

lemma close_stream_simps [simp]:
  "store_heap (close_stream i st) = store_heap st" "store_table (close_stream i st) = store_table st"
  "store_next (close_stream i st) = store_next st" "store_nextStream (close_stream i st) = store_nextStream st"
  by (simp_all add: close_stream_def)

text \<open>What the table, the widgets and the flags see of a store.\<close>

definition same_flags :: "terminal_store \<Rightarrow> terminal_store \<Rightarrow> bool" where
  "same_flags st st' \<longleftrightarrow> store_table st' = store_table st \<and> store_next st' = store_next st
     \<and> (\<forall>b. tr_widgetId (store_heap st' b) = tr_widgetId (store_heap st b)
          \<and> (\<forall>F. flag F (state_of st' b) = flag F (state_of st b)))"

lemma same_flags_refl [simp]: "same_flags st st"
  by (simp add: same_flags_def)

lemma same_flags_trans: "same_flags st st1 \<Longrightarrow> same_flags st1 st2 \<Longrightarrow> same_flags st st2"
  by (simp add: same_flags_def)

lemma same_flags_record:
  "(\<And>r. tr_widgetId (f r) = tr_widgetId r \<and> tr_state (f r) = tr_state r) \<Longrightarrow> same_flags st (update_record a f st)"
  by (simp add: same_flags_def)

lemma same_flags_state:
  "(\<And>s F. flag F (f s) = flag F s) \<Longrightarrow> same_flags st (update_state a f st)"
  by (simp add: same_flags_def)

lemma flag_other_fields [simp]:
  "flag F (s\<lparr>ts_error := e\<rparr>) = flag F s" "flag F (s\<lparr>isRecoveringStream := b\<rparr>) = flag F s"
  "flag F (s\<lparr>ts_snapshot := x\<rparr>) = flag F s" "flag F (s\<lparr>streamRetryCount := n\<rparr>) = flag F s"
  "flag F (s\<lparr>commandInputVersion := n\<rparr>) = flag F s" "flag F (s\<lparr>shellOptions := os\<rparr>) = flag F s"
  "flag F (s\<lparr>shellOptionsLoaded := b\<rparr>) = flag F s"
  by (cases F; simp)+

lemma flag_own_fields:
  "flag F (s\<lparr>ts_isLoading := b\<rparr>) = (if F = FLoading then b else flag F s)"
  "flag F (s\<lparr>isCreatingSession := b\<rparr>) = (if F = FCreating then b else flag F s)"
  "flag F (s\<lparr>isInterrupting := b\<rparr>) = (if F = FInterrupting then b else flag F s)"
  "flag F (s\<lparr>isRestarting := b\<rparr>) = (if F = FRestarting then b else flag F s)"
  "flag F (s\<lparr>isSwitchingShell := b\<rparr>) = (if F = FSwitching then b else flag F s)"
  "flag F (s\<lparr>isLoadingShells := b\<rparr>) = (if F = FShells then b else flag F s)"
  by (cases F; simp)+

lemma same_flags_clear:
  "same_flags st (clearTerminalStreamReconnectTimer a st)" "same_flags st (clearTerminalStreamConnection a st)"
  by (auto simp: clearTerminalStreamReconnectTimer_def clearTerminalStreamConnection_def same_flags_def Let_def
      split: option.split)

lemma same_flags_schedule: "same_flags st (scheduleTerminalStreamReconnect a error st)"
  by (auto simp: scheduleTerminalStreamReconnect_def clearTerminalStreamReconnectTimer_def same_flags_def Let_def)

lemma same_flags_attach: "same_flags st (attachTerminalStream a n st)"
  by (auto simp: attachTerminalStream_def same_flags_def Let_def update_record_def)

text \<open>Flags only ever fall: the steps that reset flags and start nothing.\<close>

definition falling :: "terminal_store \<Rightarrow> terminal_store \<Rightarrow> bool" where
  "falling st st' \<longleftrightarrow> store_table st' = store_table st \<and> store_next st' = store_next st
     \<and> (\<forall>b. tr_widgetId (store_heap st' b) = tr_widgetId (store_heap st b)
          \<and> (\<forall>F. flag F (state_of st' b) \<longrightarrow> flag F (state_of st b)))"

lemma falling_refl [simp]: "falling st st"
  by (simp add: falling_def)

lemma same_flags_falling: "same_flags st st' \<Longrightarrow> falling st st'"
  by (simp add: same_flags_def falling_def)

lemma falling_trans: "falling st st1 \<Longrightarrow> falling st1 st2 \<Longrightarrow> falling st st2"
  by (simp add: falling_def)

lemma falling_active: "falling st st' \<Longrightarrow> isActiveTerminalSessionRecord a st' = isActiveTerminalSessionRecord a st"
  by (simp add: falling_def isActiveTerminalSessionRecord_def)

lemma falling_state: "(\<And>F. flag F (f (state_of st a)) \<Longrightarrow> flag F (state_of st a)) \<Longrightarrow> falling st (update_state a f st)"
  by (simp add: falling_def)

lemma falling_wf: "falling st st' \<Longrightarrow> table_wf st \<Longrightarrow> table_wf st'"
  by (simp add: falling_def table_wf_def)

lemma falling_reload_failed: "falling st (reload_failed a options error st)"
  by (auto simp: reload_failed_def flag_own_fields same_flags_falling [OF same_flags_schedule] intro!: falling_state
      split: if_splits)

lemma falling_end_request: "falling st (end_request a k st)"
  by (auto simp: end_request_def flag_own_fields split: option.split terminal_request.split if_splits intro!: falling_state)

lemma end_request_resets:
  "isActiveTerminalSessionRecord a st \<Longrightarrow> F \<in> end_flags k \<Longrightarrow> \<not> flag F (state_of (end_request a k st) a)"
  by (cases k rule: end_flags.cases) (auto simp: end_request_def)

lemma reload_failed_resets:
  "isActiveTerminalSessionRecord a st \<Longrightarrow> \<not> preserveRecoveryState options \<Longrightarrow>
     \<not> flag FLoading (state_of (reload_failed a options error st) a)"
  by (simp add: reload_failed_def)

text \<open>A falling step that resets what the resumed task owes is accountable.\<close>

lemma accountable_falling:
  assumes "falling st st'" and "table_wf st"
    and "\<And>w a F. store_table st w = Some a \<Longrightarrow> consumed w a F \<Longrightarrow> \<not> flag F (state_of st' a) \<or> (\<exists>t\<in>set new. resets t w a F)"
  shows "accountable consumed st (st', new)"
  using assms falling_wf [OF assms(1,2)] unfolding accountable_def falling_def fst_conv snd_conv by metis

lemma active_iff: "table_wf st \<Longrightarrow> store_table st w = Some a \<Longrightarrow> isActiveTerminalSessionRecord a st"
  by (simp add: table_wf_def isActiveTerminalSessionRecord_def)

lemma falling_attach: "falling st (attachTerminalStream a n st)"
  by (rule same_flags_falling [OF same_flags_attach])

lemma falling_reload_stream: "falling st (reload_stream a options k n reply st)"
proof (cases reply)
  case (Inl error)
  then show ?thesis
    using falling_trans [OF falling_reload_failed falling_end_request] by (simp add: reload_stream_def)
next
  case (Inr u)
  let ?st = "attachTerminalStream a n st"
  have "falling ?st (update_state a (\<lambda>s. s\<lparr>isRecoveringStream := False, streamRetryCount := 0\<rparr>) ?st)"
    by (rule falling_state) simp
  then show ?thesis
    using Inr falling_trans [OF falling_trans [OF falling_attach] falling_end_request]
      falling_trans [OF falling_attach falling_end_request]
    by (simp add: reload_stream_def Let_def)
qed

lemma accountable_stream:
  assumes "table_wf st"
  shows "accountable (resets (AwaitStream a options k n)) st (reload_stream a options k n reply st, [])"
proof (rule accountable_falling [OF falling_reload_stream assms])
  fix w b F assume "store_table st w = Some b" and "resets (AwaitStream a options k n) w b F"
  with assms have act: "isActiveTerminalSessionRecord a st" and F: "F \<in> end_flags k" and b: "b = a"
    by (auto intro: active_iff)
  have "isActiveTerminalSessionRecord a (attachTerminalStream a n st)" using act falling_active [OF falling_attach] by blast
  then show "\<not> flag F (state_of (reload_stream a options k n reply st) b) \<or> (\<exists>t\<in>set []. resets t w b F)"
    using act F b end_request_resets falling_active [OF falling_reload_failed]
    by (auto simp: reload_stream_def Let_def isActiveTerminalSessionRecord_def split: sum.split)
qed

text \<open>Steps that start something: a tame change of the store, then flags that the new task resets.\<close>

definition tame :: "terminal_store \<Rightarrow> terminal_store \<Rightarrow> bool" where
  "tame st st' \<longleftrightarrow> table_wf st'
     \<and> (\<forall>w b F. store_table st' w = Some b \<and> flag F (state_of st' b) \<longrightarrow> store_table st w = Some b \<and> flag F (state_of st b))"

lemma falling_tame: "falling st st' \<Longrightarrow> table_wf st \<Longrightarrow> tame st st'"
  using falling_wf unfolding tame_def falling_def by metis

lemma tame_refl: "table_wf st \<Longrightarrow> tame st st"
  by (simp add: tame_def)

lemma tame_trans: "tame st st1 \<Longrightarrow> tame st1 st2 \<Longrightarrow> tame st st2"
  unfolding tame_def by metis

lemma accountable_tame: "tame st st' \<Longrightarrow> accountable (\<lambda>_ _ _. False) st (st', new)"
  unfolding tame_def accountable_def by auto

lemma accountable_raise:
  assumes "tame st st1" and "store_table st1 w = Some a"
    and "\<And>F. flag F (f (state_of st1 a)) \<Longrightarrow> flag F (state_of st1 a) \<or> resets t w a F"
  shows "accountable (\<lambda>_ _ _. False) st (update_state a f st1, [t])"
proof -
  have wf: "table_wf st1" using assms(1) by (simp add: tame_def)
  have "(\<exists>t'\<in>set [t]. resets t' v b F) \<or> store_table st v = Some b \<and> flag F (state_of st b)"
    if v: "store_table st1 v = Some b" and F: "flag F (state_of (update_state a f st1) b)" for v b F
  proof (cases "flag F (state_of st1 b)")
    case True
    then show ?thesis using assms(1) v unfolding tame_def by blast
  next
    case False
    then have b: "b = a" "flag F (f (state_of st1 a))" using F by (auto split: if_splits)
    then have "v = w" using wf assms(2) v unfolding table_wf_def by metis
    then show ?thesis using assms(3) b False by auto
  qed
  moreover have "table_wf (update_state a f st1)" using wf by (simp add: table_wf_def)
  ultimately show ?thesis unfolding accountable_def by simp
qed

lemma no_initial_flag [simp]: "\<not> flag F (tr_state (createTerminalSessionRecord w))"
  by (cases F) (simp_all add: createTerminalSessionRecord_def initial_terminal_state_def)

lemma tame_get:
  assumes "table_wf st" and "getTerminalSessionRecord w st = (a, st1)"
  shows "tame st st1" and "store_table st1 w = Some a"
proof -
  show "store_table st1 w = Some a"
    using assms(2) by (auto simp: getTerminalSessionRecord_def Let_def split: option.splits)
  show "tame st st1"
  proof (cases "store_table st w")
    case None
    let ?a = "store_next st" and ?r = "createTerminalSessionRecord w"
    have st1: "st1 = st\<lparr>store_heap := (store_heap st)(?a := ?r), store_table := (store_table st)(w \<mapsto> ?a), store_next := ?a + 1\<rparr>"
      using assms(2) None by (auto simp: getTerminalSessionRecord_def Let_def)
    have old: "store_table st v = Some b \<Longrightarrow> b < ?a \<and> tr_widgetId (store_heap st b) = v" for v b
      using assms(1) by (simp add: table_wf_def)
    have "table_wf st1" using old by (auto simp: st1 table_wf_def createTerminalSessionRecord_def less_Suc_eq)
    moreover have "store_table st v = Some b \<and> flag F (state_of st b)"
      if "store_table st1 v = Some b" "flag F (state_of st1 b)" for v b F
      using that old [of v b] by (auto simp: st1 split: if_splits)
    ultimately show ?thesis unfolding tame_def by blast
  next
    case (Some b)
    then show ?thesis using assms by (simp add: getTerminalSessionRecord_def tame_refl)
  qed
qed

lemma tame_release: "table_wf st \<Longrightarrow> tame st (releaseTerminalSession w st)"
proof (cases "store_table st w")
  case (Some a)
  assume wf: "table_wf st"
  let ?st1 = "update_record a (\<lambda>r. r\<lparr>tr_retainers := tr_retainers r - 1\<rparr>) st"
  let ?st2 = "clearTerminalStreamConnection a (clearTerminalStreamReconnectTimer a ?st1)"
  have 1: "falling st ?st1" by (rule same_flags_falling, rule same_flags_record) simp
  have "falling ?st1 ?st2"
    using same_flags_trans [OF same_flags_clear(1) same_flags_clear(2)] same_flags_falling by blast
  then have 2: "tame st ?st2" using falling_tame [OF falling_trans [OF 1] wf] by blast
  have "tame ?st2 (?st2\<lparr>store_table := (store_table ?st2)(w := None)\<rparr>)"
    using 2 by (auto simp: tame_def table_wf_def split: if_splits)
  with tame_trans [OF 2] show ?thesis
    using Some falling_tame [OF 1 wf] by (simp add: releaseTerminalSession_def Let_def)
qed (simp add: releaseTerminalSession_def tame_refl)

lemma tame_clear: "table_wf st \<Longrightarrow> tame st (clearTerminalStreamConnection a (clearTerminalStreamReconnectTimer a st))"
  using same_flags_trans [OF same_flags_clear(1) same_flags_clear(2)] same_flags_falling falling_tame by blast

lemma clear_table [simp]:
  "store_table (clearTerminalStreamConnection a st) = store_table st"
  "store_table (clearTerminalStreamReconnectTimer a st) = store_table st"
  using same_flags_clear by (simp_all add: same_flags_def)

lemma accountable_reload:
  assumes "tame st st1" and "store_table st1 w = Some a"
    and "\<not> silent options \<Longrightarrow> \<not> preserveRecoveryState options"
  shows "accountable (\<lambda>_ _ _. False) st (reloadTerminalSessionRecord a options k st1)"
proof -
  let ?st = "clearTerminalStreamConnection a (clearTerminalStreamReconnectTimer a st1)"
  have "table_wf st1" using assms(1) by (simp add: tame_def)
  then have t: "tame st ?st" by (rule tame_trans [OF assms(1) tame_clear])
  show ?thesis
  proof (cases "silent options")
    case True
    then show ?thesis using accountable_tame [OF t] by (simp add: reloadTerminalSessionRecord_def Let_def)
  next
    case False
    have "accountable (\<lambda>_ _ _. False) st
        (update_state a (\<lambda>s. s\<lparr>ts_error := None, ts_isLoading := True\<rparr>) ?st, [AwaitSnapshot a options k])"
      by (rule accountable_raise [OF t]) (use assms False in \<open>auto simp: flag_own_fields split: if_splits\<close>)
    then show ?thesis using False by (simp add: reloadTerminalSessionRecord_def Let_def)
  qed
qed

lemma snd_reload [simp]: "snd (reloadTerminalSessionRecord a options k st) = [AwaitSnapshot a options k]"
  by (simp add: reloadTerminalSessionRecord_def Let_def)

lemma accountable_consumed:
  assumes "accountable (\<lambda>_ _ _. False) st S"
    and "\<And>w a F. store_table st w = Some a \<Longrightarrow> consumed w a F \<Longrightarrow> \<exists>t\<in>set (snd S). resets t w a F"
  shows "accountable consumed st S"
  using assms unfolding accountable_def by blast

text \<open>A record that is not in the table can change freely.\<close>

lemma inactive_iff: "table_wf st \<Longrightarrow> \<not> isActiveTerminalSessionRecord a st \<Longrightarrow> store_table st w \<noteq> Some a"
  by (auto simp: table_wf_def isActiveTerminalSessionRecord_def)

lemma tame_inactive:
  assumes "tame st st1" and "\<And>w. store_table st1 w \<noteq> Some a"
  shows "tame st (update_state a f st1)"
  using assms unfolding tame_def table_wf_def by (auto split: if_splits)

lemma accountable_reload_any:
  assumes wf: "table_wf st" and opts: "\<not> silent options \<Longrightarrow> \<not> preserveRecoveryState options"
  shows "accountable (\<lambda>_ _ _. False) st (reloadTerminalSessionRecord a options k st)"
proof (cases "isActiveTerminalSessionRecord a st")
  case True
  then show ?thesis
    using accountable_reload [OF tame_refl [OF wf] _ opts] by (simp add: isActiveTerminalSessionRecord_def)
next
  case False
  have "store_table (clearTerminalStreamConnection a (clearTerminalStreamReconnectTimer a st)) w \<noteq> Some a" for w
    using inactive_iff [OF wf False] by simp
  then have "tame st (fst (reloadTerminalSessionRecord a options k st))"
    using tame_inactive [OF tame_clear [OF wf]] tame_clear [OF wf] by (simp add: reloadTerminalSessionRecord_def Let_def)
  then show ?thesis
    using accountable_tame [of st "fst (reloadTerminalSessionRecord a options k st)"] by (metis prod.collapse)
qed

subsection \<open>Replies\<close>

lemma request_flags_reloaded:
  "F \<in> request_flags request \<Longrightarrow> resets (AwaitSnapshot a plain_reload (Some request)) w a F"
  by (cases request) (auto simp: plain_reload_def)

lemma request_failed_flags:
  "flag F (request_failed text request s) \<Longrightarrow> flag F s \<and> F \<notin> request_flags request"
  by (cases request) (auto simp: request_failed_def flag_own_fields split: if_splits)

lemma accountable_request:
  assumes "table_wf st"
  shows "accountable (resets (AwaitRequest a request)) st (request_done a request reply st)"
proof (cases reply)
  case (Inr u)
  have "accountable (\<lambda>_ _ _. False) st (reloadTerminalSessionRecord a plain_reload (Some request) st)"
    using accountable_reload_any [OF assms] by (simp add: plain_reload_def)
  then have "accountable (resets (AwaitRequest a request)) st (reloadTerminalSessionRecord a plain_reload (Some request) st)"
    by (rule accountable_consumed) (use request_flags_reloaded in auto)
  then show ?thesis using Inr by (simp add: request_done_def)
next
  case (Inl error)
  show ?thesis
  proof (cases "isActiveTerminalSessionRecord a st")
    case True
    let ?f = "request_failed (toTerminalErrorMessage error (request_error_text (tr_widgetId (store_heap st a)) request)) request"
    have "falling st (update_state a ?f st)" using request_failed_flags by (intro falling_state) blast
    then have "accountable (resets (AwaitRequest a request)) st (update_state a ?f st, [])"
      by (rule accountable_falling [OF _ assms]) (use request_failed_flags in fastforce)
    then show ?thesis using Inl True by (simp add: request_done_def Let_def)
  next
    case False
    then show ?thesis using Inl inactive_iff [OF assms]
      by (auto simp: request_done_def intro!: accountable_falling assms)
  qed
qed

lemma accountable_snapshot:
  assumes "table_wf st"
  shows "accountable (resets (AwaitSnapshot a options k)) st (reload_snapshot a options k reply st)"
proof (cases reply)
  case (Inl error)
  let ?st = "reload_failed a options error st"
  have "\<not> flag F (state_of (end_request a k ?st) a)"
    if "store_table st w = Some a" "resets (AwaitSnapshot a options k) w a F" for w F
  proof -
    have act: "isActiveTerminalSessionRecord a st" using active_iff [OF assms that(1)] .
    have "F \<in> end_flags k \<or> F = FLoading \<and> \<not> preserveRecoveryState options" using that(2) by simp
    then show ?thesis
    proof
      assume "F \<in> end_flags k"
      then show ?thesis using end_request_resets falling_active [OF falling_reload_failed] act by blast
    next
      assume "F = FLoading \<and> \<not> preserveRecoveryState options"
      then have "\<not> flag F (state_of ?st a)" using reload_failed_resets [OF act] by blast
      then show ?thesis using falling_end_request [of ?st a k] by (auto simp: falling_def)
    qed
  qed
  then show ?thesis using Inl falling_trans [OF falling_reload_failed falling_end_request]
    by (auto simp: reload_snapshot_def intro!: accountable_falling assms)
next
  case (Inr snapshot)
  show ?thesis
  proof (cases "isActiveTerminalSessionRecord a st")
    case True
    then show ?thesis using Inr
      by (auto simp: reload_snapshot_def flag_own_fields intro!: accountable_falling assms falling_state split: if_splits)
  next
    case False
    then show ?thesis using Inr inactive_iff [OF assms]
      by (auto simp: reload_snapshot_def intro!: accountable_falling assms)
  qed
qed

lemma falling_first_done: "falling st (first_load_done a st)"
  unfolding first_load_done_def by (rule same_flags_falling, rule same_flags_record) simp

lemma falling_first_failed: "falling st (first_load_failed a error st)"
proof -
  let ?st = "if \<not> isActiveTerminalSessionRecord a st then st
      else update_state a (\<lambda>s. s\<lparr>ts_error := Some (toTerminalErrorMessage error
               (js ''Unable to load terminal snapshot for '' @ tr_widgetId (store_heap st a) @ js ''.'')),
               isCreatingSession := False, isInterrupting := False, isRecoveringStream := False, ts_isLoading := False,
               isRestarting := False\<rparr>) st"
  have "falling st ?st" by (auto simp: flag_own_fields split: if_splits intro!: falling_state simp del: js_Cons)
  then show ?thesis unfolding first_load_failed_def by (rule falling_trans [OF _ falling_first_done])
qed

lemma accountable_first_snapshot:
  assumes "table_wf st"
  shows "accountable (resets (AwaitFirstSnapshot a)) st (first_snapshot a reply st)"
proof (cases reply)
  case (Inl error)
  have "\<not> flag FLoading (state_of (first_load_failed a error st) a)" if "isActiveTerminalSessionRecord a st"
    using that by (simp add: first_load_failed_def first_load_done_def)
  then show ?thesis using Inl active_iff [OF assms]
    by (auto simp: first_snapshot_def intro!: accountable_falling falling_first_failed assms)
next
  case (Inr snapshot)
  show ?thesis
  proof (cases "isActiveTerminalSessionRecord a st")
    case True
    let ?f = "\<lambda>s. \<lparr>commandInputVersion = commandInputVersion s, ts_error = None, isCreatingSession = False,
        isRecoveringStream = False, isInterrupting = False, ts_isLoading = False,
        isLoadingShells = isLoadingShells s, isRestarting = False, isSwitchingShell = False,
        ts_snapshot = Some snapshot, shellOptions = shellOptions s, shellOptionsLoaded = shellOptionsLoaded s,
        streamRetryCount = 0\<rparr>"
    have f: "flag F (?f s) \<Longrightarrow> flag F s \<and> F \<noteq> FLoading" for F s by (cases F) simp_all
    then have "falling st (update_state a ?f st)" by (intro falling_state) blast
    then have "accountable (resets (AwaitFirstSnapshot a)) st (update_state a ?f st, [AwaitFirstStream a (snap_next_seq snapshot)])"
      by (rule accountable_falling [OF _ assms]) simp
    then show ?thesis using Inr True by (simp add: first_snapshot_def)
  next
    case False
    then show ?thesis using Inr inactive_iff [OF assms]
      by (auto simp: first_snapshot_def intro!: accountable_falling falling_first_done assms)
  qed
qed

lemma accountable_first_stream:
  assumes "table_wf st"
  shows "accountable (resets (AwaitFirstStream a n)) st (first_stream a n reply st, [])"
proof -
  have "falling st (first_stream a n reply st)"
    using falling_first_failed falling_trans [OF falling_attach falling_first_done]
    by (auto simp: first_stream_def split: sum.split)
  then show ?thesis by (rule accountable_falling [OF _ assms]) simp
qed

lemma accountable_shells:
  assumes "table_wf st"
  shows "accountable (resets (AwaitShells a)) st (shells_loaded a reply st, [])"
proof -
  have "falling st (shells_loaded a reply st)"
    by (auto simp: shells_loaded_def flag_own_fields split: sum.split if_splits intro!: falling_state simp del: js_Cons)
  then show ?thesis
    by (rule accountable_falling [OF _ assms])
       (use active_iff [OF assms] in \<open>auto simp: shells_loaded_def split: sum.split\<close>)
qed

lemma accountable_interrupt:
  assumes "table_wf st"
  shows "accountable (resets (AwaitInterrupt w)) st (interrupted w reply st, [])"
proof -
  have "falling st (interrupted w reply st)"
    by (auto simp: interrupted_def flag_own_fields split: sum.split option.split if_splits intro!: falling_state simp del: js_Cons)
  then show ?thesis
    by (rule accountable_falling [OF _ assms])
       (use active_iff [OF assms] in \<open>auto simp: interrupted_def split: sum.split\<close>)
qed

lemma accountable_input:
  assumes "table_wf st"
  shows "accountable (resets (AwaitInput w text)) st (input_sent w text reply st, [])"
proof (cases reply)
  case (Inl error)
  obtain a st1 where get: "getTerminalSessionRecord w st = (a, st1)" by fastforce
  note tame = tame_get [OF assms get]
  have "falling st1 (update_state a (\<lambda>s. s\<lparr>ts_error := e\<rparr>) st1)" for e by (rule falling_state) simp
  then have "tame st (update_state a (\<lambda>s. s\<lparr>ts_error := e\<rparr>) st1)" for e
    using tame_trans [OF tame(1) falling_tame] tame(1) by (simp add: tame_def [of st st1])
  then show ?thesis using Inl get
    by (auto simp: input_sent_def intro!: accountable_consumed accountable_tame)
next
  case (Inr u)
  have "falling st (input_sent w text reply st)" unfolding Inr
    by (auto simp: input_sent_def Let_def split: option.split intro!: falling_state)
  then show ?thesis by (rule accountable_falling [OF _ assms]) simp
qed

lemmas accountable_replies = accountable_request accountable_snapshot accountable_stream accountable_first_snapshot
  accountable_first_stream accountable_shells accountable_interrupt accountable_input

lemma accountable_task: "table_wf st \<Longrightarrow> accountable (resets t) st (task_step t r st)"
  by (cases t) (simp_all only: task_step.simps accountable_replies)

subsection \<open>Commands and callbacks\<close>

text \<open>
  The shape of most commands: get the record, do nothing when the guard refuses, otherwise change the state of the
  record and wait with a task that resets the flags that were raised.
\<close>

lemma accountable_guarded:
  assumes "table_wf st"
    and "\<And>a s F. flag F (f a s) \<Longrightarrow> flag F s \<or> resets (t a) w a F"
  shows "accountable (\<lambda>_ _ _. False) st
    (let (a, st1) = getTerminalSessionRecord w st; s = state_of st1 a in
     if guard a s then (st1, []) else (update_state a (f a) st1, [t a]))"
proof -
  obtain a st1 where get: "getTerminalSessionRecord w st = (a, st1)" by fastforce
  note tame = tame_get [OF assms(1) get]
  show ?thesis using get accountable_tame [OF tame(1)] accountable_raise [OF tame, of "f a" "t a"] assms(2) by simp
qed

lemma accountable_restart: "table_wf st \<Longrightarrow> accountable (\<lambda>_ _ _. False) st (restartSession w st)"
  unfolding restartSession_def
  by (rule accountable_guarded) (auto simp: flag_own_fields split: if_splits)

lemma accountable_load_shells:
  assumes "table_wf st"
  shows "accountable (\<lambda>_ _ _. False) st (loadShellOptions w st)"
  unfolding loadShellOptions_def Let_def [of "mapConnectionKind _"]
  by (rule accountable_guarded [OF assms]) (auto simp: flag_own_fields split: if_splits)

lemma accountable_switch:
  assumes "table_wf st"
  shows "accountable (\<lambda>_ _ _. False) st (switchShell w shell st)"
  unfolding switchShell_def Let_def [of "mapConnectionKind _"] Let_def [of "js_default _ _"] Let_def [of "js_trim _"]
  by (rule accountable_guarded [OF assms]) (auto simp: flag_own_fields split: if_splits)

lemma accountable_interrupt_command: "table_wf st \<Longrightarrow> accountable (\<lambda>_ _ _. False) st (interruptSession w st)"
  unfolding interruptSession_def
  by (rule accountable_guarded) (auto simp: flag_own_fields split: if_splits)

lemma accountable_create: "table_wf st \<Longrightarrow> accountable (\<lambda>_ _ _. False) st (createSessionForWidget w st)"
  unfolding createSessionForWidget_def
  by (rule accountable_guarded) (auto simp: flag_own_fields split: if_splits)

lemma accountable_focus: "table_wf st \<Longrightarrow> accountable (\<lambda>_ _ _. False) st (focusSession w sessionID st)"
  unfolding focusSession_def
  by (rule accountable_guarded) (auto simp: flag_own_fields split: if_splits)

lemma accountable_close:
  assumes "table_wf st"
  shows "accountable (\<lambda>_ _ _. False) st (closeSessionForWidget w sessionID st)"
  unfolding closeSessionForWidget_def Let_def [of "length _"]
  by (rule accountable_guarded [OF assms]) (auto simp: flag_own_fields split: if_splits)

lemma accountable_recover:
  assumes "table_wf st"
  shows "accountable (\<lambda>_ _ _. False) st (recoverSession w st)"
proof -
  obtain a st1 where get: "getTerminalSessionRecord w st = (a, st1)" by fastforce
  note tame = tame_get [OF assms get]
  have wf1: "table_wf st1" using tame(1) by (simp add: tame_def)
  let ?st = "update_state a (\<lambda>s. s\<lparr>ts_error := None, isRecoveringStream := True, streamRetryCount := 0\<rparr>) st1"
  have "falling st1 ?st" by (rule falling_state) simp
  then have "tame st ?st" using tame_trans [OF tame(1) falling_tame] wf1 by blast
  then have reload: "accountable (\<lambda>_ _ _. False) st (reloadTerminalSessionRecord a recovery_reload None ?st)"
    by (rule accountable_reload) (use tame(2) in \<open>simp_all add: recovery_reload_def\<close>)
  have "getTerminalSessionRecord w st1 = (a, st1)" using tame(2) by (simp add: getTerminalSessionRecord_def)
  then have "restartSession w st1 = restartSession w st" using get by (simp add: restartSession_def)
  then show ?thesis
    using get reload accountable_tame [OF tame(1)] accountable_restart [OF assms]
    by (simp add: recoverSession_def Let_def del: js_Cons)
qed

lemma accountable_same_flags:
  "accountable consumed st (st1, new) \<Longrightarrow> same_flags st1 st2 \<Longrightarrow> accountable consumed st (st2, new)"
  unfolding accountable_def same_flags_def table_wf_def by simp

lemma accountable_mount:
  assumes "table_wf st"
  shows "accountable (\<lambda>_ _ _. False) st (mount_terminal w st)"
proof -
  obtain a st1 where get: "getTerminalSessionRecord w st = (a, st1)" by fastforce
  note tame = tame_get [OF assms get]
  let ?st = "update_record a (\<lambda>r. r\<lparr>tr_retainers := tr_retainers r + 1\<rparr>) st1"
  let ?f = "\<lambda>s. s\<lparr>ts_isLoading := True, isCreatingSession := False, isInterrupting := False, isRestarting := False, ts_error := None\<rparr>"
  have "falling st1 ?st" by (rule same_flags_falling, rule same_flags_record) simp
  then have t: "tame st ?st" using tame_trans [OF tame(1) falling_tame] tame(1) by (simp add: tame_def [of st st1])
  have "accountable (\<lambda>_ _ _. False) st (update_state a ?f ?st, [AwaitFirstSnapshot a])"
    by (rule accountable_raise [OF t]) (use tame(2) in \<open>auto simp: flag_own_fields split: if_splits\<close>)
  moreover have "same_flags (update_state a ?f ?st) (update_record a (\<lambda>r. r\<lparr>tr_loading := True\<rparr>) (update_state a ?f ?st))"
    by (rule same_flags_record) simp
  ultimately have "accountable (\<lambda>_ _ _. False) st
      (update_record a (\<lambda>r. r\<lparr>tr_loading := True\<rparr>) (update_state a ?f ?st), [AwaitFirstSnapshot a])"
    by (rule accountable_same_flags)
  then show ?thesis
    using get accountable_tame [OF t] by (simp add: mount_terminal_def retainTerminalSession_def ensureTerminalSession_def)
qed

lemma accountable_peek:
  assumes "table_wf st"
  shows "accountable (\<lambda>_ _ _. False) st (snd (getTerminalSessionRecord w st), [])"
  by (rule accountable_tame, rule tame_get(1) [OF assms], rule prod.collapse [symmetric])

lemma accountable_send:
  assumes "table_wf st"
  shows "accountable (\<lambda>_ _ _. False) st (sendInputChunk w text st)"
  using accountable_tame [OF tame_refl [OF assms]] by (simp add: sendInputChunk_def)

lemmas accountable_commands = accountable_mount accountable_tame [OF tame_release] accountable_peek accountable_send
  accountable_restart accountable_load_shells accountable_switch accountable_recover accountable_interrupt_command
  accountable_create accountable_focus accountable_close

lemma accountable_command: "table_wf st \<Longrightarrow> accountable (\<lambda>_ _ _. False) st (command_step c st)"
  by (cases c) (simp_all only: command_step.simps, (rule accountable_commands, assumption)+)

lemma accountable_timer:
  assumes "table_wf st"
  shows "accountable (\<lambda>_ _ _. False) st (timer_fired a st)"
proof -
  let ?st = "clearTerminalStreamReconnectTimer a st"
  have t: "tame st ?st" using same_flags_clear(1) same_flags_falling falling_tame assms by blast
  have "accountable (\<lambda>_ _ _. False) st (reloadTerminalSessionRecord a recovery_reload None ?st)"
    if "isActiveTerminalSessionRecord a ?st"
    using accountable_reload [OF t, of _ a recovery_reload] that
    by (simp add: isActiveTerminalSessionRecord_def recovery_reload_def)
  then show ?thesis using accountable_tame [OF t] accountable_tame [OF tame_refl [OF assms]]
    by (simp add: timer_fired_def Let_def)
qed

lemma flag_append [simp]: "flag F (appendTerminalChunk chunk s) = flag F s"
  by (cases "ts_snapshot s") (simp_all add: appendTerminalChunk_def)

lemma falling_output: "falling st (stream_output i chunk st)"
  by (auto simp: stream_output_def Let_def split: option.split if_splits intro!: falling_state)

lemma falling_ended: "falling st (stream_ended i error st)"
proof -
  have "falling st (close_stream i st)" by (simp add: falling_def)
  then show ?thesis
    using falling_trans [OF _ same_flags_falling [OF same_flags_schedule]]
    by (auto simp: stream_ended_def Let_def split: option.split)
qed

subsection \<open>Every flag that is set is owed by a pending task\<close>

definition covered :: "terminal_store \<Rightarrow> terminal_task list \<Rightarrow> bool" where
  "covered st tasks \<longleftrightarrow> table_wf st
     \<and> (\<forall>w a F. store_table st w = Some a \<and> flag F (state_of st a) \<longrightarrow> (\<exists>t\<in>set tasks. resets t w a F))"

lemma covered_step:
  assumes "covered st tasks" and "accountable consumed st (st', new)" and "set new \<subseteq> set tasks'"
    and "\<And>t w a F. t \<in> set tasks \<Longrightarrow> resets t w a F \<Longrightarrow> \<not> consumed w a F \<Longrightarrow> t \<in> set tasks'"
  shows "covered st' tasks'"
  using assms unfolding covered_def accountable_def fst_conv snd_conv by blast

lemma covered_reply:
  assumes "covered st (us @ t # vs)" and "task_step t r st = (st', new)"
  shows "covered st' (us @ new @ vs)"
proof (rule covered_step [OF assms(1)])
  show "accountable (resets t) st (st', new)"
    using accountable_task [of st t r] assms by (simp add: covered_def)
qed auto

lemma covered_started:
  assumes "covered st tasks" and "accountable (\<lambda>_ _ _. False) st (st', new)"
  shows "covered st' (new @ tasks)"
  by (rule covered_step [OF assms]) auto

lemma reach_covered: "terminal_reach S \<Longrightarrow> covered (fst S) (snd S)"
proof (induction rule: terminal_reach.induct)
  case terminal_start
  show ?case by (simp add: covered_def table_wf_def empty_store_def)
next
  case (terminal_command st tasks c st' new)
  then have "accountable (\<lambda>_ _ _. False) st (st', new)"
    using accountable_command [of st c] by (simp add: covered_def)
  then show ?case using covered_started terminal_command.IH by simp
next
  case (terminal_reply st us t vs r st' new)
  then show ?case using covered_reply by simp
next
  case (terminal_output st tasks i chunk)
  then have "accountable (\<lambda>_ _ _. False) st (stream_output i chunk st, [])"
    using accountable_falling [OF falling_output] by (simp add: covered_def)
  from covered_started [OF _ this] terminal_output.IH show ?case by simp
next
  case (terminal_ended st tasks i error)
  then have "accountable (\<lambda>_ _ _. False) st (stream_ended i error st, [])"
    using accountable_falling [OF falling_ended] by (simp add: covered_def)
  from covered_started [OF _ this] terminal_ended.IH show ?case by simp
next
  case (terminal_timer st tasks a st' new)
  then have "accountable (\<lambda>_ _ _. False) st (st', new)"
    using accountable_timer [of st a] by (simp add: covered_def)
  then show ?case using covered_started terminal_timer.IH by simp
qed

lemma task_rank_falls: "task_step t r st = (st', new) \<Longrightarrow> t' \<in> set new \<Longrightarrow> task_rank t' < task_rank t"
  by (cases t) (auto simp: request_done_def reload_snapshot_def first_snapshot_def reloadTerminalSessionRecord_def Let_def
      split: sum.splits if_splits)

lemma task_resets:
  assumes "table_wf st" and "store_table st w = Some a" and "resets t w a F" and "task_step t r st = (st', new)"
    and "store_table st' w = Some a" and "flag F (state_of st' a)"
  shows "\<exists>t'\<in>set new. resets t' w a F \<and> task_rank t' < task_rank t"
  using accountable_task [OF assms(1), of t r] assms task_rank_falls [OF assms(4)]
  unfolding accountable_def by fastforce

lemma reach_table_wf: "terminal_reach (st, tasks) \<Longrightarrow> table_wf st"
  using reach_covered by (fastforce simp: covered_def)

text \<open>
  C7: An operation never stays marked as running. Whatever the order of mounting, unmounting, operations, replies, stream
  events and timers, each of the six flags (loading, creating, interrupting, restarting, switching the shell, loading
  the shells) that is set on a live record is owed by a request in flight; and whenever that request is answered, in
  whatever state and with whatever answer, either the flag is reset or the next request of the same operation owes it,
  of which there are at most three.
\<close>
theorem terminal_never_stuck:
  assumes "terminal_reach (st, tasks)" and "store_table st w = Some a" and "flag F (state_of st a)"
  shows "\<exists>t\<in>set tasks. resets t w a F \<and> task_rank t \<le> 3
    \<and> (\<forall>st1 tasks1 r st2 new. terminal_reach (st1, tasks1) \<and> store_table st1 w = Some a \<and> task_step t r st1 = (st2, new)
         \<and> store_table st2 w = Some a \<and> flag F (state_of st2 a)
         \<longrightarrow> (\<exists>t'\<in>set new. resets t' w a F \<and> task_rank t' < task_rank t))"
proof -
  have "\<exists>t\<in>set tasks. resets t w a F" using reach_covered [OF assms(1)] assms(2,3) by (simp add: covered_def)
  then obtain t where t: "t \<in> set tasks" "resets t w a F" by blast
  have "task_rank t \<le> 3" by (cases t) simp_all
  with t show ?thesis using task_resets [OF reach_table_wf _ t(2)] by blast
qed

text \<open>The record and flag of the witness: a mounted terminal that is being restarted.\<close>

lemma restarted_reach:
  "terminal_reach (fst (restartSession [116] (fst (mount_terminal [116] empty_store))),
     [AwaitRequest 0 RestartRequest, AwaitFirstSnapshot 0])"
proof -
  let ?S = "mount_terminal [116] empty_store"
  have 1: "terminal_reach (fst ?S, [AwaitFirstSnapshot 0])"
    using terminal_command [OF terminal_start, of "Mount [116]"]
    by (simp add: mount_terminal_def retainTerminalSession_def getTerminalSessionRecord_def ensureTerminalSession_def
        empty_store_def createTerminalSessionRecord_def)
  have "restartSession [116] (fst ?S) = (fst (restartSession [116] (fst ?S)), [AwaitRequest 0 RestartRequest])"
    by (simp add: restartSession_def mount_terminal_def retainTerminalSession_def getTerminalSessionRecord_def
        ensureTerminalSession_def empty_store_def createTerminalSessionRecord_def initial_terminal_state_def)
  then have "command_step (Restart [116]) (fst ?S) = (fst (restartSession [116] (fst ?S)), [AwaitRequest 0 RestartRequest])"
    by (simp only: command_step.simps)
  from terminal_command [OF 1 this] show ?thesis by simp
qed

theorem terminal_never_stuck_witness:
  "\<exists>t\<in>set [AwaitRequest 0 RestartRequest, AwaitFirstSnapshot 0]. resets t [116] 0 FRestarting"
proof -
  let ?st = "fst (restartSession [116] (fst (mount_terminal [116] empty_store)))"
  have "store_table ?st [116] = Some 0" and "flag FRestarting (state_of ?st 0)"
    by (simp_all add: restartSession_def mount_terminal_def retainTerminalSession_def getTerminalSessionRecord_def
        ensureTerminalSession_def empty_store_def createTerminalSessionRecord_def initial_terminal_state_def)
  from terminal_never_stuck [OF restarted_reach this] show ?thesis by blast
qed

section \<open>Reconnecting\<close>

lemma schedule_delay:
  "tr_reconnectTimer (store_heap (scheduleTerminalStreamReconnect a error st) a) =
     (if isActiveTerminalSessionRecord a st \<and> 0 < tr_retainers (store_heap st a) \<and> shouldAutoRecoverStream (ts_snapshot (state_of st a))
      then Some (min 4000 (500 * (streamRetryCount (state_of st a) + 1))) else tr_reconnectTimer (store_heap st a))"
  by (simp add: scheduleTerminalStreamReconnect_def Let_def)

text \<open>
  A reload resets the count of attempts as soon as the stream is connected, before it has sent anything, and the stream
  fetches only after that: when each new stream fails, each wait is the shortest one.
\<close>

lemma end_request_parts [simp]:
  "tr_retainers (store_heap (end_request a k st) b) = tr_retainers (store_heap st b)"
  "tr_streamClose (store_heap (end_request a k st) b) = tr_streamClose (store_heap st b)"
  "tr_reconnectTimer (store_heap (end_request a k st) b) = tr_reconnectTimer (store_heap st b)"
  "ts_snapshot (state_of (end_request a k st) b) = ts_snapshot (state_of st b)"
  "streamRetryCount (state_of (end_request a k st) b) = streamRetryCount (state_of st b)"
  "isRecoveringStream (state_of (end_request a k st) b) = isRecoveringStream (state_of st b)"
  by (auto simp: end_request_def split: option.split terminal_request.split)

lemma reconnect_never_backs_off:
  assumes "isActiveTerminalSessionRecord a st" and "0 < tr_retainers (store_heap st a)"
    and "shouldAutoRecoverStream (ts_snapshot (state_of st a))"
  shows "tr_reconnectTimer (store_heap (scheduleTerminalStreamReconnect a error
           (reload_stream a options k n (Inr ()) st)) a) = Some 500"
proof -
  let ?st = "reload_stream a options k n (Inr ()) st"
  have "isActiveTerminalSessionRecord a ?st" using falling_active [OF falling_reload_stream] assms(1) by blast
  moreover have "streamRetryCount (state_of ?st a) = 0" "tr_retainers (store_heap ?st a) = tr_retainers (store_heap st a)"
    "ts_snapshot (state_of ?st a) = ts_snapshot (state_of st a)"
    using assms(1) by (auto simp: reload_stream_def attachTerminalStream_def update_record_def Let_def)
  ultimately show ?thesis using assms by (simp add: schedule_delay)
qed

text \<open>
  A plain reload that fails while a reconnect is scheduled: the timer and the stream are gone, the view goes on saying
  that the stream is reconnecting, and the error is not shown.
\<close>

lemma failed_reload_keeps_reconnecting:
  assumes "isActiveTerminalSessionRecord a st" and "isRecoveringStream (state_of st a)"
  shows "let st' = fst (reload_snapshot a plain_reload k (Inl error) (fst (reloadTerminalSessionRecord a plain_reload k st))) in
    tr_reconnectTimer (store_heap st' a) = None \<and> tr_streamClose (store_heap st' a) = None
    \<and> view_statusDetail (buildTerminalSessionView seed (state_of st' a)) = Some reconnecting_text"
proof -
  let ?st1 = "clearTerminalStreamConnection a (clearTerminalStreamReconnectTimer a st)"
  have "isActiveTerminalSessionRecord a ?st1"
    using falling_active [OF same_flags_falling [OF same_flags_trans [OF same_flags_clear(1) same_flags_clear(2)]]] assms(1) by blast
  moreover have "tr_reconnectTimer (store_heap ?st1 a) = None" "tr_streamClose (store_heap ?st1 a) = None"
    "isRecoveringStream (state_of ?st1 a)"
    using assms(2) by (auto simp: clearTerminalStreamConnection_def clearTerminalStreamReconnectTimer_def Let_def split: option.split)
  ultimately show ?thesis
    by (simp add: reload_snapshot_def reloadTerminalSessionRecord_def reload_failed_def plain_reload_def
        isActiveTerminalSessionRecord_def buildTerminalSessionView_def Let_def del: js_Cons)
qed

section \<open>Two streams of one terminal\<close>

text \<open>Attaching a stream leaves the stream the record followed before alive.\<close>

lemma attach_keeps_old_stream:
  assumes "isActiveTerminalSessionRecord a st" and "stream_live (store_streams st i)" and "i < store_nextStream st"
  shows "stream_live (store_streams (attachTerminalStream a n st) i)"
    and "stream_live (store_streams (attachTerminalStream a n st) (store_nextStream st))"
  using assms by (simp_all add: attachTerminalStream_def Let_def)

lemma stream_output_live:
  assumes "stream_live (store_streams st i)" and "store_table st (stream_widget (store_streams st i)) = Some a"
    and "ts_snapshot (state_of st a) = Some snap"
  shows "map_option snap_chunks (ts_snapshot (state_of (stream_output i chunk st) a)) = Some (snap_chunks snap @ [chunk])"
    and "store_streams (stream_output i chunk st) = store_streams st" "store_table (stream_output i chunk st) = store_table st"
  using assms by (simp_all add: stream_output_def appendTerminalChunk_def Let_def)

text \<open>Two live streams of one widget that both deliver a chunk: it is shown twice.\<close>

lemma two_streams_duplicate:
  assumes "stream_live (store_streams st i)" and "stream_live (store_streams st j)"
    and "stream_widget (store_streams st i) = w" and "stream_widget (store_streams st j) = w"
    and "store_table st w = Some a" and "ts_snapshot (state_of st a) = Some snap"
  shows "map_option snap_chunks (ts_snapshot (state_of (stream_output j chunk (stream_output i chunk st)) a))
    = Some (snap_chunks snap @ [chunk, chunk])"
proof -
  let ?st = "stream_output i chunk st"
  have out: "map_option snap_chunks (ts_snapshot (state_of ?st a)) = Some (snap_chunks snap @ [chunk])"
    "store_streams ?st = store_streams st" "store_table ?st = store_table st"
    using stream_output_live [OF assms(1)] assms by simp_all
  then obtain snap' where "ts_snapshot (state_of ?st a) = Some snap'" "snap_chunks snap' = snap_chunks snap @ [chunk]" by auto
  then show ?thesis using stream_output_live(1) [of ?st j a snap' chunk] out assms by simp
qed

text \<open>
  The tab and the panel of a terminal mount the same widget. A second mount after the first load has ended loads again
  and attaches a second stream: both are alive.
\<close>

lemma second_mount_second_stream:
  "\<exists>st tasks a. terminal_reach (st, tasks) \<and> store_table st [116] = Some a \<and> ts_snapshot (state_of st a) \<noteq> None
     \<and> stream_live (store_streams st 0) \<and> stream_live (store_streams st 1)
     \<and> stream_widget (store_streams st 0) = [116] \<and> stream_widget (store_streams st 1) = [116]"
proof -
  let ?runtime = "\<lparr>rt_widget_id = [116], rt_session_id = [115], rt_shell = [], rt_restored = None, rt_status_detail = None,
    rt_connection_id = None, rt_connection_name = None, rt_connection_kind = None, rt_remote_launch_mode = None,
    rt_remote_session_name = None, rt_pid = 1, rt_status = [], rt_started_at = [], rt_last_output_at = None,
    rt_exit_code = None, rt_can_send_input = True, rt_can_interrupt = True, rt_working_dir = None\<rparr>"
  let ?snap = "\<lparr>snap_state = ?runtime, snap_chunks = [], snap_next_seq = 1, snap_active_session_id = None, snap_sessions = None\<rparr>"
  let ?r = "\<lparr>reply_unit = Inr (), reply_snapshot = Inr ?snap, reply_state = Inr ?runtime, reply_shells = Inr []\<rparr>"
  define st1 where "st1 = fst (mount_terminal [116] empty_store)"
  define st2 where "st2 = fst (first_snapshot 0 (Inr ?snap) st1)"
  define st3 where "st3 = first_stream 0 1 (Inr ()) st2"
  define st4 where "st4 = fst (mount_terminal [116] st3)"
  define st5 where "st5 = fst (first_snapshot 0 (Inr ?snap) st4)"
  define st6 where "st6 = first_stream 0 1 (Inr ()) st5"
  note steps = mount_terminal_def retainTerminalSession_def getTerminalSessionRecord_def ensureTerminalSession_def
    first_snapshot_def first_stream_def first_load_done_def attachTerminalStream_def isActiveTerminalSessionRecord_def
    update_state_def update_record_def createTerminalSessionRecord_def Let_def
  have s1: "mount_terminal [116] empty_store = (st1, [AwaitFirstSnapshot 0])"
    by (simp add: st1_def steps empty_store_def)
  have "store_table st1 [116] = Some 0" "tr_widgetId (store_heap st1 0) = [116]" "store_nextStream st1 = 0"
    by (simp_all add: st1_def steps empty_store_def)
  note f1 = this
  have s2: "first_snapshot 0 (Inr ?snap) st1 = (st2, [AwaitFirstStream 0 1])" by (simp add: st2_def f1 steps)
  have f2: "store_table st2 [116] = Some 0" "tr_widgetId (store_heap st2 0) = [116]" "store_nextStream st2 = 0"
    by (simp_all add: st2_def f1 steps)
  have f3: "store_table st3 [116] = Some 0" "tr_widgetId (store_heap st3 0) = [116]" "store_nextStream st3 = 1"
    "\<not> tr_loading (store_heap st3 0)" "stream_live (store_streams st3 0)" "stream_widget (store_streams st3 0) = [116]"
    by (simp_all add: st3_def f2 steps)
  have s4: "mount_terminal [116] st3 = (st4, [AwaitFirstSnapshot 0])" by (simp add: st4_def f3 steps)
  have f4: "store_table st4 [116] = Some 0" "tr_widgetId (store_heap st4 0) = [116]" "store_nextStream st4 = 1"
    "stream_live (store_streams st4 0)" "stream_widget (store_streams st4 0) = [116]"
    by (simp_all add: st4_def f3 steps)
  have s5: "first_snapshot 0 (Inr ?snap) st4 = (st5, [AwaitFirstStream 0 1])" by (simp add: st5_def f4 steps)
  have f5: "store_table st5 [116] = Some 0" "tr_widgetId (store_heap st5 0) = [116]" "store_nextStream st5 = 1"
    "stream_live (store_streams st5 0)" "stream_widget (store_streams st5 0) = [116]" "ts_snapshot (state_of st5 0) = Some ?snap"
    by (simp_all add: st5_def f4 steps)
  have f6: "store_table st6 [116] = Some 0" "stream_live (store_streams st6 0)" "stream_widget (store_streams st6 0) = [116]"
    "stream_live (store_streams st6 1)" "stream_widget (store_streams st6 1) = [116]" "ts_snapshot (state_of st6 0) = Some ?snap"
    by (simp_all add: st6_def f5 steps)
  have "terminal_reach (st1, [AwaitFirstSnapshot 0])" using terminal_command [OF terminal_start, of "Mount [116]"] s1 by simp
  then have "terminal_reach (st2, [AwaitFirstStream 0 1])"
    using terminal_reply [of st1 "[]" "AwaitFirstSnapshot 0" "[]" ?r] s2 by simp
  then have "terminal_reach (st3, [])"
    using terminal_reply [of st2 "[]" "AwaitFirstStream 0 1" "[]" ?r] by (simp add: st3_def)
  then have "terminal_reach (st4, [AwaitFirstSnapshot 0])" using terminal_command [of st3 "[]" "Mount [116]"] s4 by simp
  then have "terminal_reach (st5, [AwaitFirstStream 0 1])"
    using terminal_reply [of st4 "[]" "AwaitFirstSnapshot 0" "[]" ?r] s5 by simp
  then have "terminal_reach (st6, [])"
    using terminal_reply [of st5 "[]" "AwaitFirstStream 0 1" "[]" ?r] by (simp add: st6_def)
  with f6 show ?thesis by blast
qed

end
