(* ===== verification/Terminal_Client.thy ===== *)
theory Terminal_Client
  imports Terminal_Session Event_Stream Json Uri "HOL-Library.Monad_Syntax"
begin

text \<open>
  The client of the terminal backend, \<^verbatim>\<open>features/terminal/api/client.ts\<close>: the requests, the schemas every reply is
  checked with, the errors, and the reader of the output stream; and how replies and output reach the session. A reply
  is an argument: the body of a response, a status with the code and message of its envelope, or the message of the
  exception that replaced it.
\<close>

section \<open>Requests\<close>

record http_request =
  req_method :: jsstring
  req_path :: jsstring
  req_body :: "json option"

record CreateSplitTerminalWidgetInput =
  split_connectionId :: "jsstring option"
  split_direction :: "jsstring option"
  split_tabId :: "jsstring option"
  split_targetWidgetId :: jsstring
  split_title :: "jsstring option"
  split_workingDir :: "jsstring option"

text \<open>\<open>buildTerminalPath\<close>; \<open>None\<close> when \<open>encodeURIComponent\<close> throws.\<close>

definition buildTerminalPath :: "jsstring \<Rightarrow> jsstring \<Rightarrow> int option \<Rightarrow> jsstring option" where
  "buildTerminalPath widgetID suffix from =
     do { encodedWidgetID \<leftarrow> encodeURIComponent widgetID;
          let basePath = js ''/api/v1/terminal/'' @ encodedWidgetID @ suffix;
          case from of
            None \<Rightarrow> Some basePath
          | Some n \<Rightarrow> do { q \<leftarrow> encodeURIComponent (js_of_int n); Some (basePath @ js ''?from='' @ q) } }"

datatype terminal_call =
    FetchTerminalSnapshot jsstring "int option"
  | CreateTerminalSession jsstring
  | SetActiveTerminalSession jsstring jsstring
  | CloseTerminalSession jsstring jsstring
  | FetchTerminalDiagnostics jsstring
  | FetchTerminalLatestCommand jsstring
  | FetchTerminalSessionCatalog
  | FetchTerminalShells
  | CreateTerminalTab "jsstring option"
  | CreateSplitTerminalWidget CreateSplitTerminalWidgetInput
  | CloseTerminalTab jsstring
  | SendTerminalInput jsstring jsstring bool
  | RestartTerminal jsstring "jsstring option"
  | InterruptTerminal jsstring
  | ConnectTerminalStream jsstring "int option"

definition http_get :: "jsstring \<Rightarrow> http_request" where
  "http_get p = \<lparr>req_method = js ''GET'', req_path = p, req_body = None\<rparr>"

definition http_send :: "string \<Rightarrow> json option \<Rightarrow> jsstring \<Rightarrow> http_request" where
  "http_send verb body p = \<lparr>req_method = js verb, req_path = p, req_body = body\<rparr>"

fun client_request :: "terminal_call \<Rightarrow> http_request option" where
  "client_request (FetchTerminalSnapshot w from) = map_option http_get (buildTerminalPath w [] from)"
| "client_request (CreateTerminalSession w) =
     map_option (http_send ''POST'' None) (buildTerminalPath w (js ''/sessions'') None)"
| "client_request (SetActiveTerminalSession w sessionID) =
     map_option (http_send ''PUT'' (Some (JObj [(js ''session_id'', JStr sessionID)])))
       (buildTerminalPath w (js ''/sessions/active'') None)"
| "client_request (CloseTerminalSession w sessionID) =
     do { encoded \<leftarrow> encodeURIComponent sessionID;
          map_option (http_send ''DELETE'' None) (buildTerminalPath w (js ''/sessions/'' @ encoded) None) }"
| "client_request (FetchTerminalDiagnostics w) = map_option http_get (buildTerminalPath w (js ''/diagnostics'') None)"
| "client_request (FetchTerminalLatestCommand w) = map_option http_get (buildTerminalPath w (js ''/commands/latest'') None)"
| "client_request FetchTerminalSessionCatalog = Some (http_get (js ''/api/v1/terminal/sessions''))"
| "client_request FetchTerminalShells = Some (http_get (js ''/api/v1/terminal/shells''))"
| "client_request (CreateTerminalTab title) =
     Some (http_send ''POST''
       (Some (JObj (case title of None \<Rightarrow> [] | Some t \<Rightarrow> if js_trim t = [] then [] else [(js ''title'', JStr t)])))
       (js ''/api/v1/workspace/tabs''))"
| "client_request (CreateSplitTerminalWidget input) =
     Some (http_send ''POST''
       (Some (JObj (json_props
         [(''connection_id'', map_option JStr (split_connectionId input)),
          (''direction'', Some (JStr (js_default (split_direction input) (js ''right'')))),
          (''tab_id'', map_option JStr (split_tabId input)),
          (''target_widget_id'', Some (JStr (split_targetWidgetId input))),
          (''title'', map_option JStr (split_title input)),
          (''working_dir'', map_option JStr (split_workingDir input))])))
       (js ''/api/v1/workspace/widgets/split''))"
| "client_request (CloseTerminalTab tabID) =
     map_option (\<lambda>e. http_send ''DELETE'' None (js ''/api/v1/workspace/tabs/'' @ e)) (encodeURIComponent tabID)"
| "client_request (SendTerminalInput w text appendNewline) =
     map_option (http_send ''POST'' (Some (JObj [(js ''text'', JStr text), (js ''append_newline'', JBool appendNewline)])))
       (buildTerminalPath w (js ''/input'') None)"
| "client_request (RestartTerminal w shell) =
     map_option (http_send ''POST''
         (case shell of
            None \<Rightarrow> None
          | Some s \<Rightarrow> if js_trim s = [] then None else Some (JObj [(js ''shell'', JStr s)])))
       (buildTerminalPath w (js ''/restart'') None)"
| "client_request (InterruptTerminal w) = map_option (http_send ''POST'' None) (buildTerminalPath w (js ''/interrupt'') None)"
| "client_request (ConnectTerminalStream w from) = map_option http_get (buildTerminalPath w (js ''/stream'') from)"

section \<open>Schemas\<close>

record TerminalInputResult =
  input_widget_id :: jsstring
  input_bytes_sent :: int
  input_append_newline :: bool

record TerminalDiagnostics =
  diag_widget_id :: jsstring
  diag_session_state :: jsstring
  diag_status_detail :: "jsstring option"
  diag_issue_summary :: "jsstring option"
  diag_output_excerpt :: "jsstring option"

record TerminalLatestCommand =
  latest_widget_id :: jsstring
  latest_session_id :: jsstring
  latest_command :: jsstring
  latest_from_seq :: int
  latest_submitted_at :: jsstring
  latest_output_excerpt :: "jsstring option"
  latest_status :: jsstring
  latest_status_detail :: "jsstring option"
  latest_exit_code :: "int option"
  latest_command_audit_event_id :: "jsstring option"
  latest_execution_block_id :: "jsstring option"
  latest_explain_state :: "jsstring option"
  latest_explain_summary :: "jsstring option"

record TerminalSessionCatalogEntry =
  catalog_workspace_id :: jsstring
  catalog_workspace_name :: jsstring
  catalog_tab_id :: "jsstring option"
  catalog_tab_title :: "jsstring option"
  catalog_widget_id :: jsstring
  catalog_widget_title :: jsstring
  catalog_session_id :: jsstring
  catalog_connection_id :: "jsstring option"
  catalog_connection_kind :: "jsstring option"
  catalog_connection_name :: "jsstring option"
  catalog_remote_launch_mode :: "jsstring option"
  catalog_remote_session_name :: "jsstring option"
  catalog_shell :: jsstring
  catalog_status :: jsstring
  catalog_status_detail :: "jsstring option"
  catalog_working_dir :: "jsstring option"
  catalog_is_active_workspace :: bool
  catalog_is_active_tab :: bool
  catalog_is_active_widget :: bool
  catalog_is_active_session :: bool

record TerminalSessionCatalog =
  catalog_active_workspace_id :: "jsstring option"
  catalog_sessions :: "TerminalSessionCatalogEntry list"

definition terminalRuntimeStateSchema :: "json option \<Rightarrow> TerminalRuntimeState option" where
  "terminalRuntimeStateSchema = zod_object (\<lambda>props. do {
     widget \<leftarrow> zod_string (json_field props ''widget_id'');
     session \<leftarrow> zod_string (json_field props ''session_id'');
     shell \<leftarrow> zod_string (json_field props ''shell'');
     restored \<leftarrow> zod_optional zod_bool (json_field props ''restored'');
     statusDetail \<leftarrow> zod_optional zod_string (json_field props ''status_detail'');
     connection \<leftarrow> zod_optional zod_string (json_field props ''connection_id'');
     connectionName \<leftarrow> zod_optional zod_string (json_field props ''connection_name'');
     connectionKind \<leftarrow> zod_optional zod_string (json_field props ''connection_kind'');
     launchMode \<leftarrow> zod_optional zod_string (json_field props ''remote_launch_mode'');
     remoteName \<leftarrow> zod_optional zod_string (json_field props ''remote_session_name'');
     pid \<leftarrow> zod_number (json_field props ''pid'');
     status \<leftarrow> zod_string (json_field props ''status'');
     startedAt \<leftarrow> zod_string (json_field props ''started_at'');
     lastOutput \<leftarrow> zod_optional zod_string (json_field props ''last_output_at'');
     exitCode \<leftarrow> zod_optional zod_number (json_field props ''exit_code'');
     canSend \<leftarrow> zod_bool (json_field props ''can_send_input'');
     canInterrupt \<leftarrow> zod_bool (json_field props ''can_interrupt'');
     workingDir \<leftarrow> zod_optional zod_string (json_field props ''working_dir'');
     Some \<lparr>rt_widget_id = widget, rt_session_id = session, rt_shell = shell, rt_restored = restored,
           rt_status_detail = statusDetail, rt_connection_id = connection, rt_connection_name = connectionName,
           rt_connection_kind = connectionKind, rt_remote_launch_mode = launchMode, rt_remote_session_name = remoteName,
           rt_pid = pid, rt_status = status, rt_started_at = startedAt, rt_last_output_at = lastOutput,
           rt_exit_code = exitCode, rt_can_send_input = canSend, rt_can_interrupt = canInterrupt,
           rt_working_dir = workingDir\<rparr> })"

definition terminalOutputChunkSchema :: "json option \<Rightarrow> TerminalOutputChunk option" where
  "terminalOutputChunkSchema = zod_object (\<lambda>props. do {
     n \<leftarrow> zod_number (json_field props ''seq'');
     text \<leftarrow> zod_string (json_field props ''data'');
     timestamp \<leftarrow> zod_string (json_field props ''timestamp'');
     Some \<lparr>chunk_seq = n, chunk_data = text, chunk_timestamp = timestamp\<rparr> })"

text \<open>The chunks may be null or missing, the sessions may be missing; \<open>normalizeTerminalSnapshot\<close> fills them in.\<close>

record parsed_snapshot =
  parsed_state :: TerminalRuntimeState
  parsed_chunks :: "TerminalOutputChunk list option"
  parsed_next_seq :: int
  parsed_active_session_id :: "jsstring option"
  parsed_sessions :: "TerminalRuntimeState list option"

definition terminalSnapshotSchema :: "json option \<Rightarrow> parsed_snapshot option" where
  "terminalSnapshotSchema = zod_object (\<lambda>props. do {
     state \<leftarrow> terminalRuntimeStateSchema (json_field props ''state'');
     chunks \<leftarrow> zod_optional (zod_nullable (zod_array terminalOutputChunkSchema)) (json_field props ''chunks'');
     nextSeq \<leftarrow> zod_number (json_field props ''next_seq'');
     active \<leftarrow> zod_optional zod_string (json_field props ''active_session_id'');
     sessions \<leftarrow> zod_optional (zod_array terminalRuntimeStateSchema) (json_field props ''sessions'');
     Some \<lparr>parsed_state = state, parsed_chunks = Option.bind chunks (\<lambda>c. c), parsed_next_seq = nextSeq,
           parsed_active_session_id = active, parsed_sessions = sessions\<rparr> })"

definition terminalDiagnosticsSchema :: "json option \<Rightarrow> TerminalDiagnostics option" where
  "terminalDiagnosticsSchema = zod_object (\<lambda>props. do {
     widget \<leftarrow> zod_string (json_field props ''widget_id'');
     state \<leftarrow> zod_string (json_field props ''session_state'');
     detail \<leftarrow> zod_optional zod_string (json_field props ''status_detail'');
     issue \<leftarrow> zod_optional zod_string (json_field props ''issue_summary'');
     excerpt \<leftarrow> zod_optional zod_string (json_field props ''output_excerpt'');
     Some \<lparr>diag_widget_id = widget, diag_session_state = state, diag_status_detail = detail, diag_issue_summary = issue,
           diag_output_excerpt = excerpt\<rparr> })"

definition terminalLatestCommandSchema :: "json option \<Rightarrow> TerminalLatestCommand option" where
  "terminalLatestCommandSchema = zod_object (\<lambda>props. do {
     widget \<leftarrow> zod_string (json_field props ''widget_id'');
     session \<leftarrow> zod_string (json_field props ''session_id'');
     command \<leftarrow> zod_string (json_field props ''command'');
     from \<leftarrow> zod_number (json_field props ''from_seq'');
     submitted \<leftarrow> zod_string (json_field props ''submitted_at'');
     excerpt \<leftarrow> zod_optional zod_string (json_field props ''output_excerpt'');
     status \<leftarrow> zod_string (json_field props ''status'');
     detail \<leftarrow> zod_optional zod_string (json_field props ''status_detail'');
     exitCode \<leftarrow> zod_optional zod_number (json_field props ''exit_code'');
     audit \<leftarrow> zod_optional zod_string (json_field props ''command_audit_event_id'');
     block \<leftarrow> zod_optional zod_string (json_field props ''execution_block_id'');
     explainState \<leftarrow> zod_optional zod_string (json_field props ''explain_state'');
     explainSummary \<leftarrow> zod_optional zod_string (json_field props ''explain_summary'');
     Some \<lparr>latest_widget_id = widget, latest_session_id = session, latest_command = command, latest_from_seq = from,
           latest_submitted_at = submitted, latest_output_excerpt = excerpt, latest_status = status,
           latest_status_detail = detail, latest_exit_code = exitCode, latest_command_audit_event_id = audit,
           latest_execution_block_id = block, latest_explain_state = explainState,
           latest_explain_summary = explainSummary\<rparr> })"

definition terminalSessionCatalogEntrySchema :: "json option \<Rightarrow> TerminalSessionCatalogEntry option" where
  "terminalSessionCatalogEntrySchema = zod_object (\<lambda>props. do {
     workspace \<leftarrow> zod_string (json_field props ''workspace_id'');
     workspaceName \<leftarrow> zod_string (json_field props ''workspace_name'');
     tab \<leftarrow> zod_optional zod_string (json_field props ''tab_id'');
     tabTitle \<leftarrow> zod_optional zod_string (json_field props ''tab_title'');
     widget \<leftarrow> zod_string (json_field props ''widget_id'');
     widgetTitle \<leftarrow> zod_string (json_field props ''widget_title'');
     session \<leftarrow> zod_string (json_field props ''session_id'');
     connection \<leftarrow> zod_optional zod_string (json_field props ''connection_id'');
     connectionKind \<leftarrow> zod_optional zod_string (json_field props ''connection_kind'');
     connectionName \<leftarrow> zod_optional zod_string (json_field props ''connection_name'');
     launchMode \<leftarrow> zod_optional zod_string (json_field props ''remote_launch_mode'');
     remoteName \<leftarrow> zod_optional zod_string (json_field props ''remote_session_name'');
     shell \<leftarrow> zod_string (json_field props ''shell'');
     status \<leftarrow> zod_string (json_field props ''status'');
     detail \<leftarrow> zod_optional zod_string (json_field props ''status_detail'');
     workingDir \<leftarrow> zod_optional zod_string (json_field props ''working_dir'');
     activeWorkspace \<leftarrow> zod_bool (json_field props ''is_active_workspace'');
     activeTab \<leftarrow> zod_bool (json_field props ''is_active_tab'');
     activeWidget \<leftarrow> zod_bool (json_field props ''is_active_widget'');
     activeSession \<leftarrow> zod_bool (json_field props ''is_active_session'');
     Some \<lparr>catalog_workspace_id = workspace, catalog_workspace_name = workspaceName, catalog_tab_id = tab,
           catalog_tab_title = tabTitle, catalog_widget_id = widget, catalog_widget_title = widgetTitle,
           catalog_session_id = session, catalog_connection_id = connection, catalog_connection_kind = connectionKind,
           catalog_connection_name = connectionName, catalog_remote_launch_mode = launchMode,
           catalog_remote_session_name = remoteName, catalog_shell = shell, catalog_status = status,
           catalog_status_detail = detail, catalog_working_dir = workingDir,
           catalog_is_active_workspace = activeWorkspace, catalog_is_active_tab = activeTab,
           catalog_is_active_widget = activeWidget, catalog_is_active_session = activeSession\<rparr> })"

text \<open>The catalogue's list may be missing; \<open>fetchTerminalSessionCatalog\<close> fills it in.\<close>

definition terminalSessionCatalogSchema ::
    "json option \<Rightarrow> (jsstring option \<times> TerminalSessionCatalogEntry list option) option" where
  "terminalSessionCatalogSchema = zod_object (\<lambda>props. do {
     active \<leftarrow> zod_optional zod_string (json_field props ''active_workspace_id'');
     sessions \<leftarrow> zod_optional (zod_array terminalSessionCatalogEntrySchema) (json_field props ''sessions'');
     Some (active, sessions) })"

definition terminalShellOptionSchema :: "json option \<Rightarrow> TerminalShellOption option" where
  "terminalShellOptionSchema = zod_object (\<lambda>props. do {
     p \<leftarrow> zod_string (json_field props ''path'');
     n \<leftarrow> zod_string (json_field props ''name'');
     d \<leftarrow> zod_optional zod_bool (json_field props ''default'');
     Some \<lparr>shell_path = p, shell_name = n, shell_default = d\<rparr> })"

definition terminalShellsResponseSchema :: "json option \<Rightarrow> TerminalShellOption list option option" where
  "terminalShellsResponseSchema = zod_object (\<lambda>props. zod_optional (zod_array terminalShellOptionSchema) (json_field props ''shells''))"

definition terminalInputResultSchema :: "json option \<Rightarrow> TerminalInputResult option" where
  "terminalInputResultSchema = zod_object (\<lambda>props. do {
     widget \<leftarrow> zod_string (json_field props ''widget_id'');
     bytes \<leftarrow> zod_number (json_field props ''bytes_sent'');
     newline \<leftarrow> zod_bool (json_field props ''append_newline'');
     Some \<lparr>input_widget_id = widget, input_bytes_sent = bytes, input_append_newline = newline\<rparr> })"

definition terminalStateEnvelopeSchema :: "json option \<Rightarrow> TerminalRuntimeState option" where
  "terminalStateEnvelopeSchema = zod_object (\<lambda>props. terminalRuntimeStateSchema (json_field props ''state''))"

section \<open>Replies and errors\<close>

datatype terminal_error =
    TerminalAPIError int jsstring jsstring
  | TerminalError jsstring

fun terminal_error_message :: "terminal_error \<Rightarrow> jsstring" where
  "terminal_error_message (TerminalAPIError status code message) = message"
| "terminal_error_message (TerminalError message) = message"

definition fetchTerminalJSON :: "json fs_reply \<Rightarrow> terminal_error + json" where
  "fetchTerminalJSON reply =
     (case reply of
        FsOk payload \<Rightarrow> Inr payload
      | FsStatus status envelope \<Rightarrow>
          Inl (TerminalAPIError status
            (js_default (Option.bind envelope fst) (js ''terminal_request_failed''))
            (js_default (Option.bind envelope snd) (js ''Terminal request failed ('' @ js_of_int status @ js '')'')))
      | FsFailed message \<Rightarrow> Inl (TerminalError message))"

definition parseWithSchema :: "(json option \<Rightarrow> 'a option) \<Rightarrow> json \<Rightarrow> jsstring \<Rightarrow> terminal_error + 'a" where
  "parseWithSchema schema payload message =
     (case schema (Some payload) of None \<Rightarrow> Inl (TerminalError message) | Some v \<Rightarrow> Inr v)"

definition normalizeTerminalSnapshot :: "json \<Rightarrow> terminal_error + TerminalSnapshot" where
  "normalizeTerminalSnapshot snapshot =
     map_sum id (\<lambda>parsed. \<lparr>snap_state = parsed_state parsed, snap_chunks = js_default (parsed_chunks parsed) [],
         snap_next_seq = parsed_next_seq parsed, snap_active_session_id = parsed_active_session_id parsed,
         snap_sessions = Some (js_default (parsed_sessions parsed) [])\<rparr>)
       (parseWithSchema terminalSnapshotSchema snapshot (js ''Invalid terminal snapshot payload.''))"

definition sum_bind :: "'e + 'a \<Rightarrow> ('a \<Rightarrow> 'e + 'b) \<Rightarrow> 'e + 'b" where
  "sum_bind x f = (case x of Inl e \<Rightarrow> Inl e | Inr a \<Rightarrow> f a)"

text \<open>\<open>createTerminalSession\<close>, \<open>setActiveTerminalSession\<close> and \<open>closeTerminalSession\<close> read their reply the same way.\<close>

definition fetchTerminalSnapshot :: "json fs_reply \<Rightarrow> terminal_error + TerminalSnapshot" where
  "fetchTerminalSnapshot reply = sum_bind (fetchTerminalJSON reply) normalizeTerminalSnapshot"

definition fetchTerminalDiagnostics :: "json fs_reply \<Rightarrow> terminal_error + TerminalDiagnostics" where
  "fetchTerminalDiagnostics reply = sum_bind (fetchTerminalJSON reply)
     (\<lambda>v. parseWithSchema terminalDiagnosticsSchema v (js ''Invalid terminal diagnostics payload.''))"

definition fetchTerminalLatestCommand :: "json fs_reply \<Rightarrow> terminal_error + TerminalLatestCommand" where
  "fetchTerminalLatestCommand reply = sum_bind (fetchTerminalJSON reply)
     (\<lambda>v. parseWithSchema terminalLatestCommandSchema v (js ''Invalid terminal latest-command payload.''))"

definition fetchTerminalSessionCatalog :: "json fs_reply \<Rightarrow> terminal_error + TerminalSessionCatalog" where
  "fetchTerminalSessionCatalog reply = sum_bind (fetchTerminalJSON reply)
     (\<lambda>v. map_sum id (\<lambda>(active, sessions). \<lparr>catalog_active_workspace_id = active,
            catalog_sessions = js_default sessions []\<rparr>)
       (parseWithSchema terminalSessionCatalogSchema v (js ''Invalid terminal session catalog payload.'')))"

definition fetchTerminalShells :: "json fs_reply \<Rightarrow> terminal_error + TerminalShellOption list" where
  "fetchTerminalShells reply = sum_bind (fetchTerminalJSON reply)
     (\<lambda>v. map_sum id (\<lambda>shells. js_default shells [])
       (parseWithSchema terminalShellsResponseSchema v (js ''Invalid terminal shells payload.'')))"

definition sendTerminalInput :: "json fs_reply \<Rightarrow> terminal_error + TerminalInputResult" where
  "sendTerminalInput reply = sum_bind (fetchTerminalJSON reply)
     (\<lambda>v. parseWithSchema terminalInputResultSchema v (js ''Invalid terminal input result payload.''))"

definition restartTerminal :: "json fs_reply \<Rightarrow> terminal_error + TerminalRuntimeState" where
  "restartTerminal reply = sum_bind (fetchTerminalJSON reply)
     (\<lambda>v. parseWithSchema terminalStateEnvelopeSchema v (js ''Invalid terminal restart payload.''))"

definition interruptTerminal :: "json fs_reply \<Rightarrow> terminal_error + TerminalRuntimeState" where
  "interruptTerminal reply = sum_bind (fetchTerminalJSON reply)
     (\<lambda>v. parseWithSchema terminalStateEnvelopeSchema v (js ''Invalid terminal interrupt payload.''))"

section \<open>The output stream\<close>

text \<open>\<open>JSON.parse\<close> is an argument: the value, or the message of the exception.\<close>

type_synonym json_parser = "jsstring \<Rightarrow> jsstring + json"

definition parseTerminalOutputChunk :: "json_parser \<Rightarrow> jsstring \<Rightarrow> terminal_error + TerminalOutputChunk" where
  "parseTerminalOutputChunk parse raw =
     (case parse raw of
        Inl message \<Rightarrow> Inl (TerminalError message)
      | Inr v \<Rightarrow> parseWithSchema terminalOutputChunkSchema v (js ''Invalid terminal output chunk payload.''))"

definition deliver_output :: "json_parser \<Rightarrow> jsstring \<Rightarrow> terminal_error + TerminalOutputChunk list" where
  "deliver_output parse block =
     (case parseEventBlock block of
        None \<Rightarrow> Inr []
      | Some (data, event) \<Rightarrow>
          if event = js ''output'' then map_sum id (\<lambda>chunk. [chunk]) (parseTerminalOutputChunk parse data) else Inr [])"

definition consumeTerminalStream ::
    "json_parser \<Rightarrow> jsstring list \<Rightarrow> jsstring \<Rightarrow> TerminalOutputChunk list \<times> terminal_error option" where
  "consumeTerminalStream parse chunks final = consume_stream (deliver_output parse) [] chunks final"

text \<open>
  What the stream request meets: a failure of the request, an error status, a response without a body, a body that is
  read to its end, or reads that fail after some chunks. A failure is an abort or carries a message.
\<close>

datatype stream_response =
    StreamFailed "jsstring option"
  | StreamStatus int "(jsstring option \<times> jsstring option) option"
  | StreamNoBody
  | StreamBody "jsstring list" jsstring
  | StreamBroken "jsstring list" "jsstring option"

definition abort_or :: "jsstring option \<Rightarrow> terminal_error option" where
  "abort_or failure = map_option TerminalError failure"

text \<open>The chunks handed to \<open>onOutput\<close>, and how \<open>done\<close> settles: it resolves (\<open>None\<close>) or rejects.\<close>

definition connectTerminalStream ::
    "json_parser \<Rightarrow> stream_response \<Rightarrow> TerminalOutputChunk list \<times> terminal_error option" where
  "connectTerminalStream parse response =
     (case response of
        StreamFailed failure \<Rightarrow> ([], abort_or failure)
      | StreamStatus status envelope \<Rightarrow>
          ([], Some (TerminalAPIError status
            (js_default (Option.bind envelope fst) (js ''terminal_stream_failed''))
            (js_default (Option.bind envelope snd) (js ''Terminal stream failed ('' @ js_of_int status @ js '')''))))
      | StreamNoBody \<Rightarrow> ([], Some (TerminalError (js ''Terminal stream response did not provide a readable body'')))
      | StreamBody chunks final \<Rightarrow> consumeTerminalStream parse chunks final
      | StreamBroken chunks failure \<Rightarrow>
          (let (out, err) = read_chunks (deliver_output parse) [] chunks
           in (out, case err of Some e \<Rightarrow> Some e | None \<Rightarrow> abort_or failure)))"

section \<open>Requests are unambiguous\<close>

text \<open>The widget a call is about, and the rest of its path.\<close>

fun call_target :: "terminal_call \<Rightarrow> (jsstring \<times> string \<times> jsstring option) option" where
  "call_target (FetchTerminalSnapshot w from) = Some (w, ''snapshot'', None)"
| "call_target (CreateTerminalSession w) = Some (w, ''create'', None)"
| "call_target (SetActiveTerminalSession w s) = Some (w, ''focus'', Some s)"
| "call_target (CloseTerminalSession w s) = Some (w, ''close'', Some s)"
| "call_target (FetchTerminalDiagnostics w) = Some (w, ''diagnostics'', None)"
| "call_target (FetchTerminalLatestCommand w) = Some (w, ''latest'', None)"
| "call_target (SendTerminalInput w text newline) = Some (w, ''input'', Some text)"
| "call_target (RestartTerminal w shell) = Some (w, ''restart'', None)"
| "call_target (InterruptTerminal w) = Some (w, ''interrupt'', None)"
| "call_target (ConnectTerminalStream w from) = Some (w, ''stream'', None)"
| "call_target _ = None"

text \<open>The rest of a path: empty, or starting with a slash or a question mark.\<close>

definition path_rest :: "jsstring \<Rightarrow> bool" where
  "path_rest r \<longleftrightarrow> r = [] \<or> hd r = slash \<or> hd r = 63"

lemma path_rest_simps [simp]: "path_rest []" "path_rest (c # r) \<longleftrightarrow> c = slash \<or> c = 63"
  by (simp_all add: path_rest_def)

lemma segment_unique:
  assumes "e @ r = e' @ r'" and "path_rest r" and "path_rest r'"
    and "slash \<notin> set e" "63 \<notin> set e" "slash \<notin> set e'" "63 \<notin> set e'"
  shows "e = e' \<and> r = r'"
proof -
  have seg: "takeWhile (\<lambda>c. c \<noteq> slash \<and> c \<noteq> 63) (x @ y) = x"
    if "slash \<notin> set x" "63 \<notin> set x" "path_rest y" for x y
    using that by (subst takeWhile_append2) (auto simp: path_rest_def takeWhile_eq_Nil_iff)
  from seg [of e r] seg [of e' r'] assms show ?thesis by simp
qed

lemma built_path:
  assumes "buildTerminalPath w suffix from = Some p"
  obtains e q where "encodeURIComponent w = Some e" "p = js ''/api/v1/terminal/'' @ e @ suffix @ q"
    "from = None \<Longrightarrow> q = []" "q = [] \<or> hd q = 63"
  using assms by (auto simp: buildTerminalPath_def Let_def Option.bind_eq_Some_conv split: option.splits)

lemma built_path_unique:
  assumes "buildTerminalPath w suffix from = Some p" and "buildTerminalPath w' suffix' from' = Some p"
    and "js_units w" and "js_units w'" and "suffix = [] \<or> hd suffix = slash" and "suffix' = [] \<or> hd suffix' = slash"
  shows "w = w' \<and> (\<exists>q q'. suffix @ q = suffix' @ q' \<and> (q = [] \<or> hd q = 63) \<and> (q' = [] \<or> hd q' = 63)
    \<and> (from = None \<longrightarrow> q = []) \<and> (from' = None \<longrightarrow> q' = []))"
proof -
  obtain e q where 1: "encodeURIComponent w = Some e" "p = js ''/api/v1/terminal/'' @ e @ suffix @ q"
      "from = None \<Longrightarrow> q = []" "q = [] \<or> hd q = 63" using built_path [OF assms(1)] by blast
  obtain e' q' where 2: "encodeURIComponent w' = Some e'" "p = js ''/api/v1/terminal/'' @ e' @ suffix' @ q'"
      "from' = None \<Longrightarrow> q' = []" "q' = [] \<or> hd q' = 63" using built_path [OF assms(2)] by blast
  have eq: "e @ suffix @ q = e' @ suffix' @ q'" using 1(2) 2(2) by simp
  have rest: "path_rest (suffix @ q)" "path_rest (suffix' @ q')"
    using assms(5,6) 1(4) 2(4) by (cases suffix; cases suffix'; auto simp: path_rest_def)+
  have "e = e' \<and> suffix @ q = suffix' @ q'"
    using segment_unique [OF eq rest] encodeURIComponent_segment [OF 1(1) assms(3)] encodeURIComponent_segment [OF 2(1) assms(4)]
    by blast
  then show ?thesis using encodeURIComponent_inject [OF 1(1)] 1(3,4) 2 assms(3,4) by blast
qed

lemma question_unique:
  fixes s s' :: jsstring
  assumes "s @ q = s' @ q'" and "63 \<notin> set s" and "63 \<notin> set s'" and "q = [] \<or> hd q = 63" and "q' = [] \<or> hd q' = 63"
  shows "s = s'"
proof -
  have "takeWhile (\<lambda>c. c \<noteq> 63) (x @ y) = x" if "63 \<notin> set x" "y = [] \<or> hd y = 63" for x y :: jsstring
    using that by (subst takeWhile_append2) (auto simp: takeWhile_eq_Nil_iff)
  from this [of s q] this [of s' q'] assms show ?thesis by simp
qed

text \<open>The suffix, the method and the body with which each kind of call is sent.\<close>

inductive call_shape :: "string \<Rightarrow> jsstring option \<Rightarrow> jsstring \<Rightarrow> jsstring \<Rightarrow> json option \<Rightarrow> bool" where
  "call_shape ''snapshot'' None [] (js ''GET'') None"
| "call_shape ''create'' None (js ''/sessions'') (js ''POST'') None"
| "call_shape ''focus'' (Some s) (js ''/sessions/active'') (js ''PUT'') (Some (JObj [(js ''session_id'', JStr s)]))"
| "encodeURIComponent s = Some e \<Longrightarrow> js_units s \<Longrightarrow> call_shape ''close'' (Some s) (js ''/sessions/'' @ e) (js ''DELETE'') None"
| "call_shape ''diagnostics'' None (js ''/diagnostics'') (js ''GET'') None"
| "call_shape ''latest'' None (js ''/commands/latest'') (js ''GET'') None"
| "call_shape ''input'' (Some t) (js ''/input'') (js ''POST'') (Some (JObj [(js ''text'', JStr t), (js ''append_newline'', JBool b)]))"
| "call_shape ''restart'' None (js ''/restart'') (js ''POST'') body"
| "call_shape ''interrupt'' None (js ''/interrupt'') (js ''POST'') None"
| "call_shape ''stream'' None (js ''/stream'') (js ''GET'') None"

inductive_cases call_shape_cases: "call_shape k x suffix verb body"

lemma call_shape_unique:
  assumes "call_shape k x suffix verb body" and "call_shape k' x' suffix verb body"
  shows "k = k' \<and> x = x'"
  using assms by (elim call_shape_cases) (auto dest: encodeURIComponent_inject)

lemma call_shape_suffix:
  assumes "call_shape k x suffix verb body"
  shows "suffix = [] \<or> hd suffix = slash" and "63 \<notin> set suffix"
  using assms by (elim call_shape_cases; auto dest: encodeURIComponent_segment)+

fun call_units :: "terminal_call \<Rightarrow> bool" where
  "call_units (CloseTerminalSession w s) \<longleftrightarrow> js_units w \<and> js_units s"
| "call_units c \<longleftrightarrow> (case call_target c of None \<Rightarrow> True | Some (w, _) \<Rightarrow> js_units w)"

lemma request_shape:
  assumes "client_request c = Some r" and "call_target c = Some (w, k, x)" and "call_units c"
  shows "\<exists>suffix from. buildTerminalPath w suffix from = Some (req_path r) \<and> call_shape k x suffix (req_method r) (req_body r)
    \<and> js_units w"
  using assms
  by (cases c) (fastforce simp: http_get_def http_send_def Option.bind_eq_Some_conv simp del: js_Cons
      intro: call_shape.intros split: option.splits)+

text \<open>The request as it is sent, and calls whose ids are not dots.\<close>

definition sent_request :: "http_request \<Rightarrow> http_request" where
  "sent_request r = r\<lparr>req_path := sent_path (req_path r)\<rparr>"

definition dot_id :: "jsstring \<Rightarrow> bool" where
  "dot_id s \<longleftrightarrow> s = [dot] \<or> s = [dot, dot]"

fun call_dotless :: "terminal_call \<Rightarrow> bool" where
  "call_dotless (CloseTerminalSession w s) \<longleftrightarrow> \<not> dot_id w \<and> \<not> dot_id s"
| "call_dotless c \<longleftrightarrow> (case call_target c of None \<Rightarrow> True | Some (w, _) \<Rightarrow> \<not> dot_id w)"

lemma shape_tail:
  assumes "call_shape k x (slash # t) verb body" "k = ''close'' \<Longrightarrow> \<not> dot_id (the x)"
  shows "\<forall>s\<in>set (js_split slash t). \<not> dot_segment s"
  using assms(1)
proof (cases rule: call_shape.cases)
  case (4 s e)
  then have t: "t = js ''sessions'' @ slash # e" by simp
  have "js_split slash e = [e]" "\<not> dot_segment e"
    using encodeURIComponent_segment(1) [OF 4(6,7)] encoded_dots [OF 4(6,7)] assms(2) 4(1,2) by (auto simp: dot_id_def js_split_single)
  then show ?thesis unfolding t js_split_append_sep by (simp add: dot_segment_def)
qed (simp_all add: dot_segment_def)

lemma dotless_target:
  "call_target c = Some (w, k, x) \<Longrightarrow> call_dotless c \<Longrightarrow> \<not> dot_id w \<and> (k = ''close'' \<longrightarrow> \<not> dot_id (the x))"
  by (cases c) auto

lemma shape_segments:
  assumes "call_shape k x suffix verb body" "k = ''close'' \<Longrightarrow> \<not> dot_id (the x)"
    and "encodeURIComponent w = Some e" "js_units w" "\<not> dot_id w"
  shows "\<forall>s\<in>set (js_split slash (js ''api/v1/terminal/'' @ e @ suffix)). \<not> dot_segment s" "63 \<notin> set (js ''api/v1/terminal/'' @ e @ suffix)"
proof -
  have e: "js_split slash e = [e]" "\<not> dot_segment e" "63 \<notin> set e"
    using encodeURIComponent_segment [OF assms(3,4)] encoded_dots [OF assms(3,4)] assms(5) by (auto simp: dot_id_def js_split_single)
  have prefix: "js_split slash (js ''api/v1/terminal/'' @ t) = [js ''api'', js ''v1'', js ''terminal''] @ js_split slash t" for t
    by simp
  have literals: "\<not> dot_segment (js ''api'')" "\<not> dot_segment (js ''v1'')" "\<not> dot_segment (js ''terminal'')"
    by (simp_all add: dot_segment_def)
  have "\<forall>s\<in>set (js_split slash (e @ suffix)). \<not> dot_segment s"
  proof (cases suffix)
    case Nil
    then show ?thesis using e by simp
  next
    case (Cons c t)
    then have "c = slash" using call_shape_suffix(1) [OF assms(1)] by simp
    then show ?thesis
      using e Cons js_split_append_sep [of slash e t] shape_tail [of k x t verb body] assms(1,2) by auto
  qed
  then show "\<forall>s\<in>set (js_split slash (js ''api/v1/terminal/'' @ e @ suffix)). \<not> dot_segment s"
    unfolding prefix using literals by auto
  show "63 \<notin> set (js ''api/v1/terminal/'' @ e @ suffix)" using e(3) call_shape_suffix(2) [OF assms(1)] by simp
qed

lemma sent_as_built:
  assumes "client_request c = Some r" "call_target c = Some (w, k, x)" "call_units c" "call_dotless c"
  shows "sent_request r = r"
proof -
  obtain s f where r: "buildTerminalPath w s f = Some (req_path r)" "call_shape k x s (req_method r) (req_body r)" "js_units w"
    using request_shape [OF assms(1-3)] by blast
  obtain e q where e: "encodeURIComponent w = Some e" "req_path r = js ''/api/v1/terminal/'' @ e @ s @ q"
      "f = None \<Longrightarrow> q = []" "q = [] \<or> hd q = 63" by (rule built_path [OF r(1)]) (rule that)
  have "\<not> dot_id w" "k = ''close'' \<Longrightarrow> \<not> dot_id (the x)" using dotless_target [OF assms(2,4)] by blast+
  note sent_path_id [OF shape_segments [OF r(2) this(2) e(1) r(3) this(1)] e(4)]
  moreover have "req_path r = slash # (js ''api/v1/terminal/'' @ e @ s) @ q" using e(2) by simp
  ultimately have "sent_path (req_path r) = req_path r" by metis
  then show ?thesis unfolding sent_request_def by simp
qed

text \<open>
  C21: A request reaches the widget it is meant for. Two calls about widgets whose ids are not one or two dots, that are
  sent as the same request (method, path as the URL parser leaves it, and body), are the same operation on the same
  widget, with the same session or the same input: no other id, whatever characters it holds, can turn a request into
  one for another widget, another session or another operation.
\<close>
theorem terminal_requests_unambiguous:
  assumes "client_request c = Some r" and "client_request c' = Some r'" and "sent_request r = sent_request r'"
    and "call_target c = Some (w, k, x)" and "call_target c' = Some (w', k', x')"
    and "call_units c" and "call_units c'" and "call_dotless c" and "call_dotless c'"
  shows "w = w' \<and> k = k' \<and> x = x'"
proof -
  have r: "r = r'" using assms(3) sent_as_built [OF assms(1,4,6,8)] sent_as_built [OF assms(2,5,7,9)] by simp
  obtain s f where 1: "buildTerminalPath w s f = Some (req_path r)" "call_shape k x s (req_method r) (req_body r)" "js_units w"
    using request_shape [OF assms(1,4,6)] by blast
  obtain s' f' where 2: "buildTerminalPath w' s' f' = Some (req_path r)" "call_shape k' x' s' (req_method r) (req_body r)" "js_units w'"
    using request_shape [OF assms(2,5,7)] r by blast
  note suffix = call_shape_suffix [OF 1(2)] call_shape_suffix [OF 2(2)]
  have w: "w = w'" and "\<exists>q q'. s @ q = s' @ q' \<and> (q = [] \<or> hd q = 63) \<and> (q' = [] \<or> hd q' = 63)"
    using built_path_unique [OF 1(1) 2(1) 1(3) 2(3) suffix(1,3)] by blast+
  then have "s = s'" using question_unique suffix(2,4) by blast
  then show ?thesis using w call_shape_unique [OF 1(2)] 2(2) by blast
qed

theorem terminal_requests_unambiguous_witness:
  "(js ''t/1'', ''close'', Some (js ''s 1'')) = (js ''t/1'', ''close'', Some (js ''s 1''))
    \<and> req_path (the (client_request (CloseTerminalSession (js ''t/1'') (js ''s 1''))))
      = js ''/api/v1/terminal/t%2F1/sessions/s%201''"
proof -
  let ?c = "CloseTerminalSession (js ''t/1'') (js ''s 1'')"
  let ?r = "\<lparr>req_method = js ''DELETE'', req_path = js ''/api/v1/terminal/t%2F1/sessions/s%201'', req_body = None\<rparr>"
  have "client_request ?c = Some ?r"
    by (simp add: buildTerminalPath_def encodeURIComponent_def encode_point_def unreserved_def percent_def utf8_def
        hex_digit_def http_send_def js_string_defs)
  then show ?thesis using terminal_requests_unambiguous [of ?c ?r ?c ?r] by (simp add: dot_id_def)
qed

text \<open>Dots are not escaped: the diagnostics of a widget named by a dot are the snapshot of another.\<close>

lemma dot_id_misdirected:
  "map_option sent_request (client_request (FetchTerminalDiagnostics (js ''.'')))
     = map_option sent_request (client_request (FetchTerminalSnapshot (js ''diagnostics'') None))"
  by (simp add: buildTerminalPath_def encodeURIComponent_def encode_point_def unreserved_def http_get_def sent_request_def
      sent_path_def js_string_defs)

section \<open>Snapshots as they are sent\<close>

text \<open>The JSON the backend sends for a state, a chunk and a snapshot.\<close>

definition json_of_state :: "TerminalRuntimeState \<Rightarrow> json" where
  "json_of_state s = JObj (json_props
     [(''widget_id'', Some (JStr (rt_widget_id s))), (''session_id'', Some (JStr (rt_session_id s))),
      (''shell'', Some (JStr (rt_shell s))), (''restored'', map_option JBool (rt_restored s)),
      (''status_detail'', map_option JStr (rt_status_detail s)), (''connection_id'', map_option JStr (rt_connection_id s)),
      (''connection_name'', map_option JStr (rt_connection_name s)),
      (''connection_kind'', map_option JStr (rt_connection_kind s)),
      (''remote_launch_mode'', map_option JStr (rt_remote_launch_mode s)),
      (''remote_session_name'', map_option JStr (rt_remote_session_name s)), (''pid'', Some (JNum (rt_pid s))),
      (''status'', Some (JStr (rt_status s))), (''started_at'', Some (JStr (rt_started_at s))),
      (''last_output_at'', map_option JStr (rt_last_output_at s)), (''exit_code'', map_option JNum (rt_exit_code s)),
      (''can_send_input'', Some (JBool (rt_can_send_input s))), (''can_interrupt'', Some (JBool (rt_can_interrupt s))),
      (''working_dir'', map_option JStr (rt_working_dir s))])"

definition json_of_chunk :: "TerminalOutputChunk \<Rightarrow> json" where
  "json_of_chunk c = JObj (json_props [(''seq'', Some (JNum (chunk_seq c))), (''data'', Some (JStr (chunk_data c))),
     (''timestamp'', Some (JStr (chunk_timestamp c)))])"

definition json_of_snapshot :: "TerminalSnapshot \<Rightarrow> json" where
  "json_of_snapshot s = JObj (json_props
     [(''state'', Some (json_of_state (snap_state s))), (''chunks'', Some (json_array json_of_chunk (snap_chunks s))),
      (''next_seq'', Some (JNum (snap_next_seq s))), (''active_session_id'', map_option JStr (snap_active_session_id s)),
      (''sessions'', map_option (json_array json_of_state) (snap_sessions s))])"

lemma state_schema [simp]: "terminalRuntimeStateSchema (Some (json_of_state s)) = Some s"
  by (simp add: terminalRuntimeStateSchema_def json_of_state_def json_field_props del: json_props.simps)

lemma chunk_schema [simp]: "terminalOutputChunkSchema (Some (json_of_chunk c)) = Some c"
  by (simp add: terminalOutputChunkSchema_def json_of_chunk_def json_field_props del: json_props.simps)

lemma array_schema [simp]:
  "(\<And>x. schema (Some (f x)) = Some x) \<Longrightarrow> zod_array schema (Some (json_array f xs)) = Some xs"
  by (simp add: json_array_def zod_all_array)

lemma array_schema_optional [simp]:
  "(\<And>x. schema (Some (f x)) = Some x) \<Longrightarrow> zod_optional (zod_array schema) (map_option (json_array f) v) = Some v"
  by (cases v) (simp_all add: zod_optional_def)

lemma array_schema_nullable [simp]:
  "(\<And>x. schema (Some (f x)) = Some x) \<Longrightarrow>
     zod_optional (zod_nullable (zod_array schema)) (Some (json_array f xs)) = Some (Some (Some xs))"
  by (simp add: zod_optional_def zod_nullable_def) (simp add: json_array_def zod_all_array)

lemma snapshot_received:
  "fetchTerminalSnapshot (FsOk (json_of_snapshot s)) = Inr (s\<lparr>snap_sessions := Some (js_default (snap_sessions s) [])\<rparr>)"
  by (simp add: fetchTerminalSnapshot_def fetchTerminalJSON_def sum_bind_def normalizeTerminalSnapshot_def parseWithSchema_def
      terminalSnapshotSchema_def json_of_snapshot_def json_field_props del: json_props.simps)

section \<open>The schemas accept the declared types\<close>

text \<open>The declarations of \<open>TerminalRuntimeState\<close>, \<open>TerminalOutputChunk\<close> and \<open>TerminalSnapshot\<close>; the chunks of a snapshot may
  also be null or missing, as the schema and the readers of the snapshot allow (\<open>snapshot.chunks ?? []\<close>), which is wider
  than the declared array.\<close>

definition runtime_state_type :: json_type where
  "runtime_state_type = TObject
     [(''widget_id'', False, TString), (''session_id'', False, TString), (''shell'', False, TString),
      (''restored'', True, TBoolean), (''status_detail'', True, TString), (''connection_id'', True, TString),
      (''connection_name'', True, TString), (''connection_kind'', True, TString), (''remote_launch_mode'', True, TString),
      (''remote_session_name'', True, TString), (''pid'', False, TNumber), (''status'', False, TString),
      (''started_at'', False, TString), (''last_output_at'', True, TString), (''exit_code'', True, TNumber),
      (''can_send_input'', False, TBoolean), (''can_interrupt'', False, TBoolean), (''working_dir'', True, TString)]"

definition output_chunk_type :: json_type where
  "output_chunk_type = TObject [(''seq'', False, TNumber), (''data'', False, TString), (''timestamp'', False, TString)]"

definition snapshot_type :: json_type where
  "snapshot_type = TObject
     [(''state'', False, runtime_state_type), (''chunks'', True, TNullable (TArray output_chunk_type)),
      (''next_seq'', False, TNumber), (''active_session_id'', True, TString),
      (''sessions'', True, TArray runtime_state_type)]"

lemmas field_types = required_field [OF accepts_atoms(1)] required_field [OF accepts_atoms(2)] required_field [OF accepts_atoms(3)]
  optional_field [OF accepts_atoms(1)] optional_field [OF accepts_atoms(2)] optional_field [OF accepts_atoms(3)]

lemma accepts_state [simp]: "accepts terminalRuntimeStateSchema runtime_state_type"
  unfolding terminalRuntimeStateSchema_def runtime_state_type_def
  by (rule accepts_object) (simp add: bind_None field_types)

lemma accepts_chunk [simp]: "accepts terminalOutputChunkSchema output_chunk_type"
  unfolding terminalOutputChunkSchema_def output_chunk_type_def
  by (rule accepts_object) (simp add: bind_None field_types)

lemma accepts_snapshot: "accepts terminalSnapshotSchema snapshot_type"
  unfolding terminalSnapshotSchema_def snapshot_type_def
  by (rule accepts_object)
     (simp add: bind_None field_types required_field [OF accepts_state] optional_field [OF accepts_array [OF accepts_state]]
       optional_field [OF accepts_nullable [OF accepts_array [OF accepts_chunk]]])

text \<open>
  C4: A snapshot enters the session only with the declared type. The body of a reply is accepted exactly when it is a
  value of type \<open>TerminalSnapshot\<close> (with the chunks possibly null or missing), every other body is refused with one
  error, and a snapshot that the backend sends arrives with every field as it was sent, an absent list of sessions as
  the empty one.
\<close>
theorem snapshot_reply_typed:
  "((\<exists>s. fetchTerminalSnapshot (FsOk v) = Inr s) \<longleftrightarrow> has_type snapshot_type v)
   \<and> (fetchTerminalSnapshot (FsOk v) = Inl (TerminalError (js ''Invalid terminal snapshot payload.'')) \<longleftrightarrow> \<not> has_type snapshot_type v)
   \<and> fetchTerminalSnapshot (FsOk (json_of_snapshot s)) = Inr (s\<lparr>snap_sessions := Some (js_default (snap_sessions s) [])\<rparr>)"
proof -
  have type: "terminalSnapshotSchema (Some v) = None \<longleftrightarrow> \<not> has_type snapshot_type v"
    using accepts_snapshot by (simp add: accepts_def)
  have "(\<exists>s. fetchTerminalSnapshot (FsOk v) = Inr s) \<longleftrightarrow> has_type snapshot_type v"
    and "fetchTerminalSnapshot (FsOk v) = Inl (TerminalError (js ''Invalid terminal snapshot payload.'')) \<longleftrightarrow> \<not> has_type snapshot_type v"
    using type by (auto simp: fetchTerminalSnapshot_def fetchTerminalJSON_def sum_bind_def normalizeTerminalSnapshot_def
        parseWithSchema_def simp del: js_Cons split: option.split)
  then show ?thesis using snapshot_received by blast
qed

section \<open>Errors reach the operator\<close>

text \<open>The reply of an operation's request as its caller sees it: the operation reads it, and an exception carries a message.\<close>

definition request_reply :: "terminal_request \<Rightarrow> json fs_reply \<Rightarrow> jsstring option + unit" where
  "request_reply request reply =
     (case request of
        RestartRequest \<Rightarrow> map_sum (\<lambda>e. Some (terminal_error_message e)) (\<lambda>_. ()) (restartTerminal reply)
      | SwitchRequest _ \<Rightarrow> map_sum (\<lambda>e. Some (terminal_error_message e)) (\<lambda>_. ()) (restartTerminal reply)
      | _ \<Rightarrow> map_sum (\<lambda>e. Some (terminal_error_message e)) (\<lambda>_. ()) (fetchTerminalSnapshot reply))"

lemma request_reply_status:
  "request_reply request (FsStatus status envelope) =
     Inl (Some (js_default (Option.bind envelope snd) (js ''Terminal request failed ('' @ js_of_int status @ js '')'')))"
  by (cases request) (simp_all add: request_reply_def restartTerminal_def fetchTerminalSnapshot_def fetchTerminalJSON_def sum_bind_def)

lemma js_trim_not_blank: "\<not> js_space c \<Longrightarrow> js_trim (c # s) \<noteq> []"
  by (auto simp: js_trim_def js_dropWhileEnd_def dropWhile_eq_Nil_conv)

lemma request_failed_error: "ts_error (request_failed text request s) = Some text"
  by (cases request) (simp_all add: request_failed_def)

text \<open>
  C8: An error of the backend is shown and ends the operation. When the backend answers the request of a restart, a
  shell switch, a creation, a focus or a close with an error status, no further request is sent, every flag of the
  operation is reset, and the view shows the backend's message; when that is missing, a text with the status; and when
  it is blank, a text that names the operation and the widget.
\<close>
theorem failed_request_is_shown:
  assumes "terminal_reach (st, us @ AwaitRequest a request # vs)" and "store_table st w = Some a"
    and "reply_unit r = request_reply request (FsStatus status envelope)"
    and "task_step (AwaitRequest a request) r st = (st', new)"
  shows "new = [] \<and> (\<forall>F \<in> request_flags request. \<not> flag F (state_of st' a))
    \<and> view_error (buildTerminalSessionView seed (state_of st' a)) =
        (case Option.bind envelope snd of
           None \<Rightarrow> Some (js ''Terminal request failed ('' @ js_of_int status @ js '')'')
         | Some m \<Rightarrow> if js_trim m = [] then Some (request_error_text w request) else Some m)"
proof -
  let ?m = "js_default (Option.bind envelope snd) (js ''Terminal request failed ('' @ js_of_int status @ js '')'')"
  let ?text = "toTerminalErrorMessage (Some ?m) (request_error_text w request)"
  have wf: "table_wf st" by (rule reach_table_wf [OF assms(1)])
  then have "isActiveTerminalSessionRecord a st" "tr_widgetId (store_heap st a) = w"
    using active_iff assms(2) by (auto simp: table_wf_def)
  then have st': "st' = update_state a (request_failed ?text request) st" "new = []"
    using assms(3,4) request_reply_status [of request status envelope] by (simp_all add: request_done_def Let_def del: js_Cons)
  have blank: "js_trim (js ''Terminal request failed ('' @ x) \<noteq> []" for x
  proof -
    have "\<not> js_space 84" by (simp add: js_string_defs)
    then show ?thesis using js_trim_not_blank by simp
  qed
  have "ts_error (state_of st' a) = Some ?text" using st'(1) by (simp add: request_failed_error)
  moreover have "\<not> flag F (state_of st' a)" if "F \<in> request_flags request" for F
    using st'(1) request_failed_flags that by (auto simp del: js_Cons)
  ultimately show ?thesis using st'(2) blank
    by (auto simp: buildTerminalSessionView_def toTerminalErrorMessage_def Let_def simp del: js_Cons split: option.split)
qed

abbreviation restarted_store :: terminal_store where
  "restarted_store \<equiv> fst (restartSession [116] (fst (mount_terminal [116] empty_store)))"

abbreviation refused_reply :: terminal_reply where
  "refused_reply \<equiv> \<lparr>reply_unit = request_reply RestartRequest (FsStatus 500 (Some (None, Some (js ''no'')))),
     reply_snapshot = Inl None, reply_state = Inl None, reply_shells = Inl None\<rparr>"

lemma restarted_table: "store_table restarted_store [116] = Some 0"
  by (simp add: restartSession_def mount_terminal_def retainTerminalSession_def getTerminalSessionRecord_def
      ensureTerminalSession_def empty_store_def createTerminalSessionRecord_def initial_terminal_state_def)

theorem failed_request_is_shown_witness:
  "view_error (buildTerminalSessionView \<lparr>seed_runtimeWidgetId = [116], seed_title = []\<rparr>
     (state_of (fst (task_step (AwaitRequest 0 RestartRequest) refused_reply restarted_store)) 0)) = Some (js ''no'')"
proof -
  have "terminal_reach (restarted_store, [] @ AwaitRequest 0 RestartRequest # [AwaitFirstSnapshot 0])"
    using restarted_reach by simp
  from failed_request_is_shown [OF this restarted_table, of refused_reply 500 "Some (None, Some (js ''no''))" _ _
      "\<lparr>seed_runtimeWidgetId = [116], seed_title = []\<rparr>"]
  show ?thesis
    by (cases "task_step (AwaitRequest 0 RestartRequest) refused_reply restarted_store") (simp add: js_string_defs)
qed

section \<open>Output reaches the view\<close>

text \<open>A frame of the stream: the type of the event, the text of its payload, and the chunks it carries.\<close>

type_synonym output_frame = "jsstring \<times> jsstring \<times> TerminalOutputChunk list"

definition output_frame_ok :: "json_parser \<Rightarrow> output_frame \<Rightarrow> bool" where
  "output_frame_ok parse = (\<lambda>(event, data, out). 10 \<notin> set event \<and> 13 \<notin> set event \<and> 10 \<notin> set data \<and> 13 \<notin> set data
     \<and> (if event = js ''output'' then map_sum id (\<lambda>c. [c]) (parseTerminalOutputChunk parse data) = Inr out else out = []))"

interpretation output_events: framed_stream "deliver_output parse" "\<lambda>(event, data, out). sse_block event data"
  "\<lambda>(event, data, out). out" "output_frame_ok parse"
  by unfold_locales
     (auto simp: output_frame_ok_def deliver_output_def parse_sse_block sse_block_one_block sse_block_no_cr
       simp del: js_Cons split: if_splits)

lemma output_consumed:
  assumes "list_all (output_frame_ok parse) frames"
    and "concat chunks @ final = concat (map (\<lambda>(event, data, out). sse_block event data @ [10, 10]) frames)"
  shows "consumeTerminalStream parse chunks final = (concat (map (\<lambda>(event, data, out). out) frames), None)"
proof -
  have "concat chunks @ final = output_events.written frames" using assms(2) by (simp add: case_prod_unfold)
  from output_events.frames_delivered [OF assms(1) this] show ?thesis by (simp add: consumeTerminalStream_def)
qed

text \<open>A live stream hands its chunks to the record of its widget one after the other.\<close>

lemma stream_outputs:
  assumes "stream_live (store_streams st i)" and "store_table st (stream_widget (store_streams st i)) = Some a"
    and "ts_snapshot (state_of st a) = Some snap"
  shows "\<exists>snap'. ts_snapshot (state_of (fold (stream_output i) out st) a) = Some snap'
    \<and> snap_chunks snap' = snap_chunks snap @ out"
  using assms
proof (induction out arbitrary: st snap)
  case (Cons c out)
  let ?st = "stream_output i c st"
  note out = stream_output_live [OF Cons.prems, of c]
  let ?snap = "snap\<lparr>snap_state := (snap_state snap)\<lparr>rt_last_output_at := Some (chunk_timestamp c)\<rparr>,
    snap_chunks := snap_chunks snap @ [c], snap_next_seq := max (snap_next_seq snap) (chunk_seq c + 1)\<rparr>"
  have "ts_snapshot (state_of ?st a) = Some ?snap"
    using Cons.prems by (simp add: stream_output_def appendTerminalChunk_def Let_def)
  from Cons.IH [OF _ _ this] out(2,3) Cons.prems show ?case by simp
qed simp

lemma stream_recovered:
  assumes "stream_live (store_streams st i)" and "store_table st (stream_widget (store_streams st i)) = Some a"
    and "ts_snapshot (state_of st a) = Some snap" and "out \<noteq> []"
  shows "\<not> isRecoveringStream (state_of (fold (stream_output i) out st) a)
    \<and> streamRetryCount (state_of (fold (stream_output i) out st) a) = 0"
proof -
  obtain pre c where out: "out = pre @ [c]" using assms(4) by (cases out rule: rev_cases) auto
  have "store_streams (fold (stream_output i) pre st) = store_streams st \<and> store_table (fold (stream_output i) pre st) = store_table st"
    by (induction pre arbitrary: st) (simp_all add: stream_output_def split: option.splits)
  then show ?thesis using assms(1,2) unfolding out by (simp add: stream_output_def Let_def)
qed

text \<open>
  C26: Output is shown once and in order. When a terminal with a snapshot is followed by a live stream, and the backend
  writes any sequence of frames (output and other events) to that stream, then in whatever pieces the text arrives, the
  stream is read without an error, and the view shows the chunks it showed before followed by exactly the chunks of the
  output frames, in their order; and once one of them has arrived, the terminal no longer counts as recovering and its
  count of retries is back at zero.
\<close>
theorem terminal_output_shown:
  assumes "stream_live (store_streams st i)" and "store_table st (stream_widget (store_streams st i)) = Some a"
    and "ts_snapshot (state_of st a) = Some snap"
    and "list_all (output_frame_ok parse) frames"
    and "concat chunks @ final = concat (map (\<lambda>(event, data, out). sse_block event data @ [10, 10]) frames)"
    and "connectTerminalStream parse (StreamBody chunks final) = (out, failure)"
  shows "failure = None \<and> out = concat (map (\<lambda>(event, data, chunks). chunks) frames)
    \<and> view_outputChunks (buildTerminalSessionView seed (state_of (fold (stream_output i) out st) a)) = snap_chunks snap @ out
    \<and> (out \<noteq> [] \<longrightarrow> \<not> isRecoveringStream (state_of (fold (stream_output i) out st) a)
        \<and> streamRetryCount (state_of (fold (stream_output i) out st) a) = 0)"
proof -
  have "(out, failure) = (concat (map (\<lambda>(event, data, chunks). chunks) frames), None)"
    using assms(6) output_consumed [OF assms(4,5)] by (simp add: connectTerminalStream_def)
  moreover obtain snap' where "ts_snapshot (state_of (fold (stream_output i) out st) a) = Some snap'"
      "snap_chunks snap' = snap_chunks snap @ out"
    using stream_outputs [OF assms(1-3)] by blast
  ultimately show ?thesis
    using stream_recovered [OF assms(1-3), of out] by (auto simp: buildTerminalSessionView_def Let_def)
qed

definition sample_chunk :: TerminalOutputChunk where
  "sample_chunk = \<lparr>chunk_seq = 1, chunk_data = js ''hi'', chunk_timestamp = []\<rparr>"

definition sample_runtime :: TerminalRuntimeState where
  "sample_runtime = \<lparr>rt_widget_id = [116], rt_session_id = [115], rt_shell = [], rt_restored = None, rt_status_detail = None,
    rt_connection_id = None, rt_connection_name = None, rt_connection_kind = None, rt_remote_launch_mode = None,
    rt_remote_session_name = None, rt_pid = 1, rt_status = [], rt_started_at = [], rt_last_output_at = None,
    rt_exit_code = None, rt_can_send_input = True, rt_can_interrupt = True, rt_working_dir = None\<rparr>"

definition sample_snapshot :: TerminalSnapshot where
  "sample_snapshot = \<lparr>snap_state = sample_runtime, snap_chunks = [], snap_next_seq = 1, snap_active_session_id = None,
     snap_sessions = None\<rparr>"

definition followed_store :: terminal_store where
  "followed_store = empty_store\<lparr>store_heap := \<lambda>_. (createTerminalSessionRecord [116])
       \<lparr>tr_state := initial_terminal_state\<lparr>ts_snapshot := Some sample_snapshot\<rparr>\<rparr>,
     store_table := [[116] \<mapsto> 0], store_next := 1,
     store_streams := \<lambda>_. \<lparr>stream_widget = [116], stream_from = 1, stream_live = True\<rparr>, store_nextStream := 1\<rparr>"

theorem terminal_output_shown_witness:
  "view_outputChunks (buildTerminalSessionView \<lparr>seed_runtimeWidgetId = [116], seed_title = []\<rparr>
     (state_of (fold (stream_output 0) [sample_chunk] followed_store) 0)) = [sample_chunk]"
proof -
  let ?parse = "\<lambda>_ :: jsstring. Inr (json_of_chunk sample_chunk)"
  let ?text = "sse_block (js ''output'') [120] @ [10, 10]"
  have frame: "list_all (output_frame_ok ?parse) [(js ''output'', [120], [sample_chunk])]"
    by (simp add: output_frame_ok_def parseTerminalOutputChunk_def parseWithSchema_def)
  have conn: "connectTerminalStream ?parse (StreamBody [] ?text) = ([sample_chunk], None)"
    using output_consumed [OF frame, of "[]" ?text] by (simp add: connectTerminalStream_def)
  have "stream_live (store_streams followed_store 0)"
    "store_table followed_store (stream_widget (store_streams followed_store 0)) = Some 0"
    "ts_snapshot (state_of followed_store 0) = Some sample_snapshot"
    by (simp_all add: followed_store_def)
  from terminal_output_shown [OF this frame _ conn, of "\<lparr>seed_runtimeWidgetId = [116], seed_title = []\<rparr>"]
  show ?thesis by (simp add: sample_snapshot_def sample_chunk_def)
qed

end
