(* ===== verification/Terminal_Preferences.thy ===== *)
theory Terminal_Preferences
  imports Js_Number Async Agent_Tools
begin

text \<open>
  The preferences of the terminal: the settings and their limits (\<^verbatim>\<open>shared/api/terminal-settings.ts\<close>) and the store that
  loads and saves them (\<^verbatim>\<open>features/terminal/model/use-terminal-preferences.ts\<close>). The module variables are one record, and a save or a load is a program of \<open>Async\<close>.
\<close>

section \<open>Settings\<close>

datatype TerminalThemeMode = Adaptive | Contrast

datatype TerminalCursorStyle = BlockCursor | BarCursor | UnderlineCursor

record TerminalSettings =
  set_font_size :: rat
  set_line_height :: rat
  set_theme_mode :: TerminalThemeMode
  set_scrollback :: rat
  set_cursor_style :: TerminalCursorStyle
  set_cursor_blink :: bool

text \<open>What the backend may send: every part may be missing or null.\<close>

record settings_payload =
  sent_font_size :: "js_number option"
  sent_line_height :: "js_number option"
  sent_theme_mode :: "jsstring option"
  sent_scrollback :: "js_number option"
  sent_cursor_style :: "jsstring option"
  sent_cursor_blink :: "bool option"

type_synonym TerminalSettingsPayload = "settings_payload option"

definition DEFAULT_TERMINAL_FONT_SIZE :: rat where "DEFAULT_TERMINAL_FONT_SIZE = 13"
definition MIN_TERMINAL_FONT_SIZE :: rat where "MIN_TERMINAL_FONT_SIZE = 11"
definition MAX_TERMINAL_FONT_SIZE :: rat where "MAX_TERMINAL_FONT_SIZE = 16"
definition DEFAULT_TERMINAL_LINE_HEIGHT :: rat where "DEFAULT_TERMINAL_LINE_HEIGHT = 125 / 100"
definition MIN_TERMINAL_LINE_HEIGHT :: rat where "MIN_TERMINAL_LINE_HEIGHT = 105 / 100"
definition MAX_TERMINAL_LINE_HEIGHT :: rat where "MAX_TERMINAL_LINE_HEIGHT = 160 / 100"
definition DEFAULT_TERMINAL_THEME_MODE :: TerminalThemeMode where "DEFAULT_TERMINAL_THEME_MODE = Adaptive"
definition DEFAULT_TERMINAL_SCROLLBACK :: rat where "DEFAULT_TERMINAL_SCROLLBACK = 5000"
definition MIN_TERMINAL_SCROLLBACK :: rat where "MIN_TERMINAL_SCROLLBACK = 1000"
definition MAX_TERMINAL_SCROLLBACK :: rat where "MAX_TERMINAL_SCROLLBACK = 20000"
definition DEFAULT_TERMINAL_CURSOR_STYLE :: TerminalCursorStyle where "DEFAULT_TERMINAL_CURSOR_STYLE = BlockCursor"
definition DEFAULT_TERMINAL_CURSOR_BLINK :: bool where "DEFAULT_TERMINAL_CURSOR_BLINK = True"

lemmas terminal_limits = DEFAULT_TERMINAL_FONT_SIZE_def MIN_TERMINAL_FONT_SIZE_def MAX_TERMINAL_FONT_SIZE_def
  DEFAULT_TERMINAL_LINE_HEIGHT_def MIN_TERMINAL_LINE_HEIGHT_def MAX_TERMINAL_LINE_HEIGHT_def DEFAULT_TERMINAL_THEME_MODE_def
  DEFAULT_TERMINAL_SCROLLBACK_def MIN_TERMINAL_SCROLLBACK_def MAX_TERMINAL_SCROLLBACK_def
  DEFAULT_TERMINAL_CURSOR_STYLE_def DEFAULT_TERMINAL_CURSOR_BLINK_def

fun clampTerminalFontSize :: "js_number \<Rightarrow> rat" where
  "clampTerminalFontSize (Finite x) = min MAX_TERMINAL_FONT_SIZE (max MIN_TERMINAL_FONT_SIZE (math_round x))"
| "clampTerminalFontSize _ = DEFAULT_TERMINAL_FONT_SIZE"

fun clampTerminalLineHeight :: "js_number \<Rightarrow> rat" where
  "clampTerminalLineHeight (Finite x) =
     math_round (min MAX_TERMINAL_LINE_HEIGHT (max MIN_TERMINAL_LINE_HEIGHT x) * 100) / 100"
| "clampTerminalLineHeight _ = DEFAULT_TERMINAL_LINE_HEIGHT"

fun clampTerminalScrollback :: "js_number \<Rightarrow> rat" where
  "clampTerminalScrollback (Finite x) = min MAX_TERMINAL_SCROLLBACK (max MIN_TERMINAL_SCROLLBACK (math_round x))"
| "clampTerminalScrollback _ = DEFAULT_TERMINAL_SCROLLBACK"

definition clampTerminalThemeMode :: "host \<Rightarrow> jsstring option \<Rightarrow> TerminalThemeMode" where
  "clampTerminalThemeMode h mode =
     (if toLowerCase h (js_trim (js_default mode [])) = js ''contrast'' then Contrast else DEFAULT_TERMINAL_THEME_MODE)"

definition clampTerminalCursorStyle :: "host \<Rightarrow> jsstring option \<Rightarrow> TerminalCursorStyle" where
  "clampTerminalCursorStyle h style =
     (let s = toLowerCase h (js_trim (js_default style [])) in
      if s = js ''bar'' then BarCursor else if s = js ''underline'' then UnderlineCursor else DEFAULT_TERMINAL_CURSOR_STYLE)"

fun theme_text :: "TerminalThemeMode \<Rightarrow> jsstring" where
  "theme_text Adaptive = js ''adaptive''"
| "theme_text Contrast = js ''contrast''"

fun cursor_text :: "TerminalCursorStyle \<Rightarrow> jsstring" where
  "cursor_text BlockCursor = js ''block''"
| "cursor_text BarCursor = js ''bar''"
| "cursor_text UnderlineCursor = js ''underline''"

definition normalizeTerminalSettings :: "host \<Rightarrow> TerminalSettingsPayload \<Rightarrow> TerminalSettings" where
  "normalizeTerminalSettings h payload =
     \<lparr>set_font_size = clampTerminalFontSize (js_default (Option.bind payload sent_font_size) (Finite DEFAULT_TERMINAL_FONT_SIZE)),
      set_line_height = clampTerminalLineHeight (js_default (Option.bind payload sent_line_height) (Finite DEFAULT_TERMINAL_LINE_HEIGHT)),
      set_theme_mode = clampTerminalThemeMode h (Option.bind payload sent_theme_mode),
      set_scrollback = clampTerminalScrollback (js_default (Option.bind payload sent_scrollback) (Finite DEFAULT_TERMINAL_SCROLLBACK)),
      set_cursor_style = clampTerminalCursorStyle h (Option.bind payload sent_cursor_style),
      set_cursor_blink = js_default (Option.bind payload sent_cursor_blink) DEFAULT_TERMINAL_CURSOR_BLINK\<rparr>"

text \<open>The reply of the backend: no reply or an unreadable one, an error status, or a payload.\<close>

datatype settings_reply = NoReply js_error | ErrorStatus int | Payload TerminalSettingsPayload

fun settings_result :: "host \<Rightarrow> string \<Rightarrow> settings_reply \<Rightarrow> js_error + TerminalSettings" where
  "settings_result h verb (NoReply e) = Inl e"
| "settings_result h verb (ErrorStatus status) =
     Inl (Some (js ''Unable to '' @ js verb @ js '' terminal settings ('' @ js_of_int status @ js '')''))"
| "settings_result h verb (Payload payload) = Inr (normalizeTerminalSettings h payload)"

text \<open>The body that is sent: the settings with their limits applied once more.\<close>

definition settings_body :: "host \<Rightarrow> TerminalSettings \<Rightarrow> TerminalSettings" where
  "settings_body h settings =
     \<lparr>set_font_size = clampTerminalFontSize (Finite (set_font_size settings)),
      set_line_height = clampTerminalLineHeight (Finite (set_line_height settings)),
      set_theme_mode = clampTerminalThemeMode h (Some (theme_text (set_theme_mode settings))),
      set_scrollback = clampTerminalScrollback (Finite (set_scrollback settings)),
      set_cursor_style = clampTerminalCursorStyle h (Some (cursor_text (set_cursor_style settings))),
      set_cursor_blink = set_cursor_blink settings\<rparr>"

section \<open>The store\<close>

record TerminalPreferencesState =
  pref_cursorBlink :: bool
  pref_cursorStyle :: TerminalCursorStyle
  pref_errorMessage :: "jsstring option"
  pref_fontSize :: rat
  pref_lineHeight :: rat
  pref_scrollback :: rat
  pref_themeMode :: TerminalThemeMode
  pref_isLoading :: bool
  pref_isSaving :: bool
  pref_loadPromise :: bool

definition initial_preferences :: TerminalPreferencesState where
  "initial_preferences =
     \<lparr>pref_cursorBlink = DEFAULT_TERMINAL_CURSOR_BLINK, pref_cursorStyle = DEFAULT_TERMINAL_CURSOR_STYLE,
      pref_errorMessage = None, pref_fontSize = DEFAULT_TERMINAL_FONT_SIZE, pref_lineHeight = DEFAULT_TERMINAL_LINE_HEIGHT,
      pref_scrollback = DEFAULT_TERMINAL_SCROLLBACK, pref_themeMode = DEFAULT_TERMINAL_THEME_MODE, pref_isLoading = True,
      pref_isSaving = False, pref_loadPromise = False\<rparr>"

datatype settings_call = RequestSettings | UpdateSettings TerminalSettings

type_synonym 'x settings_task = "(TerminalPreferencesState, settings_call, settings_reply, js_error, 'x) task"

definition formatTerminalPreferencesError :: "js_error \<Rightarrow> jsstring" where
  "formatTerminalPreferencesError error =
     (case error of Some message \<Rightarrow> if js_trim message \<noteq> [] then message else js ''Unable to load terminal settings.''
      | None \<Rightarrow> js ''Unable to load terminal settings.'')"

definition requestTerminalSettings :: "host \<Rightarrow> TerminalSettings settings_task" where
  "requestTerminalSettings h = request RequestSettings (settings_result h ''load'')"

definition updateTerminalSettings :: "host \<Rightarrow> TerminalSettings \<Rightarrow> TerminalSettings settings_task" where
  "updateTerminalSettings h settings = request (UpdateSettings (settings_body h settings)) (settings_result h ''update'')"

definition show_settings :: "TerminalSettings \<Rightarrow> TerminalPreferencesState \<Rightarrow> TerminalPreferencesState" where
  "show_settings settings s = s\<lparr>pref_cursorBlink := set_cursor_blink settings, pref_cursorStyle := set_cursor_style settings,
     pref_fontSize := set_font_size settings, pref_lineHeight := set_line_height settings,
     pref_scrollback := set_scrollback settings, pref_themeMode := set_theme_mode settings\<rparr>"

definition show_settings_error :: "js_error \<Rightarrow> TerminalPreferencesState \<Rightarrow> TerminalPreferencesState" where
  "show_settings_error error s = s\<lparr>pref_errorMessage := Some (formatTerminalPreferencesError error)\<rparr>"

definition refreshTerminalPreferences :: "host \<Rightarrow> unit settings_task" where
  "refreshTerminalPreferences h =
     seq (put (\<lambda>s. s\<lparr>pref_errorMessage := None, pref_isLoading := True\<rparr>)) (\<lambda>_.
       finally_do
         (onError (seq (requestTerminalSettings h) (\<lambda>settings. put (show_settings settings)))
           (\<lambda>error. put (show_settings_error error)))
         (put (\<lambda>s. s\<lparr>pref_isLoading := False\<rparr>)))"

definition ensureTerminalPreferencesLoaded :: "host \<Rightarrow> unit settings_task" where
  "ensureTerminalPreferencesLoaded h =
     seq (look pref_loadPromise) (\<lambda>running.
       whenever (\<not> running)
         (seq (put (\<lambda>s. s\<lparr>pref_loadPromise := True\<rparr>)) (\<lambda>_.
           finally_do (refreshTerminalPreferences h) (put (\<lambda>s. s\<lparr>pref_loadPromise := False\<rparr>)))))"

text \<open>What a setter wants to save; numbers may come from an input field.\<close>

record wanted_settings =
  want_cursorBlink :: bool
  want_cursorStyle :: TerminalCursorStyle
  want_fontSize :: js_number
  want_lineHeight :: js_number
  want_scrollback :: js_number
  want_themeMode :: TerminalThemeMode

definition persistTerminalSettings :: "host \<Rightarrow> wanted_settings \<Rightarrow> unit settings_task" where
  "persistTerminalSettings h wanted =
     seq (put (\<lambda>s. s\<lparr>pref_errorMessage := None, pref_isSaving := True\<rparr>)) (\<lambda>_.
       finally_do
         (onError
           (seq (updateTerminalSettings h
               \<lparr>set_font_size = clampTerminalFontSize (want_fontSize wanted),
                set_line_height = clampTerminalLineHeight (want_lineHeight wanted),
                set_theme_mode = clampTerminalThemeMode h (Some (theme_text (want_themeMode wanted))),
                set_scrollback = clampTerminalScrollback (want_scrollback wanted),
                set_cursor_style = clampTerminalCursorStyle h (Some (cursor_text (want_cursorStyle wanted))),
                set_cursor_blink = want_cursorBlink wanted\<rparr>)
             (\<lambda>settings. put (show_settings settings)))
           (\<lambda>error. put (show_settings_error error)))
         (put (\<lambda>s. s\<lparr>pref_isSaving := False\<rparr>)))"

definition current_settings :: "TerminalPreferencesState \<Rightarrow> wanted_settings" where
  "current_settings s =
     \<lparr>want_cursorBlink = pref_cursorBlink s, want_cursorStyle = pref_cursorStyle s, want_fontSize = Finite (pref_fontSize s),
      want_lineHeight = Finite (pref_lineHeight s), want_scrollback = Finite (pref_scrollback s), want_themeMode = pref_themeMode s\<rparr>"

definition change_setting :: "host \<Rightarrow> (wanted_settings \<Rightarrow> wanted_settings) \<Rightarrow> unit settings_task" where
  "change_setting h change = seq (look current_settings) (\<lambda>now. persistTerminalSettings h (change now))"

definition setTerminalFontSize :: "host \<Rightarrow> js_number \<Rightarrow> unit settings_task" where
  "setTerminalFontSize h fontSize = change_setting h (\<lambda>w. w\<lparr>want_fontSize := fontSize\<rparr>)"

definition setTerminalLineHeight :: "host \<Rightarrow> js_number \<Rightarrow> unit settings_task" where
  "setTerminalLineHeight h lineHeight = change_setting h (\<lambda>w. w\<lparr>want_lineHeight := lineHeight\<rparr>)"

definition setTerminalScrollback :: "host \<Rightarrow> js_number \<Rightarrow> unit settings_task" where
  "setTerminalScrollback h scrollback = change_setting h (\<lambda>w. w\<lparr>want_scrollback := scrollback\<rparr>)"

definition setTerminalThemeMode :: "host \<Rightarrow> TerminalThemeMode \<Rightarrow> unit settings_task" where
  "setTerminalThemeMode h themeMode = change_setting h (\<lambda>w. w\<lparr>want_themeMode := themeMode\<rparr>)"

definition setTerminalCursorStyle :: "host \<Rightarrow> TerminalCursorStyle \<Rightarrow> unit settings_task" where
  "setTerminalCursorStyle h cursorStyle = change_setting h (\<lambda>w. w\<lparr>want_cursorStyle := cursorStyle\<rparr>)"

definition setTerminalCursorBlink :: "host \<Rightarrow> bool \<Rightarrow> unit settings_task" where
  "setTerminalCursorBlink h cursorBlink = change_setting h (\<lambda>w. w\<lparr>want_cursorBlink := cursorBlink\<rparr>)"

definition resetTerminalDefaults :: "host \<Rightarrow> unit settings_task" where
  "resetTerminalDefaults h = persistTerminalSettings h (current_settings initial_preferences)"

text \<open>The callbacks of the hook: the steps count from the state of the last rendering.\<close>

datatype settings_command =
    LoadSettings
  | UpdateFontSize js_number | IncreaseFontSize | DecreaseFontSize | ResetFontSize
  | UpdateLineHeight js_number | IncreaseLineHeight | DecreaseLineHeight | ResetLineHeight
  | UpdateScrollback js_number | IncreaseScrollback | DecreaseScrollback | ResetScrollback
  | UpdateThemeMode TerminalThemeMode | ResetThemeMode
  | UpdateCursorStyle TerminalCursorStyle | ResetCursorStyle
  | UpdateCursorBlink bool | ResetCursorBlink
  | ResetAllDefaults

fun useTerminalPreferences :: "host \<Rightarrow> TerminalPreferencesState \<Rightarrow> settings_command \<Rightarrow> unit settings_task" where
  "useTerminalPreferences h seen LoadSettings = ensureTerminalPreferencesLoaded h"
| "useTerminalPreferences h seen (UpdateFontSize v) = setTerminalFontSize h v"
| "useTerminalPreferences h seen IncreaseFontSize = setTerminalFontSize h (Finite (pref_fontSize seen + 1))"
| "useTerminalPreferences h seen DecreaseFontSize = setTerminalFontSize h (Finite (pref_fontSize seen - 1))"
| "useTerminalPreferences h seen ResetFontSize = setTerminalFontSize h (Finite DEFAULT_TERMINAL_FONT_SIZE)"
| "useTerminalPreferences h seen (UpdateLineHeight v) = setTerminalLineHeight h v"
| "useTerminalPreferences h seen IncreaseLineHeight = setTerminalLineHeight h (Finite (pref_lineHeight seen + 5 / 100))"
| "useTerminalPreferences h seen DecreaseLineHeight = setTerminalLineHeight h (Finite (pref_lineHeight seen - 5 / 100))"
| "useTerminalPreferences h seen ResetLineHeight = setTerminalLineHeight h (Finite DEFAULT_TERMINAL_LINE_HEIGHT)"
| "useTerminalPreferences h seen (UpdateScrollback v) = setTerminalScrollback h v"
| "useTerminalPreferences h seen IncreaseScrollback = setTerminalScrollback h (Finite (pref_scrollback seen + 1000))"
| "useTerminalPreferences h seen DecreaseScrollback = setTerminalScrollback h (Finite (pref_scrollback seen - 1000))"
| "useTerminalPreferences h seen ResetScrollback = setTerminalScrollback h (Finite DEFAULT_TERMINAL_SCROLLBACK)"
| "useTerminalPreferences h seen (UpdateThemeMode m) = setTerminalThemeMode h m"
| "useTerminalPreferences h seen ResetThemeMode = setTerminalThemeMode h DEFAULT_TERMINAL_THEME_MODE"
| "useTerminalPreferences h seen (UpdateCursorStyle c) = setTerminalCursorStyle h c"
| "useTerminalPreferences h seen ResetCursorStyle = setTerminalCursorStyle h DEFAULT_TERMINAL_CURSOR_STYLE"
| "useTerminalPreferences h seen (UpdateCursorBlink b) = setTerminalCursorBlink h b"
| "useTerminalPreferences h seen ResetCursorBlink = setTerminalCursorBlink h DEFAULT_TERMINAL_CURSOR_BLINK"
| "useTerminalPreferences h seen ResetAllDefaults = resetTerminalDefaults h"

definition preferences_reach ::
    "host \<Rightarrow> TerminalPreferencesState \<times> TerminalPreferencesState \<times> (TerminalPreferencesState, settings_call, settings_reply) async list \<Rightarrow> bool" where
  "preferences_reach h = async_reach (\<lambda>s. s = initial_preferences) (\<lambda>seen s. s)
     (\<lambda>c. \<exists>command. c = (\<lambda>seen. program (useTerminalPreferences h seen command)))"

section \<open>Limits\<close>

lemma font_limits: "MIN_TERMINAL_FONT_SIZE \<le> clampTerminalFontSize v \<and> clampTerminalFontSize v \<le> MAX_TERMINAL_FONT_SIZE
    \<and> whole (clampTerminalFontSize v)"
  by (cases v) (auto simp: terminal_limits whole_min_max)

lemma scrollback_limits: "MIN_TERMINAL_SCROLLBACK \<le> clampTerminalScrollback v
    \<and> clampTerminalScrollback v \<le> MAX_TERMINAL_SCROLLBACK \<and> whole (clampTerminalScrollback v)"
  by (cases v) (auto simp: terminal_limits whole_min_max)

lemma line_limits: "MIN_TERMINAL_LINE_HEIGHT \<le> clampTerminalLineHeight v
    \<and> clampTerminalLineHeight v \<le> MAX_TERMINAL_LINE_HEIGHT \<and> whole (clampTerminalLineHeight v * 100)"
proof (cases v)
  case (Finite x)
  let ?y = "min MAX_TERMINAL_LINE_HEIGHT (max MIN_TERMINAL_LINE_HEIGHT x) * 100"
  have "of_int 105 \<le> ?y" "?y \<le> of_int 160" by (auto simp: terminal_limits)
  from round_between [OF this] show ?thesis using Finite by (simp add: terminal_limits field_simps)
qed (simp_all add: terminal_limits)

text \<open>Settings within the limits are sent and read back as they are.\<close>

definition within_limits :: "TerminalSettings \<Rightarrow> bool" where
  "within_limits t \<longleftrightarrow>
     MIN_TERMINAL_FONT_SIZE \<le> set_font_size t \<and> set_font_size t \<le> MAX_TERMINAL_FONT_SIZE \<and> whole (set_font_size t)
     \<and> MIN_TERMINAL_LINE_HEIGHT \<le> set_line_height t \<and> set_line_height t \<le> MAX_TERMINAL_LINE_HEIGHT \<and> whole (set_line_height t * 100)
     \<and> MIN_TERMINAL_SCROLLBACK \<le> set_scrollback t \<and> set_scrollback t \<le> MAX_TERMINAL_SCROLLBACK \<and> whole (set_scrollback t)"

lemma normalized_within_limits: "within_limits (normalizeTerminalSettings h payload)"
  by (simp add: within_limits_def normalizeTerminalSettings_def font_limits line_limits scrollback_limits)

lemma body_within_limits: "within_limits (settings_body h t)"
  by (simp add: within_limits_def settings_body_def font_limits line_limits scrollback_limits
      del: clampTerminalFontSize.simps clampTerminalLineHeight.simps clampTerminalScrollback.simps)

lemma clamp_within:
  assumes "within_limits t"
  shows "clampTerminalFontSize (Finite (set_font_size t)) = set_font_size t"
    "clampTerminalLineHeight (Finite (set_line_height t)) = set_line_height t"
    "clampTerminalScrollback (Finite (set_scrollback t)) = set_scrollback t"
  using assms by (simp_all add: within_limits_def round_whole max_absorb2 min_absorb2)

section \<open>Reachable preferences\<close>

definition shown_settings :: "TerminalPreferencesState \<Rightarrow> TerminalSettings" where
  "shown_settings s =
     \<lparr>set_font_size = pref_fontSize s, set_line_height = pref_lineHeight s, set_theme_mode = pref_themeMode s,
      set_scrollback = pref_scrollback s, set_cursor_style = pref_cursorStyle s, set_cursor_blink = pref_cursorBlink s\<rparr>"

lemma shown_show [simp]: "shown_settings (show_settings t s) = t"
  by (simp add: shown_settings_def show_settings_def)

text \<open>Only what the backend has answered is shown, and that is within the limits.\<close>

abbreviation shown_within :: "TerminalPreferencesState \<Rightarrow> bool" where
  "shown_within s \<equiv> within_limits (shown_settings s)"

lemma result_within: "settings_result h verb a = Inr t \<Longrightarrow> within_limits t"
  by (cases a) (auto simp: normalized_within_limits)

lemma shown_unchanged [simp]:
  "shown_settings (show_settings_error e s) = shown_settings s"
  "shown_settings (s\<lparr>pref_errorMessage := m\<rparr>) = shown_settings s"
  "shown_settings (s\<lparr>pref_isLoading := b\<rparr>) = shown_settings s"
  "shown_settings (s\<lparr>pref_isSaving := b\<rparr>) = shown_settings s"
  "shown_settings (s\<lparr>pref_loadPromise := b\<rparr>) = shown_settings s"
  by (simp_all add: shown_settings_def show_settings_error_def)

lemma keeps_persist: "updates (keeps shown_within) (program (persistTerminalSettings h wanted))"
  by (simp add: persistTerminalSettings_def updateTerminalSettings_def run_defs result_within split: sum.split)

lemma keeps_load: "updates (keeps shown_within) (program (ensureTerminalPreferencesLoaded h))"
  by (simp add: ensureTerminalPreferencesLoaded_def refreshTerminalPreferences_def requestTerminalSettings_def run_defs
      result_within split: sum.split)

lemma program_change: "program (change_setting h change) = Look (\<lambda>s. program (persistTerminalSettings h (change (current_settings s))))"
  by (simp add: change_setting_def program_def seq_def look_def)

lemmas setters = setTerminalFontSize_def setTerminalLineHeight_def setTerminalScrollback_def setTerminalThemeMode_def
  setTerminalCursorStyle_def setTerminalCursorBlink_def resetTerminalDefaults_def

lemma keeps_command: "updates (keeps shown_within) (program (useTerminalPreferences h seen c))"
  by (cases c) (simp_all add: setters program_change keeps_persist keeps_load)

lemma tame_persist: "clears pref_isSaving (program (persistTerminalSettings h wanted))"
  unfolding persistTerminalSettings_def updateTerminalSettings_def by (intro clears_intros; simp)

lemma tame_load: "updates (quiet pref_isSaving) (program (ensureTerminalPreferencesLoaded h))"
  by (simp add: ensureTerminalPreferencesLoaded_def refreshTerminalPreferences_def requestTerminalSettings_def run_defs
      show_settings_def show_settings_error_def split: sum.split)

lemma tame_setting: "tame pref_isSaving (program (useTerminalPreferences h seen c))"
  by (cases c) (simp_all add: tame_def setters program_change tame_persist tame_load)

section \<open>Properties\<close>

lemma preferences_first_command:
  "preferences_reach h (fst (run_task (useTerminalPreferences h initial_preferences c) initial_preferences), initial_preferences,
     snd (run_task (useTerminalPreferences h initial_preferences c) initial_preferences) @ [])"
  unfolding preferences_reach_def
proof (rule reach_command [OF reach_start])
  show "advance (program (useTerminalPreferences h initial_preferences c)) initial_preferences =
      (fst (run_task (useTerminalPreferences h initial_preferences c) initial_preferences),
       snd (run_task (useTerminalPreferences h initial_preferences c) initial_preferences))"
    by (simp add: run_task_def)
qed auto

text \<open>
  C9: whatever the user enters, whatever the backend sends and in whatever order loads and saves are answered, the terminal
  is shown with a whole font size from 11 to 16, a line height of whole hundredths from 1.05 to 1.6 and a whole number of
  lines from 1000 to 20000 to scroll back; and every save sends values within these limits.
\<close>

theorem preferences_within_limits:
  assumes "preferences_reach h (s, seen, ps)"
  shows "11 \<le> pref_fontSize s \<and> pref_fontSize s \<le> 16 \<and> whole (pref_fontSize s)
    \<and> 105 \<le> pref_lineHeight s * 100 \<and> pref_lineHeight s * 100 \<le> 160 \<and> whole (pref_lineHeight s * 100)
    \<and> 1000 \<le> pref_scrollback s \<and> pref_scrollback s \<le> 20000 \<and> whole (pref_scrollback s)
    \<and> (\<exists>body k. snd (run_task (persistTerminalSettings h wanted) s) = [Call (UpdateSettings body) k] \<and> within_limits body)"
proof -
  have "shown_within s \<and> (\<forall>p\<in>set ps. updates (keeps shown_within) p)"
    by (rule reach_invariant [OF assms [unfolded preferences_reach_def] refl])
      (auto simp: keeps_command, simp add: initial_preferences_def shown_settings_def within_limits_def terminal_limits)
  moreover have "\<exists>body k. snd (run_task (persistTerminalSettings h wanted) s) = [Call (UpdateSettings body) k] \<and> within_limits body"
    by (simp add: persistTerminalSettings_def updateTerminalSettings_def run_defs body_within_limits)
  ultimately show ?thesis
    by (auto simp: within_limits_def shown_settings_def terminal_limits field_simps)
qed

theorem preferences_within_limits_witness:
  "let s = fst (run_task (useTerminalPreferences ascii_host initial_preferences (UpdateFontSize NaN)) initial_preferences)
   in 11 \<le> pref_fontSize s \<and> pref_fontSize s \<le> 16"
  using preferences_within_limits [OF preferences_first_command [of ascii_host "UpdateFontSize NaN"],
    of "current_settings initial_preferences"]
  by (simp add: Let_def del: useTerminalPreferences.simps)

text \<open>A save always ends: while the mark is up, a save is under way that lowers it whatever the backend answers.\<close>

theorem saving_ends:
  assumes "preferences_reach h (s, seen, ps)" "pref_isSaving s"
  shows "\<exists>p\<in>set ps. \<forall>answers n t. \<not> pref_isSaving (finish p answers n t)"
proof (rule flag_is_lowered [where flag = pref_isSaving, OF assms(1) [unfolded preferences_reach_def] assms(2)])
qed (auto simp: initial_preferences_def tame_setting)

text \<open>What the backend echoes is shown as it was sent, where the host's lower case leaves the names of the modes alone.\<close>

definition echo :: "TerminalSettings \<Rightarrow> TerminalSettingsPayload" where
  "echo t = Some \<lparr>sent_font_size = Some (Finite (set_font_size t)), sent_line_height = Some (Finite (set_line_height t)),
     sent_theme_mode = Some (theme_text (set_theme_mode t)), sent_scrollback = Some (Finite (set_scrollback t)),
     sent_cursor_style = Some (cursor_text (set_cursor_style t)), sent_cursor_blink = Some (set_cursor_blink t)\<rparr>"

lemma clamp_names:
  assumes "\<And>m. toLowerCase h (theme_text m) = theme_text m" "\<And>c. toLowerCase h (cursor_text c) = cursor_text c"
  shows "clampTerminalThemeMode h (Some (theme_text m)) = m" "clampTerminalCursorStyle h (Some (cursor_text c)) = c"
proof -
  have "js_trim (theme_text m) = theme_text m" by (cases m) (simp_all add: js_simps)
  then have "clampTerminalThemeMode h (Some (theme_text m)) = (if theme_text m = js ''contrast'' then Contrast else Adaptive)"
    using assms(1) by (simp add: clampTerminalThemeMode_def terminal_limits del: js_Cons theme_text.simps)
  then show "clampTerminalThemeMode h (Some (theme_text m)) = m" by (cases m) simp_all
  have "js_trim (cursor_text c) = cursor_text c" by (cases c) (simp_all add: js_simps)
  then have "clampTerminalCursorStyle h (Some (cursor_text c)) =
      (if cursor_text c = js ''bar'' then BarCursor else if cursor_text c = js ''underline'' then UnderlineCursor else BlockCursor)"
    using assms(2) by (simp add: clampTerminalCursorStyle_def terminal_limits del: js_Cons cursor_text.simps)
  then show "clampTerminalCursorStyle h (Some (cursor_text c)) = c" by (cases c) simp_all
qed

theorem echoed_settings_shown:
  assumes "\<And>m. toLowerCase h (theme_text m) = theme_text m" "\<And>c. toLowerCase h (cursor_text c) = cursor_text c"
    and "within_limits t"
  shows "normalizeTerminalSettings h (echo (settings_body h t)) = t"
  using assms(3) clamp_within [OF assms(3)] clamp_names [OF assms(1,2)]
  by (simp add: normalizeTerminalSettings_def echo_def settings_body_def)

section \<open>Departures\<close>

text \<open>
  A setter reads the other settings from the store, which changes only when the backend has answered: a second change
  that is made before the first is answered sends the old value of the first, and undoes it.
\<close>

lemma second_change_undoes_first:
  assumes "run_task (setTerminalFontSize h v) s = (s1, [p])"
    and "run_task (setTerminalLineHeight h w) s1 = (s2, [Call (UpdateSettings body) k])"
  shows "set_font_size body = clampTerminalFontSize (Finite (clampTerminalFontSize (Finite (pref_fontSize s))))"
  using assms
  by (auto simp: setters change_setting_def persistTerminalSettings_def updateTerminalSettings_def current_settings_def
      settings_body_def run_defs simp del: clampTerminalFontSize.simps clampTerminalLineHeight.simps clampTerminalScrollback.simps)

text \<open>The first of two saves to be answered lowers the mark of both.\<close>

lemma saving_mark_lowered_early:
  assumes "run_task (setTerminalFontSize h v) s = (s1, [p])" "run_task (setTerminalLineHeight h w) s1 = (s2, [q])"
  shows "\<not> pref_isSaving (fst (advance (resume p a) s2))"
  using assms
  by (cases "settings_result h ''update'' a") (auto simp: setters change_setting_def persistTerminalSettings_def
      updateTerminalSettings_def run_defs simp del: clampTerminalFontSize.simps clampTerminalLineHeight.simps clampTerminalScrollback.simps)

end
