(* ===== verification/Spec2Isabelle.thy ===== *)
theory Spec2Isabelle
  imports Commander_Restart Commander_Keyboard Agent_Stream Agent_Library_Safety Provider_Settings Terminal_Client
    Terminal_Preferences
begin

text \<open>
  \<^bold>\<open>Verification of the frontend core of \<^verbatim>\<open>rune-terminal\<close>.\<close>

  The program is a terminal workspace: a Go core that owns files, terminals and conversations, and a React
  frontend (\<^verbatim>\<open>src/frontend/src\<close>) that talks to it over HTTP. Three of the frontend's features carry most of its
  own logic and are modelled here: the \<^emph>\<open>commander\<close>, a two-pane file manager, the \<^emph>\<open>agent panel\<close>, which streams
  conversations and runs commands in a terminal after the operator approved them, and the \<^emph>\<open>terminal\<close> session that
  follows the output of a shell and reconnects. They use the path and bootstrap functions of
  \<^verbatim>\<open>shared/api/runtime.ts\<close>.

  \<^bold>\<open>How the source is translated.\<close> Theory \<open>Prelude\<close> holds the values of the language: a string is the list of
  its UTF-16 code units, \<open>null\<close> and \<open>undefined\<close> are \<open>None\<close>, an index is an \<open>int\<close> with \<open>-1\<close> for a failed search, a
  read out of range is \<open>None\<close>, and \<open>js_sort\<close> is the stable sort that the language prescribes for a consistent
  comparator (locale \<open>js_comparator\<close>, interpreted for every comparator the code sorts with). What the code takes
  from its host (collation, case mapping) is the record \<open>host\<close>; replies of the backend, the clock, \<open>JSON.parse\<close> and
  generators of sort keys are arguments. A store is a record and an event handler a function on it; code that
  awaits is a tree of effects (\<open>flow\<close> in \<open>Commander_Session\<close>, \<open>prog\<close> in \<open>Agent_Tools\<close>, \<open>async\<close> in \<open>Async\<close>) or a
  set of handlers interleaved by an inductive relation (\<open>Agent_Panel\<close>, \<open>Terminal_Session\<close>). Theory \<open>Async\<close> holds the
  asynchronous functions of the hooks in continuation-passing style, over any state and any requests: \<open>async_reach\<close>
  interleaves renderings, commands and answers; locales \<open>program_basics\<close>, \<open>program_property\<close> and \<open>update_property\<close> show a
  property of programs once for every combinator, and from them come the rules for invariants of a system
  (\<open>reach_invariant\<close>) and for marks that are always lowered (\<open>flag_is_lowered\<close>). \<open>Js_Number\<close> holds numbers as exact
  rationals beside \<open>NaN\<close> and the infinities; the rounding of floating point is not modelled. Three theories are shared by
  the clients: \<open>Json\<close> (JSON values, the combinators of the schema library and the types they accept), \<open>Uri\<close>
  (\<open>encodeURIComponent\<close> and that it is injective, and the dot segments the URL parser removes before a path is sent) and \<open>Event_Stream\<close> (the reader of server-sent events in chunks, with
  locale \<open>framed_stream\<close> for what its two clients deliver).

  \<^bold>\<open>Paths.\<close> \<open>Runtime_Paths\<close> is \<^verbatim>\<open>shared/api/runtime.ts\<close>: joining, parents and display of paths, transport and
  bootstrap. Lemmas: joins are canonical, the parent undoes a join except at the root of a drive, a displayed
  path can be typed back (C1 to C3).

  \<^bold>\<open>The commander\<close> (\<^verbatim>\<open>features/commander\<close>), in the order of its files:
  \<^item> \<open>Commander_Types\<close>: \<^verbatim>\<open>types.ts\<close>, \<^verbatim>\<open>commander-defaults.ts\<close>.
  \<^item> \<open>Commander_Mask\<close>, \<open>Commander_Selection\<close>: \<^verbatim>\<open>store-selection.ts\<close>; the compiled expression of a mask accepts
    exactly the wildcard language of its patterns (C5), cursor and range operations (C10).
  \<^item> \<open>Commander_Pane\<close>: \<^verbatim>\<open>pane-state.ts\<close>, \<^verbatim>\<open>store-navigation.ts\<close>; projection and history; the rows are the
    entries that are shown and match the filter, in the order written out in \<open>row_before\<close> (C6).
  \<^item> \<open>Commander_Preview\<close>, \<open>Commander_Operations\<close>: \<^verbatim>\<open>operation-preview.ts\<close>, \<^verbatim>\<open>store-operations.ts\<close>; rename previews are
    exact, the clone-name search ends, selection prompts announce what confirming them does (C13, C14, C17).
  \<^item> \<open>Commander_Store\<close>, \<open>Commander_Persistence\<close>: \<^verbatim>\<open>store.ts\<close>, \<^verbatim>\<open>store-widget-state.ts\<close>, \<^verbatim>\<open>persistence.ts\<close>,
    \<^verbatim>\<open>store-persistence.ts\<close>; one function per event, the invariant of every reachable store, independence of widgets,
    and the round trip through the storage (C19, C22). \<open>Commander_Tidy\<close>: the store holds no id twice when the events
    bring none twice, for every operation (locale \<open>tidy_operation\<close>).
  \<^item> \<open>Commander_Client\<close>, \<open>Commander_View\<close>: \<^verbatim>\<open>api/client.ts\<close>, \<^verbatim>\<open>view-model.ts\<close>; ids of listed entries and what a pane
    shows (C25, C27).
  \<^item> \<open>Commander_Session\<close>, \<open>Commander_Concurrency\<close>: the asynchronous functions of \<^verbatim>\<open>hooks.ts\<close> and
    \<^verbatim>\<open>file-dialog-controller.ts\<close> and what holds when their replies interleave: one mutation at a time, the last load
    wins, going back undoes visits (C28 to C30).
  \<^item> \<open>Commander_Restart\<close>: a saved widget that is mounted again and makes its first load: what comes back and what is
    lost (C23).
  \<^item> \<open>Commander_Keyboard\<close>: \<^verbatim>\<open>keyboard-handlers.ts\<close>, \<^verbatim>\<open>keyboard.ts\<close>; the key handler of the
    window changes no files except as the answer to a prompt, and typeahead (C31, C32).

  \<^bold>\<open>The agent panel\<close> (\<^verbatim>\<open>features/agent\<close>):
  \<^item> \<open>Agent_Types\<close>: \<^verbatim>\<open>model/types.ts\<close> and the types of \<^verbatim>\<open>api/client.ts\<close>.
  \<^item> \<open>Agent_Flow\<close>: \<^verbatim>\<open>interaction-flow.ts\<close>, \<^verbatim>\<open>chat-message-utils.ts\<close>; which prompts need the operator, and the audit of a
    plan (C33, C34).
  \<^item> \<open>Agent_Stream\<close>: the event stream reader of \<^verbatim>\<open>api/client.ts\<close>; independence of chunks and the round trip of
    events (C35, C36).
  \<^item> \<open>Agent_Conversation\<close>: \<^verbatim>\<open>panel-state.ts\<close>, \<^verbatim>\<open>chat-message-view.ts\<close>; how a streamed answer is assembled (C37).
  \<^item> \<open>Agent_Panel\<close>: \<^verbatim>\<open>agent-panel-streaming.ts\<close>; the panel never stays locked (C38).
  \<^item> \<open>Agent_Context\<close>: \<^verbatim>\<open>agent-panel-context.ts\<close>, \<^verbatim>\<open>agent-panel-provider.ts\<close>, \<^verbatim>\<open>agent-panel-terminal.ts\<close>,
    \<^verbatim>\<open>features/terminal/model/panel-registry.ts\<close>; waiting for output ends (C40).
  \<^item> \<open>Agent_Tools\<close>, \<open>Agent_Execution\<close>: the programs of \<^verbatim>\<open>agent-panel-execution.ts\<close> and \<^verbatim>\<open>agent-panel-approval.ts\<close> over
    the panel, with the contexts of \<^verbatim>\<open>use-agent-panel-context-selection.ts\<close> and \<open>submitDraft\<close> and \<open>cancelPendingPlan\<close> of
    \<^verbatim>\<open>use-agent-panel.ts\<close>. \<open>safe\<close> checks a program against the log of its calls and locale \<open>world_rely\<close> shows the
    check sound for every interference that keeps the log justified; approval tokens are sent only with the input
    whose approval was confirmed (C39), and an approved execution always gives the panel back (C18).
  \<^item> \<open>Agent_Library\<close>: the state of \<^verbatim>\<open>use-agent-panel.ts\<close> with the conversation list and the commands on it
    (\<^verbatim>\<open>agent-panel-conversations.ts\<close>), the context widgets (\<^verbatim>\<open>agent-panel-context-runtime.ts\<close>), the providers
    (\<^verbatim>\<open>agent-panel-provider-runtime.ts\<close>) and the start (\<^verbatim>\<open>agent-panel-bootstrap.ts\<close>). A command is a program of
    \<open>Async\<close> that reads the state of the last rendering. \<open>Agent_Library_Safety\<close> shows a property of programs once for
    every function of the panel (locales \<open>library_basics\<close>, \<open>library_property\<close> and \<open>tidy_updates\<close>): the stored selection is always clean (C12), a command
    that marks the panel as pending ends (C15), the answer to a superseded switch is not shown and that to a
    current one is, while an error is shown in both cases (C20), and each request of a start that was not superseded
    counts for itself (C24).
  \<^item> \<open>Provider_Client\<close>, \<open>Provider_Settings\<close>: \<^verbatim>\<open>api/provider-client.ts\<close>, \<^verbatim>\<open>provider-gateway-actions.ts\<close>,
    \<^verbatim>\<open>provider-settings-draft.ts\<close> and the hook \<^verbatim>\<open>use-agent-provider-settings.ts\<close>, again with programs of \<open>Async\<close> (locales
    \<open>provider_basics\<close> and \<open>plain_updates\<close>): a save, a probe or a preparation that is marked as under way ends (C11),
    and what the update of a draft that was not edited carries (C16).

  \<^bold>\<open>The terminal\<close> (\<^verbatim>\<open>features/terminal\<close>):
  \<^item> \<open>Terminal_Types\<close>: \<^verbatim>\<open>model/types.ts\<close>, \<^verbatim>\<open>display-widget-id.ts\<close> and the types of \<^verbatim>\<open>api/client.ts\<close>.
  \<^item> \<open>Terminal_Session\<close>: \<^verbatim>\<open>use-terminal-session.ts\<close>, a store of shared records with their streams, timers and running
    requests; in every interleaving a flag that marks an operation as running is owed by a request that will reset
    it (C7).
  \<^item> \<open>Terminal_Client\<close>: \<^verbatim>\<open>api/client.ts\<close>; a reply is accepted exactly when it has the declared type (C4), an error of
    the backend is shown and ends the operation (C8), two calls that are sent as the same request are the same,
    unless an id is one or two dots (C21),
    and the followed output is shown in order and without loss however it arrives (C26).
  \<^item> \<open>Terminal_Preferences\<close>: \<^verbatim>\<open>shared/api/terminal-settings.ts\<close> and \<^verbatim>\<open>use-terminal-preferences.ts\<close>; whatever is entered
    or sent, the settings shown and saved stay within their limits (C9).

  \<^bold>\<open>Bounds.\<close> The clone-name search is bounded by 999 as in the source, and C14 shows that a smaller directory
  never reaches the bound. The polling loop has a fuel argument; seven tests are enough whatever the requests take
  (C40). Every other definition is total without fuel.

  \<^bold>\<open>Behaviour that departs from the intention.\<close> Lemmas at the end of the theories record it: a load error that
  is never shown (\<open>load_error_is_dropped\<close>), ids and names of a transfer in different orders
  (\<open>transfer_ids_follow_selection_order\<close>), a transfer that can start twice (\<open>skipping_twice_transfers_twice\<close>), an event
  split by a read between a carriage return and a line feed (\<open>split_crlf_breaks_event\<close>), prompts attached to the
  wrong answer (\<open>prompts_follow_the_answer\<close>), messages of one millisecond in reverse order
  (\<open>same_time_is_reversed\<close>), a refresh that outlives its cancellation (\<open>stale_refresh_replaces_messages\<close>), a start of the
  panel that a conversation command drops (\<open>new_conversation_drops_start\<close>), a switch that the choice of a provider drops
  (\<open>provider_drops_switch\<close>), a late context update that switches back (\<open>stale_context_update_shown\<close>), a second view of a
  terminal that doubles its output (\<open>second_mount_second_stream\<close>, \<open>two_streams_duplicate\<close>), a failed reload that leaves the
  terminal reconnecting (\<open>failed_reload_keeps_reconnecting\<close>), a retry delay that never grows
  (\<open>reconnect_never_backs_off\<close>), a change of a terminal setting that undoes the one before it
  (\<open>second_change_undoes_first\<close>) or lowers its mark (\<open>saving_mark_lowered_early\<close>), a page of the provider history shown
  twice (\<open>reload_repeats_page\<close>), a user name split at its comma (\<open>comma_splits_user\<close>), an id that is put into a path
  without being encoded (\<open>unencoded_id_leaves_resource\<close>), the parent of an entry of a drive root (\<open>drive_root_lost\<close>) and the selection
  after a mutation that is lost there and for names with a backslash (\<open>drive_root_entries_dropped\<close>,
  \<open>backslash_name_dropped\<close>), and an id of dots that addresses another resource (\<open>dot_id_misdirected\<close>). C23 shows that the
  saved cursor, selection and active pane do not outlive the first load.

  \<^bold>\<open>Not modelled.\<close> The Go core and the native shell (other languages; their answers are arguments), React
  rendering and styles, the dock library around the workspace, the other settings dialogs, and clients that only pass their
  arguments on. \<open>Agent_Panel\<close> and \<open>Agent_Execution\<close> keep of the panel's state only what submissions read and write; in
  \<open>Agent_Library\<close> that part is a field, changed by any step of a submission. There, of the provider and agent catalogues and
  the gateway only the fields the panel reads are kept; in \<open>Provider_Client\<close> a run of the gateway is its id. An \<open>await\<close> of a value that is already there does not yield in the
  model. Locale-dependent formatting of dates is an argument.
\<close>

end
